(* ===== verification/Wallet_Prelude.thy ===== *)
theory Wallet_Prelude
  imports Complex_Main "HOL-Library.Sublist" "HOL-Library.Multiset"
begin

text \<open>
  Shared vocabulary of the development: sequencing of fallible computations over the sum type
  (an exception is an \<^const>\<open>Inl\<close>), and the operations on JavaScript strings the sources use
  (\<open>split\<close>, \<open>join\<close>, \<open>includes\<close>, \<open>indexOf\<close>, \<open>slice\<close>, \<open>replace\<close>).  A string is the list of bytes
  of its UTF-8 encoding; every operation here cuts strings at ASCII characters only, so it acts on
  the bytes as JavaScript acts on the code units.
\<close>

named_theorems res_simps \<open>rewriting of sequenced fallible computations\<close>
named_theorems str_simps \<open>rewriting of the string operations\<close>

section \<open>Fallible computations\<close>

definition bindR :: "'e + 'a \<Rightarrow> ('a \<Rightarrow> 'e + 'b) \<Rightarrow> 'e + 'b" where
  "bindR m f = (case m of Inl e \<Rightarrow> Inl e | Inr x \<Rightarrow> f x)"

text \<open>\<open>Array.prototype.map\<close> with a callback that may throw; also \<open>Promise.all\<close> over a mapped
  array, the reported rejection being that of the first element that rejects in list order.\<close>

fun mapR :: "('a \<Rightarrow> 'e + 'b) \<Rightarrow> 'a list \<Rightarrow> 'e + 'b list" where
  "mapR f [] = Inr []"
| "mapR f (x # xs) = bindR (f x) (\<lambda>y. bindR (mapR f xs) (\<lambda>ys. Inr (y # ys)))"

text \<open>\<open>Array.prototype.filter\<close> with a callback that may throw.\<close>

fun filterR :: "('a \<Rightarrow> 'e + bool) \<Rightarrow> 'a list \<Rightarrow> 'e + 'a list" where
  "filterR p [] = Inr []"
| "filterR p (x # xs) =
     bindR (p x) (\<lambda>b. bindR (filterR p xs) (\<lambda>ys. Inr (if b then x # ys else ys)))"

definition mapErr :: "('e \<Rightarrow> 'e2) \<Rightarrow> 'e + 'a \<Rightarrow> 'e2 + 'a" where
  "mapErr f m = (case m of Inl e \<Rightarrow> Inl (f e) | Inr x \<Rightarrow> Inr x)"

definition isOk :: "'e + 'a \<Rightarrow> bool" where
  "isOk m = (case m of Inl _ \<Rightarrow> False | Inr _ \<Rightarrow> True)"

lemma bindR_simps [simp, res_simps]:
  "bindR (Inl e) f = Inl e"
  "bindR (Inr x) f = f x"
  by (simp_all add: bindR_def)

lemma isOk_simps [simp, res_simps]: "isOk (Inl e) = False" "isOk (Inr x) = True"
  by (simp_all add: isOk_def)

lemma mapErr_simps [simp, res_simps]: "mapErr f (Inl e) = Inl (f e)" "mapErr f (Inr x) = Inr x"
  by (simp_all add: mapErr_def)

lemma bindR_assoc: "bindR (bindR m f) g = bindR m (\<lambda>x. bindR (f x) g)"
  by (cases m) simp_all

lemma bindR_Inr_iff [res_simps]: "bindR m f = Inr y \<longleftrightarrow> (\<exists>x. m = Inr x \<and> f x = Inr y)"
  by (cases m) auto

lemma bindR_Inl_iff [res_simps]:
  "bindR m f = Inl e \<longleftrightarrow> m = Inl e \<or> (\<exists>x. m = Inr x \<and> f x = Inl e)"
  by (cases m) auto

lemma bindR_cong [fundef_cong]:
  "m = m' \<Longrightarrow> (\<And>x. m' = Inr x \<Longrightarrow> f x = g x) \<Longrightarrow> bindR m f = bindR m' g"
  by (cases m') auto

lemma mapErr_Inr_iff [simp, res_simps]: "mapErr f m = Inr y \<longleftrightarrow> m = Inr y"
  by (cases m) auto

lemma isOk_iff: "isOk m \<longleftrightarrow> (\<exists>x. m = Inr x)"
  by (cases m) auto

lemma not_isOk_iff: "\<not> isOk m \<longleftrightarrow> (\<exists>e. m = Inl e)"
  by (cases m) auto

lemma mapR_Inr_iff: "mapR f xs = Inr ys \<longleftrightarrow> list_all2 (\<lambda>x y. f x = Inr y) xs ys"
proof (induction xs arbitrary: ys)
  case Nil
  then show ?case by auto
next
  case (Cons x xs)
  then show ?case by (cases ys) (auto simp: res_simps)
qed

lemma mapR_length: "mapR f xs = Inr ys \<Longrightarrow> length ys = length xs"
  by (auto simp: mapR_Inr_iff dest: list_all2_lengthD)

lemma mapR_nth: "mapR f xs = Inr ys \<Longrightarrow> i < length xs \<Longrightarrow> f (xs ! i) = Inr (ys ! i)"
  by (auto simp: mapR_Inr_iff list_all2_conv_all_nth)

lemma mapR_ok_iff: "(\<exists>ys. mapR f xs = Inr ys) \<longleftrightarrow> (\<forall>x \<in> set xs. \<exists>y. f x = Inr y)"
  by (induction xs) (auto simp: res_simps)

lemma mapR_fails_iff: "(\<exists>e. mapR f xs = Inl e) \<longleftrightarrow> (\<exists>x \<in> set xs. \<exists>e. f x = Inl e)"
proof -
  have "(\<exists>e. mapR f xs = Inl e) \<longleftrightarrow> \<not> (\<exists>ys. mapR f xs = Inr ys)"
    by (cases "mapR f xs") auto
  also have "\<dots> \<longleftrightarrow> (\<exists>x \<in> set xs. \<not> (\<exists>y. f x = Inr y))"
    by (simp add: mapR_ok_iff)
  also have "\<dots> \<longleftrightarrow> (\<exists>x \<in> set xs. \<exists>e. f x = Inl e)"
    by (metis isOk_iff not_isOk_iff)
  finally show ?thesis .
qed

lemma mapR_error_from: "mapR f xs = Inl e \<Longrightarrow> \<exists>x \<in> set xs. f x = Inl e"
  by (induction xs) (auto simp: res_simps)

lemma mapR_Inr_map: "(\<And>x. x \<in> set xs \<Longrightarrow> f x = Inr (g x)) \<Longrightarrow> mapR f xs = Inr (map g xs)"
  by (induction xs) auto

lemma mapR_append:
  "mapR f (xs @ ys) = bindR (mapR f xs) (\<lambda>us. bindR (mapR f ys) (\<lambda>vs. Inr (us @ vs)))"
  by (induction xs) (auto simp: bindR_def split: sum.splits)

lemma mapR_cong [fundef_cong]:
  "xs = ys \<Longrightarrow> (\<And>x. x \<in> set ys \<Longrightarrow> f x = g x) \<Longrightarrow> mapR f xs = mapR g ys"
  by (induction ys arbitrary: xs) auto

lemma filterR_ok:
  "(\<And>x. x \<in> set xs \<Longrightarrow> p x = Inr (q x)) \<Longrightarrow> filterR p xs = Inr (filter q xs)"
  by (induction xs) auto

lemma filterR_fails: "x \<in> set xs \<Longrightarrow> p x = Inl e \<Longrightarrow> \<exists>e'. filterR p xs = Inl e'"
  by (induction xs) (auto simp: bindR_def split: sum.splits)

lemma filterR_Inr_all: "filterR p xs = Inr ys \<Longrightarrow> x \<in> set xs \<Longrightarrow> \<exists>b. p x = Inr b"
  by (metis filterR_fails isOk_iff not_isOk_iff sum.simps(4))

section \<open>Strings\<close>

text \<open>\<open>s.split(c)\<close> for a one-character separator: always at least one piece.\<close>

fun split_on :: "char \<Rightarrow> string \<Rightarrow> string list" where
  "split_on c [] = [[]]"
| "split_on c (x # xs) =
     (if x = c then [] # split_on c xs
      else (case split_on c xs of [] \<Rightarrow> [[x]] | p # ps \<Rightarrow> (x # p) # ps))"

text \<open>\<open>ps.join(sep)\<close>.\<close>

fun join_with :: "string \<Rightarrow> string list \<Rightarrow> string" where
  "join_with sep [] = []"
| "join_with sep [p] = p"
| "join_with sep (p # q # ps) = p @ sep @ join_with sep (q # ps)"

text \<open>\<open>hay.includes(needle)\<close>.\<close>

fun str_includes :: "string \<Rightarrow> string \<Rightarrow> bool" where
  "str_includes needle [] = (needle = [])"
| "str_includes needle (x # xs) = (prefix needle (x # xs) \<or> str_includes needle xs)"

text \<open>\<open>xs.indexOf(x)\<close>: \<^const>\<open>None\<close> stands for the result \<open>-1\<close>.\<close>

fun index_of :: "'a \<Rightarrow> 'a list \<Rightarrow> nat option" where
  "index_of y [] = None"
| "index_of y (x # xs) = (if x = y then Some 0 else map_option Suc (index_of y xs))"

lemma split_on_ne [simp]: "split_on c s \<noteq> []"
  by (induction s) (auto split: list.splits)

lemma join_split [str_simps]: "join_with [c] (split_on c s) = s"
proof (induction s)
  case Nil
  then show ?case by simp
next
  case (Cons x xs)
  obtain p ps where sp: "split_on c xs = p # ps"
    by (cases "split_on c xs") auto
  with Cons show ?case by (cases ps) auto
qed

lemma split_on_pieces: "p \<in> set (split_on c s) \<Longrightarrow> c \<notin> set p"
proof (induction s arbitrary: p)
  case Nil
  then show ?case by simp
next
  case (Cons x xs)
  obtain q qs where "split_on c xs = q # qs"
    by (cases "split_on c xs") auto
  with Cons show ?case by (auto split: if_splits)
qed

lemma split_on_nosep [simp, str_simps]: "c \<notin> set s \<Longrightarrow> split_on c s = [s]"
  by (induction s) auto

lemma split_on_append_sep [str_simps]:
  "split_on c (s @ c # t) = split_on c s @ split_on c t"
proof (induction s)
  case Nil
  then show ?case by simp
next
  case (Cons x xs)
  obtain p ps where "split_on c xs = p # ps"
    by (cases "split_on c xs") auto
  with Cons show ?case by auto
qed

lemma split_join [str_simps]:
  "ps \<noteq> [] \<Longrightarrow> (\<And>p. p \<in> set ps \<Longrightarrow> c \<notin> set p) \<Longrightarrow> split_on c (join_with [c] ps) = ps"
proof (induction "[c]" ps rule: join_with.induct)
  case (3 p q ps)
  then show ?case by (simp add: split_on_append_sep)
qed auto

lemma str_includes_iff: "str_includes needle hay \<longleftrightarrow> (\<exists>us vs. hay = us @ needle @ vs)"
proof (induction hay)
  case Nil
  then show ?case by auto
next
  case (Cons x xs)
  have "(\<exists>us vs. x # xs = us @ needle @ vs) \<longleftrightarrow>
      prefix needle (x # xs) \<or> (\<exists>us vs. xs = us @ needle @ vs)"
    by (metis append_Cons append_Nil list.inject list.exhaust prefix_def)
  with Cons show ?case by simp
qed

lemma index_of_Some: "index_of y xs = Some i \<Longrightarrow> i < length xs \<and> xs ! i = y"
  by (induction xs arbitrary: i) (auto split: if_splits)

lemma index_of_first: "index_of y xs = Some i \<Longrightarrow> j < i \<Longrightarrow> xs ! j \<noteq> y"
proof (induction xs arbitrary: i j)
  case Nil
  then show ?case by simp
next
  case (Cons x xs)
  then show ?case by (cases j) (auto split: if_splits)
qed

lemma index_of_None [simp]: "index_of y xs = None \<longleftrightarrow> y \<notin> set xs"
  by (induction xs) auto

lemma index_of_ex: "y \<in> set xs \<Longrightarrow> \<exists>i. index_of y xs = Some i"
  by (metis index_of_None not_None_eq)

lemma find_Some_hd: "find p xs = Some x \<Longrightarrow> filter p xs = x # tl (filter p xs)"
  by (induction xs) (auto split: if_splits)

lemma find_SomeD: "find p xs = Some x \<Longrightarrow> x \<in> set xs \<and> p x"
  by (auto simp: find_Some_iff)

end
