(* ===== verification/Js_Value.thy ===== *)
theory Js_Value
  imports Wallet_Prelude
begin

text \<open>
  The JavaScript values the library handles, and the language's own operations on them: property
  access, truthiness, object spread, key enumeration, conversion to text.  A number is the rational
  it denotes (the double rounding of fractional literals and the values \<open>NaN\<close> and \<open>Infinity\<close>
  are left out); a \<open>Date\<close> is its time value in milliseconds, \<^const>\<open>None\<close> being the invalid date.
  An object is the list of its own properties in insertion order.
\<close>

datatype js =
    Undef
  | Null
  | Bool bool
  | Num rat
  | Str string
  | DateV "int option"
  | Arr "js list"
  | Obj "(string \<times> js) list"

type_synonym props = "(string \<times> js) list"

text \<open>Object property read on an own-property list; a missing property reads as \<open>undefined\<close>.\<close>

definition pget :: "props \<Rightarrow> string \<Rightarrow> js" where
  "pget kvs k = (case map_of kvs k of Some v \<Rightarrow> v | None \<Rightarrow> Undef)"

text \<open>Assignment \<open>o[k] = v\<close>: an existing property keeps its place, a new one is appended.\<close>

fun pset :: "props \<Rightarrow> string \<Rightarrow> js \<Rightarrow> props" where
  "pset [] k v = [(k, v)]"
| "pset ((k', v') # kvs) k v = (if k' = k then (k, v) # kvs else (k', v') # pset kvs k v)"

text \<open>Spread \<open>{...a, ...b}\<close> and \<open>Object.fromEntries\<close>.\<close>

definition pspread :: "props \<Rightarrow> props \<Rightarrow> props" where
  "pspread a b = foldl (\<lambda>acc (k, v). pset acc k v) a b"

definition from_entries :: "(string \<times> js) list \<Rightarrow> props" where
  "from_entries kvs = pspread [] kvs"

definition pdel :: "string list \<Rightarrow> props \<Rightarrow> props" where
  "pdel ks kvs = filter (\<lambda>(k, _). k \<notin> set ks) kvs"

text \<open>Truthiness of a value in a condition.\<close>

definition truthy :: "js \<Rightarrow> bool" where
  "truthy v = (case v of Undef \<Rightarrow> False | Null \<Rightarrow> False | Bool b \<Rightarrow> b | Num q \<Rightarrow> q \<noteq> 0
     | Str s \<Rightarrow> s \<noteq> [] | _ \<Rightarrow> True)"

text \<open>\<open>a ?? b\<close>.\<close>

definition nullish :: "js \<Rightarrow> js \<Rightarrow> js" where
  "nullish a b = (if a = Undef \<or> a = Null then b else a)"

text \<open>Canonical array-index keys: JavaScript enumerates them first, in ascending order, and the
  remaining keys in insertion order.\<close>

definition is_digit :: "char \<Rightarrow> bool" where
  "is_digit c = (48 \<le> (of_char c :: nat) \<and> (of_char c :: nat) \<le> 57)"

definition digit_val :: "char \<Rightarrow> nat" where
  "digit_val c = of_char c - 48"

definition digits_val :: "string \<Rightarrow> nat" where
  "digits_val ds = foldl (\<lambda>n c. 10 * n + digit_val c) 0 ds"

definition is_array_index :: "string \<Rightarrow> bool" where
  "is_array_index s =
     (s \<noteq> [] \<and> list_all is_digit s \<and> (hd s \<noteq> CHR ''0'' \<or> tl s = []) \<and> digits_val s < 4294967295)"

definition entries :: "props \<Rightarrow> (string \<times> js) list" where
  "entries kvs = sort_key (\<lambda>(k, _). digits_val k) (filter (\<lambda>(k, _). is_array_index k) kvs)
     @ filter (\<lambda>(k, _). \<not> is_array_index k) kvs"

definition keys :: "props \<Rightarrow> string list" where
  "keys kvs = map fst (entries kvs)"

section \<open>Conversion to text\<close>

fun nat_str :: "nat \<Rightarrow> string" where
  "nat_str n = (if n < 10 then [char_of (48 + n)] else nat_str (n div 10) @ [char_of (48 + n mod 10)])"

declare nat_str.simps [simp del]

definition int_str :: "int \<Rightarrow> string" where
  "int_str i = (if i < 0 then CHR ''-'' # nat_str (nat (- i)) else nat_str (nat i))"

text \<open>The fractional digits of a number: long division of the remainder, at most twenty digits
  (a decimal literal of up to twenty places is printed exactly).\<close>

fun frac_digits :: "nat \<Rightarrow> nat \<Rightarrow> nat \<Rightarrow> string" where
  "frac_digits 0 r d = []"
| "frac_digits (Suc n) r d =
     (if r = 0 then [] else char_of (48 + (10 * r) div d) # frac_digits n ((10 * r) mod d) d)"

definition num_str :: "rat \<Rightarrow> string" where
  "num_str q = (case quotient_of q of (p, d) \<Rightarrow>
     if d = 1 then int_str p
     else (if p < 0 then ''-'' else []) @ nat_str (nat \<bar>p\<bar> div nat d) @ ''.''
            @ frac_digits 20 (nat \<bar>p\<bar> mod nat d) (nat d))"

text \<open>\<open>String(v)\<close> and template interpolation; an array joins its elements with commas, reading
  \<open>undefined\<close> and \<open>null\<close> elements as empty.  The text of a date (which depends on the local time
  zone) is never interpolated by the library and is left empty.\<close>

fun to_str :: "js \<Rightarrow> string" where
  "to_str Undef = ''undefined''"
| "to_str Null = ''null''"
| "to_str (Bool b) = (if b then ''true'' else ''false'')"
| "to_str (Num q) = num_str q"
| "to_str (Str s) = s"
| "to_str (DateV d) = ''''"
| "to_str (Obj kvs) = ''[object Object]''"
| "to_str (Arr vs) =
     join_with '','' (map (\<lambda>v. if v = Undef \<or> v = Null then [] else to_str v) vs)"

section \<open>Laws of objects\<close>

lemma pget_simps [simp]:
  "pget [] k = Undef"
  "pget ((k', v) # kvs) k = (if k = k' then v else pget kvs k)"
  by (auto simp: pget_def)

lemma pget_pset: "pget (pset kvs k v) k' = (if k' = k then v else pget kvs k')"
  by (induction kvs k v rule: pset.induct) auto

lemma fst_set_pset: "fst ` set (pset kvs k v) = insert k (fst ` set kvs)"
  by (induction kvs k v rule: pset.induct) auto

lemma distinct_pset: "distinct (map fst kvs) \<Longrightarrow> distinct (map fst (pset kvs k v))"
proof (induction kvs k v rule: pset.induct)
  case (2 k' v' kvs k v)
  then show ?case using fst_set_pset [of kvs k v] by auto
qed simp

lemma pset_new: "k \<notin> fst ` set kvs \<Longrightarrow> pset kvs k v = kvs @ [(k, v)]"
  by (induction kvs k v rule: pset.induct) auto

lemma pspread_Nil [simp]: "pspread a [] = a"
  by (simp add: pspread_def)

lemma pspread_Cons [simp]: "pspread a ((k, v) # b) = pspread (pset a k v) b"
  by (simp add: pspread_def)

lemma pspread_append: "pspread a (b @ c) = pspread (pspread a b) c"
  by (simp add: pspread_def)

lemma pget_absent: "k \<notin> fst ` set kvs \<Longrightarrow> pget kvs k = Undef"
  by (induction kvs) auto

lemma pget_append:
  "pget (a @ b) k = (if k \<in> fst ` set a then pget a k else pget b k)"
proof (induction a)
  case (Cons kv a)
  then show ?case by (cases kv) simp
qed simp

lemma pget_pspread: "pget (pspread a b) k = (if k \<in> fst ` set b then pget (rev b) k else pget a k)"
proof (induction b arbitrary: a)
  case Nil
  then show ?case by simp
next
  case (Cons kv b)
  obtain k' v where kv: "kv = (k', v)" by (cases kv)
  from Cons [of "pset a k' v"] show ?case
    by (auto simp: kv pget_append pget_pset)
qed

lemma pspread_distinct: "distinct (map fst a) \<Longrightarrow> distinct (map fst (pspread a b))"
  by (induction b arbitrary: a) (auto simp: distinct_pset)

lemma pspread_new:
  "distinct (map fst b) \<Longrightarrow> fst ` set a \<inter> fst ` set b = {} \<Longrightarrow> pspread a b = a @ b"
proof (induction b arbitrary: a)
  case Nil
  then show ?case by simp
next
  case (Cons kv b)
  obtain k v where kv: "kv = (k, v)" by (cases kv)
  from Cons.prems have "k \<notin> fst ` set a" by (auto simp: kv)
  then have "pspread a (kv # b) = pspread (a @ [(k, v)]) b" by (simp add: kv pset_new)
  also have "\<dots> = (a @ [(k, v)]) @ b"
    using Cons.prems by (intro Cons.IH) (auto simp: kv)
  finally show ?case by (simp add: kv)
qed

lemma from_entries_distinct: "distinct (map fst kvs) \<Longrightarrow> from_entries kvs = kvs"
  by (simp add: from_entries_def pspread_new)

lemma keys_from_entries: "fst ` set (pspread a b) = fst ` set a \<union> fst ` set b"
proof (induction b arbitrary: a)
  case (Cons kv b)
  obtain k v where kv: "kv = (k, v)" by (cases kv)
  show ?case by (simp add: kv Cons.IH fst_set_pset)
qed simp

lemma mset_entries [simp]: "mset (entries kvs) = mset kvs"
proof -
  have "mset (filter P xs) + mset (filter (\<lambda>x. \<not> P x) xs) = mset xs"
    for P and xs :: "(string \<times> js) list"
    by (induction xs) auto
  from this [of "\<lambda>(k, _). is_array_index k" kvs] show ?thesis
    by (simp add: entries_def case_prod_unfold)
qed

lemma set_entries [simp]: "set (entries kvs) = set kvs"
  by (metis mset_entries set_mset_mset)

lemma set_keys [simp]: "set (keys kvs) = fst ` set kvs"
  by (simp add: keys_def)

lemma pget_pdel [simp]: "pget (pdel ks kvs) k = (if k \<in> set ks then Undef else pget kvs k)"
proof (induction kvs)
  case (Cons kv kvs)
  then show ?case by (cases kv) (auto simp: pdel_def)
qed (simp add: pdel_def)

lemma pget_mem: "pget kvs k \<noteq> Undef \<Longrightarrow> (k, pget kvs k) \<in> set kvs"
  by (auto simp: pget_def split: option.splits dest: map_of_SomeD)

lemma pget_distinct: "distinct (map fst kvs) \<Longrightarrow> (k, v) \<in> set kvs \<Longrightarrow> pget kvs k = v"
  by (simp add: pget_def)

section \<open>Decimal digits\<close>

lemma is_digit_char: "n < 10 \<Longrightarrow> is_digit (char_of (48 + n)) \<and> digit_val (char_of (48 + n)) = n"
  by (simp add: is_digit_def digit_val_def)

lemma digits_val_snoc: "digits_val (ds @ [c]) = 10 * digits_val ds + digit_val c"
  by (simp add: digits_val_def)

lemma nat_str_digits: "nat_str n \<noteq> [] \<and> list_all is_digit (nat_str n) \<and> digits_val (nat_str n) = n"
proof (induction n rule: nat_str.induct)
  case (1 n)
  show ?case
  proof (cases "n < 10")
    case True
    then show ?thesis
      using is_digit_char [of n] by (simp add: nat_str.simps [of n] digits_val_def)
  next
    case False
    have "n mod 10 < 10" by simp
    from is_digit_char [OF this] 1 False show ?thesis
      by (simp add: nat_str.simps [of n] digits_val_snoc)
  qed
qed

lemma nat_str_lead: "hd (nat_str n) = CHR ''0'' \<longleftrightarrow> n = 0"
proof (induction n rule: nat_str.induct)
  case (1 n)
  show ?case
  proof (cases "n < 10")
    case True
    have "char_of (48 + n) = CHR ''0'' \<longleftrightarrow> n = 0"
    proof
      assume "char_of (48 + n) = CHR ''0''"
      then have "digit_val (char_of (48 + n)) = digit_val (CHR ''0'')" by simp
      with True show "n = 0" using is_digit_char [of n] by (simp add: digit_val_def)
    next
      assume "n = 0"
      moreover have "char_of (48 :: nat) = CHR ''0''" by code_simp
      ultimately show "char_of (48 + n) = CHR ''0''" by simp
    qed
    with True show ?thesis by (simp add: nat_str.simps [of n])
  next
    case False
    with 1 show ?thesis
      using nat_str_digits [of "n div 10"] by (simp add: nat_str.simps [of n])
  qed
qed

lemma nat_str_inj [simp]: "nat_str m = nat_str n \<longleftrightarrow> m = n"
  using nat_str_digits by metis

lemma num_str_nat [simp]: "num_str (of_nat n) = nat_str n"
proof -
  have "quotient_of (of_int (int n)) = (int n, 1)"
    by (metis quotient_of_int Rat.of_int_def)
  then show ?thesis by (simp add: num_str_def int_str_def)
qed

end
