(* ===== verification/Json_Text.thy ===== *)
theory Json_Text
  imports Js_Value
begin

text \<open>
  \<open>JSON.stringify\<close> and \<open>JSON.parse\<close> of the language's standard library: the texts the wallet sends,
  receives and embeds in disclosures.  The parser runs on fuel; \<open>JSON_parse\<close> supplies twice the
  length of the text, which is enough for every text that \<open>JSON_stringify\<close> produces
  (\<open>JSON_parse_stringify\<close>).
\<close>

section \<open>JSON.stringify\<close>

definition hex_digit :: "nat \<Rightarrow> char" where
  "hex_digit n = (if n < 10 then char_of (48 + n) else char_of (87 + n))"

definition esc_char :: "char \<Rightarrow> string" where
  "esc_char c =
    (if c = CHR 0x22 then [CHR 0x5C, CHR 0x22]
     else if c = CHR 0x5C then [CHR 0x5C, CHR 0x5C]
     else if c = CHR 0x08 then [CHR 0x5C, CHR ''b'']
     else if c = CHR 0x09 then [CHR 0x5C, CHR ''t'']
     else if c = CHR 0x0A then [CHR 0x5C, CHR ''n'']
     else if c = CHR 0x0C then [CHR 0x5C, CHR ''f'']
     else if c = CHR 0x0D then [CHR 0x5C, CHR ''r'']
     else if (of_char c :: nat) < 32 then
       [CHR 0x5C, CHR ''u'', CHR ''0'', CHR ''0'',
        hex_digit (of_char c div 16), hex_digit (of_char c mod 16)]
     else [c])"

definition quote_str :: "string \<Rightarrow> string" where
  "quote_str s = CHR 0x22 # concat (map esc_char s) @ [CHR 0x22]"

lemma size_obj_member: "(k, v) \<in> set kvs \<Longrightarrow> size v < size (Obj kvs)"
proof (induction kvs)
  case (Cons kv kvs)
  then show ?case by (cases kv) auto
qed simp

lemma size_arr_member: "v \<in> set vs \<Longrightarrow> size v < size (Arr vs)"
  by (induction vs) auto

text \<open>Serialisation of a value that is not \<open>undefined\<close>: \<open>undefined\<close> array elements become
  \<open>null\<close>, \<open>undefined\<close> properties are dropped.  The library never serialises a date.\<close>

function stringify :: "js \<Rightarrow> string" where
  "stringify Undef = ''null''"
| "stringify Null = ''null''"
| "stringify (Bool b) = (if b then ''true'' else ''false'')"
| "stringify (Num q) = num_str q"
| "stringify (Str s) = quote_str s"
| "stringify (DateV d) = ''null''"
| "stringify (Arr vs) = ''['' @ join_with '','' (map stringify vs) @ '']''"
| "stringify (Obj kvs) =
     ''{'' @ join_with '','' (map (\<lambda>(k, v). quote_str k @ '':'' @ stringify v)
        (filter (\<lambda>(k, v). v \<noteq> Undef) (entries kvs))) @ ''}''"
  by pat_completeness auto

termination
  by (relation "measure size") (auto dest: size_obj_member size_arr_member simp del: js.size)

text \<open>\<open>JSON.stringify(v)\<close>; the result for \<open>undefined\<close> is \<open>undefined\<close>.\<close>

definition JSON_stringify :: "js \<Rightarrow> js" where
  "JSON_stringify v = (if v = Undef then Undef else Str (stringify v))"

section \<open>JSON.parse\<close>

definition is_ws :: "char \<Rightarrow> bool" where
  "is_ws c = (c = CHR '' '' \<or> c = CHR 0x09 \<or> c = CHR 0x0A \<or> c = CHR 0x0D)"

abbreviation skip_ws :: "string \<Rightarrow> string" where
  "skip_ws \<equiv> dropWhile is_ws"

definition hex_val :: "char \<Rightarrow> nat option" where
  "hex_val c = (let n = of_char c :: nat in
     if 48 \<le> n \<and> n \<le> 57 then Some (n - 48)
     else if 97 \<le> n \<and> n \<le> 102 then Some (n - 87)
     else if 65 \<le> n \<and> n \<le> 70 then Some (n - 55)
     else None)"

definition hex4 :: "char \<Rightarrow> char \<Rightarrow> char \<Rightarrow> char \<Rightarrow> nat option" where
  "hex4 a b c d = (case (hex_val a, hex_val b, hex_val c, hex_val d) of
     (Some w, Some x, Some y, Some z) \<Rightarrow> Some (((w * 16 + x) * 16 + y) * 16 + z)
   | _ \<Rightarrow> None)"

text \<open>The UTF-8 bytes of a code point.\<close>

definition utf8 :: "nat \<Rightarrow> string" where
  "utf8 n =
    (if n < 128 then [char_of n]
     else if n < 2048 then [char_of (192 + n div 64), char_of (128 + n mod 64)]
     else if n < 65536 then
       [char_of (224 + n div 4096), char_of (128 + n div 64 mod 64), char_of (128 + n mod 64)]
     else [char_of (240 + n div 262144), char_of (128 + n div 4096 mod 64),
           char_of (128 + n div 64 mod 64), char_of (128 + n mod 64)])"

definition cons_fst :: "string \<Rightarrow> (string \<times> string) option \<Rightarrow> (string \<times> string) option" where
  "cons_fst s r = map_option (\<lambda>(t, rest). (s @ t, rest)) r"

definition simple_escape :: "char \<Rightarrow> char option" where
  "simple_escape e =
    (if e = CHR 0x22 then Some (CHR 0x22) else if e = CHR 0x5C then Some (CHR 0x5C)
     else if e = CHR ''/'' then Some (CHR ''/'') else if e = CHR ''b'' then Some (CHR 0x08)
     else if e = CHR ''f'' then Some (CHR 0x0C) else if e = CHR ''n'' then Some (CHR 0x0A)
     else if e = CHR ''r'' then Some (CHR 0x0D) else if e = CHR ''t'' then Some (CHR 0x09)
     else None)"

text \<open>A low surrogate escape at the head of the text, with the text after it.\<close>

fun low_surrogate :: "string \<Rightarrow> (nat \<times> string) option" where
  "low_surrogate (b # u # h1 # h2 # h3 # h4 # r) =
     (if b = CHR 0x5C \<and> u = CHR ''u'' then
        (case hex4 h1 h2 h3 h4 of
           Some n \<Rightarrow> if 56320 \<le> n \<and> n < 57344 then Some (n, r) else None
         | None \<Rightarrow> None)
      else None)"
| "low_surrogate _ = None"

lemma low_surrogate_length: "low_surrogate s = Some (n, r) \<Longrightarrow> length r < length s"
  by (induction s rule: low_surrogate.induct) (auto split: if_splits option.splits)

text \<open>The rest of a string literal after its opening quote.\<close>

function pstring :: "string \<Rightarrow> (string \<times> string) option" where
  "pstring [] = None"
| "pstring (c # cs) =
    (if c = CHR 0x22 then Some ([], cs)
     else if c = CHR 0x5C then
       (case cs of
          [] \<Rightarrow> None
        | e # r \<Rightarrow>
            if e = CHR ''u'' then
              (case r of
                 h1 # h2 # h3 # h4 # r' \<Rightarrow>
                   (case hex4 h1 h2 h3 h4 of
                      None \<Rightarrow> None
                    | Some n \<Rightarrow>
                        (case (if 55296 \<le> n \<and> n < 56320 then low_surrogate r' else None) of
                           Some (m, r'') \<Rightarrow>
                             cons_fst (utf8 (65536 + (n - 55296) * 1024 + (m - 56320))) (pstring r'')
                         | None \<Rightarrow> cons_fst (utf8 n) (pstring r')))
               | _ \<Rightarrow> None)
            else (case simple_escape e of
                    None \<Rightarrow> None
                  | Some d \<Rightarrow> cons_fst [d] (pstring r)))
     else if (of_char c :: nat) < 32 then None
     else cons_fst [c] (pstring cs))"
  by pat_completeness auto
termination
  by (relation "measure length") (auto split: if_splits dest: low_surrogate_length)

text \<open>A number: optional sign, integer part without leading zeros, fraction, exponent.\<close>

definition pexponent :: "string \<Rightarrow> (int \<times> string) option" where
  "pexponent s =
    (case s of
       e # r \<Rightarrow>
         if e = CHR ''e'' \<or> e = CHR ''E'' then
           (let neg = (case r of c # _ \<Rightarrow> c = CHR ''-'' | [] \<Rightarrow> False);
                r1 = (case r of c # r' \<Rightarrow> if c = CHR ''-'' \<or> c = CHR ''+'' then r' else r | [] \<Rightarrow> r);
                ds = takeWhile is_digit r1
            in if ds = [] then None
               else Some ((if neg then - int (digits_val ds) else int (digits_val ds)),
                          dropWhile is_digit r1))
         else Some (0, s)
     | [] \<Rightarrow> Some (0, s))"

definition pfraction :: "string \<Rightarrow> (rat \<times> string) option" where
  "pfraction s =
    (case s of
       p # r \<Rightarrow>
         if p = CHR ''.'' then
           (let ds = takeWhile is_digit r
            in if ds = [] then None
               else Some (of_nat (digits_val ds) / 10 ^ length ds, dropWhile is_digit r))
         else Some (0, s)
     | [] \<Rightarrow> Some (0, s))"

definition int_digits :: "string \<Rightarrow> string" where
  "int_digits s = (if s \<noteq> [] \<and> hd s = CHR ''0'' then [CHR ''0''] else takeWhile is_digit s)"

definition pnumber :: "string \<Rightarrow> (js \<times> string) option" where
  "pnumber s =
    (let neg = (case s of c # _ \<Rightarrow> c = CHR ''-'' | [] \<Rightarrow> False);
         s1 = (if neg then tl s else s);
         ds = int_digits s1;
         s2 = drop (length ds) s1
     in if ds = [] then None
        else (case pfraction s2 of
                None \<Rightarrow> None
              | Some (f, s3) \<Rightarrow>
                  (case pexponent s3 of
                     None \<Rightarrow> None
                   | Some (e, s4) \<Rightarrow>
                       (let m = of_nat (digits_val ds) + f;
                            v = (if 0 \<le> e then m * 10 ^ nat e else m / 10 ^ nat (- e))
                        in Some (Num (if neg then - v else v), s4)))))"

definition pliteral :: "string \<Rightarrow> js \<Rightarrow> string \<Rightarrow> (js \<times> string) option" where
  "pliteral lit v s = (if prefix lit s then Some (v, drop (length lit) s) else None)"

fun pvalue :: "nat \<Rightarrow> string \<Rightarrow> (js \<times> string) option"
  and pelems :: "nat \<Rightarrow> string \<Rightarrow> (js list \<times> string) option"
  and pmembers :: "nat \<Rightarrow> string \<Rightarrow> (props \<times> string) option" where
  "pvalue 0 s = None"
| "pvalue (Suc n) s =
    (case s of
       [] \<Rightarrow> None
     | c # cs \<Rightarrow>
         if c = CHR 0x22 then map_option (\<lambda>(t, r). (Str t, r)) (pstring cs)
         else if c = CHR ''['' then
           (case skip_ws cs of
              [] \<Rightarrow> None
            | d # r \<Rightarrow>
                if d = CHR '']'' then Some (Arr [], r)
                else map_option (\<lambda>(vs, r'). (Arr vs, r')) (pelems n (d # r)))
         else if c = CHR ''{'' then
           (case skip_ws cs of
              [] \<Rightarrow> None
            | d # r \<Rightarrow>
                if d = CHR ''}'' then Some (Obj [], r)
                else map_option (\<lambda>(kvs, r'). (Obj (from_entries kvs), r')) (pmembers n (d # r)))
         else if c = CHR ''t'' then pliteral ''true'' (Bool True) s
         else if c = CHR ''f'' then pliteral ''false'' (Bool False) s
         else if c = CHR ''n'' then pliteral ''null'' Null s
         else pnumber s)"
| "pelems 0 s = None"
| "pelems (Suc n) s =
    (case pvalue n (skip_ws s) of
       None \<Rightarrow> None
     | Some (v, r) \<Rightarrow>
         (case skip_ws r of
            [] \<Rightarrow> None
          | d # r' \<Rightarrow>
              if d = CHR '','' then map_option (\<lambda>(vs, q). (v # vs, q)) (pelems n r')
              else if d = CHR '']'' then Some ([v], r')
              else None))"
| "pmembers 0 s = None"
| "pmembers (Suc n) s =
    (case skip_ws s of
       [] \<Rightarrow> None
     | c # cs \<Rightarrow>
         if c \<noteq> CHR 0x22 then None
         else
           (case pstring cs of
              None \<Rightarrow> None
            | Some (k, r) \<Rightarrow>
                (case skip_ws r of
                   [] \<Rightarrow> None
                 | d # r' \<Rightarrow>
                     if d \<noteq> CHR '':'' then None
                     else
                       (case pvalue n (skip_ws r') of
                          None \<Rightarrow> None
                        | Some (v, q) \<Rightarrow>
                            (case skip_ws q of
                               [] \<Rightarrow> None
                             | g # q' \<Rightarrow>
                                 if g = CHR '','' then
                                   map_option (\<lambda>(kvs, q''). ((k, v) # kvs, q'')) (pmembers n q')
                                 else if g = CHR ''}'' then Some ([(k, v)], q')
                                 else None)))))"

text \<open>\<open>JSON.parse(text)\<close>; \<^const>\<open>None\<close> is the thrown \<open>SyntaxError\<close>.\<close>

definition JSON_parse :: "string \<Rightarrow> js option" where
  "JSON_parse s =
    (case pvalue (2 * length s + 2) (skip_ws s) of
       Some (v, r) \<Rightarrow> if skip_ws r = [] then Some v else None
     | None \<Rightarrow> None)"

section \<open>The round trip\<close>

text \<open>The values whose text determines them: no \<open>undefined\<close> and no date, integral numbers, and
  objects with distinct keys listed in enumeration order.\<close>

function json_wf :: "js \<Rightarrow> bool" where
  "json_wf Undef = False"
| "json_wf Null = True"
| "json_wf (Bool b) = True"
| "json_wf (Num q) = (snd (quotient_of q) = 1)"
| "json_wf (Str s) = True"
| "json_wf (DateV d) = False"
| "json_wf (Arr vs) = list_all json_wf vs"
| "json_wf (Obj kvs) = (distinct (map fst kvs) \<and> entries kvs = kvs \<and> list_all (\<lambda>(k, v). json_wf v) kvs)"
  by pat_completeness auto
termination
  by (relation "measure size") (auto dest: size_obj_member size_arr_member simp del: js.size)

lemma hex_val_digit: "n < 16 \<Longrightarrow> hex_val (hex_digit n) = Some n"
  by (auto simp: hex_val_def hex_digit_def Let_def)

lemma hex4_control: "n < 32 \<Longrightarrow>
    hex4 (CHR ''0'') (CHR ''0'') (hex_digit (n div 16)) (hex_digit (n mod 16)) = Some n"
proof -
  assume "n < 32"
  then have "n div 16 < 16" by simp
  moreover have "hex_val (CHR ''0'') = Some 0" by (simp add: hex_val_def)
  ultimately show ?thesis by (simp add: hex4_def hex_val_digit)
qed

lemma pstring_plain: "32 \<le> (of_char c :: nat) \<Longrightarrow> c \<noteq> CHR 0x22 \<Longrightarrow> c \<noteq> CHR 0x5C \<Longrightarrow>
    pstring (c # t) = cons_fst [c] (pstring t)"
  by simp

lemma pstring_simple_escape: "simple_escape e = Some c \<Longrightarrow>
    pstring (CHR 0x5C # e # t) = cons_fst [c] (pstring t)"
proof -
  assume e: "simple_escape e = Some c"
  then have "e \<noteq> CHR ''u''" by (auto simp: simple_escape_def)
  with e show ?thesis by simp
qed

lemma pstring_esc_char: "pstring (esc_char c @ t) = cons_fst [c] (pstring t)"
proof -
  consider "c \<in> {CHR 0x22, CHR 0x5C, CHR 0x08, CHR 0x09, CHR 0x0A, CHR 0x0C, CHR 0x0D}"
    | "(of_char c :: nat) < 32" "c \<notin> {CHR 0x22, CHR 0x5C, CHR 0x08, CHR 0x09, CHR 0x0A, CHR 0x0C, CHR 0x0D}"
    | "32 \<le> (of_char c :: nat)" "c \<noteq> CHR 0x22" "c \<noteq> CHR 0x5C"
    by fastforce
  then show ?thesis
  proof cases
    case 1
    then obtain e where "esc_char c = [CHR 0x5C, e]" "simple_escape e = Some c"
      by (auto simp: esc_char_def simple_escape_def)
    then show ?thesis by (simp add: pstring_simple_escape del: pstring.simps)
  next
    case 2
    then have "esc_char c = [CHR 0x5C, CHR ''u'', CHR ''0'', CHR ''0'',
          hex_digit (of_char c div 16), hex_digit (of_char c mod 16)]"
      by (simp add: esc_char_def)
    with 2 show ?thesis by (simp add: hex4_control utf8_def)
  next
    case 3
    then have "esc_char c = [c]" by (auto simp: esc_char_def)
    then show ?thesis using pstring_plain [OF 3] by (simp only: append_Cons append_Nil)
  qed
qed

lemma pstring_escaped: "pstring (concat (map esc_char s) @ CHR 0x22 # r) = Some (s, r)"
  by (induction s) (simp_all add: pstring_esc_char cons_fst_def pstring.simps(2) [of "CHR 0x22"] del: pstring.simps)

definition delim :: "string \<Rightarrow> bool" where
  "delim r = (r = [] \<or> hd r \<in> {CHR '','', CHR '']'', CHR ''}''} \<or> is_ws (hd r))"

lemma delim_simps [simp]:
  "delim []" "delim (CHR '','' # r)" "delim (CHR '']'' # r)" "delim (CHR ''}'' # r)"
  by (simp_all add: delim_def)

lemma delim_not_digit: "delim r \<Longrightarrow> takeWhile is_digit r = [] \<and> dropWhile is_digit r = r"
  by (cases r) (auto simp: delim_def is_digit_def is_ws_def)

lemma takeWhile_digits:
  "list_all is_digit ds \<Longrightarrow> delim r \<Longrightarrow> takeWhile is_digit (ds @ r) = ds"
  by (induction ds) (auto simp: delim_not_digit)

lemma pfraction_delim: "delim r \<Longrightarrow> pfraction r = Some (0, r)"
  by (cases r) (auto simp: pfraction_def delim_def is_ws_def)

lemma pexponent_delim: "delim r \<Longrightarrow> pexponent r = Some (0, r)"
  by (cases r) (auto simp: pexponent_def delim_def is_ws_def)

lemma nat_str_zero: "nat_str 0 = ''0''"
  by code_simp

lemma int_digits_nat_str: "delim r \<Longrightarrow> int_digits (nat_str n @ r) = nat_str n"
  using nat_str_digits [of n] nat_str_lead [of n]
  by (cases "n = 0") (simp_all add: int_digits_def nat_str_zero takeWhile_digits)

lemma nat_str_not_minus: "\<exists>c cs. nat_str n = c # cs \<and> is_digit c"
  using nat_str_digits [of n] by (cases "nat_str n") auto

lemma pnumber_nat_str:
  assumes "delim r"
  shows "pnumber (nat_str n @ r) = Some (Num (of_nat n), r)"
    and "pnumber (CHR ''-'' # nat_str n @ r) = Some (Num (- of_nat n), r)"
proof -
  obtain c cs where c: "nat_str n = c # cs" "is_digit c"
    using nat_str_not_minus by blast
  then have "c \<noteq> CHR ''-''" by (auto simp: is_digit_def)
  then have neg: "(case nat_str n @ r of [] \<Rightarrow> False | c # _ \<Rightarrow> c = CHR ''-'') = False"
    by (simp add: c)
  note facts = int_digits_nat_str [OF assms] pfraction_delim [OF assms] pexponent_delim [OF assms]
    nat_str_digits [of n]
  show "pnumber (nat_str n @ r) = Some (Num (of_nat n), r)"
    unfolding pnumber_def neg by (simp add: facts Let_def)
  show "pnumber (CHR ''-'' # nat_str n @ r) = Some (Num (- of_nat n), r)"
    by (simp add: pnumber_def facts Let_def)
qed

lemma stringify_Num_wf:
  assumes "snd (quotient_of q) = 1"
  obtains i where "q = of_int i" and "num_str q = int_str i"
proof -
  obtain p d where pd: "quotient_of q = (p, d)" by force
  with assms have "d = 1" by simp
  with pd have "q = of_int p" by (metis div_by_1 of_int_1 quotient_of_div)
  moreover have "num_str q = int_str p" using pd \<open>d = 1\<close> by (simp add: num_str_def)
  ultimately show ?thesis by (rule that)
qed

lemma pnumber_int_str: "delim r \<Longrightarrow> pnumber (int_str i @ r) = Some (Num (of_int i), r)"
  using pnumber_nat_str [of r "nat i"] pnumber_nat_str [of r "nat (- i)"]
  by (simp add: int_str_def)

definition value_start :: "char \<Rightarrow> bool" where
  "value_start c = (\<not> is_ws c \<and> c \<notin> {CHR '','', CHR '']'', CHR ''}'', CHR '':''})"

lemma digit_start: "is_digit c \<Longrightarrow> value_start c \<and> c \<notin> {CHR 0x22, CHR ''['', CHR ''{'', CHR ''t'', CHR ''f'', CHR ''n''}"
  by (auto simp: is_digit_def value_start_def is_ws_def)

lemma int_str_start: "\<exists>c cs. int_str i = c # cs \<and> value_start c \<and>
    c \<notin> {CHR 0x22, CHR ''['', CHR ''{'', CHR ''t'', CHR ''f'', CHR ''n''}"
proof (cases "i < 0")
  case True
  then show ?thesis by (auto simp: int_str_def value_start_def is_ws_def)
next
  case False
  with nat_str_not_minus [of "nat i"] show ?thesis by (auto simp: int_str_def dest: digit_start)
qed

lemma stringify_start:
  assumes "json_wf v"
  obtains c cs where "stringify v = c # cs" and "value_start c"
proof (cases v)
  case (Num q)
  with assms obtain i where "num_str q = int_str i" by (auto elim: stringify_Num_wf)
  with int_str_start [of i] Num that show ?thesis by auto
next
  case (Bool b)
  with that show ?thesis by (cases b) (auto simp: value_start_def is_ws_def)
qed (use assms that in \<open>auto simp: quote_str_def value_start_def is_ws_def split: if_splits\<close>)

lemma pvalue_number: "delim r \<Longrightarrow> pvalue (Suc n) (int_str i @ r) = Some (Num (of_int i), r)"
  using int_str_start [of i] pnumber_int_str [of r i] by auto

definition parses_back :: "js \<Rightarrow> bool" where
  "parses_back v \<longleftrightarrow> (\<forall>n r. length (stringify v) \<le> n \<longrightarrow> delim r \<longrightarrow>
     pvalue n (stringify v @ r) = Some (v, r))"

lemma value_start_ws: "value_start c \<Longrightarrow> \<not> is_ws c"
  by (simp add: value_start_def)

lemma is_ws_punct [simp]:
  "\<not> is_ws (CHR '','')" "\<not> is_ws (CHR '']'')" "\<not> is_ws (CHR ''}'')" "\<not> is_ws (CHR '':'')"
  "\<not> is_ws (CHR 0x22)"
  by (simp_all add: is_ws_def)

lemma pelems_join:
  assumes "vs \<noteq> []" and "\<And>v. v \<in> set vs \<Longrightarrow> json_wf v \<and> parses_back v"
    and "length (join_with '','' (map stringify vs)) < n"
  shows "pelems n (join_with '','' (map stringify vs) @ CHR '']'' # r) = Some (vs, r)"
  using assms
proof (induction vs arbitrary: n rule: list_nonempty_induct)
  case (single v)
  then obtain c cs where c: "stringify v = c # cs" "value_start c"
    using stringify_start by (metis list.set_intros(1))
  obtain m where n: "n = Suc m" using single.prems by (cases n) auto
  have "pvalue m (c # cs @ CHR '']'' # r) = Some (v, CHR '']'' # r)"
    using single.prems c n by (auto simp: parses_back_def)
  with c n show ?case by (simp add: value_start_ws del: pvalue.simps)
next
  case (cons v vs)
  then obtain c cs where c: "stringify v = c # cs" "value_start c"
    using stringify_start by (metis list.set_intros(1))
  obtain w ws where vs: "vs = w # ws" using cons.hyps by (cases vs) auto
  obtain m where n: "n = Suc m" using cons.prems by (cases n) auto
  let ?rest = "join_with '','' (map stringify vs) @ CHR '']'' # r"
  have "parses_back v" using cons.prems by simp
  then have "pvalue m (c # cs @ CHR '','' # ?rest) = Some (v, CHR '','' # ?rest)"
    using cons.prems(2) c n vs unfolding parses_back_def by simp
  moreover have "pelems m ?rest = Some (vs, r)"
    using cons.prems n vs c by (intro cons.IH) auto
  ultimately show ?case
    using c n vs by (simp add: value_start_ws del: pvalue.simps)
qed

abbreviation member_text :: "string \<times> js \<Rightarrow> string" where
  "member_text \<equiv> \<lambda>(k, v). quote_str k @ '':'' @ stringify v"

lemma pmembers_one:
  assumes "json_wf v" and "parses_back v" and "length (stringify v) \<le> n" and "r \<noteq> []" and "hd r \<in> {CHR '','', CHR ''}''}"
  shows "pmembers (Suc n) (member_text (k, v) @ r) =
    (if hd r = CHR '','' then map_option (\<lambda>(kvs, q). ((k, v) # kvs, q)) (pmembers n (tl r))
     else if hd r = CHR ''}'' then Some ([(k, v)], tl r) else None)"
proof -
  obtain c cs where c: "stringify v = c # cs" "value_start c"
    using assms stringify_start by metis
  have "delim r" using assms by (auto simp: delim_def)
  then have "pvalue n (c # cs @ r) = Some (v, r)"
    using assms c by (simp add: parses_back_def)
  moreover have "skip_ws r = r"
    using assms by (cases r) (auto simp: is_ws_def)
  ultimately show ?thesis
    using c assms by (cases r) (simp_all add: quote_str_def pstring_escaped value_start_ws
        del: pvalue.simps)
qed

lemma pmembers_join:
  assumes "kvs \<noteq> []" and "\<And>k v. (k, v) \<in> set kvs \<Longrightarrow> json_wf v \<and> parses_back v"
    and "length (join_with '','' (map member_text kvs)) < n"
  shows "pmembers n (join_with '','' (map member_text kvs) @ CHR ''}'' # r) = Some (kvs, r)"
  using assms
proof (induction kvs arbitrary: n rule: list_nonempty_induct)
  case (single kv)
  obtain k v where kv: "kv = (k, v)" by (cases kv)
  obtain m where n: "n = Suc m" using single.prems by (cases n) auto
  from single.prems kv n show ?case
    using pmembers_one [of v m "CHR ''}'' # r" k] by (simp del: pmembers.simps)
next
  case (cons kv kvs)
  obtain k v where kv: "kv = (k, v)" by (cases kv)
  obtain w ws where ws: "kvs = w # ws" using cons.hyps by (cases kvs) auto
  obtain m where n: "n = Suc m" using cons.prems by (cases n) auto
  let ?rest = "join_with '','' (map member_text kvs) @ CHR ''}'' # r"
  have "pmembers m ?rest = Some (kvs, r)"
    using cons.prems n ws by (intro cons.IH) auto
  moreover have "json_wf v" "parses_back v" using cons.prems(1) [of k v] kv by simp_all
  ultimately show ?case
    using cons.prems(2) kv n ws pmembers_one [of v m "CHR '','' # ?rest" k] by (simp del: pmembers.simps)
qed

lemma stringify_parses_back: "json_wf v \<Longrightarrow> parses_back v"
proof (induction v rule: stringify.induct)
  case (7 vs)
  show ?case
    unfolding parses_back_def
  proof (intro allI impI)
    fix n r
    assume n: "length (stringify (Arr vs)) \<le> n" and "delim r"
    then obtain m where m: "n = Suc m" by (cases n) auto
    show "pvalue n (stringify (Arr vs) @ r) = Some (Arr vs, r)"
    proof (cases vs)
      case Nil
      with m show ?thesis by (simp add: is_ws_def)
    next
      case (Cons w ws)
      with 7 obtain c cs where c: "stringify w = c # cs" "value_start c"
        using stringify_start by (metis json_wf.simps(7) list.pred_inject(2))
      have "pelems m (join_with '','' (map stringify vs) @ CHR '']'' # r) = Some (vs, r)"
        using 7 n m Cons by (intro pelems_join) (auto simp: list_all_iff)
      moreover obtain t where "join_with '','' (map stringify vs) = c # t"
        using Cons c by (cases ws) auto
      ultimately show ?thesis
        using m c by (auto simp: value_start_def)
    qed
  qed
next
  case (8 kvs)
  have kept: "filter (\<lambda>(k, v). v \<noteq> Undef) (entries kvs) = kvs"
    using "8.prems" by (auto simp: list_all_iff intro!: filter_True)
  have parsed: "\<And>k v. (k, v) \<in> set kvs \<Longrightarrow> json_wf v \<and> parses_back v"
    using 8 by (auto simp: list_all_iff kept)
  show ?case
    unfolding parses_back_def
  proof (intro allI impI)
    fix n r
    assume n: "length (stringify (Obj kvs)) \<le> n" and "delim r"
    then obtain m where m: "n = Suc m" by (cases n) auto
    show "pvalue n (stringify (Obj kvs) @ r) = Some (Obj kvs, r)"
    proof (cases kvs)
      case Nil
      with m show ?thesis by (simp add: is_ws_def entries_def)
    next
      case (Cons w ws)
      have "pmembers m (join_with '','' (map member_text kvs) @ CHR ''}'' # r) = Some (kvs, r)"
      proof (rule pmembers_join)
        show "kvs \<noteq> []" using Cons by simp
        show "length (join_with '','' (map member_text kvs)) < m" using n m by (simp add: kept)
      qed (rule parsed)
      moreover obtain t where "join_with '','' (map member_text kvs) = CHR 0x22 # t"
        using Cons by (cases ws; cases w) (auto simp: quote_str_def)
      ultimately show ?thesis
        using m from_entries_distinct [of kvs] "8.prems" kept by auto
    qed
  qed
next
  case (4 q)
  then obtain i where "q = of_int i" and "num_str q = int_str i"
    by (auto elim: stringify_Num_wf)
  moreover obtain c cs where c: "int_str i = c # cs" using int_str_start by blast
  moreover have "pvalue (Suc n) (c # cs @ r) = Some (Num (of_int i), r)" if "delim r" for n r
    using pvalue_number [OF that, of n i] by (simp only: c append_Cons)
  ultimately show ?case
    by (auto simp: parses_back_def Suc_le_eq simp del: pvalue.simps dest!: less_imp_Suc_add)
qed (auto simp: parses_back_def pliteral_def quote_str_def pstring_escaped Suc_le_eq
      dest!: less_imp_Suc_add split: if_splits)

lemma JSON_parse_stringify: "json_wf v \<Longrightarrow> JSON_parse (stringify v) = Some v"
proof -
  assume wf: "json_wf v"
  then obtain c cs where c: "stringify v = c # cs" "value_start c"
    using stringify_start by metis
  have "pvalue (2 * length (stringify v) + 2) (stringify v @ []) = Some (v, [])"
    using stringify_parses_back [OF wf] unfolding parses_back_def by (metis delim_simps(1) le_add1 mult_2 trans_le_add1)
  with c show ?thesis by (simp add: JSON_parse_def value_start_ws del: pvalue.simps)
qed
end
