(* ===== verification/Errors.thy ===== *)
theory Errors
  imports Json_Text
begin

text \<open>
  The exceptions of the library: \<open>src/utils/errors.ts\<close>, \<open>src/utils/error-codes.ts\<close> and the
  \<open>errors.ts\<close> files of the SD-JWT, issuance and presentation modules.  A thrown value is a class
  and the instance's message and own enumerable properties, in the order the constructors assign
  them; \<open>instanceof\<close> follows the class hierarchy.
\<close>

section \<open>Error values\<close>

datatype error_class =
    JsError | TypeErrorC | SyntaxErrorC | URIErrorC | ZodErrorC | ExternalErrorC
  | IoWalletError | ValidationFailed | UnexpectedStatusCodeError
  | IssuerResponseError | WalletProviderResponseError
  | AuthorizationError | AuthorizationIdpError
  | AuthRequestDecodeError | NoSuitableKeysFoundInEntityConfiguration
  | ClaimsNotFoundBetweenDisclosures | ClaimsNotFoundInToken
  | OperationAbortedError

fun superclass :: "error_class \<Rightarrow> error_class option" where
  "superclass JsError = None"
| "superclass IoWalletError = Some JsError"
| "superclass ValidationFailed = Some IoWalletError"
| "superclass UnexpectedStatusCodeError = Some IoWalletError"
| "superclass IssuerResponseError = Some UnexpectedStatusCodeError"
| "superclass WalletProviderResponseError = Some UnexpectedStatusCodeError"
| "superclass AuthorizationError = Some IoWalletError"
| "superclass AuthorizationIdpError = Some IoWalletError"
| "superclass AuthRequestDecodeError = Some IoWalletError"
| "superclass NoSuitableKeysFoundInEntityConfiguration = Some IoWalletError"
| "superclass _ = Some JsError"

fun class_depth :: "error_class \<Rightarrow> nat" where
  "class_depth JsError = 0"
| "class_depth TypeErrorC = 1"
| "class_depth SyntaxErrorC = 1"
| "class_depth URIErrorC = 1"
| "class_depth OperationAbortedError = 1"
| "class_depth ZodErrorC = 1"
| "class_depth ExternalErrorC = 1"
| "class_depth IoWalletError = 1"
| "class_depth ClaimsNotFoundBetweenDisclosures = 1"
| "class_depth ClaimsNotFoundInToken = 1"
| "class_depth IssuerResponseError = 3"
| "class_depth WalletProviderResponseError = 3"
| "class_depth _ = 2"

lemma superclass_depth: "superclass c = Some d \<Longrightarrow> class_depth d < class_depth c"
  by (cases c) auto

function subclass_of :: "error_class \<Rightarrow> error_class \<Rightarrow> bool" where
  "subclass_of c d = (c = d \<or> (case superclass c of Some b \<Rightarrow> subclass_of b d | None \<Rightarrow> False))"
  by pat_completeness auto
termination
  by (relation "measure (class_depth \<circ> fst)") (auto dest: superclass_depth)

declare subclass_of.simps [simp del]

record js_error =
  err_class :: error_class
  err_message :: string
  err_props :: props

type_synonym 'a res = "js_error + 'a"

definition instanceof :: "js_error \<Rightarrow> error_class \<Rightarrow> bool" where
  "instanceof e c = subclass_of (err_class e) c"

definition err_get :: "js_error \<Rightarrow> string \<Rightarrow> js" where
  "err_get e k = pget (err_props e) k"

text \<open>Errors raised by the language itself and plain \<open>new Error(message)\<close>.\<close>

definition TypeError :: js_error where
  "TypeError = \<lparr>err_class = TypeErrorC, err_message = ''type error'', err_props = []\<rparr>"

definition SyntaxError :: js_error where
  "SyntaxError = \<lparr>err_class = SyntaxErrorC, err_message = ''syntax error'', err_props = []\<rparr>"

definition URIError :: js_error where
  "URIError = \<lparr>err_class = URIErrorC, err_message = ''URI error'', err_props = []\<rparr>"

definition new_Error :: "string \<Rightarrow> js_error" where
  "new_Error m = \<lparr>err_class = JsError, err_message = m, err_props = []\<rparr>"

definition new_ZodError :: "string \<Rightarrow> js_error" where
  "new_ZodError m = \<lparr>err_class = ZodErrorC, err_message = m, err_props = []\<rparr>"

text \<open>Property read \<open>v.k\<close>: it throws on \<open>undefined\<close> and \<open>null\<close>.  Only own properties are modelled,
  so names of \<open>Object.prototype\<close> read as \<open>undefined\<close>.\<close>

definition js_get :: "js \<Rightarrow> string \<Rightarrow> js res" where
  "js_get v k = (case v of Undef \<Rightarrow> Inl TypeError | Null \<Rightarrow> Inl TypeError
     | Obj kvs \<Rightarrow> Inr (pget kvs k) | _ \<Rightarrow> Inr Undef)"

fun js_path :: "js \<Rightarrow> string list \<Rightarrow> js res" where
  "js_path v [] = Inr v"
| "js_path v (k # ks) = bindR (js_get v k) (\<lambda>u. js_path u ks)"

text \<open>The elements of an array whose method is called; a value with no such method throws.\<close>

definition js_elems :: "js \<Rightarrow> js list res" where
  "js_elems v = (case v of Arr vs \<Rightarrow> Inr vs | _ \<Rightarrow> Inl TypeError)"

definition js_str :: "js \<Rightarrow> string res" where
  "js_str v = (case v of Str s \<Rightarrow> Inr s | _ \<Rightarrow> Inl TypeError)"

section \<open>Error codes\<close>

definition IssuerGenericError :: string where
  "IssuerGenericError = ''ERR_ISSUER_GENERIC_ERROR''"
definition CredentialIssuingNotSynchronous :: string where
  "CredentialIssuingNotSynchronous = ''ERR_CREDENTIAL_ISSUING_NOT_SYNCHRONOUS''"
definition CredentialRequestFailed :: string where
  "CredentialRequestFailed = ''ERR_CREDENTIAL_REQUEST_FAILED''"
definition CredentialInvalidStatus :: string where
  "CredentialInvalidStatus = ''ERR_CREDENTIAL_INVALID_STATUS''"
definition StatusAttestationRequestFailed :: string where
  "StatusAttestationRequestFailed = ''ERR_STATUS_ATTESTATION_REQUEST_FAILED''"

definition IssuerResponseErrorCodes :: "string list" where
  "IssuerResponseErrorCodes = [IssuerGenericError, CredentialIssuingNotSynchronous,
     CredentialRequestFailed, CredentialInvalidStatus, StatusAttestationRequestFailed]"

definition WalletProviderGenericError :: string where
  "WalletProviderGenericError = ''ERR_IO_WALLET_PROVIDER_GENERIC_ERROR''"
definition WalletInstanceCreationFailed :: string where
  "WalletInstanceCreationFailed = ''ERR_IO_WALLET_INSTANCE_CREATION_FAILED''"
definition WalletInstanceAttestationIssuingFailed :: string where
  "WalletInstanceAttestationIssuingFailed = ''ERR_IO_WALLET_INSTANCE_ATTESTATION_ISSUING_FAILED''"
definition WalletInstanceIntegrityFailed :: string where
  "WalletInstanceIntegrityFailed = ''ERR_IO_WALLET_INSTANCE_INTEGRITY_FAILED''"
definition WalletInstanceRevoked :: string where
  "WalletInstanceRevoked = ''ERR_IO_WALLET_INSTANCE_REVOKED''"
definition WalletInstanceNotFound :: string where
  "WalletInstanceNotFound = ''ERR_IO_WALLET_INSTANCE_NOT_FOUND''"

definition WalletProviderResponseErrorCodes :: "string list" where
  "WalletProviderResponseErrorCodes = [WalletProviderGenericError, WalletInstanceCreationFailed,
     WalletInstanceAttestationIssuingFailed, WalletInstanceIntegrityFailed,
     WalletInstanceRevoked, WalletInstanceNotFound]"

section \<open>Constructors\<close>

definition attr_text :: "js \<Rightarrow> string" where
  "attr_text v = (case v of
      Arr vs \<Rightarrow> ''('' @ join_with '', '' (map (\<lambda>u. if u = Undef \<or> u = Null then [] else to_str u) vs)
                 @ '')''
    | Str s \<Rightarrow> s
    | _ \<Rightarrow> stringify v)"

definition serializeAttrs :: "props \<Rightarrow> string" where
  "serializeAttrs attrs =
     join_with '' '' (map (\<lambda>(k, v). k @ ''='' @ attr_text v)
       (filter (\<lambda>(_, v). v \<noteq> Undef) (entries attrs)))"

text \<open>The \<open>code\<close> and \<open>name\<close> properties every instance of the hierarchy gets from the base
  constructor (a subclass field \<open>code\<close> overwrites the value in place).\<close>

definition base_props :: "string \<Rightarrow> string \<Rightarrow> props" where
  "base_props code name = [(''code'', Str code), (''name'', Str name)]"

definition new_IoWalletError :: "string \<Rightarrow> js_error" where
  "new_IoWalletError m = \<lparr>err_class = IoWalletError, err_message = m,
     err_props = base_props ''ERR_IO_WALLET_GENERIC'' ''IoWalletError''\<rparr>"

definition new_ValidationFailed :: "string \<Rightarrow> string option \<Rightarrow> string option \<Rightarrow> js_error" where
  "new_ValidationFailed m claim reason =
    (let c = (case claim of Some c \<Rightarrow> c | None \<Rightarrow> ''unspecified'');
         r = (case reason of Some r \<Rightarrow> r | None \<Rightarrow> ''unspecified'')
     in \<lparr>err_class = ValidationFailed,
         err_message = serializeAttrs [(''message'', Str m), (''claim'', Str c), (''reason'', Str r)],
         err_props = base_props ''ERR_IO_WALLET_VALIDATION_FAILED'' ''ValidationFailed''
           @ [(''claim'', Str c), (''reason'', Str r)]\<rparr>)"

text \<open>The three classes built from one parameter object \<open>{code?, message, reason, statusCode}\<close>.\<close>

definition status_error :: "error_class \<Rightarrow> string \<Rightarrow> js \<Rightarrow> props \<Rightarrow> js_error" where
  "status_error cls name code p =
     \<lparr>err_class = cls,
      err_message = serializeAttrs [(''message'', pget p ''message''),
        (''reason'', pget p ''reason''), (''statusCode'', pget p ''statusCode'')],
      err_props = [(''code'', code), (''name'', Str name),
        (''reason'', pget p ''reason''), (''statusCode'', pget p ''statusCode'')]\<rparr>"

definition new_UnexpectedStatusCodeError :: "props \<Rightarrow> js_error" where
  "new_UnexpectedStatusCodeError p = status_error UnexpectedStatusCodeError
     ''UnexpectedStatusCodeError'' (Str ''ERR_UNEXPECTED_STATUS_CODE'') p"

definition new_IssuerResponseError :: "props \<Rightarrow> js_error" where
  "new_IssuerResponseError p = status_error IssuerResponseError ''IssuerResponseError''
     (nullish (pget p ''code'') (Str IssuerGenericError)) p"

definition new_WalletProviderResponseError :: "props \<Rightarrow> js_error" where
  "new_WalletProviderResponseError p = status_error WalletProviderResponseError
     ''WalletProviderResponseError''
     (nullish (pget p ''code'') (Str WalletProviderGenericError)) p"

definition new_AuthorizationError :: "string \<Rightarrow> js_error" where
  "new_AuthorizationError m = \<lparr>err_class = AuthorizationError, err_message = m,
     err_props = base_props ''ERR_IO_WALLET_AUTHORIZATION_ERROR'' ''AuthorizationError''\<rparr>"

definition new_AuthorizationIdpError :: "js \<Rightarrow> js \<Rightarrow> js_error" where
  "new_AuthorizationIdpError err descr =
     \<lparr>err_class = AuthorizationIdpError,
      err_message = serializeAttrs [(''error'', err), (''errorDescription'', descr)],
      err_props = base_props ''ERR_IO_WALLET_IDENTIFICATION_RESPONSE_PARSING_FAILED''
        ''AuthorizationIdpError'' @ [(''error'', err), (''errorDescription'', descr)]\<rparr>"

definition new_AuthRequestDecodeError ::
  "string \<Rightarrow> string option \<Rightarrow> string option \<Rightarrow> js_error" where
  "new_AuthRequestDecodeError m claim reason =
    (let c = (case claim of Some c \<Rightarrow> c | None \<Rightarrow> ''unspecified'');
         r = (case reason of Some r \<Rightarrow> r | None \<Rightarrow> ''unspecified'')
     in \<lparr>err_class = AuthRequestDecodeError,
         err_message = serializeAttrs [(''message'', Str m), (''claim'', Str c), (''reason'', Str r)],
         err_props = base_props ''ERR_IO_WALLET_AUTHENTICATION_REQUEST_DECODE_FAILED''
           ''AuthRequestDecodeError'' @ [(''claim'', Str c), (''reason'', Str r)]\<rparr>)"

definition new_NoSuitableKeysFoundInEntityConfiguration :: "string \<Rightarrow> js_error" where
  "new_NoSuitableKeysFoundInEntityConfiguration scenario =
     \<lparr>err_class = NoSuitableKeysFoundInEntityConfiguration,
      err_message = ''Entity configuration do not provide any suitable keys ('' @ scenario @ '').'',
      err_props = base_props ''ERR_NO_SUITABLE_KEYS_NOT_FOUND''
        ''NoSuitableKeysFoundInEntityConfiguration''\<rparr>"

text \<open>The two SD-JWT errors extend \<open>Error\<close> directly.\<close>

definition new_ClaimsNotFoundBetweenDisclosures :: "string list \<Rightarrow> js_error" where
  "new_ClaimsNotFoundBetweenDisclosures c =
     \<lparr>err_class = ClaimsNotFoundBetweenDisclosures,
      err_message = ''Some requested claims are not present in the disclosurable values, claims: ''
        @ join_with '', '' c,
      err_props = [(''code'', Str ''ERR_CLAIMS_NOT_FOUND''), (''claims'', Arr (map Str c))]\<rparr>"

definition new_ClaimsNotFoundInToken :: "string list \<Rightarrow> js_error" where
  "new_ClaimsNotFoundInToken c =
     \<lparr>err_class = ClaimsNotFoundInToken,
      err_message = ''Some requested claims are not present in the disclosurable values: ''
        @ join_with '', '' c,
      err_props = [(''code'', Str ''ERR_CLAIMS_NOT_FOUND_IN_TOKEN''), (''claims'', Arr (map Str c))]\<rparr>"

section \<open>ResponseErrorBuilder\<close>

record response_error_builder =
  ErrorClass :: "props \<Rightarrow> js_error"
  errorCases :: "string \<Rightarrow> props option"

definition new_ResponseErrorBuilder :: "(props \<Rightarrow> js_error) \<Rightarrow> response_error_builder" where
  "new_ResponseErrorBuilder C = \<lparr>ErrorClass = C, errorCases = (\<lambda>_. None)\<rparr>"

text \<open>A case is keyed by the decimal text of its status, or by \<open>"*"\<close>.\<close>

definition handle :: "string \<Rightarrow> props \<Rightarrow> response_error_builder \<Rightarrow> response_error_builder" where
  "handle status params b = b\<lparr>errorCases := (errorCases b)(status := Some params)\<rparr>"

definition buildFrom :: "response_error_builder \<Rightarrow> js_error \<Rightarrow> js_error" where
  "buildFrom b original =
     (case (case errorCases b (to_str (err_get original ''statusCode'')) of
              Some params \<Rightarrow> Some params
            | None \<Rightarrow> errorCases b ''*'') of
        Some params \<Rightarrow> ErrorClass b (pspread (err_props original) params)
      | None \<Rightarrow> original)"

definition error_case :: "string \<Rightarrow> string \<Rightarrow> props" where
  "error_case code m = [(''code'', Str code), (''message'', Str m)]"

section \<open>Type guards and localized messages\<close>

definition isIssuerResponseError :: "js_error \<Rightarrow> js \<Rightarrow> bool" where
  "isIssuerResponseError e code =
     (instanceof e IssuerResponseError \<and> err_get e ''code'' = nullish code (err_get e ''code''))"

definition isWalletProviderResponseError :: "js_error \<Rightarrow> js \<Rightarrow> bool" where
  "isWalletProviderResponseError e code =
     (instanceof e WalletProviderResponseError \<and>
      err_get e ''code'' = nullish code (err_get e ''code''))"

text \<open>One step of the \<open>reduce\<close> over the localized entries: the entry, without its locale, is
  stored under the locale.\<close>

definition localize_step :: "props res \<Rightarrow> js \<Rightarrow> props res" where
  "localize_step acc entry = bindR acc (\<lambda>a. case entry of
       Obj kvs \<Rightarrow> Inr (pset a (to_str (pget kvs ''locale'')) (Obj (pdel [''locale''] kvs)))
     | Undef \<Rightarrow> Inl TypeError
     | Null \<Rightarrow> Inl TypeError
     | _ \<Rightarrow> Inr (pset a ''undefined'' (Obj [])))"

definition extractErrorMessageFromIssuerConf :: "string \<Rightarrow> js \<Rightarrow> string \<Rightarrow> js res" where
  "extractErrorMessageFromIssuerConf errorCode issuerConf credentialType =
     bindR (js_path issuerConf
       [''openid_credential_issuer'', ''credential_configurations_supported'', credentialType])
     (\<lambda>credentialConfiguration.
       if \<not> truthy credentialConfiguration then
         Inl (new_IoWalletError
           (''No configuration found for '' @ credentialType @ '' in the provided EC''))
       else bindR (js_get credentialConfiguration ''issuance_errors_supported'')
         (\<lambda>supported.
           bindR (if supported = Undef \<or> supported = Null then Inr Undef
                  else js_get supported errorCode)
           (\<lambda>err.
             if \<not> truthy err then Inr Undef
             else bindR (js_get err ''display'') (\<lambda>display.
                  bindR (js_elems display) (\<lambda>localesList.
                    bindR (foldl localize_step (Inr []) localesList) (\<lambda>o'. Inr (Obj o')))))))"

section \<open>Properties of the error classes\<close>

lemma js_get_Obj [simp]: "js_get (Obj kvs) k = Inr (pget kvs k)"
  by (simp add: js_get_def)

lemma js_elems_Arr [simp]: "js_elems (Arr vs) = Inr vs"
  by (simp add: js_elems_def)

lemma js_elems_Inr_iff [simp]: "js_elems v = Inr vs \<longleftrightarrow> v = Arr vs"
  by (cases v) (auto simp: js_elems_def)

lemma js_str_Inr_iff [simp]: "js_str v = Inr s \<longleftrightarrow> v = Str s"
  by (cases v) (auto simp: js_str_def)

lemma subclass_refl [simp]: "subclass_of c c"
  by (simp add: subclass_of.simps)

lemma subclass_step: "superclass c = Some b \<Longrightarrow> subclass_of b d \<Longrightarrow> subclass_of c d"
  by (simp add: subclass_of.simps [of c])

lemma subclass_trans: "subclass_of a b \<Longrightarrow> subclass_of b c \<Longrightarrow> subclass_of a c"
proof (induction a b rule: subclass_of.induct)
  case (1 a b)
  show ?case
  proof (cases "a = b")
    case True
    with 1 show ?thesis by simp
  next
    case False
    with "1.prems" obtain p where "superclass a = Some p" "subclass_of p b"
      by (auto simp: subclass_of.simps [of a b] split: option.splits)
    with 1 False show ?thesis by (auto intro: subclass_step)
  qed
qed

lemma subclass_issuer: "subclass_of IssuerResponseError UnexpectedStatusCodeError"
  by (rule subclass_step [of _ UnexpectedStatusCodeError]) simp_all

lemma subclass_walletProvider: "subclass_of WalletProviderResponseError UnexpectedStatusCodeError"
  by (rule subclass_step [of _ UnexpectedStatusCodeError]) simp_all

lemmas status_error_defs = new_UnexpectedStatusCodeError_def new_IssuerResponseError_def
  new_WalletProviderResponseError_def status_error_def

lemma status_error_class [simp]:
  "err_class (new_UnexpectedStatusCodeError p) = UnexpectedStatusCodeError"
  "err_class (new_IssuerResponseError p) = IssuerResponseError"
  "err_class (new_WalletProviderResponseError p) = WalletProviderResponseError"
  by (simp_all add: status_error_defs)

lemma status_error_get:
  "err_get (new_IssuerResponseError p) k =
     (if k = ''code'' then nullish (pget p ''code'') (Str IssuerGenericError)
      else if k = ''name'' then Str ''IssuerResponseError''
      else if k \<in> {''reason'', ''statusCode''} then pget p k else Undef)"
  "err_get (new_WalletProviderResponseError p) k =
     (if k = ''code'' then nullish (pget p ''code'') (Str WalletProviderGenericError)
      else if k = ''name'' then Str ''WalletProviderResponseError''
      else if k \<in> {''reason'', ''statusCode''} then pget p k else Undef)"
  "err_get (new_UnexpectedStatusCodeError p) k =
     (if k = ''code'' then Str ''ERR_UNEXPECTED_STATUS_CODE''
      else if k = ''name'' then Str ''UnexpectedStatusCodeError''
      else if k \<in> {''reason'', ''statusCode''} then pget p k else Undef)"
  by (simp_all add: status_error_defs err_get_def)

lemma handle_lookup: "errorCases (handle s p b) t = (if t = s then Some p else errorCases b t)"
  by (simp add: handle_def)

lemma handle_class [simp]: "ErrorClass (handle s p b) = ErrorClass b"
  by (simp add: handle_def)

lemma new_builder [simp]:
  "ErrorClass (new_ResponseErrorBuilder C) = C" "errorCases (new_ResponseErrorBuilder C) t = None"
  by (simp_all add: new_ResponseErrorBuilder_def)

lemma pget_error_case:
  "pget (pspread a (error_case c m)) k =
     (if k = ''code'' then Str c else if k = ''message'' then Str m else pget a k)"
  by (simp add: error_case_def pget_pset)

section \<open>The contract of the \<open>catch\<close> handlers\<close>

text \<open>
  Each request of the wallet maps a failed HTTP status to a specific error with a handler of the same
  shape: errors outside the guarded class are thrown as they are, the others are rebuilt with a
  code chosen by the status.  \<open>outcome\<close> is the code for a status.
\<close>

locale status_error_handler =
  fixes handler :: "js_error \<Rightarrow> js_error"
    and guarded :: error_class
    and target :: error_class
    and outcome :: "string \<Rightarrow> string"
  assumes rethrows: "\<not> instanceof e guarded \<Longrightarrow> handler e = e"
    and builds: "instanceof e guarded \<Longrightarrow> err_class (handler e) = target"
    and code: "instanceof e guarded \<Longrightarrow>
      err_get (handler e) ''code'' = Str (outcome (to_str (err_get e ''statusCode'')))"
    and status_kept: "instanceof e guarded \<Longrightarrow>
      err_get (handler e) ''statusCode'' = err_get e ''statusCode''"
    and reason_kept: "instanceof e guarded \<Longrightarrow> err_get (handler e) ''reason'' = err_get e ''reason''"
    and target_guarded: "subclass_of target guarded"
begin

lemma guard_preserved: "instanceof (handler e) guarded \<longleftrightarrow> instanceof e guarded"
  using rethrows builds target_guarded by (metis instanceof_def)

lemma handler_classes: "err_class (handler e) = (if instanceof e guarded then target else err_class e)"
  using rethrows builds by auto

lemma code_stable: "err_get (handler (handler e)) ''code'' = err_get (handler e) ''code''"
  by (cases "instanceof e guarded")
    (simp_all add: code guard_preserved status_kept rethrows)

lemma same_status_same_code:
  assumes "instanceof e guarded" and "instanceof e' guarded"
    and "err_get e ''statusCode'' = err_get e' ''statusCode''"
  shows "err_get (handler e) ''code'' = err_get (handler e') ''code''"
  using assms by (simp add: code)

end

text \<open>A builder with a fallback case fulfils the contract.\<close>

definition case_code :: "(string \<Rightarrow> props option) \<Rightarrow> string \<Rightarrow> string" where
  "case_code cases status =
     (case (case cases status of Some p \<Rightarrow> Some p | None \<Rightarrow> cases ''*'') of
        Some p \<Rightarrow> to_str (pget p ''code'') | None \<Rightarrow> [])"

definition simple_cases :: "(string \<Rightarrow> props option) \<Rightarrow> bool" where
  "simple_cases cases \<longleftrightarrow> cases ''*'' \<noteq> None \<and>
     (\<forall>t p. cases t = Some p \<longrightarrow> (\<exists>c m. p = error_case c m))"

lemma buildFrom_simple:
  assumes "simple_cases (errorCases b)"
  obtains c m where "buildFrom b e = ErrorClass b (pspread (err_props e) (error_case c m))"
    and "c = case_code (errorCases b) (to_str (err_get e ''statusCode''))"
proof -
  let ?found = "case errorCases b (to_str (err_get e ''statusCode'')) of
      Some p \<Rightarrow> Some p | None \<Rightarrow> errorCases b ''*''"
  obtain p where p: "?found = Some p" and "\<exists>t. errorCases b t = Some p"
    using assms by (cases "errorCases b (to_str (err_get e ''statusCode''))")
      (auto simp: simple_cases_def)
  with assms obtain c m where cm: "p = error_case c m"
    unfolding simple_cases_def by blast
  show ?thesis
  proof (rule that)
    show "buildFrom b e = ErrorClass b (pspread (err_props e) (error_case c m))"
      unfolding buildFrom_def p cm by simp
    show "c = case_code (errorCases b) (to_str (err_get e ''statusCode''))"
      unfolding case_code_def p cm by (simp add: error_case_def)
  qed
qed

lemma builder_handler:
  assumes simple: "simple_cases (errorCases b)"
    and cls: "ErrorClass b = C" "\<And>p. err_class (C p) = target"
    and get: "\<And>p k. err_get (C p) k = (if k = ''code'' then nullish (pget p ''code'') dflt
      else if k = ''name'' then nm else if k \<in> {''reason'', ''statusCode''} then pget p k else Undef)"
    and h: "\<And>e. handler e = (if \<not> instanceof e guarded then e else buildFrom b e)"
    and sub: "subclass_of target guarded"
  shows "status_error_handler handler guarded target (case_code (errorCases b))"
proof
  fix e assume g: "instanceof e guarded"
  obtain c m where "handler e = C (pspread (err_props e) (error_case c m))"
    and "c = case_code (errorCases b) (to_str (err_get e ''statusCode''))"
    using buildFrom_simple [OF simple, of e] g by (auto simp: h cls)
  then show "err_class (handler e) = target"
    and "err_get (handler e) ''code'' = Str (case_code (errorCases b) (to_str (err_get e ''statusCode'')))"
    and "err_get (handler e) ''statusCode'' = err_get e ''statusCode''"
    and "err_get (handler e) ''reason'' = err_get e ''reason''"
    by (simp_all add: cls get pget_error_case nullish_def) (simp_all add: err_get_def)
qed (simp_all add: h sub)

lemma simple_cases_base: "simple_cases (errorCases (handle ''*'' (error_case c m) b)) \<longleftrightarrow>
    (\<forall>t p. t \<noteq> ''*'' \<longrightarrow> errorCases b t = Some p \<longrightarrow> (\<exists>c m. p = error_case c m))"
  by (auto simp: simple_cases_def handle_lookup)

end
