(* ===== verification/Zod_Schema.thy ===== *)
theory Zod_Schema
  imports Errors
begin

text \<open>
  The schemas of the sources are written with the zod package.  A schema is represented by its
  syntax; what zod does with it is a parameter \<open>zp\<close> of the model (\<open>safeParse\<close>: an error message or
  the parsed value), and \<open>zod_library\<close> is the documented contract of that parameter: a value
  is accepted exactly when it has the shape the schema describes, the parsed value has the shape
  too, and it holds nothing that is not in the input (unknown keys may be stripped).
\<close>

section \<open>Schemas\<close>

datatype schema =
    ZString
  | ZNumber "rat option" "rat option"
  | ZBoolean
  | ZDate
  | ZUnknown
  | ZLiteral string
  | ZArray schema
  | ZOptional schema
  | ZObject "(string \<times> schema) list"
  | ZPassthrough "(string \<times> schema) list"
  | ZRecord schema
  | ZTuple "schema list"
  | ZUnion "schema list"
  | ZAnd schema schema

fun in_range :: "rat option \<Rightarrow> rat option \<Rightarrow> rat \<Rightarrow> bool" where
  "in_range lo hi q = ((case lo of Some l \<Rightarrow> l \<le> q | None \<Rightarrow> True) \<and>
                       (case hi of Some h \<Rightarrow> q \<le> h | None \<Rightarrow> True))"

lemma size_fields_member: "(k :: string, s :: schema) \<in> set fs \<Longrightarrow> size s < Suc (size_list (size_prod (\<lambda>_. 0) size) fs)"
proof (induction fs)
  case (Cons f fs)
  then show ?case by (cases f) auto
qed simp

lemma size_schemas_member: "(s :: schema) \<in> set ss \<Longrightarrow> size s < Suc (size_list size ss)"
  by (induction ss) auto

text \<open>The shape of the values a schema accepts.  A property whose value is \<open>undefined\<close> counts as absent, in a
  record too: the values that are parsed come from JSON texts, where there is none.\<close>

function conforms :: "schema \<Rightarrow> js \<Rightarrow> bool" where
  "conforms ZString v = (case v of Str _ \<Rightarrow> True | _ \<Rightarrow> False)"
| "conforms (ZNumber lo hi) v = (case v of Num q \<Rightarrow> in_range lo hi q | _ \<Rightarrow> False)"
| "conforms ZBoolean v = (case v of Bool _ \<Rightarrow> True | _ \<Rightarrow> False)"
| "conforms ZDate v = (case v of DateV (Some _) \<Rightarrow> True | _ \<Rightarrow> False)"
| "conforms ZUnknown v = True"
| "conforms (ZLiteral s) v = (v = Str s)"
| "conforms (ZArray s) v = (case v of Arr vs \<Rightarrow> list_all (conforms s) vs | _ \<Rightarrow> False)"
| "conforms (ZOptional s) v = (v = Undef \<or> conforms s v)"
| "conforms (ZObject fs) v =
     (case v of Obj kvs \<Rightarrow> list_all (\<lambda>(k, s). conforms s (pget kvs k)) fs | _ \<Rightarrow> False)"
| "conforms (ZPassthrough fs) v =
     (case v of Obj kvs \<Rightarrow> list_all (\<lambda>(k, s). conforms s (pget kvs k)) fs | _ \<Rightarrow> False)"
| "conforms (ZRecord s) v =
     (case v of Obj kvs \<Rightarrow> list_all (\<lambda>k. pget kvs k = Undef \<or> conforms s (pget kvs k)) (map fst kvs)
      | _ \<Rightarrow> False)"
| "conforms (ZTuple ss) v =
     (case v of Arr vs \<Rightarrow> length vs = length ss \<and> list_all (\<lambda>(s, u). conforms s u) (zip ss vs)
      | _ \<Rightarrow> False)"
| "conforms (ZUnion ss) v = list_ex (\<lambda>s. conforms s v) ss"
| "conforms (ZAnd a b) v = (conforms a v \<and> conforms b v)"
  by pat_completeness auto

termination
  by (relation "measure (size \<circ> fst)")
    (auto dest!: set_zip_leftD size_fields_member size_schemas_member)

text \<open>\<open>sub_val w v\<close>: \<open>w\<close> is \<open>v\<close> with, possibly, properties of objects removed.\<close>

inductive sub_val :: "js \<Rightarrow> js \<Rightarrow> bool" where
  same: "sub_val v v"
| arr: "list_all2 sub_val ws vs \<Longrightarrow> sub_val (Arr ws) (Arr vs)"
| obj: "(\<And>k. pget ws k = Undef \<or> sub_val (pget ws k) (pget vs k)) \<Longrightarrow> sub_val (Obj ws) (Obj vs)"

inductive_cases sub_val_ObjE: "sub_val (Obj ws) v"
inductive_cases sub_val_ArrE: "sub_val (Arr ws) v"
inductive_cases sub_val_StrE: "sub_val (Str s) v"
inductive_simps sub_val_prim_simps:
  "sub_val Undef v" "sub_val Null v" "sub_val (Bool b) v" "sub_val (Num q) v" "sub_val (Str s) v"
  "sub_val (DateV d) v"
inductive_simps sub_val_prim_right:
  "sub_val v Undef" "sub_val v Null" "sub_val v (Bool b)" "sub_val v (Num q)" "sub_val v (Str s)"
  "sub_val v (DateV d)"

locale zod_library =
  fixes zp :: "schema \<Rightarrow> js \<Rightarrow> string + js"
  assumes accepts: "isOk (zp s v) \<longleftrightarrow> conforms s v"
    and result_conforms: "zp s v = Inr w \<Longrightarrow> conforms s w"
    and result_sub: "zp s v = Inr w \<Longrightarrow> sub_val w v"
begin

lemma ok_conforms: "zp s v = Inr w \<Longrightarrow> conforms s v"
  using accepts [of s v] by simp

lemma conforms_ok: "conforms s v \<Longrightarrow> \<exists>w. zp s v = Inr w"
  using accepts [of s v] by (simp add: isOk_iff)

lemma union_iff: "isOk (zp (ZUnion ss) v) \<longleftrightarrow> (\<exists>s \<in> set ss. isOk (zp s v))"
  by (auto simp: accepts list_ex_iff)

lemma and_iff: "isOk (zp (ZAnd a b) v) \<longleftrightarrow> isOk (zp a v) \<and> isOk (zp b v)"
  by (simp add: accepts)

end

section \<open>Shapes and sub-values\<close>

lemma conforms_object_field:
  assumes "conforms (ZObject fs) v \<or> conforms (ZPassthrough fs) v" and "(k, s) \<in> set fs"
  shows "\<exists>kvs. v = Obj kvs \<and> conforms s (pget kvs k)"
  using assms by (cases v) (auto simp: list_all_iff)

lemma conforms_ZString: "conforms ZString v \<longleftrightarrow> (\<exists>s. v = Str s)"
  by (cases v) auto

lemma conforms_ZArray: "conforms (ZArray s) v \<longleftrightarrow> (\<exists>vs. v = Arr vs \<and> (\<forall>u \<in> set vs. conforms s u))"
  by (cases v) (auto simp: list_all_iff)

lemma conforms_ZArray_ZString:
  "conforms (ZArray ZString) v \<longleftrightarrow> (\<exists>ss. v = Arr (map Str ss))"
proof
  assume "conforms (ZArray ZString) v"
  then obtain vs where v: "v = Arr vs" and all: "\<forall>u \<in> set vs. \<exists>s. u = Str s"
    unfolding conforms_ZArray conforms_ZString by blast
  from all have "\<exists>ss. vs = map Str ss"
    by (simp add: ex_map_conv)
  with v show "\<exists>ss. v = Arr (map Str ss)" by blast
qed (auto simp: list_all_iff)

lemma sub_val_pget: "sub_val (Obj ws) (Obj vs) \<Longrightarrow> pget ws k = Undef \<or> sub_val (pget ws k) (pget vs k)"
  by (auto elim: sub_val_ObjE intro: sub_val.same)

lemma sub_val_obj_right: "sub_val (Obj ws) v \<Longrightarrow> \<exists>vs. v = Obj vs"
  by (auto elim: sub_val_ObjE)

section \<open>Typed paths\<close>

text \<open>The schemas a conforming value's property, or the value at the end of a path of required
  properties, is known to conform to; reading such a path does not throw.\<close>

fun fields_of :: "schema \<Rightarrow> string \<Rightarrow> schema list" where
  "fields_of (ZObject fs) k = map snd (filter (\<lambda>f. fst f = k) fs)"
| "fields_of (ZPassthrough fs) k = map snd (filter (\<lambda>f. fst f = k) fs)"
| "fields_of (ZAnd a b) k = fields_of a k @ fields_of b k"
| "fields_of _ k = []"

fun types_at :: "schema list \<Rightarrow> string list \<Rightarrow> schema list" where
  "types_at ss [] = ss"
| "types_at ss (k # ks) = types_at (concat (map (\<lambda>s. fields_of s k) ss)) ks"

lemma conforms_fields_of:
  "conforms s v \<Longrightarrow> t \<in> set (fields_of s k) \<Longrightarrow> \<exists>kvs. v = Obj kvs \<and> conforms t (pget kvs k)"
proof (induction s k rule: fields_of.induct)
  case (1 fs k)
  then show ?case using conforms_object_field [of fs v k t] by auto
next
  case (2 fs k)
  then show ?case using conforms_object_field [of fs v k t] by auto
qed auto

lemma types_at_Nil [simp]: "types_at [] ks = []"
  by (induction ks) auto

lemma path_typed_all:
  assumes "\<And>s. s \<in> set ss \<Longrightarrow> conforms s v" and "t \<in> set (types_at ss ks)"
  shows "\<exists>u. js_path v ks = Inr u \<and> (\<forall>t \<in> set (types_at ss ks). conforms t u)"
  using assms
proof (induction ks arbitrary: ss v)
  case Nil
  then show ?case by simp
next
  case (Cons k ks)
  let ?ss = "concat (map (\<lambda>s. fields_of s k) ss)"
  from Cons.prems(2) have "?ss \<noteq> []" by (cases ?ss) (auto simp del: concat_eq_Nil_conv)
  then obtain s0 t0 where "s0 \<in> set ss" "t0 \<in> set (fields_of s0 k)" by fastforce
  with Cons.prems(1) obtain kvs where v: "v = Obj kvs" using conforms_fields_of by blast
  have "\<And>s. s \<in> set ?ss \<Longrightarrow> conforms s (pget kvs k)"
    using Cons.prems(1) conforms_fields_of v by fastforce
  moreover have "t \<in> set (types_at ?ss ks)" using Cons.prems(2) by simp
  ultimately have "\<exists>u. js_path (pget kvs k) ks = Inr u \<and> (\<forall>t \<in> set (types_at ?ss ks). conforms t u)"
    by (rule Cons.IH)
  with v show ?case by (simp add: js_get_def)
qed

lemma path_typed:
  "conforms s v \<Longrightarrow> t \<in> set (types_at [s] ks) \<Longrightarrow> \<exists>u. js_path v ks = Inr u \<and> conforms t u"
  using path_typed_all [of "[s]" v t ks] by auto

lemma path_string:
  "conforms s v \<Longrightarrow> ZString \<in> set (types_at [s] ks) \<Longrightarrow> \<exists>u. js_path v ks = Inr (Str u)"
  using path_typed [of s v ZString ks] by (auto simp only: conforms_ZString)

lemma path_array:
  "conforms s v \<Longrightarrow> ZArray t \<in> set (types_at [s] ks) \<Longrightarrow>
    \<exists>us. js_path v ks = Inr (Arr us) \<and> (\<forall>u \<in> set us. conforms t u)"
  using path_typed [of s v "ZArray t" ks] by (auto simp only: conforms_ZArray)

lemma path_strings:
  "conforms s v \<Longrightarrow> ZArray ZString \<in> set (types_at [s] ks) \<Longrightarrow> \<exists>us. js_path v ks = Inr (Arr (map Str us))"
  using path_typed [of s v "ZArray ZString" ks] by (auto simp only: conforms_ZArray_ZString)

lemma js_path_append: "js_path v (ks @ ls) = bindR (js_path v ks) (\<lambda>u. js_path u ls)"
  by (induction ks arbitrary: v) (simp_all add: bindR_assoc)

end
