(* ===== verification/Zod_Reference.thy ===== *)
theory Zod_Reference
  imports Zod_Schema
begin

text \<open>
  An instance of the schema library's contract: the documented evaluation of a schema, which strips
  undeclared keys of plain objects, keeps those of \<open>passthrough\<close> objects, takes the first matching
  member of a union and merges the two results of an intersection.  It shows that the contract
  \<open>zod_library\<close> can be met, and the witnesses of the development run the model on it.
\<close>

function zod_merge :: "js \<Rightarrow> js \<Rightarrow> js" where
  "zod_merge u v =
    (case (u, v) of
       (Obj a, Obj b) \<Rightarrow>
         Obj (map (\<lambda>(k, x). (k, if pget b k = Undef then x else zod_merge x (pget b k))) a
              @ filter (\<lambda>(k, _). k \<notin> fst ` set a) b)
     | (Arr xs, Arr ys) \<Rightarrow> Arr (map (\<lambda>(x, y). zod_merge x y) (zip xs ys))
     | _ \<Rightarrow> if u = Undef then v else u)"
  by pat_completeness auto
termination
  by (relation "measure (size \<circ> fst)")
    (auto dest!: set_zip_leftD size_obj_member size_arr_member)

declare zod_merge.simps [simp del]

function zod_out :: "schema \<Rightarrow> js \<Rightarrow> js" where
  "zod_out (ZArray s) v = (case v of Arr vs \<Rightarrow> Arr (map (zod_out s) vs) | _ \<Rightarrow> v)"
| "zod_out (ZOptional s) v = (if v = Undef then Undef else zod_out s v)"
| "zod_out (ZObject fs) v =
    (case v of
       Obj kvs \<Rightarrow> Obj (map (\<lambda>(k, s). (k, zod_out s (pget kvs k)))
                         (filter (\<lambda>(k, _). pget kvs k \<noteq> Undef) fs))
     | _ \<Rightarrow> v)"
| "zod_out (ZPassthrough fs) v =
    (case v of
       Obj kvs \<Rightarrow> Obj (map (\<lambda>(k, s). (k, zod_out s (pget kvs k)))
                         (filter (\<lambda>(k, _). pget kvs k \<noteq> Undef) fs)
                       @ filter (\<lambda>(k, _). k \<notin> fst ` set fs) kvs)
     | _ \<Rightarrow> v)"
| "zod_out (ZRecord s) v =
    (case v of
       Obj kvs \<Rightarrow> Obj (map (\<lambda>(k, u). (k, if u = Undef then Undef else zod_out s u)) kvs)
     | _ \<Rightarrow> v)"
| "zod_out (ZTuple ss) v =
    (case v of Arr vs \<Rightarrow> Arr (map (\<lambda>(s, u). zod_out s u) (zip ss vs)) | _ \<Rightarrow> v)"
| "zod_out (ZUnion ss) v =
    (case filter (\<lambda>s. conforms s v) ss of s # _ \<Rightarrow> if s \<in> set ss then zod_out s v else v | [] \<Rightarrow> v)"
| "zod_out (ZAnd a b) v = zod_merge (zod_out a v) (zod_out b v)"
| "zod_out ZString v = v"
| "zod_out (ZNumber lo hi) v = v"
| "zod_out ZBoolean v = v"
| "zod_out ZDate v = v"
| "zod_out ZUnknown v = v"
| "zod_out (ZLiteral s) v = v"
  by pat_completeness auto
termination
  by (relation "measure (size \<circ> fst)")
    (auto dest!: set_zip_leftD size_fields_member size_schemas_member)

text \<open>A schema whose objects declare each key once.\<close>

function schema_wf :: "schema \<Rightarrow> bool" where
  "schema_wf (ZArray s) = schema_wf s"
| "schema_wf (ZOptional s) = schema_wf s"
| "schema_wf (ZObject fs) = (distinct (map fst fs) \<and> list_all (\<lambda>(k, s). schema_wf s) fs)"
| "schema_wf (ZPassthrough fs) = (distinct (map fst fs) \<and> list_all (\<lambda>(k, s). schema_wf s) fs)"
| "schema_wf (ZRecord s) = schema_wf s"
| "schema_wf (ZTuple ss) = list_all schema_wf ss"
| "schema_wf (ZUnion ss) = list_all schema_wf ss"
| "schema_wf (ZAnd a b) = (schema_wf a \<and> schema_wf b)"
| "schema_wf ZString = True"
| "schema_wf (ZNumber lo hi) = True"
| "schema_wf ZBoolean = True"
| "schema_wf ZDate = True"
| "schema_wf ZUnknown = True"
| "schema_wf (ZLiteral s) = True"
  by pat_completeness auto
termination
  by (relation "measure size") (auto dest!: size_fields_member size_schemas_member)

text \<open>The evaluation; an object that declares a key twice (which no JavaScript literal can)
  is evaluated as a plain check.\<close>

definition zod_eval :: "schema \<Rightarrow> js \<Rightarrow> string + js" where
  "zod_eval s v =
     (if conforms s v then Inr (if schema_wf s then zod_out s v else v) else Inl ''invalid_type'')"

section \<open>Sub-values form an order with joins below a common bound\<close>

lemma sub_val_Undef [simp]: "sub_val Undef v \<longleftrightarrow> v = Undef" "sub_val v Undef \<longleftrightarrow> v = Undef"
  by (auto simp: sub_val_prim_simps sub_val_prim_right)

lemma sub_val_Obj_iff:
  "sub_val (Obj ws) (Obj vs) \<longleftrightarrow> (\<forall>k. pget ws k = Undef \<or> sub_val (pget ws k) (pget vs k))"
  using sub_val_pget by (auto intro: sub_val.obj)

lemma sub_val_Arr_iff: "sub_val (Arr ws) (Arr vs) \<longleftrightarrow> list_all2 sub_val ws vs"
  by (auto elim: sub_val_ArrE intro: sub_val.arr simp: list_all2_same sub_val.same)

lemma sub_val_trans: "sub_val u v \<Longrightarrow> sub_val v w \<Longrightarrow> sub_val u w"
proof (induction arbitrary: w rule: sub_val.induct)
  case (arr us vs)
  show ?case
  proof (cases w)
    case (Arr ws)
    with arr.prems have "list_all2 sub_val vs ws" by (simp add: sub_val_Arr_iff)
    with arr.IH have "list_all2 sub_val us ws"
      by (auto simp: list_all2_conv_all_nth)
    with Arr show ?thesis by (simp add: sub_val_Arr_iff)
  qed (use arr.prems in \<open>auto elim: sub_val_ArrE\<close>)
next
  case (obj us vs)
  from obj.prems obtain ws where w: "w = Obj ws" by (auto dest: sub_val_obj_right)
  have "pget us k = Undef \<or> sub_val (pget us k) (pget ws k)" for k
  proof (cases "pget us k = Undef")
    case False
    with obj.IH [of k] have "sub_val (pget us k) (pget vs k)" by simp
    with False have "pget vs k \<noteq> Undef" by auto
    with obj.prems w have "sub_val (pget vs k) (pget ws k)" by (auto simp: sub_val_Obj_iff)
    with obj.IH [of k] False show ?thesis by blast
  qed simp
  with w show ?case by (simp add: sub_val_Obj_iff)
qed

lemma keys_map_values: "fst ` set (map (\<lambda>(k, x). (k, f k x)) kvs) = fst ` set kvs"
  by (force simp: image_iff)

lemma pget_map_values:
  "pget (map (\<lambda>(k, x). (k, f k x)) kvs) k = (if k \<in> fst ` set kvs then f k (pget kvs k) else Undef)"
proof (induction kvs)
  case (Cons kv kvs)
  then show ?case by (cases kv) simp
qed simp

lemma pget_filter_keys: "pget (filter (\<lambda>(k, _). P k) kvs) k = (if P k then pget kvs k else Undef)"
proof (induction kvs)
  case (Cons kv kvs)
  then show ?case by (cases kv) auto
qed simp

lemma pget_merge:
  assumes "zod_merge (Obj a) (Obj b) = Obj c"
  shows "pget c k = (if k \<in> fst ` set a
    then if pget b k = Undef then pget a k else zod_merge (pget a k) (pget b k) else pget b k)"
proof -
  let ?f = "\<lambda>k x. if pget b k = Undef then x else zod_merge x (pget b k)"
  have "c = map (\<lambda>(k, x). (k, ?f k x)) a @ filter (\<lambda>(k, _). k \<notin> fst ` set a) b"
    using assms by (simp add: zod_merge.simps [of "Obj a"])
  then show ?thesis
    by (simp only: pget_append keys_map_values pget_map_values [of ?f] pget_filter_keys) simp
qed

lemma zod_merge_Obj: "\<exists>c. zod_merge (Obj a) (Obj b) = Obj c"
  by (simp add: zod_merge.simps)

lemma zod_merge_prim [simp]:
  "zod_merge Undef v = v" "zod_merge Null v = Null" "zod_merge (Bool b) v = Bool b"
  "zod_merge (Num q) v = Num q" "zod_merge (Str t) v = Str t" "zod_merge (DateV d) v = DateV d"
  by (simp_all add: zod_merge.simps)

lemma zod_merge_bounds:
  "sub_val x v \<Longrightarrow> sub_val y v \<Longrightarrow>
    sub_val x (zod_merge x y) \<and> sub_val y (zod_merge x y) \<and> sub_val (zod_merge x y) v"
proof (induction x y arbitrary: v rule: zod_merge.induct)
  case (1 x y)
  consider (obj) a b where "x = Obj a" "y = Obj b" | (arr) xs ys where "x = Arr xs" "y = Arr ys"
    | (eq) "x = y" "zod_merge x y = x"
    using "1.prems" by (cases x; cases v; cases y)
      (auto simp: sub_val_prim_simps elim: sub_val_ObjE sub_val_ArrE)
  then show ?case
  proof cases
    case obj
    then obtain c where c: "zod_merge (Obj a) (Obj b) = Obj c" using zod_merge_Obj by blast
    obtain vs where v: "v = Obj vs" using "1.prems" obj by (auto dest: sub_val_obj_right)
    have ax: "pget a k = Undef \<or> sub_val (pget a k) (pget vs k)"
      and bx: "pget b k = Undef \<or> sub_val (pget b k) (pget vs k)" for k
      using "1.prems" by (simp_all add: obj v sub_val_Obj_iff)
    have IH: "sub_val (pget a k) (zod_merge (pget a k) (pget b k)) \<and>
        sub_val (pget b k) (zod_merge (pget a k) (pget b k)) \<and>
        sub_val (zod_merge (pget a k) (pget b k)) (pget vs k)"
      if "pget a k \<noteq> Undef" "pget b k \<noteq> Undef" for k
    proof -
      have mem: "(k, pget a k) \<in> set a" using that by (intro pget_mem)
      show ?thesis
        using "1.IH"(2) [OF refl obj mem refl that(2), of "pget vs k"] ax [of k] bx [of k] that
        by blast
    qed
    have "(pget a k = Undef \<or> sub_val (pget a k) (pget c k)) \<and>
        (pget b k = Undef \<or> sub_val (pget b k) (pget c k)) \<and>
        (pget c k = Undef \<or> sub_val (pget c k) (pget vs k))" for k
      using ax [of k] bx [of k] IH [of k] pget_absent [of k a]
      by (cases "pget a k = Undef"; cases "pget b k = Undef")
        (auto simp: pget_merge [OF c] sub_val.same)
    then show ?thesis
      unfolding obj v c sub_val_Obj_iff by blast
  next
    case arr
    obtain vs where v: "v = Arr vs" using "1.prems" arr by (auto elim: sub_val_ArrE)
    have len: "length xs = length vs" "length ys = length vs"
      and le: "\<And>i. i < length vs \<Longrightarrow> sub_val (xs ! i) (vs ! i) \<and> sub_val (ys ! i) (vs ! i)"
      using "1.prems" by (auto simp: arr v sub_val_Arr_iff list_all2_conv_all_nth)
    have IH: "sub_val (xs ! i) (zod_merge (xs ! i) (ys ! i)) \<and>
        sub_val (ys ! i) (zod_merge (xs ! i) (ys ! i)) \<and>
        sub_val (zod_merge (xs ! i) (ys ! i)) (vs ! i)" if "i < length vs" for i
    proof -
      have "(xs ! i, ys ! i) \<in> set (zip xs ys)"
        using that len by (auto simp: set_zip)
      from "1.IH"(1) [OF refl arr this refl, of "vs ! i"] le [OF that] show ?thesis by blast
    qed
    have m: "zod_merge (Arr xs) (Arr ys) = Arr (map (\<lambda>(x, y). zod_merge x y) (zip xs ys))"
      by (simp add: zod_merge.simps [of "Arr xs"])
    show ?thesis
      unfolding arr v m sub_val_Arr_iff using IH len by (simp add: list_all2_conv_all_nth)
  next
    case eq
    with "1.prems" show ?thesis by (simp add: sub_val.same)
  qed
qed

section \<open>The evaluation meets the contract\<close>

lemma pget_declared:
  assumes "distinct (map fst fs)"
  shows "pget (map (\<lambda>(k, s). (k, zod_out s (pget kvs k)))
      (filter (\<lambda>(k, _). pget kvs k \<noteq> Undef) fs)) k =
    (if pget kvs k = Undef then Undef
     else case map_of fs k of Some s \<Rightarrow> zod_out s (pget kvs k) | None \<Rightarrow> Undef)"
  using assms
proof (induction fs)
  case (Cons f fs)
  then show ?case by (cases f) (auto simp: map_of_eq_None_iff split: option.splits)
qed simp

lemma pget_record:
  "pget (map (\<lambda>(k, u). (k, if u = Undef then Undef else zod_out s u)) kvs) k =
    (if pget kvs k = Undef then Undef else zod_out s (pget kvs k))"
  unfolding pget_map_values [where f = "\<lambda>k u. if u = Undef then Undef else zod_out s u"]
  using pget_absent [of k kvs] by auto

lemma declared_sub:
  assumes "distinct (map fst fs)"
    and "\<And>k s. (k, s) \<in> set fs \<Longrightarrow> pget kvs k \<noteq> Undef \<Longrightarrow>
      sub_val (zod_out s (pget kvs k)) (pget kvs k)"
  shows "pget (map (\<lambda>(k, s). (k, zod_out s (pget kvs k)))
      (filter (\<lambda>(k, _). pget kvs k \<noteq> Undef) fs)) k = Undef \<or>
    sub_val (pget (map (\<lambda>(k, s). (k, zod_out s (pget kvs k)))
      (filter (\<lambda>(k, _). pget kvs k \<noteq> Undef) fs)) k) (pget kvs k)"
  unfolding pget_declared [OF assms(1)]
  using assms(2) [of k] by (cases "map_of fs k") (auto dest: map_of_SomeD)

lemma zod_out_sub: "schema_wf s \<Longrightarrow> conforms s v \<Longrightarrow> sub_val (zod_out s v) v"
proof (induction s v rule: zod_out.induct)
  case (1 s v)
  then show ?case
    by (cases v) (auto simp: sub_val_Arr_iff list_all_iff list_all2_conv_all_nth)
next
  case (3 fs v)
  show ?case
  proof (cases v)
    case (Obj kvs)
    have "sub_val (zod_out s (pget kvs k)) (pget kvs k)"
      if "(k, s) \<in> set fs" "pget kvs k \<noteq> Undef" for k s
      using "3.IH" [OF Obj, of "(k, s)" k s] "3.prems" Obj that by (auto simp: list_all_iff)
    from declared_sub [OF _ this] 3 Obj show ?thesis by (simp add: sub_val_Obj_iff)
  qed (use 3 in auto)
next
  case (4 fs v)
  show ?case
  proof (cases v)
    case (Obj kvs)
    have "sub_val (zod_out s (pget kvs k)) (pget kvs k)"
      if "(k, s) \<in> set fs" "pget kvs k \<noteq> Undef" for k s
      using "4.IH" [OF Obj, of "(k, s)" k s] "4.prems" Obj that by (auto simp: list_all_iff)
    from declared_sub [OF _ this] 4 Obj show ?thesis
      by (auto simp: sub_val_Obj_iff pget_append pget_filter_keys sub_val.same)
  qed (use 4 in auto)
next
  case (5 s v)
  show ?case
  proof (cases v)
    case (Obj kvs)
    have "pget kvs k = Undef \<or> sub_val (zod_out s (pget kvs k)) (pget kvs k)" for k
    proof (cases "pget kvs k = Undef")
      case False
      then have "(k, pget kvs k) \<in> set kvs" by (rule pget_mem)
      with 5 Obj False show ?thesis by (fastforce simp: list_all_iff)
    qed simp
    with Obj show ?thesis by (auto simp: sub_val_Obj_iff pget_record)
  qed (use 5 in auto)
next
  case (6 ss v)
  show ?case
  proof (cases v)
    case (Arr vs)
    with "6.prems" have len: "length vs = length ss"
      and all: "list_all (\<lambda>(s, u). conforms s u) (zip ss vs)" by simp_all
    have "sub_val (zod_out (ss ! i) (vs ! i)) (vs ! i)" if "i < length vs" for i
    proof -
      have mem: "(ss ! i, vs ! i) \<in> set (zip ss vs)" using that len by (auto simp: set_zip)
      with all have "conforms (ss ! i) (vs ! i)" by (auto simp: list_all_iff)
      moreover have "schema_wf (ss ! i)" using "6.prems" that len by (simp add: list_all_iff)
      ultimately show ?thesis using "6.IH" [OF Arr mem refl] by simp
    qed
    with Arr len show ?thesis by (simp add: sub_val_Arr_iff list_all2_conv_all_nth)
  qed (use 6 in auto)
next
  case (7 ss v)
  then show ?case
    by (auto simp: list_all_iff list_ex_iff sub_val.same split: list.splits dest!: filter_eq_ConsD)
next
  case (8 a b v)
  then show ?case using zod_merge_bounds by simp
qed (auto simp: sub_val.same)


lemma zod_merge_ne: "u \<noteq> Undef \<Longrightarrow> zod_merge u v \<noteq> Undef"
  by (cases u; cases v)
    (simp_all add: zod_merge.simps [of "Arr a" for a] zod_merge.simps [of "Obj a" for a])

lemma zod_out_ne: "v \<noteq> Undef \<Longrightarrow> zod_out s v \<noteq> Undef"
  by (induction s v rule: zod_out.induct) (auto simp: zod_merge_ne split: js.splits list.splits)

lemma object_between:
  assumes all: "\<And>k s. (k, s) \<in> set fs \<Longrightarrow> conforms s (pget kvs k)"
    and low: "\<And>k s. (k, s) \<in> set fs \<Longrightarrow> pget kvs k \<noteq> Undef \<Longrightarrow>
      sub_val (zod_out s (pget kvs k)) (pget kws k)"
    and up: "sub_val (Obj kws) (Obj kvs)"
    and IH: "\<And>k s w. (k, s) \<in> set fs \<Longrightarrow> conforms s (pget kvs k) \<Longrightarrow>
      sub_val (zod_out s (pget kvs k)) w \<Longrightarrow> sub_val w (pget kvs k) \<Longrightarrow> conforms s w"
    and ks: "(k, s) \<in> set fs"
  shows "conforms s (pget kws k)"
proof (cases "pget kvs k = Undef")
  case True
  with up have "pget kws k = Undef" by (force simp: sub_val_Obj_iff)
  with True all [OF ks] show ?thesis by simp
next
  case False
  with low [OF ks] have lo: "sub_val (zod_out s (pget kvs k)) (pget kws k)" by simp
  then have "pget kws k \<noteq> Undef" using False zod_out_ne by auto
  with up have "sub_val (pget kws k) (pget kvs k)" by (auto simp: sub_val_Obj_iff)
  with IH [OF ks all [OF ks] lo] show ?thesis by simp
qed

lemma declared_low:
  assumes "distinct (map fst fs)" and "(k, s) \<in> set fs" and "pget kvs k \<noteq> Undef"
    and "sub_val (zod_out (ZObject fs) (Obj kvs)) (Obj kws)
      \<or> sub_val (zod_out (ZPassthrough fs) (Obj kvs)) (Obj kws)"
  shows "sub_val (zod_out s (pget kvs k)) (pget kws k)"
proof -
  let ?d = "map (\<lambda>(k, s). (k, zod_out s (pget kvs k))) (filter (\<lambda>(k, _). pget kvs k \<noteq> Undef) fs)"
  let ?r = "filter (\<lambda>(k, _). k \<notin> fst ` set fs) kvs"
  have "map_of fs k = Some s" using assms by simp
  then have d: "pget ?d k = zod_out s (pget kvs k)"
    using assms by (simp only: pget_declared) simp
  moreover from d have "pget ?d k \<noteq> Undef" using zod_out_ne [OF assms(3)] by (simp only:) simp
  moreover have "k \<in> fst ` set ?d"
    using pget_absent [of k ?d] calculation(2) by blast
  then have "pget (?d @ ?r) k = zod_out s (pget kvs k)" by (simp only: pget_append d if_True)
  moreover have "sub_val (Obj ?d) (Obj kws) \<or> sub_val (Obj (?d @ ?r)) (Obj kws)"
    using assms(4) by simp
  ultimately show ?thesis
    using sub_val_pget [of ?d kws k] sub_val_pget [of "?d @ ?r" kws k] d
    by (elim disjE) (simp_all only:, simp_all)
qed

lemma conforms_between:
  "schema_wf s \<Longrightarrow> conforms s v \<Longrightarrow> sub_val (zod_out s v) w \<Longrightarrow> sub_val w v \<Longrightarrow> conforms s w"
proof (induction s v arbitrary: w rule: zod_out.induct)
  case (1 s v)
  then obtain vs where v: "v = Arr vs" by (cases v) auto
  with 1 obtain ws where w: "w = Arr ws" by (auto elim: sub_val_ArrE)
  from 1 show ?case
    by (auto simp: v w sub_val_Arr_iff list_all_iff list_all2_conv_all_nth in_set_conv_nth)
      (metis nth_mem)
next
  case (2 s v)
  then show ?case by (auto simp: sub_val_prim_simps split: if_splits)
next
  case (3 fs v)
  then obtain kvs where v: "v = Obj kvs" by (cases v) auto
  with 3 obtain kws where w: "w = Obj kws" by (auto elim: sub_val_ObjE)
  have "conforms s (pget kws k)" if "(k, s) \<in> set fs" for k s
  proof (rule object_between [OF _ _ _ _ that])
    fix k s w' assume ks: "(k, s) \<in> set fs" and c: "conforms s (pget kvs k)"
      and lo: "sub_val (zod_out s (pget kvs k)) w'" and up: "sub_val w' (pget kvs k)"
    show "conforms s w'"
    proof (cases "pget kvs k = Undef")
      case True
      with up c show ?thesis by simp
    next
      case False
      then show ?thesis
        using "3.IH" [OF v, of "(k, s)" k s w'] "3.prems"(1) ks c lo up by (auto simp: list_all_iff)
    qed
  qed (use 3 v w in \<open>auto simp: list_all_iff intro: declared_low\<close>)
  then show ?case by (auto simp: w list_all_iff)
next
  case (4 fs v)
  then obtain kvs where v: "v = Obj kvs" by (cases v) auto
  with 4 obtain kws where w: "w = Obj kws" by (auto elim: sub_val_ObjE)
  have "conforms s (pget kws k)" if "(k, s) \<in> set fs" for k s
  proof (rule object_between [OF _ _ _ _ that])
    fix k s w' assume ks: "(k, s) \<in> set fs" and c: "conforms s (pget kvs k)"
      and lo: "sub_val (zod_out s (pget kvs k)) w'" and up: "sub_val w' (pget kvs k)"
    show "conforms s w'"
    proof (cases "pget kvs k = Undef")
      case True
      with up c show ?thesis by simp
    next
      case False
      then show ?thesis
        using "4.IH" [OF v, of "(k, s)" k s w'] "4.prems"(1) ks c lo up by (auto simp: list_all_iff)
    qed
  qed (use 4 v w in \<open>auto simp: list_all_iff intro: declared_low\<close>)
  then show ?case by (auto simp: w list_all_iff)
next
  case (7 ss v)
  then obtain s ss' where s: "filter (\<lambda>s. conforms s v) ss = s # ss'"
    by (cases "filter (\<lambda>s. conforms s v) ss") (auto simp: filter_empty_conv list_ex_iff)
  then have "s \<in> set ss" "conforms s v" by (auto dest!: filter_eq_ConsD)
  with 7 s show ?case by (auto simp: list_ex_iff list_all_iff)
next
  case (8 a b v)
  then have "sub_val (zod_out a v) v" "sub_val (zod_out b v) v" by (simp_all add: zod_out_sub)
  then have "sub_val (zod_out a v) (zod_out (ZAnd a b) v)" "sub_val (zod_out b v) (zod_out (ZAnd a b) v)"
    using zod_merge_bounds by simp_all
  then have "sub_val (zod_out a v) w" "sub_val (zod_out b v) w"
    using "8.prems"(3) sub_val_trans by blast+
  with 8 show ?case by simp
next
  case (5 s v)
  then obtain kvs where v: "v = Obj kvs" by (cases v) auto
  with 5 obtain kws where w: "w = Obj kws" by (auto elim: sub_val_ObjE)
  have "conforms s (pget kws k)" if ne: "pget kws k \<noteq> Undef" for k
  proof -
    from 5 have up: "sub_val (pget kws k) (pget kvs k)" using ne by (auto simp: v w sub_val_Obj_iff)
    then have nv: "pget kvs k \<noteq> Undef" using ne by auto
    then have mem: "(k, pget kvs k) \<in> set kvs" by (rule pget_mem)
    have lo: "sub_val (zod_out s (pget kvs k)) (pget kws k)"
      using "5.prems"(3) sub_val_pget [of "map (\<lambda>(k, u). (k, if u = Undef then Undef else zod_out s u)) kvs" kws k]
        nv zod_out_ne [OF nv, of s] by (simp add: v w pget_record)
    have c: "conforms s (pget kvs k)" using 5 mem nv by (fastforce simp: v list_all_iff)
    show ?thesis using "5.IH" [OF v mem refl nv _ c lo up] "5.prems"(1) by simp
  qed
  then show ?case by (auto simp: w list_all_iff)
next
  case (6 ss v)
  then obtain vs where v: "v = Arr vs" by (cases v) auto
  with 6 obtain ws where w: "w = Arr ws" by (auto elim: sub_val_ArrE)
  from "6.prems" have len: "length vs = length ss" "length ws = length ss"
    and all: "list_all (\<lambda>(s, u). conforms s u) (zip ss vs)"
    and lo: "\<And>i. i < length ss \<Longrightarrow> sub_val (zod_out (ss ! i) (vs ! i)) (ws ! i)"
    and up: "\<And>i. i < length ss \<Longrightarrow> sub_val (ws ! i) (vs ! i)"
    by (simp_all add: v w sub_val_Arr_iff list_all2_conv_all_nth)
  have "conforms (ss ! i) (ws ! i)" if "i < length ss" for i
  proof -
    have mem: "(ss ! i, vs ! i) \<in> set (zip ss vs)" using that len by (auto simp: set_zip)
    with all have "conforms (ss ! i) (vs ! i)" by (auto simp: list_all_iff)
    moreover have "schema_wf (ss ! i)" using "6.prems" that by (simp add: list_all_iff)
    ultimately show ?thesis using "6.IH" [OF v mem refl] lo up that by simp
  qed
  then show ?case using len by (auto simp: w list_all_length)
qed (auto simp: sub_val_prim_simps split: js.splits option.splits elim: sub_val_ObjE sub_val_ArrE)

interpretation reference_zod: zod_library zod_eval
proof
  fix s v w
  show "isOk (zod_eval s v) \<longleftrightarrow> conforms s v" by (simp add: zod_eval_def)
  assume ok: "zod_eval s v = Inr w"
  then have c: "conforms s v" and w: "w = (if schema_wf s then zod_out s v else v)"
    by (auto simp: zod_eval_def split: if_splits)
  show "sub_val w v" using c w zod_out_sub sub_val.same by simp
  show "conforms s w" using c w zod_out_sub conforms_between sub_val.same by simp
qed

end
