(* ===== verification/Externals.thy ===== *)
theory Externals
  imports Zod_Reference
begin

text \<open>
  What the library calls but does not implement, and the effects its functions have.  The record
  \<open>ext\<close> collects the third-party functions (the zod, io-react-native-jwt, io-react-native-crypto,
  js-sha256, js-base64, parse-url and uuid packages, the platform's \<open>fetch\<close>, \<open>URL\<close>, clock and
  random source); every operation of the model takes it as an argument.  A function that may
  depend on the outside world also takes the world, whose components record what the library did:
  the requests sent, the tokens signed, the keys it created, how many identifiers and random
  numbers it drew.  An \<open>async\<close> function is an \<open>io\<close> computation: it returns a value or a thrown
  error together with the new world.
\<close>

section \<open>Requests, responses, tokens\<close>

text \<open>A call of \<open>fetch\<close>.  Without options the method is \<open>GET\<close>; \<open>req_options\<close> says whether options were passed.\<close>

record request =
  req_url :: string
  req_options :: bool
  req_method :: string
  req_headers :: props
  req_body :: js

record response =
  res_status :: nat
  res_url :: string
  res_ctype :: "string option"
  res_body :: string

text \<open>\<open>JWTDecodeResult\<close> of io-react-native-jwt.\<close>

record jwt =
  protectedHeader :: js
  jwt_payload :: js

text \<open>What a chain of \<open>SignJWT\<close> setters describes; \<^const>\<open>Undef\<close> where a setter is not called.\<close>

record jwt_spec =
  jws_header :: props
  jws_payload :: props
  jws_iat :: bool
  jws_exp :: js
  jws_aud :: js
  jws_iss :: js

definition SignJWT :: "props \<Rightarrow> props \<Rightarrow> js \<Rightarrow> jwt_spec" where
  "SignJWT header payload expiry = \<lparr>jws_header = header, jws_payload = payload, jws_iat = True,
     jws_exp = expiry, jws_aud = Undef, jws_iss = Undef\<rparr>"

record url_parts =
  u_protocol :: string
  u_hostname :: string
  u_origin :: string
  u_search :: "(string \<times> string) list"
  u_href :: string

section \<open>The world and effectful computations\<close>

text \<open>\<open>w_sent\<close> are the requests as they are handed to the http client, \<open>w_wire\<close> those the client puts on the
  wire for them.\<close>

record world =
  w_sent :: "request list"
  w_wire :: "request list"
  w_signed :: "jwt_spec list"
  w_keys :: "string list"
  w_uuids :: nat
  w_randoms :: nat

type_synonym 'a io = "world \<Rightarrow> 'a res \<times> world"

text \<open>\<open>CryptoContext\<close>: the application supplies it or \<open>createCryptoContextFor\<close> builds it.\<close>

record crypto_context =
  getPublicKey :: "world \<Rightarrow> js res"
  getSignature :: "string \<Rightarrow> world \<Rightarrow> string res"

text \<open>\<open>IntegrityContext\<close> of \<open>utils/integrity.ts\<close>, supplied by the application.\<close>

record hardware_signature =
  signature :: string
  authenticatorData :: string

record integrity_context =
  getHardwareKeyTag :: string
  getAttestation :: "js \<Rightarrow> world \<Rightarrow> string res"
  getHardwareSignatureWithAuthData :: "string \<Rightarrow> world \<Rightarrow> hardware_signature res"

record ext =
  x_zod :: "schema \<Rightarrow> js \<Rightarrow> string + js"
  x_decodeJwt :: "string \<Rightarrow> jwt res"
  x_verifyJwt :: "string \<Rightarrow> js \<Rightarrow> world \<Rightarrow> jwt res"
  x_sha256ToBase64 :: "string \<Rightarrow> string"
  x_thumbprint :: "js \<Rightarrow> string res"
  x_removePadding :: "string \<Rightarrow> string"
  x_encodeBase64 :: "string \<Rightarrow> string"
  x_decodeBase64 :: "string \<Rightarrow> string"
  x_signJwt :: "crypto_context \<Rightarrow> jwt_spec \<Rightarrow> world \<Rightarrow> string res"
  x_encryptJwe :: "string \<Rightarrow> props \<Rightarrow> js \<Rightarrow> world \<Rightarrow> string res"
  x_sha256 :: "string \<Rightarrow> string"
  x_Base64_decode :: "string \<Rightarrow> string"
  x_keyPublic :: "string \<Rightarrow> world \<Rightarrow> js res"
  x_keySign :: "string \<Rightarrow> string \<Rightarrow> world \<Rightarrow> string res"
  x_keyGenerate :: "string \<Rightarrow> world \<Rightarrow> unit res"
  x_keyDelete :: "string \<Rightarrow> world \<Rightarrow> unit res"
  x_uuidv4 :: "nat \<Rightarrow> string"
  x_random :: "nat \<Rightarrow> rat"
  x_randomSort :: "world \<Rightarrow> nat list \<Rightarrow> nat list"
  x_now :: "world \<Rightarrow> rat"
  x_fetch :: "request \<Rightarrow> world \<Rightarrow> response res"
  x_wire :: "request \<Rightarrow> request list"
  x_URL :: "string \<Rightarrow> url_parts res"
  x_parseUrl :: "string \<Rightarrow> js res"

definition returnIO :: "'a \<Rightarrow> 'a io" where
  "returnIO x w = (Inr x, w)"

definition throwIO :: "js_error \<Rightarrow> 'a io" where
  "throwIO e w = (Inl e, w)"

definition liftR :: "'a res \<Rightarrow> 'a io" where
  "liftR r w = (r, w)"

text \<open>A call that consults the world and leaves it as it is.\<close>

definition askIO :: "(world \<Rightarrow> 'a res) \<Rightarrow> 'a io" where
  "askIO f w = (f w, w)"

text \<open>\<open>await m\<close> followed by the rest, and \<open>m.then(f)\<close>.\<close>

definition bindIO :: "'a io \<Rightarrow> ('a \<Rightarrow> 'b io) \<Rightarrow> 'b io" where
  "bindIO m f w = (case m w of (Inl e, w') \<Rightarrow> (Inl e, w') | (Inr x, w') \<Rightarrow> f x w')"

text \<open>\<open>m.catch(h)\<close>, and \<open>try\<close>/\<open>catch\<close> around awaited code.\<close>

definition catchIO :: "'a io \<Rightarrow> (js_error \<Rightarrow> 'a io) \<Rightarrow> 'a io" where
  "catchIO m h w = (case m w of (Inl e, w') \<Rightarrow> h e w' | (Inr x, w') \<Rightarrow> (Inr x, w'))"

text \<open>\<open>m.finally(f)\<close>: the outcome of \<open>m\<close>, unless \<open>f\<close> throws.\<close>

definition finallyIO :: "'a io \<Rightarrow> unit io \<Rightarrow> 'a io" where
  "finallyIO m f w = (case m w of (r, w') \<Rightarrow> (case f w' of
      (Inl e, w'') \<Rightarrow> (Inl e, w'') | (Inr _, w'') \<Rightarrow> (r, w'')))"

text \<open>\<open>Promise.all\<close> over started computations: all of them run, and the result is that of the
  first that fails in list order, or the list of their values.\<close>

fun allIO :: "'a io list \<Rightarrow> 'a list io" where
  "allIO [] w = (Inr [], w)"
| "allIO (m # ms) w = (case m w of (r, w') \<Rightarrow> (case allIO ms w' of
      (rs, w'') \<Rightarrow> (bindR r (\<lambda>x. bindR rs (\<lambda>xs. Inr (x # xs))), w'')))"

definition runs :: "'a io \<Rightarrow> world \<Rightarrow> 'a \<Rightarrow> bool" where
  "runs m w x = (fst (m w) = Inr x)"

section \<open>Primitive effects\<close>

definition uuidv4 :: "ext \<Rightarrow> string io" where
  "uuidv4 X w = (Inr (x_uuidv4 X (w_uuids w)), w\<lparr>w_uuids := Suc (w_uuids w)\<rparr>)"

definition sign :: "ext \<Rightarrow> crypto_context \<Rightarrow> jwt_spec \<Rightarrow> string io" where
  "sign X ctx spec w = (x_signJwt X ctx spec w, w\<lparr>w_signed := w_signed w @ [spec]\<rparr>)"

text \<open>The http client: \<open>x_fetch\<close> is its answer, \<open>x_wire\<close> what it sends.  The built-in client sends the request
  as it is.\<close>

definition sent :: "ext \<Rightarrow> request \<Rightarrow> world \<Rightarrow> world" where
  "sent X r w = w\<lparr>w_sent := w_sent w @ [r], w_wire := w_wire w @ x_wire X r\<rparr>"

definition fetch :: "ext \<Rightarrow> request \<Rightarrow> response io" where
  "fetch X r w = (x_fetch X r w, sent X r w)"

definition zparse :: "ext \<Rightarrow> schema \<Rightarrow> js \<Rightarrow> js res" where
  "zparse X s v = mapErr new_ZodError (x_zod X s v)"

text \<open>\<open>response.json()\<close>, \<open>response.text()\<close> and \<open>response.ok\<close>.\<close>

definition res_json :: "response \<Rightarrow> js res" where
  "res_json r = (case JSON_parse (res_body r) of Some v \<Rightarrow> Inr v | None \<Rightarrow> Inl SyntaxError)"

definition res_text :: "response \<Rightarrow> string" where
  "res_text r = res_body r"

definition res_ok :: "response \<Rightarrow> bool" where
  "res_ok r = (200 \<le> res_status r \<and> res_status r \<le> 299)"

section \<open>Laws of the computations\<close>

named_theorems io_simps \<open>evaluation of effectful computations\<close>

lemma returnIO_simp [simp, io_simps]: "returnIO x w = (Inr x, w)" by (simp add: returnIO_def)
lemma throwIO_simp [simp, io_simps]: "throwIO e w = (Inl e, w)" by (simp add: throwIO_def)
lemma liftR_simp [simp, io_simps]: "liftR r w = (r, w)" by (simp add: liftR_def)
lemma askIO_simp [simp, io_simps]: "askIO f w = (f w, w)" by (simp add: askIO_def)

lemma bindIO_ok [simp]: "m w = (Inr x, w') \<Longrightarrow> bindIO m f w = f x w'"
  by (simp add: bindIO_def)

lemma bindIO_err [simp]: "m w = (Inl e, w') \<Longrightarrow> bindIO m f w = (Inl e, w')"
  by (simp add: bindIO_def)

lemma bindIO_liftR_Inr [simp]: "bindIO (liftR (Inr x)) f = f x"
  by (rule ext) (simp add: bindIO_def)

lemma bindIO_Inr_iff:
  "bindIO m f w = (Inr y, w'') \<longleftrightarrow> (\<exists>x w'. m w = (Inr x, w') \<and> f x w' = (Inr y, w''))"
  by (auto simp: bindIO_def split: prod.splits sum.splits)

lemma fst_bindIO_Inr:
  "fst (bindIO m f w) = Inr y \<longleftrightarrow> (\<exists>x w'. m w = (Inr x, w') \<and> fst (f x w') = Inr y)"
  by (auto simp: bindIO_def split: prod.splits sum.splits)

lemma catchIO_Inr_iff:
  "catchIO m h w = (Inr y, w'') \<longleftrightarrow>
     m w = (Inr y, w'') \<or> (\<exists>e w'. m w = (Inl e, w') \<and> h e w' = (Inr y, w''))"
  by (auto simp: catchIO_def split: prod.splits sum.splits)

lemma sent_simps [simp]:
  "w_sent (sent X r w) = w_sent w @ [r]" "w_wire (sent X r w) = w_wire w @ x_wire X r"
  "w_signed (sent X r w) = w_signed w" "w_keys (sent X r w) = w_keys w"
  "w_uuids (sent X r w) = w_uuids w" "w_randoms (sent X r w) = w_randoms w"
  by (simp_all add: sent_def)

lemma sign_Inr: "sign X ctx spec w = (Inr t, w') \<longleftrightarrow>
    x_signJwt X ctx spec w = Inr t \<and> w' = w\<lparr>w_signed := w_signed w @ [spec]\<rparr>"
  by (auto simp: sign_def)

section \<open>How much a computation does\<close>

text \<open>\<open>still m\<close>: the computation only looks at the world.  \<open>sends n m\<close>: the requests already sent
  stay at the front of the log, and at most \<open>n\<close> are added.\<close>

definition still :: "'a io \<Rightarrow> bool" where
  "still m \<longleftrightarrow> (\<forall>w. snd (m w) = w)"

definition sends :: "nat \<Rightarrow> 'a io \<Rightarrow> bool" where
  "sends n m \<longleftrightarrow> (\<forall>w. \<exists>rs. w_sent (snd (m w)) = w_sent w @ rs \<and> length rs \<le> n)"

named_theorems effect_intros \<open>effect bounds of composed computations\<close>

lemma sendsI: "(\<And>w. \<exists>rs. w_sent (snd (m w)) = w_sent w @ rs \<and> length rs \<le> n) \<Longrightarrow> sends n m"
  by (simp add: sends_def)

lemma sends_mono: "sends n m \<Longrightarrow> n \<le> k \<Longrightarrow> sends k m"
  unfolding sends_def by (meson order_trans)

lemma still_sends: "still m \<Longrightarrow> sends 0 m"
  by (simp add: still_def sends_def)

lemma still_prims [effect_intros]:
  "still (returnIO x)" "still (throwIO e)" "still (liftR r)" "still (askIO f)"
  by (simp_all add: still_def)

lemma still_bind [effect_intros]:
  assumes "still m" and "\<And>x. still (f x)"
  shows "still (bindIO m f)"
  unfolding still_def
proof
  fix w
  have "snd (m w) = w" using assms(1) by (simp add: still_def)
  moreover have "snd (f x w) = w" for x using assms(2) [of x] by (simp add: still_def)
  ultimately show "snd (bindIO m f w) = w"
    by (auto simp: bindIO_def split: prod.splits sum.splits)
qed

lemma still_world: "still m \<Longrightarrow> m w = (r, w') \<Longrightarrow> w' = w"
  unfolding still_def by (metis snd_conv)

lemma sends_bind:
  assumes "sends n m" and "\<And>x. sends k (f x)"
  shows "sends (n + k) (bindIO m f)"
proof (rule sendsI)
  fix w
  obtain rs where rs: "w_sent (snd (m w)) = w_sent w @ rs" "length rs \<le> n"
    using assms(1) unfolding sends_def by blast
  show "\<exists>qs. w_sent (snd (bindIO m f w)) = w_sent w @ qs \<and> length qs \<le> n + k"
  proof (cases "fst (m w)")
    case (Inl e)
    then have "bindIO m f w = (Inl e, snd (m w))" by (cases "m w") (simp add: bindIO_def)
    with rs show ?thesis by auto
  next
    case (Inr x)
    then have b: "bindIO m f w = f x (snd (m w))" by (cases "m w") (simp add: bindIO_def)
    obtain qs where qs: "w_sent (snd (f x (snd (m w)))) = w_sent (snd (m w)) @ qs" "length qs \<le> k"
      using assms(2) [of x] unfolding sends_def by blast
    with rs b have "w_sent (snd (bindIO m f w)) = w_sent w @ (rs @ qs)" by simp
    moreover from rs(2) qs(2) have "length (rs @ qs) \<le> n + k" by simp
    ultimately show ?thesis by blast
  qed
qed

lemma sends_catch:
  assumes "sends n m" and "\<And>e. sends k (h e)"
  shows "sends (n + k) (catchIO m h)"
proof (rule sendsI)
  fix w
  obtain rs where rs: "w_sent (snd (m w)) = w_sent w @ rs" "length rs \<le> n"
    using assms(1) unfolding sends_def by blast
  show "\<exists>qs. w_sent (snd (catchIO m h w)) = w_sent w @ qs \<and> length qs \<le> n + k"
  proof (cases "fst (m w)")
    case (Inr x)
    then have "catchIO m h w = (Inr x, snd (m w))" by (cases "m w") (simp add: catchIO_def)
    with rs show ?thesis by auto
  next
    case (Inl e)
    then have b: "catchIO m h w = h e (snd (m w))" by (cases "m w") (simp add: catchIO_def)
    obtain qs where qs: "w_sent (snd (h e (snd (m w)))) = w_sent (snd (m w)) @ qs" "length qs \<le> k"
      using assms(2) [of e] unfolding sends_def by blast
    with rs b have "w_sent (snd (catchIO m h w)) = w_sent w @ (rs @ qs)" by simp
    moreover from rs(2) qs(2) have "length (rs @ qs) \<le> n + k" by simp
    ultimately show ?thesis by blast
  qed
qed

lemma sends_uuidv4: "sends 0 (uuidv4 X)"
  by (simp add: sends_def uuidv4_def)

lemma sends_sign: "sends 0 (sign X ctx spec)"
  by (simp add: sends_def sign_def)

lemma sends_fetch: "sends 1 (fetch X r)"
  by (auto simp: sends_def fetch_def)

text \<open>Sequencing in which only the second part, or only the first, may send.\<close>

lemma sends_bind0: "sends 0 m \<Longrightarrow> (\<And>x. sends k (f x)) \<Longrightarrow> sends k (bindIO m f)"
  using sends_bind [of 0 m k f] by simp

lemma sends_bind_still: "sends n m \<Longrightarrow> (\<And>x. sends 0 (f x)) \<Longrightarrow> sends n (bindIO m f)"
  using sends_bind [of n m 0 f] by simp

text \<open>\<open>once_sent m Q\<close>: whenever the computation has sent a request, its outcome satisfies \<open>Q\<close>.\<close>

definition once_sent :: "'a io \<Rightarrow> ('a res \<Rightarrow> bool) \<Rightarrow> bool" where
  "once_sent m Q \<longleftrightarrow> (\<forall>w. w_sent (snd (m w)) \<noteq> w_sent w \<longrightarrow> Q (fst (m w)))"

lemma sends0_sent: "sends 0 m \<Longrightarrow> w_sent (snd (m w)) = w_sent w"
  unfolding sends_def by (metis append_Nil2 le_zero_eq length_0_conv)

lemma once_sent_quiet: "sends 0 m \<Longrightarrow> once_sent m Q"
  by (simp add: once_sent_def sends0_sent)

lemma once_sent_if: "once_sent m Q \<Longrightarrow> once_sent n Q \<Longrightarrow> once_sent (if b then m else n) Q"
  by simp

lemma once_sent_bind:
  assumes "sends 0 m" and "\<And>x. once_sent (f x) Q"
  shows "once_sent (bindIO m f) Q"
  unfolding once_sent_def
proof (intro allI impI)
  fix w assume ne: "w_sent (snd (bindIO m f w)) \<noteq> w_sent w"
  show "Q (fst (bindIO m f w))"
  proof (cases "m w")
    case (Pair r w')
    with sends0_sent [OF assms(1), of w] have "w_sent w' = w_sent w" by simp
    with ne Pair assms(2) show ?thesis
      by (cases r) (auto simp: bindIO_def once_sent_def)
  qed
qed

lemma once_sentD: "once_sent m Q \<Longrightarrow> w_sent (snd (m w)) \<noteq> w_sent w \<Longrightarrow> Q (fst (m w))"
  by (simp add: once_sent_def)

end
