(* ===== verification/Misc_Utils.thy ===== *)
theory Misc_Utils
  imports Externals
begin

text \<open>
  \<open>src/utils/misc.ts\<close> and \<open>src/utils/string.ts\<close>: the status guard every request goes through, the
  reading of response bodies, random strings, the hash of a credential without its disclosures,
  tolerant JSON parsing and the obfuscation of document numbers.
\<close>

section \<open>Responses\<close>

definition parseRawHttpResponse :: "response \<Rightarrow> js res" where
  "parseRawHttpResponse r =
     (if (case res_ctype r of Some t \<Rightarrow> str_includes ''application/json'' t | None \<Rightarrow> False)
      then res_json r else Inr (Str (res_text r)))"

text \<open>The second argument is the constructor of the error: \<open>customError ?? UnexpectedStatusCodeError\<close>.\<close>

definition hasStatusOrThrow :: "nat \<Rightarrow> (props \<Rightarrow> js_error) \<Rightarrow> response \<Rightarrow> response res" where
  "hasStatusOrThrow status customError r =
     (if res_status r \<noteq> status then
        bindR (parseRawHttpResponse r) (\<lambda>reason. Inl (customError
          [(''message'', Str (''Http request failed. Expected '' @ nat_str status @ '', got ''
              @ nat_str (res_status r) @ '', url: '' @ res_url r)),
           (''statusCode'', Num (of_nat (res_status r))),
           (''reason'', reason)]))
      else Inr r)"

section \<open>Random strings, hashes, JSON\<close>

text \<open>\<open>n.toString(36)\<close> of an integer.\<close>

definition digit36 :: "nat \<Rightarrow> char" where
  "digit36 d = char_of (if d < 10 then 48 + d else 87 + d)"

fun nat_base36 :: "nat \<Rightarrow> string" where
  "nat_base36 n = (if n < 36 then [digit36 n] else nat_base36 (n div 36) @ [digit36 (n mod 36)])"

declare nat_base36.simps [simp del]

definition int_base36 :: "int \<Rightarrow> string" where
  "int_base36 i = (if i < 0 then CHR ''-'' # nat_base36 (nat (- i)) else nat_base36 (nat i))"

definition generateRandomAlphaNumericString :: "ext \<Rightarrow> nat \<Rightarrow> string io" where
  "generateRandomAlphaNumericString X sz w =
     (Inr (concat (map (\<lambda>i. int_base36 \<lfloor>x_random X (w_randoms w + i) * 36\<rfloor>) [0..<sz])),
      w\<lparr>w_randoms := w_randoms w + sz\<rparr>)"

definition getCredentialHashWithouDiscloures :: "ext \<Rightarrow> string \<Rightarrow> string res" where
  "getCredentialHashWithouDiscloures X credential =
     (case index_of (CHR ''~'') credential of
        None \<Rightarrow> Inl (new_IoWalletError ''Invalid credential format'')
      | Some tildeIndex \<Rightarrow> Inr (x_sha256 X (take tildeIndex credential)))"

definition safeJsonParse :: "string \<Rightarrow> js \<Rightarrow> js" where
  "safeJsonParse t withDefault =
     (case JSON_parse t of Some v \<Rightarrow> v | None \<Rightarrow> nullish withDefault Null)"

section \<open>Obfuscation\<close>

text \<open>The characters are of any type (UTF-16 code units in the program).  \<open>randSort\<close> is what
  \<open>Array.prototype.sort\<close> returns for the random comparator: some permutation of the positions.\<close>

definition charsToObfuscate :: "nat \<Rightarrow> rat \<Rightarrow> nat" where
  "charsToObfuscate len percentage =
     nat \<lfloor>(of_nat len * max 0 (min 100 percentage)) / 100\<rfloor>"

definition obfuscateString :: "(nat list \<Rightarrow> nat list) \<Rightarrow> 'c list \<Rightarrow> rat \<Rightarrow> 'c list \<Rightarrow> 'c list" where
  "obfuscateString randSort val percentage obfuscatedChar =
     (if val = [] then []
      else concat (fold (\<lambda>pos chars. chars[pos := obfuscatedChar])
        (take (charsToObfuscate (length val) percentage) (randSort [0..<length val]))
        (map (\<lambda>c. [c]) val)))"

section \<open>The status guard\<close>

lemma hasStatusOrThrow_Inr_iff:
  "hasStatusOrThrow n E r = Inr r' \<longleftrightarrow> res_status r = n \<and> r' = r"
  by (auto simp: hasStatusOrThrow_def res_simps)

lemma hasStatusOrThrow_fails:
  assumes "res_status r \<noteq> n" and "parseRawHttpResponse r = Inr reason"
  shows "hasStatusOrThrow n E r = Inl (E
     [(''message'', Str (''Http request failed. Expected '' @ nat_str n @ '', got ''
         @ nat_str (res_status r) @ '', url: '' @ res_url r)),
      (''statusCode'', Num (of_nat (res_status r))), (''reason'', reason)])"
  using assms by (simp add: hasStatusOrThrow_def)

lemma parseRaw_text:
  "\<not> (case res_ctype r of Some t \<Rightarrow> str_includes ''application/json'' t | None \<Rightarrow> False) \<Longrightarrow>
    parseRawHttpResponse r = Inr (Str (res_body r))"
  by (simp add: parseRawHttpResponse_def res_text_def)

lemma parseRaw_error: "parseRawHttpResponse r = Inl e \<Longrightarrow> e = SyntaxError \<and>
    JSON_parse (res_body r) = None"
  by (auto simp: parseRawHttpResponse_def res_json_def split: if_splits option.splits)

section \<open>Random strings\<close>

lemma nat_base36_small: "n < 36 \<Longrightarrow> nat_base36 n = [digit36 n]"
  by (simp add: nat_base36.simps)

definition alphanumeric :: "char \<Rightarrow> bool" where
  "alphanumeric c = ((48 \<le> (of_char c :: nat) \<and> (of_char c :: nat) \<le> 57) \<or>
     (97 \<le> (of_char c :: nat) \<and> (of_char c :: nat) \<le> 122))"

lemma digit36_alphanumeric: "d < 36 \<Longrightarrow> alphanumeric (digit36 d)"
  by (auto simp: digit36_def alphanumeric_def)

lemma random_digit:
  assumes "0 \<le> (q :: rat)" and "q < 1"
  shows "\<exists>d < 36. int_base36 \<lfloor>q * 36\<rfloor> = [digit36 d]"
proof -
  have "0 \<le> \<lfloor>q * 36\<rfloor>" and "\<lfloor>q * 36\<rfloor> < 36" using assms by (simp_all add: floor_less_iff)
  then have "nat \<lfloor>q * 36\<rfloor> < 36" and "\<not> \<lfloor>q * 36\<rfloor> < 0" by linarith+
  then show ?thesis using nat_base36_small by (auto simp: int_base36_def)
qed

lemma concat_singletons:
  assumes "\<And>i. i \<in> set xs \<Longrightarrow> \<exists>c. f i = [c] \<and> P c"
  shows "length (concat (map f xs)) = length xs \<and> list_all P (concat (map f xs))"
  using assms
proof (induction xs)
  case (Cons x xs)
  from Cons.prems [of x] obtain c where "f x = [c]" "P c" by auto
  with Cons show ?case by simp
qed simp

lemma generateRandomAlphaNumericString_spec:
  assumes "\<And>i. 0 \<le> x_random X i \<and> x_random X i < 1"
  shows "\<exists>s w'. generateRandomAlphaNumericString X sz w = (Inr s, w') \<and> length s = sz
    \<and> list_all alphanumeric s \<and> w' = w\<lparr>w_randoms := w_randoms w + sz\<rparr>"
proof -
  have "\<exists>c. int_base36 \<lfloor>x_random X (w_randoms w + i) * 36\<rfloor> = [c] \<and> alphanumeric c" for i
    using random_digit [of "x_random X (w_randoms w + i)"] assms digit36_alphanumeric by blast
  from concat_singletons [of "[0..<sz]", OF this]
  show ?thesis by (simp add: generateRandomAlphaNumericString_def)
qed

section \<open>Hashes\<close>

lemma take_index_of: "index_of c (s @ c # t) = Some i \<Longrightarrow> c \<notin> set s \<Longrightarrow> take i (s @ c # t) = s"
proof (induction s arbitrary: i)
  case (Cons x s)
  then show ?case by (auto split: if_splits)
qed simp

lemma hash_of_parts:
  assumes "CHR ''~'' \<notin> set s"
  shows "getCredentialHashWithouDiscloures X (s @ CHR ''~'' # t) = Inr (x_sha256 X s)"
proof -
  obtain i where i: "index_of (CHR ''~'') (s @ CHR ''~'' # t) = Some i"
    using index_of_ex [of "CHR ''~''" "s @ CHR ''~'' # t"] by auto
  with take_index_of [OF i assms] show ?thesis by (simp add: getCredentialHashWithouDiscloures_def)
qed

section \<open>Obfuscation\<close>

lemma fold_update_spec:
  assumes "\<And>p. p \<in> set ps \<Longrightarrow> p < length xs"
  shows "length (fold (\<lambda>p c. c[p := v]) ps xs) = length xs \<and>
    (\<forall>i < length xs. fold (\<lambda>p c. c[p := v]) ps xs ! i = (if i \<in> set ps then v else xs ! i))"
  using assms
proof (induction ps arbitrary: xs)
  case (Cons p ps)
  then have "\<And>q. q \<in> set ps \<Longrightarrow> q < length (xs[p := v])" by simp
  from Cons.IH [OF this] Cons.prems show ?case by (auto simp: nth_list_update)
qed simp

lemma charsToObfuscate_le: "charsToObfuscate n p \<le> n"
proof -
  have "(of_nat n * max 0 (min 100 p)) / 100 \<le> (of_nat n * 100) / (100 :: rat)"
    by (intro divide_right_mono mult_left_mono) auto
  then have "(of_nat n * max 0 (min 100 p)) / 100 \<le> (of_nat n :: rat)" by simp
  then have "\<lfloor>(of_nat n * max 0 (min 100 p)) / 100\<rfloor> \<le> int n"
    by (simp add: floor_le_iff)
  then show ?thesis by (simp add: charsToObfuscate_def)
qed

text \<open>With a one-character filler the result replaces exactly the first positions of the
  permutation and keeps every other character.\<close>

lemma obfuscateString_nth:
  assumes perm: "mset (randSort [0..<length val]) = mset [0..<length val]"
  shows "length (obfuscateString randSort val p [f]) = length val \<and>
    (\<forall>i < length val. obfuscateString randSort val p [f] ! i =
      (if i \<in> set (take (charsToObfuscate (length val) p) (randSort [0..<length val]))
       then f else val ! i))"
proof (cases "val = []")
  case True
  then show ?thesis by (simp add: obfuscateString_def)
next
  case False
  let ?ps = "take (charsToObfuscate (length val) p) (randSort [0..<length val])"
  let ?r = "fold (\<lambda>pos chars. chars[pos := [f]]) ?ps (map (\<lambda>c. [c]) val)"
  have "set (randSort [0..<length val]) = {0..<length val}"
    using mset_eq_setD [OF perm] by simp
  then have ps: "\<And>q. q \<in> set ?ps \<Longrightarrow> q < length (map (\<lambda>c. [c]) val)"
    using set_take_subset by fastforce
  note r = fold_update_spec [of ?ps "map (\<lambda>c. [c]) val" "[f]", OF ps]
  then have "?r = map (\<lambda>i. [if i \<in> set ?ps then f else val ! i]) [0..<length val]"
    by (intro nth_equalityI) auto
  then have "concat ?r = map (\<lambda>i. if i \<in> set ?ps then f else val ! i) [0..<length val]"
    by (simp add: concat_map_singleton)
  with False show ?thesis by (simp add: obfuscateString_def)
qed

lemma obfuscateString_count:
  assumes perm: "mset (randSort [0..<length val]) = mset [0..<length val]"
  shows "card {i. i < length val \<and>
      i \<in> set (take (charsToObfuscate (length val) p) (randSort [0..<length val]))} =
    charsToObfuscate (length val) p"
proof -
  let ?s = "randSort [0..<length val]"
  have "distinct ?s" and len: "length ?s = length val" and st: "set ?s = {0..<length val}"
    using perm mset_eq_imp_distinct_iff [OF perm] mset_eq_length [OF perm] mset_eq_setD [OF perm]
    by simp_all
  then have "distinct (take (charsToObfuscate (length val) p) ?s)" by simp
  then have "card (set (take (charsToObfuscate (length val) p) ?s)) =
      charsToObfuscate (length val) p"
    using len charsToObfuscate_le [of "length val" p] by (simp add: distinct_card)
  moreover have "{i. i < length val \<and> i \<in> set (take (charsToObfuscate (length val) p) ?s)} =
      set (take (charsToObfuscate (length val) p) ?s)"
    using st set_take_subset by fastforce
  ultimately show ?thesis by simp
qed

end
