(* ===== verification/Keys.thy ===== *)
theory Keys
  imports Misc_Utils
begin

text \<open>
  Keys and the proofs of possession made with them: \<open>src/utils/jwk.ts\<close>, \<open>src/utils/crypto.ts\<close>,
  \<open>src/utils/pop.ts\<close> and \<open>src/utils/dpop.ts\<close>.
\<close>

section \<open>JSON Web Keys\<close>

definition opt_strings :: "string list \<Rightarrow> (string \<times> schema) list" where
  "opt_strings ks = map (\<lambda>k. (k, ZOptional ZString)) ks"

definition JWK :: schema where
  "JWK = ZObject
     (opt_strings [''alg'', ''crv'', ''d'', ''dp'', ''dq'', ''e'']
      @ [(''ext'', ZOptional ZBoolean), (''k'', ZOptional ZString),
         (''key_ops'', ZOptional (ZArray ZString)), (''kid'', ZOptional ZString),
         (''kty'', ZUnion [ZLiteral ''RSA'', ZLiteral ''EC''])]
      @ opt_strings [''n'', ''p'', ''q'', ''qi'', ''use'', ''x'', ''y'']
      @ [(''x5c'', ZOptional (ZArray ZString))]
      @ opt_strings [''x5t'', ''x5t#S256'', ''x5u''])"

text \<open>\<open>...(x ? {x: removePadding(x)} : {})\<close>; the package's function is one on strings.\<close>

definition unpadded :: "ext \<Rightarrow> props \<Rightarrow> string \<Rightarrow> props res" where
  "unpadded X key k = (if truthy (pget key k)
     then bindR (js_str (pget key k)) (\<lambda>s. Inr [(k, Str (x_removePadding X s))])
     else Inr [])"

text \<open>Defined on objects; the parameter's type excludes every other value.\<close>

definition fixBase64EncodingOnKey :: "ext \<Rightarrow> js \<Rightarrow> js res" where
  "fixBase64EncodingOnKey X key = (case key of
      Obj kvs \<Rightarrow>
        bindR (unpadded X kvs ''x'') (\<lambda>x.
        bindR (unpadded X kvs ''y'') (\<lambda>y.
        bindR (unpadded X kvs ''e'') (\<lambda>e.
        bindR (unpadded X kvs ''n'') (\<lambda>n.
          Inr (Obj (pspread (pspread (pspread (pspread
            (pdel [''x'', ''y'', ''e'', ''n''] kvs) x) y) e) n))))))
    | _ \<Rightarrow> Inl TypeError)"

section \<open>Crypto contexts\<close>

definition createCryptoContextFor :: "ext \<Rightarrow> string \<Rightarrow> crypto_context" where
  "createCryptoContextFor X keytag = \<lparr>
     getPublicKey = (\<lambda>w.
       bindR (x_keyPublic X keytag w) (\<lambda>key.
       bindR (fixBase64EncodingOnKey X key) (\<lambda>jwk.
       bindR (x_thumbprint X jwk) (\<lambda>t.
         case jwk of Obj kvs \<Rightarrow> Inr (Obj (pset kvs ''kid'' (Str t))) | _ \<Rightarrow> Inl TypeError)))),
     getSignature = (\<lambda>value w. x_keySign X value keytag w)\<rparr>"

text \<open>The key store of the device: \<open>generate\<close> and \<open>deleteKey\<close> of io-react-native-crypto.\<close>

definition generate :: "ext \<Rightarrow> string \<Rightarrow> unit io" where
  "generate X keytag w = (case x_keyGenerate X keytag w of
      Inl e \<Rightarrow> (Inl e, w)
    | Inr u \<Rightarrow> (Inr u, w\<lparr>w_keys := keytag # w_keys w\<rparr>))"

definition deleteKey :: "ext \<Rightarrow> string \<Rightarrow> unit io" where
  "deleteKey X keytag w = (case x_keyDelete X keytag w of
      Inl e \<Rightarrow> (Inl e, w)
    | Inr u \<Rightarrow> (Inr u, w\<lparr>w_keys := removeAll keytag (w_keys w)\<rparr>))"

definition withEphemeralKey :: "ext \<Rightarrow> (crypto_context \<Rightarrow> 'r io) \<Rightarrow> 'r io" where
  "withEphemeralKey X fn =
     bindIO (uuidv4 X) (\<lambda>u.
       let keytag = ''ephemeral-'' @ u in
       bindIO (generate X keytag) (\<lambda>_.
       let ephemeralContext = createCryptoContextFor X keytag in
       finallyIO (fn ephemeralContext) (deleteKey X keytag)))"

section \<open>Proofs of possession\<close>

definition PoPPayload :: schema where
  "PoPPayload = ZObject [(''jti'', ZString), (''aud'', ZString), (''iss'', ZString)]"

definition DPoPPayload :: schema where
  "DPoPPayload = ZObject [(''jti'', ZString), (''htm'', ZUnion [ZLiteral ''POST'', ZLiteral ''GET'']),
     (''htu'', ZString), (''ath'', ZOptional ZString)]"

definition createPopToken :: "ext \<Rightarrow> props \<Rightarrow> crypto_context \<Rightarrow> string io" where
  "createPopToken X payload crypto =
     bindIO (askIO (getPublicKey crypto)) (\<lambda>jwk.
     bindIO (liftR (js_get jwk ''kid'')) (\<lambda>kid.
     sign X crypto (SignJWT [(''typ'', Str ''jwt-client-attestation-pop''), (''kid'', kid)]
       payload (Str ''5min''))))"

definition createDPopToken :: "ext \<Rightarrow> props \<Rightarrow> crypto_context \<Rightarrow> string io" where
  "createDPopToken X payload crypto =
     bindIO (askIO (getPublicKey crypto)) (\<lambda>jwk.
     sign X crypto (SignJWT [(''typ'', Str ''dpop+jwt''), (''jwk'', jwk)] payload (Str ''1h'')))"

section \<open>Base64url values of keys\<close>

definition unpadded_value :: "ext \<Rightarrow> props \<Rightarrow> string \<Rightarrow> js" where
  "unpadded_value X kvs k =
     (case pget kvs k of Str s \<Rightarrow> if s = [] then Undef else Str (x_removePadding X s) | _ \<Rightarrow> Undef)"

lemma unpadded_ok: "unpadded X kvs k = Inr d \<Longrightarrow>
    d = (if unpadded_value X kvs k = Undef then [] else [(k, unpadded_value X kvs k)])"
  by (auto simp: unpadded_def unpadded_value_def js_str_def truthy_def res_simps split: if_splits js.splits)

lemma unpadded_total: "pget kvs k = Undef \<or> (\<exists>s. pget kvs k = Str s) \<Longrightarrow>
    \<exists>d. unpadded X kvs k = Inr d"
  by (auto simp: unpadded_def js_str_def truthy_def)

lemma pget_pspread_unpadded: "unpadded X kvs k = Inr d \<Longrightarrow> pget (pspread a d) j =
    (if j = k \<and> unpadded_value X kvs k \<noteq> Undef then unpadded_value X kvs k else pget a j)"
  by (drule unpadded_ok) (simp add: pget_pset)

text \<open>Every field but the four coordinates is kept, and those are rewritten or dropped.\<close>

lemma fixBase64_fields:
  assumes "fixBase64EncodingOnKey X (Obj kvs) = Inr r"
  shows "\<exists>out. r = Obj out \<and> (\<forall>k. pget out k =
    (if k \<in> {''x'', ''y'', ''e'', ''n''} then unpadded_value X kvs k else pget kvs k))"
proof -
  from assms obtain x y e n where u: "unpadded X kvs ''x'' = Inr x" "unpadded X kvs ''y'' = Inr y"
      "unpadded X kvs ''e'' = Inr e" "unpadded X kvs ''n'' = Inr n"
    and r: "r = Obj (pspread (pspread (pspread (pspread
            (pdel [''x'', ''y'', ''e'', ''n''] kvs) x) y) e) n)"
    by (auto simp: fixBase64EncodingOnKey_def res_simps)
  show ?thesis
    unfolding r using u [THEN pget_pspread_unpadded] by simp
qed

lemma fixBase64_total:
  assumes "\<And>k. k \<in> {''x'', ''y'', ''e'', ''n''} \<Longrightarrow> pget kvs k = Undef \<or> (\<exists>s. pget kvs k = Str s)"
  shows "\<exists>r. fixBase64EncodingOnKey X (Obj kvs) = Inr r"
proof -
  have "\<exists>d. unpadded X kvs k = Inr d" if "k \<in> {''x'', ''y'', ''e'', ''n''}" for k
    by (rule unpadded_total [OF assms [OF that]])
  then obtain x y e n where "unpadded X kvs ''x'' = Inr x" "unpadded X kvs ''y'' = Inr y"
      "unpadded X kvs ''e'' = Inr e" "unpadded X kvs ''n'' = Inr n" by (metis insertI1 insertI2)
  then show ?thesis by (simp add: fixBase64EncodingOnKey_def)
qed

section \<open>The ephemeral key\<close>

lemma deleteKey_removes: "deleteKey X tag w = (Inr u, w') \<Longrightarrow> tag \<notin> set (w_keys w')"
  by (auto simp: deleteKey_def split: sum.splits)

lemma finallyIO_world:
  assumes "finallyIO m f w = (r, w'')"
  shows "\<exists>r' w' u. m w = (r', w') \<and> f w' = (u, w'')"
  using assms by (auto simp: finallyIO_def split: prod.splits sum.splits)

lemma finallyIO_ok: "f (snd (m w)) = (Inr u, w'') \<Longrightarrow> finallyIO m f w = (fst (m w), w'')"
  by (cases "m w") (simp add: finallyIO_def)

end
