(* ===== verification/Sd_Jwt.thy ===== *)
theory Sd_Jwt
  imports Keys
begin

text \<open>
  SD-JWT credentials: \<open>src/sd-jwt/{index,types,verifier,converters}.ts\<close>.  A token is
  \<open>jwt~disclosure~...~disclosure\<close>; each disclosure is the base64 text of a JSON triple
  \<open>[salt, name, value]\<close> whose digest the signed token lists in \<open>_sd\<close>.
\<close>

section \<open>Schemas and data\<close>

definition UnixTime :: schema where
  "UnixTime = ZNumber (Some 0) (Some 2147483647000)"

definition ObfuscatedDisclosures :: schema where
  "ObfuscatedDisclosures = ZObject [(''_sd'', ZArray ZString)]"

definition Disclosure :: schema where
  "Disclosure = ZTuple [ZString, ZString, ZUnknown]"

definition SdJwt4VC :: schema where
  "SdJwt4VC = ZObject
     [(''header'', ZObject [(''typ'', ZLiteral ''vc+sd-jwt''), (''alg'', ZString),
         (''kid'', ZOptional ZString)]),
      (''payload'', ZAnd
        (ZObject [(''iss'', ZString), (''sub'', ZString), (''iat'', ZOptional UnixTime),
           (''exp'', UnixTime), (''_sd_alg'', ZLiteral ''sha-256''),
           (''status'', ZObject [(''status_attestation'',
              ZObject [(''credential_hash_alg'', ZLiteral ''sha-256'')])]),
           (''cnf'', ZObject [(''jwk'', JWK)]),
           (''vct'', ZString)])
        ObfuscatedDisclosures)]"

record disclosure_with_encoded =
  decoded :: js
  encoded :: string

record decoded_sd_jwt =
  sdJwt :: js
  disclosures :: "disclosure_with_encoded list"

record verified_sd_jwt =
  v_sdJwt :: js
  v_disclosures :: "js list"

text \<open>The \<open>i\<close>-th component of a destructured triple.\<close>

definition component :: "js \<Rightarrow> nat \<Rightarrow> js" where
  "component d i = (case d of Arr vs \<Rightarrow> if i < length vs then vs ! i else Undef | _ \<Rightarrow> Undef)"

abbreviation claim_name :: "js \<Rightarrow> js" where
  "claim_name d \<equiv> component d 1"

section \<open>Decoding\<close>

definition JSON_parseR :: "string \<Rightarrow> js res" where
  "JSON_parseR s = (case JSON_parse s of Some v \<Rightarrow> Inr v | None \<Rightarrow> Inl SyntaxError)"

definition decodeDisclosure :: "ext \<Rightarrow> string \<Rightarrow> disclosure_with_encoded res" where
  "decodeDisclosure X enc =
     bindR (JSON_parseR (x_Base64_decode X enc)) (\<lambda>v.
     bindR (zparse X Disclosure v) (\<lambda>d. Inr \<lparr>decoded = d, encoded = enc\<rparr>))"

text \<open>\<open>if (token.slice(-1) === "~") token = token.slice(0, -1)\<close>\<close>

definition strip_tilde :: "string \<Rightarrow> string" where
  "strip_tilde token = (if token \<noteq> [] \<and> last token = CHR ''~'' then butlast token else token)"

definition jwt_object :: "jwt \<Rightarrow> js" where
  "jwt_object j = Obj [(''header'', protectedHeader j), (''payload'', jwt_payload j)]"

definition decode :: "ext \<Rightarrow> string \<Rightarrow> schema option \<Rightarrow> decoded_sd_jwt res" where
  "decode X token customSchema =
     (let pieces = split_on (CHR ''~'') (strip_tilde token);
          rawSdJwt = hd pieces; rawDisclosures = tl pieces
      in bindR (x_decodeJwt X rawSdJwt) (\<lambda>decodedJwt.
         bindR (zparse X (case customSchema of Some s \<Rightarrow> s | None \<Rightarrow> SdJwt4VC) (jwt_object decodedJwt))
           (\<lambda>sd.
         bindR (mapR (decodeDisclosure X) rawDisclosures) (\<lambda>ds.
           Inr \<lparr>sdJwt = sd, disclosures = ds\<rparr>))))"

section \<open>Selective disclosure\<close>

definition find_disclosure ::
  "disclosure_with_encoded list \<Rightarrow> string \<Rightarrow> disclosure_with_encoded option" where
  "find_disclosure ds claim = find (\<lambda>d. claim_name (decoded d) = Str claim) ds"

text \<open>The two parts of the mapped \<open>async\<close> function: before its first \<open>await\<close> it looks the claim up
  (so a missing disclosure rejects before any digest is known), after it the digest.\<close>

definition lookup_claim :: "disclosure_with_encoded list \<Rightarrow> string \<Rightarrow>
    (string \<times> disclosure_with_encoded) res" where
  "lookup_claim ds claim = (case find_disclosure ds claim of
      None \<Rightarrow> Inl (new_ClaimsNotFoundBetweenDisclosures [claim])
    | Some d \<Rightarrow> Inr (claim, d))"

definition sd_path :: "nat \<Rightarrow> string" where
  "sd_path index = ''verified_claims.claims._sd['' @ nat_str index @ '']''"

definition locate_claim :: "ext \<Rightarrow> js \<Rightarrow> string \<times> disclosure_with_encoded \<Rightarrow>
    (string \<times> string) res" where
  "locate_claim X sd cd =
     (let hash = x_sha256ToBase64 X (encoded (snd cd)) in
      bindR (js_path sd [''payload'', ''_sd'']) (\<lambda>v.
      bindR (js_elems v) (\<lambda>hashes.
      case index_of (Str hash) hashes of
        Some index \<Rightarrow> Inr (fst cd, sd_path index)
      | None \<Rightarrow> Inl (new_ClaimsNotFoundInToken [fst cd]))))"

definition names_requested_claim :: "ext \<Rightarrow> string list \<Rightarrow> string \<Rightarrow> bool res" where
  "names_requested_claim X claims d = bindR (decodeDisclosure X d) (\<lambda>dd.
     Inr (claim_name (decoded dd) \<in> set (map Str claims)))"

record disclosed =
  d_token :: string
  d_paths :: "(string \<times> string) list"

definition disclose :: "ext \<Rightarrow> string \<Rightarrow> string list \<Rightarrow> disclosed res" where
  "disclose X token claims =
     (let pieces = split_on (CHR ''~'') token; rawSdJwt = hd pieces; rawDisclosures = tl pieces in
      bindR (decode X token (Some SdJwt4VC)) (\<lambda>dec.
      bindR (mapR (lookup_claim (disclosures dec)) claims) (\<lambda>found.
      bindR (mapR (locate_claim X (sdJwt dec)) found) (\<lambda>paths.
      bindR (filterR (names_requested_claim X claims) rawDisclosures) (\<lambda>filteredDisclosures.
      Inr \<lparr>d_token = join_with ''~'' (rawSdJwt # filteredDisclosures), d_paths = paths\<rparr>)))))"

section \<open>Verification\<close>

definition verifyDisclosure :: "ext \<Rightarrow> js list \<Rightarrow> disclosure_with_encoded \<Rightarrow> unit res" where
  "verifyDisclosure X claims d =
     (if Str (x_sha256ToBase64 X (encoded d)) \<notin> set claims
      then Inl (new_ValidationFailed ''Validation of disclosure failed'' (Some (to_str (decoded d)))
             (Some ''Disclosure hash not found in claims''))
      else Inr ())"

definition verify :: "ext \<Rightarrow> string \<Rightarrow> js \<Rightarrow> schema option \<Rightarrow> verified_sd_jwt io" where
  "verify X token publicKey customSchema =
     bindIO (liftR (decode X token customSchema)) (\<lambda>dec.
     bindIO (askIO (x_verifyJwt X (hd (split_on (CHR ''~'') token)) publicKey)) (\<lambda>_.
     bindIO (liftR (bindR (js_path (sdJwt dec) [''payload'', ''_sd'']) js_elems)) (\<lambda>claims.
     bindIO (liftR (mapR (verifyDisclosure X claims) (disclosures dec))) (\<lambda>_.
     returnIO \<lparr>v_sdJwt = sdJwt dec, v_disclosures = map decoded (disclosures dec)\<rparr>))))"

definition getValueFromDisclosures :: "js list \<Rightarrow> string \<Rightarrow> js" where
  "getValueFromDisclosures ds claimName =
     (let value = (case find (\<lambda>d. claim_name d = Str claimName) ds of
                     None \<Rightarrow> Undef | Some d \<Rightarrow> component d 2)
      in if \<not> truthy value then Undef
         else case value of
             Str s \<Rightarrow> (case JSON_parse s of Some v \<Rightarrow> v | None \<Rightarrow> value)
           | _ \<Rightarrow> value)"

section \<open>Tokens and their pieces\<close>

lemma strip_tilde_snoc [simp]: "strip_tilde (s @ ''~'') = s"
  by (simp add: strip_tilde_def)

lemma hd_append_ne: "xs \<noteq> [] \<Longrightarrow> hd (xs @ ys) = hd xs"
  by (cases xs) auto

lemma strip_tilde_cases:
  obtains (plain) "strip_tilde t = t" | (tilde) s where "t = s @ ''~''" "strip_tilde t = s"
  by (metis append_butlast_last_id strip_tilde_def)

lemma hd_split_strip: "hd (split_on (CHR ''~'') (strip_tilde t)) = hd (split_on (CHR ''~'') t)"
proof (cases t rule: strip_tilde_cases)
  case (tilde s)
  then show ?thesis using split_on_append_sep [of "CHR ''~''" s "[]"] by (simp add: hd_append_ne)
qed simp

lemma strip_tilde_pieces:
  assumes "split_on (CHR ''~'') t = raw # ds" and "[] \<notin> set ds"
  shows "strip_tilde t = t"
proof (cases t rule: strip_tilde_cases)
  case (tilde s)
  then have "raw # ds = split_on (CHR ''~'') s @ [[]]"
    using assms(1) split_on_append_sep [of "CHR ''~''" s "[]"] by simp
  then have "[] \<in> set ds" by (cases "split_on (CHR ''~'') s") auto
  with assms(2) show ?thesis by simp
qed

lemma mapR_filter:
  assumes "mapR f xs = Inr ys" and "\<And>x y. x \<in> set xs \<Longrightarrow> f x = Inr y \<Longrightarrow> P x = Q y"
  shows "mapR f (filter P xs) = Inr (filter Q ys)"
  using assms
proof (induction xs arbitrary: ys)
  case (Cons x xs)
  then obtain y zs where "f x = Inr y" "mapR f xs = Inr zs" "ys = y # zs" by (auto simp: res_simps)
  with Cons show ?case by auto
qed simp

lemma decodeDisclosure_encoded: "decodeDisclosure X e = Inr d \<Longrightarrow> encoded d = e"
  by (auto simp: decodeDisclosure_def res_simps)

lemma decodeDisclosure_empty:
  assumes "x_Base64_decode X [] = []"
  shows "decodeDisclosure X [] = Inl SyntaxError"
proof -
  have "JSON_parse [] = None" by code_simp
  with assms show ?thesis by (simp add: decodeDisclosure_def JSON_parseR_def)
qed

section \<open>Decoding\<close>

lemma decode_Inr_iff:
  "decode X token sch = Inr d \<longleftrightarrow> (\<exists>raw ds j.
     split_on (CHR ''~'') (strip_tilde token) = raw # ds \<and>
     x_decodeJwt X raw = Inr j \<and>
     zparse X (case sch of Some s \<Rightarrow> s | None \<Rightarrow> SdJwt4VC) (jwt_object j) = Inr (sdJwt d) \<and>
     mapR (decodeDisclosure X) ds = Inr (disclosures d))"
proof -
  obtain raw ds where p: "split_on (CHR ''~'') (strip_tilde token) = raw # ds"
    by (cases "split_on (CHR ''~'') (strip_tilde token)") auto
  have eq: "d = \<lparr>sdJwt = sdJwt d, disclosures = disclosures d\<rparr>" by simp
  show ?thesis
    unfolding decode_def p Let_def
    by (subst eq) (auto simp: res_simps simp del: eq)
qed

lemma decode_shape:
  assumes "zod_library (x_zod X)" and "decode X token sch = Inr d" and "sch = None \<or> sch = Some SdJwt4VC"
  shows "conforms SdJwt4VC (sdJwt d)"
proof -
  from assms(2,3) obtain v where "zparse X SdJwt4VC v = Inr (sdJwt d)"
    by (auto simp: decode_Inr_iff)
  then show ?thesis
    using zod_library.result_conforms [OF assms(1)] by (simp add: zparse_def)
qed

lemma SdJwt4VC_sd: "ZArray ZString \<in> set (types_at [SdJwt4VC] [''payload'', ''_sd''])"
  by (simp add: SdJwt4VC_def ObfuscatedDisclosures_def)

lemma decode_sd:
  assumes "zod_library (x_zod X)" and "decode X token sch = Inr d" and "sch = None \<or> sch = Some SdJwt4VC"
  shows "\<exists>hashes. js_path (sdJwt d) [''payload'', ''_sd''] = Inr (Arr (map Str hashes))"
  using path_strings [OF decode_shape [OF assms] SdJwt4VC_sd] by simp

section \<open>Verification\<close>

lemma verifyDisclosure_ok:
  "verifyDisclosure X claims d = Inr u \<longleftrightarrow> Str (x_sha256ToBase64 X (encoded d)) \<in> set claims"
  by (simp add: verifyDisclosure_def)

lemma mapR_unit_ok: "(\<exists>us. mapR f xs = Inr us) \<longleftrightarrow> list_all (\<lambda>x. f x = Inr ()) xs"
  by (simp add: mapR_ok_iff list_all_iff)

lemma verify_still: "still (verify X token key sch)"
  unfolding verify_def by (intro effect_intros)

lemma verify_ok_iff:
  "fst (verify X token key sch w) = Inr r \<longleftrightarrow>
     (\<exists>d hashes. decode X token sch = Inr d
        \<and> isOk (x_verifyJwt X (hd (split_on (CHR ''~'') token)) key w)
        \<and> js_path (sdJwt d) [''payload'', ''_sd''] = Inr (Arr hashes)
        \<and> list_all (\<lambda>e. Str (x_sha256ToBase64 X (encoded e)) \<in> set hashes) (disclosures d)
        \<and> r = \<lparr>v_sdJwt = sdJwt d, v_disclosures = map decoded (disclosures d)\<rparr>)"
proof -
  have "list_all (\<lambda>e. Str (x_sha256ToBase64 X (encoded e)) \<in> set hs) ds \<longleftrightarrow>
      (\<exists>us. mapR (verifyDisclosure X hs) ds = Inr us)" for hs ds
    by (simp add: mapR_unit_ok verifyDisclosure_ok)
  then show ?thesis
    unfolding verify_def fst_bindIO_Inr
    by (auto simp: isOk_iff bindR_Inr_iff js_elems_Inr_iff)
qed

section \<open>Selective disclosure\<close>

lemma find_disclosure_iff:
  "find_disclosure ds claim = None \<longleftrightarrow> list_all (\<lambda>d. claim_name (decoded d) \<noteq> Str claim) ds"
  by (auto simp: find_disclosure_def find_None_iff list_all_iff)

lemma lookup_claim_Inr: "lookup_claim ds claim = Inr cd \<longleftrightarrow>
    fst cd = claim \<and> find_disclosure ds claim = Some (snd cd)"
  by (cases cd) (auto simp: lookup_claim_def split: option.splits)

lemma locate_claim_Inr: "locate_claim X sd cd = Inr cp \<longleftrightarrow>
    (\<exists>hashes i. js_path sd [''payload'', ''_sd''] = Inr (Arr hashes)
       \<and> index_of (Str (x_sha256ToBase64 X (encoded (snd cd)))) hashes = Some i
       \<and> cp = (fst cd, sd_path i))"
  (is "?L \<longleftrightarrow> ?R")
proof
  assume ?L
  then show ?R
    by (auto simp: locate_claim_def Let_def bindR_Inr_iff js_elems_Inr_iff
        simp del: index_of_None js_path.simps split: option.splits)
next
  assume ?R
  then show ?L
    by (auto simp: locate_claim_def Let_def js_elems_def simp del: js_path.simps)
qed

definition requested :: "string list \<Rightarrow> disclosure_with_encoded \<Rightarrow> bool" where
  "requested claims d \<longleftrightarrow> claim_name (decoded d) \<in> set (map Str claims)"

definition raw_requested :: "ext \<Rightarrow> string list \<Rightarrow> string \<Rightarrow> bool" where
  "raw_requested X claims e = (case decodeDisclosure X e of Inr d \<Rightarrow> requested claims d | Inl _ \<Rightarrow> False)"

lemma names_requested_Inr: "names_requested_claim X claims d = Inr b \<longleftrightarrow>
    (\<exists>e. decodeDisclosure X d = Inr e \<and> b = requested claims e)"
  by (auto simp: names_requested_claim_def requested_def bindR_Inr_iff)

lemma disclose_filter:
  "filterR (names_requested_claim X claims) ds = Inr fs \<Longrightarrow>
   fs = filter (raw_requested X claims) ds \<and> (\<exists>es. mapR (decodeDisclosure X) ds = Inr es)"
proof (induction ds arbitrary: fs)
  case (Cons d ds)
  then obtain e gs where "decodeDisclosure X d = Inr e"
    and "filterR (names_requested_claim X claims) ds = Inr gs"
    and fs: "fs = (if requested claims e then d # gs else gs)"
    by (auto simp: bindR_Inr_iff names_requested_Inr)
  with Cons.IH show ?case by (auto simp: raw_requested_def)
qed simp

text \<open>What a successful call has established.\<close>

lemma disclose_InrE:
  assumes "disclose X token claims = Inr r"
  obtains raw ds d found where
    "split_on (CHR ''~'') token = raw # ds"
    "decode X token (Some SdJwt4VC) = Inr d"
    "mapR (lookup_claim (disclosures d)) claims = Inr found"
    "mapR (locate_claim X (sdJwt d)) found = Inr (d_paths r)"
    "\<exists>es. mapR (decodeDisclosure X) ds = Inr es"
    "d_token r = join_with ''~'' (raw # filter (raw_requested X claims) ds)"
proof -
  obtain raw ds where p: "split_on (CHR ''~'') token = raw # ds"
    by (cases "split_on (CHR ''~'') token") auto
  with assms show thesis
    by (auto simp: disclose_def bindR_Inr_iff dest!: disclose_filter intro: that)
qed

lemma disclose_no_empty:
  assumes "x_Base64_decode X [] = []" and "mapR (decodeDisclosure X) ds = Inr es"
  shows "[] \<notin> set ds"
  using assms(2) decodeDisclosure_empty [OF assms(1)] mapR_ok_iff [of "decodeDisclosure X" ds]
  by fastforce

lemma raw_requested_decoded:
  "decodeDisclosure X e = Inr d \<Longrightarrow> raw_requested X claims e = requested claims d"
  by (simp add: raw_requested_def)

lemma disclose_decodes:
  assumes b64: "x_Base64_decode X [] = []" and r: "disclose X token claims = Inr r"
  shows "\<exists>d. decode X token (Some SdJwt4VC) = Inr d \<and>
    decode X (d_token r) (Some SdJwt4VC) =
      Inr \<lparr>sdJwt = sdJwt d, disclosures = filter (requested claims) (disclosures d)\<rparr> \<and>
    hd (split_on (CHR ''~'') (d_token r)) = hd (split_on (CHR ''~'') token)"
proof -
  from r obtain raw ds d where p: "split_on (CHR ''~'') token = raw # ds"
    and d: "decode X token (Some SdJwt4VC) = Inr d" and es: "\<exists>es. mapR (decodeDisclosure X) ds = Inr es"
    and tok: "d_token r = join_with ''~'' (raw # filter (raw_requested X claims) ds)"
    by (rule disclose_InrE)
  let ?fs = "filter (raw_requested X claims) ds"
  have ne: "[] \<notin> set ds" using disclose_no_empty [OF b64] es by blast
  have "\<And>q. q \<in> set (raw # ?fs) \<Longrightarrow> CHR ''~'' \<notin> set q"
    using split_on_pieces [of _ "CHR ''~''" token] by (auto simp: p)
  then have sp: "split_on (CHR ''~'') (d_token r) = raw # ?fs"
    unfolding tok by (intro split_join) auto
  have plain: "strip_tilde token = token" "strip_tilde (d_token r) = d_token r"
    using strip_tilde_pieces [OF p ne] strip_tilde_pieces [OF sp] ne by auto
  from d obtain j where j: "x_decodeJwt X raw = Inr j"
      "zparse X SdJwt4VC (jwt_object j) = Inr (sdJwt d)"
      "mapR (decodeDisclosure X) ds = Inr (disclosures d)"
    by (auto simp: decode_Inr_iff plain p)
  have "mapR (decodeDisclosure X) ?fs = Inr (filter (requested claims) (disclosures d))"
    by (rule mapR_filter [OF j(3)]) (simp add: raw_requested_decoded)
  then have "decode X (d_token r) (Some SdJwt4VC) =
      Inr \<lparr>sdJwt = sdJwt d, disclosures = filter (requested claims) (disclosures d)\<rparr>"
    unfolding decode_Inr_iff plain sp using j by simp
  with d show ?thesis by (simp add: p sp)
qed

lemma disclose_trailing:
  assumes "x_Base64_decode X [] = []"
  shows "\<not> isOk (disclose X (s @ ''~'') claims)"
proof
  assume "isOk (disclose X (s @ ''~'') claims)"
  then obtain r where r: "disclose X (s @ ''~'') claims = Inr r" by (auto simp: isOk_iff)
  obtain raw ds where p: "split_on (CHR ''~'') (s @ ''~'') = raw # ds"
    and es: "\<exists>es. mapR (decodeDisclosure X) ds = Inr es"
    using r by (rule disclose_InrE)
  have "raw # ds = split_on (CHR ''~'') s @ [[]]"
    using p split_on_append_sep [of "CHR ''~''" s "[]"] by simp
  then have "[] \<in> set ds" by (cases "split_on (CHR ''~'') s") auto
  with disclose_no_empty [OF assms] es show False by blast
qed

end
