(* ===== verification/Sample_Environment.thy ===== *)
theory Sample_Environment
  imports Externals
begin

text \<open>
  A concrete environment on which the development's statements are run: the reference schema
  evaluation, table-driven token decoding, transparent digests and encodings.  It shows that the
  hypotheses the properties make of third-party code can be met together.
\<close>

definition sample_error :: js_error where
  "sample_error = new_Error ''not found''"

definition sample_ext :: ext where
  "sample_ext = \<lparr>
     x_zod = zod_eval,
     x_decodeJwt = (\<lambda>_. Inl sample_error),
     x_verifyJwt = (\<lambda>_ _ _. Inl sample_error),
     x_sha256ToBase64 = (\<lambda>s. CHR ''#'' # s),
     x_thumbprint = (\<lambda>_. Inr ''thumb''),
     x_removePadding = filter (\<lambda>c. c \<noteq> CHR ''=''),
     x_encodeBase64 = (\<lambda>s. s),
     x_decodeBase64 = (\<lambda>s. s),
     x_signJwt = (\<lambda>_ _ _. Inr ''signed''),
     x_encryptJwe = (\<lambda>_ _ _ _. Inr ''encrypted''),
     x_sha256 = (\<lambda>s. CHR ''#'' # s),
     x_Base64_decode = (\<lambda>s. s),
     x_keyPublic = (\<lambda>_ _. Inr (Obj [(''kty'', Str ''EC'')])),
     x_keySign = (\<lambda>_ _ _. Inr ''sig''),
     x_keyGenerate = (\<lambda>_ _. Inr ()),
     x_keyDelete = (\<lambda>_ _. Inr ()),
     x_uuidv4 = nat_str,
     x_random = (\<lambda>_. 1 / 2),
     x_randomSort = (\<lambda>_ ps. rev ps),
     x_now = (\<lambda>_. 1000),
     x_fetch = (\<lambda>_ _. Inl sample_error), x_wire = (\<lambda>r. [r]),
     x_URL = (\<lambda>s. Inr \<lparr>u_protocol = ''https:'', u_hostname = ''host'', u_origin = s, u_search = [], u_href = s\<rparr>),
     x_parseUrl = (\<lambda>_. Inr (Obj []))\<rparr>"

definition sample_world :: world where
  "sample_world = \<lparr>w_sent = [], w_wire = [], w_signed = [], w_keys = [], w_uuids = 0, w_randoms = 0\<rparr>"

definition sample_ctx :: crypto_context where
  "sample_ctx = \<lparr>getPublicKey = (\<lambda>_. Inr (Obj [(''kty'', Str ''EC''), (''kid'', Str ''k'')])),
     getSignature = (\<lambda>_ _. Inr ''sig'')\<rparr>"

text \<open>A credential with the two disclosures \<open>["s","a",1]\<close> and \<open>["s","b",2]\<close>.\<close>

definition disclosure_a :: string where
  "disclosure_a = ''['' @ [CHR 0x22] @ ''s'' @ [CHR 0x22] @ '','' @ [CHR 0x22] @ ''a'' @ [CHR 0x22] @ '',1]''"

definition disclosure_b :: string where
  "disclosure_b = ''['' @ [CHR 0x22] @ ''s'' @ [CHR 0x22] @ '','' @ [CHR 0x22] @ ''b'' @ [CHR 0x22] @ '',2]''"

definition sample_sd_jwt :: jwt where
  "sample_sd_jwt = \<lparr>
     protectedHeader = Obj [(''typ'', Str ''vc+sd-jwt''), (''alg'', Str ''ES256'')],
     jwt_payload = Obj [(''iss'', Str ''i''), (''sub'', Str ''s''), (''exp'', Num 2000),
       (''_sd_alg'', Str ''sha-256''),
       (''status'', Obj [(''status_attestation'', Obj [(''credential_hash_alg'', Str ''sha-256'')])]),
       (''cnf'', Obj [(''jwk'', Obj [(''kty'', Str ''EC''), (''kid'', Str ''k'')])]),
       (''vct'', Str ''V''),
       (''_sd'', Arr [Str (CHR ''#'' # disclosure_b), Str (CHR ''#'' # disclosure_a)])]\<rparr>"

definition sd_ext :: ext where
  "sd_ext = sample_ext\<lparr>
     x_decodeJwt := (\<lambda>s. if s = ''j'' then Inr sample_sd_jwt else Inl sample_error),
     x_verifyJwt := (\<lambda>s _ _. if s = ''j'' then Inr sample_sd_jwt else Inl sample_error)\<rparr>"

definition sd_token :: string where
  "sd_token = ''j~'' @ disclosure_a @ ''~'' @ disclosure_b"

lemma sample_zod: "zod_library (x_zod sample_ext)" "zod_library (x_zod sd_ext)"
  by (simp_all add: sd_ext_def sample_ext_def reference_zod.zod_library_axioms)

end
