(* ===== verification/Sd_Jwt_Correct.thy ===== *)
theory Sd_Jwt_Correct
  imports Sd_Jwt Sample_Environment
begin

text \<open>
  What the SD-JWT component guarantees: verification, selective disclosure, decoding.
\<close>

section \<open>Verification\<close>

text \<open>C1. \<open>verify\<close> returns the decoded credential exactly when the token decodes, the signature of
  its first part is accepted for the given key, the payload lists its digests in an array
  \<open>_sd\<close>, and the digest of every disclosure of the token is in that list; it then returns the
  decoded JWT and all the disclosures in order.\<close>

theorem verify_accepts_exactly:
  "fst (verify X token key sch w) = Inr r \<longleftrightarrow>
     (\<exists>d hashes. decode X token sch = Inr d
        \<and> isOk (x_verifyJwt X (hd (split_on (CHR ''~'') token)) key w)
        \<and> js_path (sdJwt d) [''payload'', ''_sd''] = Inr (Arr hashes)
        \<and> list_all (\<lambda>e. Str (x_sha256ToBase64 X (encoded e)) \<in> set hashes) (disclosures d)
        \<and> r = \<lparr>v_sdJwt = sdJwt d, v_disclosures = map decoded (disclosures d)\<rparr>)"
  by (rule verify_ok_iff)

text \<open>A failed verification of a credential has one of three causes: the token does not decode,
  the signature is refused, or a disclosure's digest is not listed, reported as a
  \<open>ValidationFailed\<close> that names the disclosure.  In particular reading \<open>payload._sd\<close> after
  parsing never raises a \<open>TypeError\<close>.\<close>

theorem verify_failure_causes:
  assumes zod: "zod_library (x_zod X)" and fails: "fst (verify X token key None w) = Inl e"
  shows "decode X token None = Inl e
    \<or> x_verifyJwt X (hd (split_on (CHR ''~'') token)) key w = Inl e
    \<or> (\<exists>d dis. decode X token None = Inr d \<and> dis \<in> set (disclosures d)
        \<and> e = new_ValidationFailed ''Validation of disclosure failed'' (Some (to_str (decoded dis)))
            (Some ''Disclosure hash not found in claims''))"
proof (cases "decode X token None")
  case (Inl e')
  with fails show ?thesis by (simp add: verify_def bindIO_def)
next
  case (Inr d)
  obtain hashes where h: "js_path (sdJwt d) [''payload'', ''_sd''] = Inr (Arr (map Str hashes))"
    using decode_sd [OF zod Inr] by auto
  show ?thesis
  proof (cases "x_verifyJwt X (hd (split_on (CHR ''~'') token)) key w")
    case (Inl e')
    with fails Inr show ?thesis by (simp add: verify_def bindIO_def)
  next
    case (Inr j)
    with fails \<open>decode X token None = Inr d\<close> h
    have "mapR (verifyDisclosure X (map Str hashes)) (disclosures d) = Inl e"
      by (cases "mapR (verifyDisclosure X (map Str hashes)) (disclosures d)")
        (simp_all add: verify_def bindIO_def del: js_path.simps)
    from mapR_error_from [OF this] show ?thesis
      using \<open>decode X token None = Inr d\<close> by (auto simp: verifyDisclosure_def split: if_splits)
  qed
qed

definition bad_token :: string where
  "bad_token = ''j~'' @ disclosure_a @ ''~'' @ ''[''
     @ [CHR 0x22] @ ''s'' @ [CHR 0x22] @ '','' @ [CHR 0x22] @ ''c'' @ [CHR 0x22] @ '',3]''"

lemma verify_failure_causes_witness:
  "\<exists>e. fst (verify sd_ext bad_token Undef None sample_world) = Inl e \<and>
    (decode sd_ext bad_token None = Inl e
    \<or> x_verifyJwt sd_ext (hd (split_on (CHR ''~'') bad_token)) Undef sample_world = Inl e
    \<or> (\<exists>d dis. decode sd_ext bad_token None = Inr d \<and> dis \<in> set (disclosures d)
        \<and> e = new_ValidationFailed ''Validation of disclosure failed'' (Some (to_str (decoded dis)))
            (Some ''Disclosure hash not found in claims'')))"
proof -
  have "\<not> isOk (fst (verify sd_ext bad_token Undef None sample_world))" by code_simp
  then obtain e where e: "fst (verify sd_ext bad_token Undef None sample_world) = Inl e"
    by (auto simp: not_isOk_iff)
  from verify_failure_causes [OF sample_zod(2) e] e show ?thesis by blast
qed

section \<open>Selective disclosure\<close>

text \<open>C8. Disclosing some claims of a verifiable credential gives a verifiable credential: if a token
  verifies under a key and \<open>disclose\<close> succeeds on it, the resulting token verifies under the same
  key, with the same JWT and exactly those disclosures, in the original order, whose claim was
  requested.\<close>

theorem disclose_keeps_verified:
  assumes b64: "x_Base64_decode X [] = []"
    and ver: "fst (verify X token key (Some SdJwt4VC) w) = Inr v"
    and dis: "disclose X token claims = Inr r"
  shows "fst (verify X (d_token r) key (Some SdJwt4VC) w) =
    Inr \<lparr>v_sdJwt = v_sdJwt v,
      v_disclosures = filter (\<lambda>d. claim_name d \<in> set (map Str claims)) (v_disclosures v)\<rparr>"
proof -
  obtain d where d: "decode X token (Some SdJwt4VC) = Inr d"
    and d': "decode X (d_token r) (Some SdJwt4VC) =
      Inr \<lparr>sdJwt = sdJwt d, disclosures = filter (requested claims) (disclosures d)\<rparr>"
    and raw: "hd (split_on (CHR ''~'') (d_token r)) = hd (split_on (CHR ''~'') token)"
    using disclose_decodes [OF b64 dis] by blast
  from ver d obtain hashes where sig: "isOk (x_verifyJwt X (hd (split_on (CHR ''~'') token)) key w)"
    and h: "js_path (sdJwt d) [''payload'', ''_sd''] = Inr (Arr hashes)"
    and all: "list_all (\<lambda>e. Str (x_sha256ToBase64 X (encoded e)) \<in> set hashes) (disclosures d)"
    and v: "v = \<lparr>v_sdJwt = sdJwt d, v_disclosures = map decoded (disclosures d)\<rparr>"
    by (auto simp: verify_ok_iff)
  have "map decoded (filter (requested claims) ds) =
      filter (\<lambda>d. claim_name d \<in> set (map Str claims)) (map decoded ds)" for ds
    by (induction ds) (simp_all add: requested_def)
  with d' raw sig h all v show ?thesis
    by (auto simp: verify_ok_iff list_all_iff simp del: js_path.simps)
qed

lemma disclose_keeps_verified_witness:
  "\<exists>v r. fst (verify sd_ext sd_token Undef (Some SdJwt4VC) sample_world) = Inr v
    \<and> disclose sd_ext sd_token [''b''] = Inr r
    \<and> fst (verify sd_ext (d_token r) Undef (Some SdJwt4VC) sample_world) =
      Inr \<lparr>v_sdJwt = v_sdJwt v,
        v_disclosures = filter (\<lambda>d. claim_name d \<in> set (map Str [''b''])) (v_disclosures v)\<rparr>"
proof -
  have "isOk (fst (verify sd_ext sd_token Undef (Some SdJwt4VC) sample_world))"
    and "isOk (disclose sd_ext sd_token [''b''])" by code_simp+
  then obtain v r where "fst (verify sd_ext sd_token Undef (Some SdJwt4VC) sample_world) = Inr v"
    "disclose sd_ext sd_token [''b''] = Inr r" by (auto simp: isOk_iff)
  moreover have "x_Base64_decode sd_ext [] = []" by code_simp
  ultimately show ?thesis using disclose_keeps_verified [of sd_ext] by blast
qed

text \<open>The disclosed token is minimal and complete: it is the signed part followed by disclosures
  of the original token, in order; every disclosure it keeps carries a requested claim, none
  that carries a requested claim is left out, and each requested claim is carried by one.\<close>

theorem disclose_minimal:
  assumes b64: "x_Base64_decode X [] = []" and dis: "disclose X token claims = Inr r"
  shows "\<exists>raw ds d. split_on (CHR ''~'') token = raw # ds
    \<and> split_on (CHR ''~'') (d_token r) = raw # filter (raw_requested X claims) ds
    \<and> decode X (d_token r) (Some SdJwt4VC) = Inr d
    \<and> list_all (\<lambda>e. claim_name (decoded e) \<in> set (map Str claims)) (disclosures d)
    \<and> list_all (\<lambda>c. list_ex (\<lambda>e. claim_name (decoded e) = Str c) (disclosures d)) claims"
proof -
  obtain raw ds d found where p: "split_on (CHR ''~'') token = raw # ds"
    and d: "decode X token (Some SdJwt4VC) = Inr d"
    and found: "mapR (lookup_claim (disclosures d)) claims = Inr found"
    and tok: "d_token r = join_with ''~'' (raw # filter (raw_requested X claims) ds)"
    using dis by (rule disclose_InrE)
  have sp: "split_on (CHR ''~'') (d_token r) = raw # filter (raw_requested X claims) ds"
    unfolding tok using split_on_pieces [of _ "CHR ''~''" token] p by (intro split_join) auto
  from disclose_decodes [OF b64 dis] d have d': "decode X (d_token r) (Some SdJwt4VC) =
      Inr \<lparr>sdJwt = sdJwt d, disclosures = filter (requested claims) (disclosures d)\<rparr>" by auto
  have "\<exists>e \<in> set (disclosures d). claim_name (decoded e) = Str c" if c: "c \<in> set claims" for c
  proof -
    obtain cd where "lookup_claim (disclosures d) c = Inr cd"
      using found c mapR_ok_iff [of "lookup_claim (disclosures d)" claims] by blast
    then have "find_disclosure (disclosures d) c = Some (snd cd)" by (simp add: lookup_claim_Inr)
    then show ?thesis by (auto simp: find_disclosure_def dest!: find_SomeD)
  qed
  then have "list_all (\<lambda>c. list_ex (\<lambda>e. claim_name (decoded e) = Str c)
      (filter (requested claims) (disclosures d))) claims"
    by (fastforce simp: list_all_iff list_ex_iff requested_def)
  then show ?thesis
    using p sp d' by (auto simp: list_all_iff requested_def)
qed

lemma disclose_minimal_witness:
  "\<exists>r raw ds d. disclose sd_ext sd_token [''b''] = Inr r
    \<and> split_on (CHR ''~'') sd_token = raw # ds
    \<and> split_on (CHR ''~'') (d_token r) = raw # filter (raw_requested sd_ext [''b'']) ds
    \<and> decode sd_ext (d_token r) (Some SdJwt4VC) = Inr d
    \<and> list_all (\<lambda>e. claim_name (decoded e) \<in> set (map Str [''b''])) (disclosures d)
    \<and> list_all (\<lambda>c. list_ex (\<lambda>e. claim_name (decoded e) = Str c) (disclosures d)) [''b'']"
proof -
  have "isOk (disclose sd_ext sd_token [''b''])" by code_simp
  then obtain r where "disclose sd_ext sd_token [''b''] = Inr r" by (auto simp: isOk_iff)
  moreover have "x_Base64_decode sd_ext [] = []" by code_simp
  ultimately show ?thesis using disclose_minimal [of sd_ext] by blast
qed

text \<open>C33. The paths a successful \<open>disclose\<close> reports are right: there is one per requested claim, in the
  order of the request, and it points to the first position of the token's \<open>_sd\<close> list that
  holds the digest of the first disclosure carrying the claim.\<close>

theorem disclose_paths_point_to_digest:
  assumes dis: "disclose X token claims = Inr r" and i: "i < length claims"
  shows "\<exists>d hashes e k. decode X token (Some SdJwt4VC) = Inr d
    \<and> js_path (sdJwt d) [''payload'', ''_sd''] = Inr (Arr hashes)
    \<and> find_disclosure (disclosures d) (claims ! i) = Some e
    \<and> index_of (Str (x_sha256ToBase64 X (encoded e))) hashes = Some k
    \<and> length (d_paths r) = length claims
    \<and> d_paths r ! i = (claims ! i, ''verified_claims.claims._sd['' @ nat_str k @ '']'')"
proof -
  obtain d found where d: "decode X token (Some SdJwt4VC) = Inr d"
    and found: "mapR (lookup_claim (disclosures d)) claims = Inr found"
    and paths: "mapR (locate_claim X (sdJwt d)) found = Inr (d_paths r)"
    using dis by (rule disclose_InrE)
  have len: "length found = length claims" "length (d_paths r) = length claims"
    using mapR_length [OF found] mapR_length [OF paths] by simp_all
  have f: "fst (found ! i) = claims ! i" "find_disclosure (disclosures d) (claims ! i) = Some (snd (found ! i))"
    using mapR_nth [OF found i] by (simp_all add: lookup_claim_Inr)
  from mapR_nth [OF paths, of i] i len obtain hashes k where
    "js_path (sdJwt d) [''payload'', ''_sd''] = Inr (Arr hashes)"
    "index_of (Str (x_sha256ToBase64 X (encoded (snd (found ! i))))) hashes = Some k"
    "d_paths r ! i = (fst (found ! i), sd_path k)"
    by (auto simp: locate_claim_Inr simp del: js_path.simps)
  with d f len show ?thesis unfolding sd_path_def by metis
qed

lemma disclose_paths_witness:
  "\<exists>r d hashes e k. disclose sd_ext sd_token [''b''] = Inr r
    \<and> decode sd_ext sd_token (Some SdJwt4VC) = Inr d
    \<and> js_path (sdJwt d) [''payload'', ''_sd''] = Inr (Arr hashes)
    \<and> find_disclosure (disclosures d) ([''b''] ! 0) = Some e
    \<and> index_of (Str (x_sha256ToBase64 sd_ext (encoded e))) hashes = Some k
    \<and> length (d_paths r) = length [''b'']
    \<and> d_paths r ! 0 = ([''b''] ! 0, ''verified_claims.claims._sd['' @ nat_str k @ '']'')"
proof -
  have "isOk (disclose sd_ext sd_token [''b''])" by code_simp
  then obtain r where r: "disclose sd_ext sd_token [''b''] = Inr r" by (auto simp: isOk_iff)
  from disclose_paths_point_to_digest [OF r, of 0] r show ?thesis by auto
qed

text \<open>On a token that decodes, \<open>disclose\<close> reports a claim that no disclosure carries before anything
  else: the error is \<open>ClaimsNotFoundBetweenDisclosures\<close> for the first such claim.\<close>

theorem disclose_unknown_claim:
  assumes d: "decode X token (Some SdJwt4VC) = Inr d"
    and claims: "claims = before @ c # after"
    and known: "list_all (\<lambda>b. find_disclosure (disclosures d) b \<noteq> None) before"
    and unknown: "find_disclosure (disclosures d) c = None"
  shows "disclose X token claims = Inl (new_ClaimsNotFoundBetweenDisclosures [c])"
proof -
  have "mapR (lookup_claim (disclosures d)) (before @ c # after) =
      Inl (new_ClaimsNotFoundBetweenDisclosures [c])"
    using known
  proof (induction before)
    case Nil
    then show ?case using unknown by (simp add: lookup_claim_def)
  next
    case (Cons b bs)
    then obtain e where "find_disclosure (disclosures d) b = Some e" by auto
    with Cons show ?case by (simp add: lookup_claim_def)
  qed
  with d claims show ?thesis by (simp add: disclose_def Let_def)
qed

lemma disclose_unknown_claim_witness:
  "disclose sd_ext sd_token [''b'', ''z''] = Inl (new_ClaimsNotFoundBetweenDisclosures [''z''])"
proof -
  have "isOk (decode sd_ext sd_token (Some SdJwt4VC))" by code_simp
  then obtain d where d: "decode sd_ext sd_token (Some SdJwt4VC) = Inr d" by (auto simp: isOk_iff)
  have "(case decode sd_ext sd_token (Some SdJwt4VC) of Inl _ \<Rightarrow> False | Inr d \<Rightarrow>
      list_all (\<lambda>b. find_disclosure (disclosures d) b \<noteq> None) [''b'']
      \<and> find_disclosure (disclosures d) ''z'' = None)" by code_simp
  with d disclose_unknown_claim [OF d, of "[''b'', ''z'']" "[''b'']" "''z''" "[]"] show ?thesis by simp
qed

text \<open>A token in the form the documentation of \<open>decode\<close> describes, ending with the separator,
  is accepted by \<open>decode\<close> but never by \<open>disclose\<close>, whatever the requested claims: the
  empty piece after the last separator is decoded as a disclosure.\<close>

theorem disclose_rejects_documented_form:
  assumes "x_Base64_decode X [] = []"
  shows "\<not> isOk (disclose X (token @ ''~'') claims)"
  by (rule disclose_trailing [OF assms])

lemma disclose_rejects_documented_form_witness:
  "x_Base64_decode sd_ext [] = [] \<and> isOk (decode sd_ext (sd_token @ ''~'') None)
    \<and> \<not> isOk (disclose sd_ext (sd_token @ ''~'') [''b''])"
proof (intro conjI)
  show b: "x_Base64_decode sd_ext [] = []" by code_simp
  show "isOk (decode sd_ext (sd_token @ ''~'') None)" by code_simp
  show "\<not> isOk (disclose sd_ext (sd_token @ ''~'') [''b''])"
    by (rule disclose_rejects_documented_form [OF b])
qed

section \<open>Decoding\<close>

text \<open>One trailing separator makes no difference to \<open>decode\<close>: for a token with at least one
  character that does not end with the separator, both forms decode to the same result.\<close>

theorem decode_trailing_separator:
  assumes "token = s @ [c]" and "c \<noteq> CHR ''~''"
  shows "decode X (token @ ''~'') sch = decode X token sch"
proof -
  have "strip_tilde token = token" using assms by (simp add: strip_tilde_def)
  then show ?thesis by (simp add: decode_def)
qed

lemma decode_trailing_separator_witness:
  "decode sd_ext (''j'' @ ''~'') None = decode sd_ext ''j'' None"
  by (rule decode_trailing_separator [of _ "[]" "CHR ''j''"]) simp_all

text \<open>The value \<open>getValueFromDisclosures\<close> returns for a claim is that of the first disclosure
  carrying it, except that a string holding JSON text is replaced by the parsed value, and that
  a claim whose value is \<open>false\<close>, \<open>0\<close>, \<open>null\<close> or the empty string is reported as \<open>undefined\<close>,
  as a missing one is.\<close>

theorem getValueFromDisclosures_cases:
  "getValueFromDisclosures ds claim =
     (case find (\<lambda>d. claim_name d = Str claim) ds of
        None \<Rightarrow> Undef
      | Some d \<Rightarrow>
          if component d 2 \<in> {Undef, Null, Bool False, Num 0, Str []} then Undef
          else case component d 2 of
              Str s \<Rightarrow> (case JSON_parse s of Some v \<Rightarrow> v | None \<Rightarrow> Str s)
            | v \<Rightarrow> v)"
  by (auto simp: getValueFromDisclosures_def Let_def truthy_def split: option.splits js.splits)

end
