(* ===== verification/Trust_Types.thy ===== *)
theory Trust_Types
  imports Sd_Jwt
begin

text \<open>
  \<open>src/trust/types.ts\<close>: the schemas of the federation documents, and the types of the parts the
  other components read.
\<close>

definition strings :: "string list \<Rightarrow> (string \<times> schema) list" where
  "strings ks = map (\<lambda>k. (k, ZString)) ks"

definition string_arrays :: "string list \<Rightarrow> (string \<times> schema) list" where
  "string_arrays ks = map (\<lambda>k. (k, ZArray ZString)) ks"

definition JWKS :: schema where
  "JWKS = ZObject [(''keys'', ZArray JWK)]"

definition TrustMark :: schema where
  "TrustMark = ZObject (strings [''id'', ''trust_mark''])"

definition RelyingPartyMetadata :: schema where
  "RelyingPartyMetadata = ZObject
     (opt_strings [''application_type'', ''client_id'', ''client_name'']
      @ [(''jwks'', JWKS), (''contacts'', ZOptional (ZArray ZString))])"

definition CredentialDisplayMetadata :: schema where
  "CredentialDisplayMetadata = ZObject (strings [''name'', ''locale''])"

definition CredentialIssuerDisplayMetadata :: schema where
  "CredentialIssuerDisplayMetadata = ZObject (strings [''name'', ''locale''])"

definition ClaimsMetadata :: schema where
  "ClaimsMetadata = ZRecord (ZObject [(''value_type'', ZString),
     (''display'', ZArray (ZObject (strings [''name'', ''locale''])))])"

definition IssuanceErrorSupported :: schema where
  "IssuanceErrorSupported = ZObject
     [(''display'', ZArray (ZObject (strings [''title'', ''description'', ''locale''])))]"

definition SupportedCredentialMetadata :: schema where
  "SupportedCredentialMetadata = ZObject
     [(''format'', ZUnion [ZLiteral ''vc+sd-jwt'', ZLiteral ''vc+mdoc-cbor'']),
      (''scope'', ZString),
      (''display'', ZArray CredentialDisplayMetadata),
      (''claims'', ClaimsMetadata),
      (''cryptographic_binding_methods_supported'', ZArray ZString),
      (''credential_signing_alg_values_supported'', ZArray ZString),
      (''authentic_source'', ZOptional ZString),
      (''issuance_errors_supported'', ZOptional (ZRecord IssuanceErrorSupported))]"

definition EntityStatement :: schema where
  "EntityStatement = ZObject
     [(''header'', ZObject [(''typ'', ZLiteral ''entity-statement+jwt''), (''alg'', ZString),
         (''kid'', ZString)]),
      (''payload'', ZObject [(''iss'', ZString), (''sub'', ZString), (''jwks'', JWKS),
         (''trust_marks'', ZArray TrustMark), (''iat'', ZNumber None None),
         (''exp'', ZNumber None None)])]"

definition EntityConfigurationHeader :: schema where
  "EntityConfigurationHeader = ZObject [(''typ'', ZLiteral ''entity-statement+jwt''),
     (''alg'', ZString), (''kid'', ZString)]"

definition FederationEntityMetadata :: schema where
  "FederationEntityMetadata = ZPassthrough
     (opt_strings [''federation_fetch_endpoint'', ''federation_list_endpoint'',
        ''federation_resolve_endpoint'', ''federation_trust_mark_status_endpoint'',
        ''federation_trust_mark_list_endpoint'', ''organization_name'', ''homepage_uri'',
        ''policy_uri'', ''logo_uri'']
      @ [(''contacts'', ZOptional (ZArray ZString))])"

definition BaseEntityConfiguration :: schema where
  "BaseEntityConfiguration = ZObject
     [(''header'', EntityConfigurationHeader),
      (''payload'', ZPassthrough
        [(''iss'', ZString), (''sub'', ZString), (''iat'', UnixTime), (''exp'', UnixTime),
         (''authority_hints'', ZOptional (ZArray ZString)),
         (''metadata'', ZPassthrough [(''federation_entity'', FederationEntityMetadata)]),
         (''jwks'', JWKS)])]"

definition TrustAnchorEntityConfiguration :: schema where
  "TrustAnchorEntityConfiguration = BaseEntityConfiguration"

definition CredentialIssuerEntityConfiguration :: schema where
  "CredentialIssuerEntityConfiguration = ZAnd BaseEntityConfiguration
     (ZObject [(''payload'', ZObject
       [(''jwks'', JWKS),
        (''metadata'', ZObject
          [(''openid_credential_issuer'', ZObject
             (strings [''credential_issuer'', ''credential_endpoint'', ''revocation_endpoint'',
                ''status_attestation_endpoint'']
              @ [(''display'', ZArray CredentialIssuerDisplayMetadata),
                 (''credential_configurations_supported'', ZRecord SupportedCredentialMetadata),
                 (''jwks'', JWKS)])),
           (''oauth_authorization_server'', ZObject
             (strings [''authorization_endpoint'', ''pushed_authorization_request_endpoint'',
                ''token_endpoint'']
              @ string_arrays [''client_registration_types_supported'',
                ''code_challenge_methods_supported'', ''acr_values_supported'',
                ''grant_types_supported'']
              @ [(''issuer'', ZString), (''jwks'', JWKS)]
              @ string_arrays [''scopes_supported'', ''response_modes_supported'',
                ''token_endpoint_auth_methods_supported'',
                ''token_endpoint_auth_signing_alg_values_supported'',
                ''request_object_signing_alg_values_supported''])),
           (''wallet_relying_party'', ZOptional RelyingPartyMetadata)])])])"

definition RelyingPartyEntityConfiguration :: schema where
  "RelyingPartyEntityConfiguration = ZAnd BaseEntityConfiguration
     (ZObject [(''payload'', ZObject [(''metadata'', ZObject
        [(''wallet_relying_party'', RelyingPartyMetadata)])])])"

definition WalletProviderEntityConfiguration :: schema where
  "WalletProviderEntityConfiguration = ZAnd BaseEntityConfiguration
     (ZObject [(''payload'', ZObject [(''metadata'', ZObject
        [(''wallet_provider'', ZPassthrough
           ([(''token_endpoint'', ZString), (''aal_values_supported'', ZOptional (ZArray ZString))]
            @ string_arrays [''grant_types_supported'', ''token_endpoint_auth_methods_supported'',
               ''token_endpoint_auth_signing_alg_values_supported'']
            @ [(''jwks'', JWKS)]))])])])"

definition EntityConfiguration :: schema where
  "EntityConfiguration = ZUnion [WalletProviderEntityConfiguration,
     CredentialIssuerEntityConfiguration, TrustAnchorEntityConfiguration,
     RelyingPartyEntityConfiguration]"

section \<open>What conforming documents hold\<close>

text \<open>Every kind of entity configuration is a base configuration, so their union accepts exactly
  the documents that are one.\<close>

lemma EntityConfiguration_base: "conforms EntityConfiguration v \<longleftrightarrow> conforms BaseEntityConfiguration v"
  by (auto simp: EntityConfiguration_def WalletProviderEntityConfiguration_def
      CredentialIssuerEntityConfiguration_def TrustAnchorEntityConfiguration_def
      RelyingPartyEntityConfiguration_def simp del: conforms.simps(9,10))

lemmas doc_defs = EntityStatement_def BaseEntityConfiguration_def EntityConfigurationHeader_def
  CredentialIssuerEntityConfiguration_def RelyingPartyEntityConfiguration_def
  TrustAnchorEntityConfiguration_def RelyingPartyMetadata_def JWKS_def opt_strings_def strings_def
  string_arrays_def

lemma statement_types:
  "ZString \<in> set (types_at [EntityStatement] [''header'', ''kid''])"
  "ZArray JWK \<in> set (types_at [EntityStatement] [''payload'', ''jwks'', ''keys''])"
  "ZString \<in> set (types_at [EntityStatement] [''payload'', ''iss''])"
  "ZString \<in> set (types_at [EntityStatement] [''payload'', ''sub''])"
  by (simp_all add: doc_defs)

lemma configuration_types:
  "ZString \<in> set (types_at [BaseEntityConfiguration] [''header'', ''kid''])"
  "ZArray JWK \<in> set (types_at [BaseEntityConfiguration] [''payload'', ''jwks'', ''keys''])"
  "ZString \<in> set (types_at [BaseEntityConfiguration] [''payload'', ''iss''])"
  by (simp_all add: doc_defs)

text \<open>The paths of an issuer's metadata the issuance flow reads.\<close>

definition issuer_metadata_paths :: "(string list \<times> schema) list" where
  "issuer_metadata_paths =
     [([''openid_credential_issuer'', ''credential_endpoint''], ZString),
      ([''openid_credential_issuer'', ''status_attestation_endpoint''], ZString),
      ([''openid_credential_issuer'', ''jwks'', ''keys''], ZArray JWK),
      ([''openid_credential_issuer'', ''credential_configurations_supported''],
         ZRecord SupportedCredentialMetadata),
      ([''oauth_authorization_server'', ''authorization_endpoint''], ZString),
      ([''oauth_authorization_server'', ''pushed_authorization_request_endpoint''], ZString),
      ([''oauth_authorization_server'', ''token_endpoint''], ZString),
      ([''oauth_authorization_server'', ''response_modes_supported''], ZArray ZString)]"

lemma issuer_metadata_types: "(ks, t) \<in> set issuer_metadata_paths \<Longrightarrow>
    t \<in> set (types_at [CredentialIssuerEntityConfiguration] ([''payload'', ''metadata''] @ ks))"
  by (auto simp: issuer_metadata_paths_def doc_defs)

lemma rp_metadata_types:
  "ZArray JWK \<in> set (types_at [RelyingPartyEntityConfiguration]
     [''payload'', ''metadata'', ''wallet_relying_party'', ''jwks'', ''keys''])"
  by (simp add: doc_defs)

end
