(* ===== verification/Web_Encoding.thy ===== *)
theory Web_Encoding
  imports Misc_Utils
begin

text \<open>
  Text formats the library reads and writes: \<open>URLSearchParams\<close> bodies and query strings,
  \<open>String.prototype.replace\<close> as \<open>client/index.ts\<close> uses it, and the \<open>form_post.jwt\<close> page of
  \<open>src/utils/decoder.ts\<close>.  Strings are UTF-8 byte strings.
\<close>

section \<open>URLSearchParams\<close>

definition pct_digit :: "nat \<Rightarrow> char" where
  "pct_digit d = char_of (if d < 10 then 48 + d else 55 + d)"

definition unreserved :: "char \<Rightarrow> bool" where
  "unreserved c = (let n = (of_char c :: nat) in (48 \<le> n \<and> n \<le> 57) \<or> (65 \<le> n \<and> n \<le> 90)
     \<or> (97 \<le> n \<and> n \<le> 122) \<or> n = 42 \<or> n = 45 \<or> n = 46 \<or> n = 95)"

definition encode_char :: "char \<Rightarrow> string" where
  "encode_char c = (if unreserved c then [c] else if c = CHR '' '' then ''+''
     else [CHR ''%'', pct_digit (of_char c div 16), pct_digit (of_char c mod 16)])"

definition form_encode :: "string \<Rightarrow> string" where
  "form_encode s = concat (map encode_char s)"

text \<open>\<open>new URLSearchParams(params).toString()\<close>.\<close>

definition URLSearchParams :: "(string \<times> js) list \<Rightarrow> string" where
  "URLSearchParams params =
     join_with ''&'' (map (\<lambda>(k, v). form_encode k @ ''='' @ form_encode (to_str v)) params)"

text \<open>The reader's side, to state what the serialization means.\<close>

definition unhex :: "char \<Rightarrow> nat" where
  "unhex c = (let n = of_char c in if n \<le> 57 then n - 48 else n - 55)"

fun form_decode :: "string \<Rightarrow> string" where
  "form_decode [] = []"
| "form_decode (c # s) =
     (if c = CHR ''+'' then CHR '' '' # form_decode s
      else if c = CHR ''%'' then
        (case s of h # l # rest \<Rightarrow> char_of (16 * unhex h + unhex l) # form_decode rest
         | _ \<Rightarrow> c # form_decode s)
      else c # form_decode s)"

definition split_pair :: "string \<Rightarrow> string \<times> string" where
  "split_pair p = (case index_of (CHR ''='') p of
      None \<Rightarrow> (form_decode p, [])
    | Some i \<Rightarrow> (form_decode (take i p), form_decode (drop (Suc i) p)))"

definition parse_query :: "string \<Rightarrow> (string \<times> string) list" where
  "parse_query s = map split_pair (filter (\<lambda>p. p \<noteq> []) (split_on (CHR ''&'') s))"

section \<open>String.prototype.replace with a string pattern\<close>

text \<open>The text before and after the first occurrence.\<close>

fun find_split :: "string \<Rightarrow> string \<Rightarrow> (string \<times> string) option" where
  "find_split needle [] = (if needle = [] then Some ([], []) else None)"
| "find_split needle (x # xs) =
     (if prefix needle (x # xs) then Some ([], drop (length needle) (x # xs))
      else map_option (\<lambda>(a, b). (x # a, b)) (find_split needle xs))"

text \<open>The replacement template: \<open>$$\<close>, \<open>$&\<close>, \<open>$`\<close> and \<open>$'\<close> are substituted.\<close>

fun expand_template :: "string \<Rightarrow> string \<Rightarrow> string \<Rightarrow> string \<Rightarrow> string" where
  "expand_template m before after (CHR ''$'' # c # t) =
     (if c = CHR ''$'' then CHR ''$'' # expand_template m before after t
      else if c = CHR ''&'' then m @ expand_template m before after t
      else if c = CHR 0x60 then before @ expand_template m before after t
      else if c = CHR 0x27 then after @ expand_template m before after t
      else CHR ''$'' # expand_template m before after (c # t))"
| "expand_template m before after (c # t) = c # expand_template m before after t"
| "expand_template m before after [] = []"

definition js_replace :: "string \<Rightarrow> string \<Rightarrow> string \<Rightarrow> string" where
  "js_replace s pat repl = (case find_split pat s of
      None \<Rightarrow> s
    | Some (a, b) \<Rightarrow> a @ expand_template pat a b repl @ b)"

section \<open>form\_post.jwt\<close>

definition lower :: "char \<Rightarrow> char" where
  "lower c = (let n = (of_char c :: nat) in if 65 \<le> n \<and> n \<le> 90 then char_of (n + 32) else c)"

text \<open>A literal of a case-insensitive expression at the head of the text.\<close>

fun match_ci :: "string \<Rightarrow> string \<Rightarrow> string option" where
  "match_ci [] s = Some s"
| "match_ci (p # ps) [] = None"
| "match_ci (p # ps) (c # s) = (if lower p = lower c then match_ci ps s else None)"

text \<open>\<open>[^>]*\<close> followed by a continuation: longest stretch first, then shorter ones.\<close>

fun star_not_gt :: "(string \<Rightarrow> 'a option) \<Rightarrow> string \<Rightarrow> 'a option" where
  "star_not_gt k [] = k []"
| "star_not_gt k (c # s) =
     (if c = CHR ''>'' then k (c # s)
      else (case star_not_gt k s of Some r \<Rightarrow> Some r | None \<Rightarrow> k (c # s)))"

text \<open>\<open>([^"]*)"\<close>\<close>

definition capture_quoted :: "string \<Rightarrow> string option" where
  "capture_quoted s = (if CHR 0x22 \<in> set s then Some (takeWhile (\<lambda>c. c \<noteq> CHR 0x22) s) else None)"

definition match_value :: "string \<Rightarrow> string option" where
  "match_value s = (case match_ci (''value='' @ [CHR 0x22]) s of
      Some r \<Rightarrow> capture_quoted r | None \<Rightarrow> None)"

definition match_name :: "string \<Rightarrow> string option" where
  "match_name s = (case match_ci (''name='' @ [CHR 0x22] @ ''response'' @ [CHR 0x22]) s of
      Some r \<Rightarrow> star_not_gt match_value r | None \<Rightarrow> None)"

definition match_input :: "string \<Rightarrow> string option" where
  "match_input s = (case match_ci ''<input'' s of
      Some r \<Rightarrow> star_not_gt match_name r | None \<Rightarrow> None)"

fun formPostRegex :: "string \<Rightarrow> string option" where
  "formPostRegex [] = match_input []"
| "formPostRegex (c # s) = (case match_input (c # s) of Some v \<Rightarrow> Some v | None \<Rightarrow> formPostRegex s)"

text \<open>The number of bytes of the white-space character (\<open>\s\<close>) at the head, 0 if there is none.\<close>

definition ws_len :: "string \<Rightarrow> nat" where
  "ws_len s = (case map of_char (take 3 s) :: nat list of
      [] \<Rightarrow> 0
    | a # r \<Rightarrow>
        if a = 32 \<or> (9 \<le> a \<and> a \<le> 13) then 1
        else if a = 0xC2 \<and> take 1 r = [0xA0] then 2
        else if (a # r) \<in> set [[0xE1, 0x9A, 0x80], [0xE2, 0x80, 0xA8], [0xE2, 0x80, 0xA9],
            [0xE2, 0x80, 0xAF], [0xE2, 0x81, 0x9F], [0xE3, 0x80, 0x80], [0xEF, 0xBB, 0xBF]] then 3
        else (case r of [b, c] \<Rightarrow> if a = 0xE2 \<and> b = 0x80 \<and> 0x80 \<le> c \<and> c \<le> 0x8A then 3 else 0
              | _ \<Rightarrow> 0))"

function strip_ws :: "string \<Rightarrow> string" where
  "strip_ws [] = []"
| "strip_ws (c # s) = (if ws_len (c # s) = 0 then c # strip_ws s
     else strip_ws (drop (ws_len (c # s) - 1) s))"
  by pat_completeness auto
termination by (relation "measure length") auto

definition getJwtFromFormPost :: "ext \<Rightarrow> string \<Rightarrow> (string \<times> jwt) res" where
  "getJwtFromFormPost X formData =
     (case formPostRegex formData of
        Some responseJwt \<Rightarrow>
          if responseJwt \<noteq> [] then
            let j = strip_ws responseJwt
            in bindR (x_decodeJwt X j) (\<lambda>decodedJwt. Inr (j, decodedJwt))
          else Inl (new_ValidationFailed
            (''Unable to obtain JWT from form_post.jwt. Form data: '' @ formData) None None)
      | None \<Rightarrow> Inl (new_ValidationFailed
          (''Unable to obtain JWT from form_post.jwt. Form data: '' @ formData) None None))"


section \<open>Serialized parameters read back\<close>

lemma nibble_bounds: "(of_char (c :: char) div 16 :: nat) < 16" "(of_char c mod 16 :: nat) < 16"
  using nat_of_char_less_256 [of c] by linarith+

lemma pct_roundtrip: "d < 16 \<Longrightarrow> unhex (pct_digit d) = d"
  by (auto simp: unhex_def pct_digit_def Let_def)

lemma char_of_nibbles: "char_of (16 * (of_char c div 16) + of_char c mod 16 :: nat) = (c :: char)"
  by (simp add: char_of_char)

lemma special_reserved:
  "unreserved c \<Longrightarrow> c \<noteq> CHR ''+'' \<and> c \<noteq> CHR ''%'' \<and> c \<noteq> CHR ''&'' \<and> c \<noteq> CHR ''=''"
  by (auto simp: unreserved_def Let_def)

lemma form_decode_encode_char: "form_decode (encode_char c @ s) = c # form_decode s"
proof -
  have hex: "unhex (pct_digit (of_char c div 16)) = of_char c div 16"
      "unhex (pct_digit (of_char c mod 16)) = of_char c mod 16"
    by (simp_all add: pct_roundtrip nibble_bounds)
  show ?thesis
  proof (cases "unreserved c")
    case True
    with special_reserved [OF True] show ?thesis by (simp add: encode_char_def)
  next
    case False
    show ?thesis using False char_of_nibbles [of c] by (simp add: encode_char_def hex)
  qed
qed

lemma form_decode_encode [simp]: "form_decode (form_encode s) = s"
  by (induction s) (simp_all add: form_encode_def form_decode_encode_char)

lemma pct_digit_plain: "d < 16 \<Longrightarrow> pct_digit d \<noteq> CHR ''&'' \<and> pct_digit d \<noteq> CHR ''=''"
proof -
  assume "d < 16"
  then have "unreserved (pct_digit d)" by (auto simp: unreserved_def pct_digit_def Let_def)
  then show ?thesis using special_reserved by blast
qed

lemma form_encode_plain: "CHR ''&'' \<notin> set (form_encode s) \<and> CHR ''='' \<notin> set (form_encode s)"
proof (induction s)
  case (Cons c s)
  have "CHR ''&'' \<notin> set (encode_char c) \<and> CHR ''='' \<notin> set (encode_char c)"
    using special_reserved [of c] pct_digit_plain [OF nibble_bounds(1) [of c]]
      pct_digit_plain [OF nibble_bounds(2) [of c]]
    by (auto simp: encode_char_def)
  with Cons show ?case by (simp add: form_encode_def)
qed (simp add: form_encode_def)

lemma drop_index_of:
  "index_of c (s @ c # t) = Some i \<Longrightarrow> c \<notin> set s \<Longrightarrow> drop (Suc i) (s @ c # t) = t"
proof (induction s arbitrary: i)
  case (Cons x s)
  then show ?case by (auto split: if_splits)
qed simp

lemma split_pair_encoded: "split_pair (form_encode k @ ''='' @ form_encode v) = (k, v)"
proof -
  let ?p = "form_encode k @ CHR ''='' # form_encode v"
  obtain i where i: "index_of (CHR ''='') ?p = Some i" using index_of_ex [of "CHR ''=''" ?p] by auto
  have k: "CHR ''='' \<notin> set (form_encode k)" using form_encode_plain by blast
  show ?thesis
    using i take_index_of [OF i k] drop_index_of [OF i k] by (simp add: split_pair_def)
qed

lemma parse_query_URLSearchParams:
  "parse_query (URLSearchParams params) = map (\<lambda>(k, v). (k, to_str v)) params"
proof (cases "params = []")
  case True
  then show ?thesis by (simp add: parse_query_def URLSearchParams_def)
next
  case False
  let ?e = "\<lambda>(k, v). form_encode k @ ''='' @ form_encode (to_str v)"
  have "split_on (CHR ''&'') (join_with ''&'' (map ?e params)) = map ?e params"
    using False form_encode_plain by (intro split_join) auto
  moreover have "filter (\<lambda>p. p \<noteq> []) (map ?e params) = map ?e params"
    by (auto intro: filter_True)
  ultimately have "parse_query (URLSearchParams params) = map (split_pair \<circ> ?e) params"
    by (simp add: parse_query_def URLSearchParams_def)
  then show ?thesis by (auto simp: split_pair_encoded [simplified])
qed

section \<open>Replacement\<close>

lemma expand_template_plain:
  "CHR ''$'' \<notin> set t \<Longrightarrow> expand_template m a b t = t"
  by (induction m a b t rule: expand_template.induct) auto

lemma find_split_Some: "find_split needle s = Some (a, b) \<Longrightarrow> s = a @ needle @ b"
proof (induction s arbitrary: a b)
  case (Cons x s)
  then show ?case
    by (auto simp: prefix_def split: if_splits)
qed (simp split: if_splits)

lemma find_split_None: "find_split needle s = None \<longleftrightarrow> \<not> str_includes needle s"
  by (induction s) auto

lemma js_replace_absent: "\<not> str_includes pat s \<Longrightarrow> js_replace s pat r = s"
  by (simp add: js_replace_def find_split_None [symmetric])

section \<open>The page is searched as the expression says\<close>

lemma match_ci_Some: "match_ci p s = Some r \<Longrightarrow>
    \<exists>q. s = q @ r \<and> map lower q = map lower p"
proof (induction p s rule: match_ci.induct)
  case (3 p ps c s)
  then obtain q where "s = q @ r" "map lower q = map lower ps" by (auto split: if_splits)
  with 3 show ?case by (intro exI [of _ "c # q"]) (auto split: if_splits)
qed auto

lemma star_not_gt_Some: "star_not_gt k s = Some r \<Longrightarrow>
    \<exists>a b. s = a @ b \<and> CHR ''>'' \<notin> set a \<and> k b = Some r"
proof (induction s)
  case (Cons c s)
  show ?case
  proof (cases "c \<noteq> CHR ''>'' \<and> star_not_gt k s = Some r")
    case True
    with Cons.IH obtain a b where "s = a @ b" "CHR ''>'' \<notin> set a" "k b = Some r" by auto
    with True show ?thesis by (intro exI [of _ "c # a"] exI [of _ b]) auto
  next
    case False
    with Cons.prems have "k (c # s) = Some r"
      by (cases "c = CHR ''>''"; cases "star_not_gt k s") simp_all
    then show ?thesis by (intro exI [of _ "[]"] exI [of _ "c # s"]) simp
  qed
qed simp

lemma takeWhile_quote: "c \<notin> set a \<Longrightarrow> takeWhile (\<lambda>d. d \<noteq> c) (a @ c # r) = a"
  by (induction a) auto

lemma capture_quoted_Some:
  "capture_quoted s = Some v \<longleftrightarrow> CHR 0x22 \<notin> set v \<and> (\<exists>r. s = v @ CHR 0x22 # r)"
proof
  assume "capture_quoted s = Some v"
  then have q: "CHR 0x22 \<in> set s" and v: "v = takeWhile (\<lambda>c. c \<noteq> CHR 0x22) s"
    by (auto simp: capture_quoted_def split: if_splits)
  from split_list_first [OF q] obtain a r where s: "s = a @ CHR 0x22 # r" "CHR 0x22 \<notin> set a"
    by blast
  then have "v = a" unfolding v by (simp add: takeWhile_quote)
  with s show "CHR 0x22 \<notin> set v \<and> (\<exists>r. s = v @ CHR 0x22 # r)" by blast
next
  assume "CHR 0x22 \<notin> set v \<and> (\<exists>r. s = v @ CHR 0x22 # r)"
  then show "capture_quoted s = Some v"
    by (auto simp: capture_quoted_def takeWhile_quote)
qed

end
