(* ===== verification/Trust.thy ===== *)
theory Trust
  imports Trust_Types Web_Encoding
begin

text \<open>
  \<open>src/trust/chain.ts\<close> and \<open>src/trust/index.ts\<close>: fetching federation documents, validating a chain
  of them against a trust anchor, renewing a chain.
\<close>

section \<open>Fetching documents\<close>

definition GET :: "string \<Rightarrow> request" where
  "GET url = \<lparr>req_url = url, req_options = True, req_method = ''GET'', req_headers = [], req_body = Undef\<rparr>"

text \<open>\<open>appFetch(r).then(hasStatusOrThrow(status, ErrorClass))\<close>\<close>

definition fetch_expecting :: "ext \<Rightarrow> nat \<Rightarrow> (props \<Rightarrow> js_error) \<Rightarrow> request \<Rightarrow> response io" where
  "fetch_expecting X status E r = bindIO (fetch X r) (\<lambda>res. liftR (hasStatusOrThrow status E res))"

definition getSignedEntityConfiguration :: "ext \<Rightarrow> string \<Rightarrow> string io" where
  "getSignedEntityConfiguration X entityBaseUrl =
     bindIO (fetch_expecting X 200 new_UnexpectedStatusCodeError
       (GET (entityBaseUrl @ ''/.well-known/openid-federation''))) (\<lambda>res. returnIO (res_text res))"

definition getSignedEntityStatement :: "ext \<Rightarrow> string \<Rightarrow> string \<Rightarrow> string io" where
  "getSignedEntityStatement X accreditationBodyBaseUrl subordinatedEntityBaseUrl =
     bindIO (fetch_expecting X 200 new_UnexpectedStatusCodeError
       (GET (accreditationBodyBaseUrl @ ''/fetch?''
          @ URLSearchParams [(''sub'', Str subordinatedEntityBaseUrl)])))
       (\<lambda>res. returnIO (res_text res))"

definition fetchAndParseEntityConfiguration :: "ext \<Rightarrow> string \<Rightarrow> schema \<Rightarrow> js io" where
  "fetchAndParseEntityConfiguration X entityBaseUrl sch =
     bindIO (getSignedEntityConfiguration X entityBaseUrl) (\<lambda>responseText.
     bindIO (liftR (x_decodeJwt X responseText)) (\<lambda>responseJwt.
     liftR (zparse X sch (jwt_object responseJwt))))"

definition getWalletProviderEntityConfiguration :: "ext \<Rightarrow> string \<Rightarrow> js io" where
  "getWalletProviderEntityConfiguration X url =
     fetchAndParseEntityConfiguration X url WalletProviderEntityConfiguration"

definition getCredentialIssuerEntityConfiguration :: "ext \<Rightarrow> string \<Rightarrow> js io" where
  "getCredentialIssuerEntityConfiguration X url =
     fetchAndParseEntityConfiguration X url CredentialIssuerEntityConfiguration"

definition getTrustAnchorEntityConfiguration :: "ext \<Rightarrow> string \<Rightarrow> js io" where
  "getTrustAnchorEntityConfiguration X url =
     fetchAndParseEntityConfiguration X url TrustAnchorEntityConfiguration"

definition getRelyingPartyEntityConfiguration :: "ext \<Rightarrow> string \<Rightarrow> js io" where
  "getRelyingPartyEntityConfiguration X url =
     fetchAndParseEntityConfiguration X url RelyingPartyEntityConfiguration"

definition getEntityConfiguration :: "ext \<Rightarrow> string \<Rightarrow> js io" where
  "getEntityConfiguration X url = fetchAndParseEntityConfiguration X url EntityConfiguration"

definition getEntityStatement :: "ext \<Rightarrow> string \<Rightarrow> string \<Rightarrow> js io" where
  "getEntityStatement X body sub =
     bindIO (getSignedEntityStatement X body sub) (\<lambda>responseText.
     bindIO (liftR (x_decodeJwt X responseText)) (\<lambda>responseJwt.
     liftR (zparse X EntityStatement (jwt_object responseJwt))))"

section \<open>Validating a chain\<close>

record parsed_token =
  pt_header :: js
  pt_payload :: js

definition FirstElementShape :: schema where
  "FirstElementShape = EntityConfiguration"

definition MiddleElementShape :: schema where
  "MiddleElementShape = EntityStatement"

definition LastElementShape :: schema where
  "LastElementShape = ZUnion [EntityStatement, TrustAnchorEntityConfiguration]"

definition selectTokenShape :: "string list \<Rightarrow> nat \<Rightarrow> schema" where
  "selectTokenShape chain elementIndex =
     (if elementIndex = 0 then FirstElementShape
      else if elementIndex = length chain - 1 then LastElementShape
      else MiddleElementShape)"

text \<open>\<open>shape.parse(decode(chain[i]))\<close>\<close>

definition parse_element :: "ext \<Rightarrow> string list \<Rightarrow> nat \<Rightarrow> js res" where
  "parse_element X chain i =
     bindR (x_decodeJwt X (chain ! i)) (\<lambda>j. zparse X (selectTokenShape chain i) (jwt_object j))"

definition selectKid :: "ext \<Rightarrow> string list \<Rightarrow> nat \<Rightarrow> js res" where
  "selectKid X chain currentIndex =
     (if chain ! currentIndex = [] then Inl (new_IoWalletError ''Cannot select kid: empty token'')
      else bindR (parse_element X chain currentIndex) (\<lambda>v. js_path v [''header'', ''kid'']))"

definition selectKeys :: "ext \<Rightarrow> js \<Rightarrow> string list \<Rightarrow> nat \<Rightarrow> js res" where
  "selectKeys X trustAnchorEntity chain currentIndex =
     (if currentIndex = length chain - 1
      then js_path trustAnchorEntity [''payload'', ''jwks'', ''keys'']
      else if chain ! (currentIndex + 1) = []
      then Inl (new_IoWalletError ''Cannot select keys: empty nextToken'')
      else bindR (parse_element X chain (currentIndex + 1)) (\<lambda>v.
             js_path v [''payload'', ''jwks'', ''keys'']))"

text \<open>The two parts of the \<open>async\<close> function \<open>verify\<close>: the key is looked up before its first
  \<open>await\<close>.\<close>

definition has_kid :: "js \<Rightarrow> js \<Rightarrow> bool" where
  "has_kid kid k = (case k of Obj kvs \<Rightarrow> pget kvs ''kid'' = kid | _ \<Rightarrow> False)"

definition find_key :: "string \<times> js \<times> js \<Rightarrow> (string \<times> js) res" where
  "find_key args = (case args of (token, kid, jwks) \<Rightarrow>
     bindR (js_elems jwks) (\<lambda>ks. case find (has_kid kid) ks of
       None \<Rightarrow> Inl (new_Error (''Invalid kid: '' @ to_str kid @ '', token: '' @ token))
     | Some jwk \<Rightarrow> Inr (token, jwk)))"

definition verify_signed :: "ext \<Rightarrow> world \<Rightarrow> string \<times> js \<Rightarrow> parsed_token res" where
  "verify_signed X w tk = bindR (x_verifyJwt X (fst tk) (snd tk) w) (\<lambda>j.
     Inr \<lparr>pt_header = protectedHeader j, pt_payload = jwt_payload j\<rparr>)"

definition select_args :: "ext \<Rightarrow> js \<Rightarrow> string list \<Rightarrow> nat \<Rightarrow> (string \<times> js \<times> js) res" where
  "select_args X trustAnchorEntity chain i =
     bindR (selectKid X chain i) (\<lambda>kid.
     bindR (selectKeys X trustAnchorEntity chain i) (\<lambda>keys. Inr (chain ! i, kid, keys)))"

definition validateTrustChain :: "ext \<Rightarrow> js \<Rightarrow> string list \<Rightarrow> parsed_token list io" where
  "validateTrustChain X trustAnchorEntity chain =
     (if chain = [] then throwIO (new_IoWalletError ''Cannot verify empty trust chain'')
      else bindIO (liftR (mapR (select_args X trustAnchorEntity chain) [0..<length chain])) (\<lambda>args.
           bindIO (liftR (mapR find_key args)) (\<lambda>tks.
           askIO (\<lambda>w. mapR (verify_signed X w) tks))))"

section \<open>Renewing a chain\<close>

definition renew_element :: "ext \<Rightarrow> nat \<Rightarrow> js \<Rightarrow> string io" where
  "renew_element X i e =
     (case x_zod X EntityConfiguration e of
        Inr ec \<Rightarrow> bindIO (liftR (bindR (js_path ec [''payload'', ''iss'']) js_str)) (\<lambda>iss.
          getSignedEntityConfiguration X iss)
      | Inl _ \<Rightarrow> (case x_zod X EntityStatement e of
          Inr es \<Rightarrow> bindIO (liftR (bindR (js_path es [''payload'', ''iss'']) js_str)) (\<lambda>iss.
            bindIO (liftR (bindR (js_path es [''payload'', ''sub'']) js_str)) (\<lambda>sub.
            getSignedEntityStatement X iss sub))
        | Inl _ \<Rightarrow> throwIO (new_IoWalletError
            (''Cannot renew trust chain because the element #'' @ nat_str i @ '' failed to be parsed.''))))"

definition renewTrustChain :: "ext \<Rightarrow> string list \<Rightarrow> string list io" where
  "renewTrustChain X chain =
     bindIO (liftR (mapR (\<lambda>t. bindR (x_decodeJwt X t) (\<lambda>j. Inr (jwt_object j))) chain)) (\<lambda>es.
     allIO (map (\<lambda>(i, e). renew_element X i e) (zip [0..<length es] es)))"

text \<open>Calling an \<open>async\<close> function runs its body and gives a promise: an exception of the body rejects the
  promise and is not an exception of the call.  A promise that an \<open>async\<close> function returns is
  awaited after the function's own \<open>try\<close> blocks are left.\<close>

datatype 'a promise = Resolved 'a | Rejected js_error

definition async_call :: "'a io \<Rightarrow> 'a promise io" where
  "async_call m w = (case m w of (Inr v, w') \<Rightarrow> (Inr (Resolved v), w') | (Inl e, w') \<Rightarrow> (Inr (Rejected e), w'))"

fun await_promise :: "'a promise \<Rightarrow> 'a io" where
  "await_promise (Resolved v) = returnIO v"
| "await_promise (Rejected e) = throwIO e"

definition verifyTrustChain :: "ext \<Rightarrow> js \<Rightarrow> string list \<Rightarrow> bool \<Rightarrow> parsed_token list io" where
  "verifyTrustChain X trustAnchorEntity chain renewOnFail =
     bindIO (catchIO (async_call (validateTrustChain X trustAnchorEntity chain)) (\<lambda>err.
        if renewOnFail then
          bindIO (renewTrustChain X chain) (\<lambda>renewedChain.
          async_call (validateTrustChain X trustAnchorEntity renewedChain))
        else throwIO err)) await_promise"

section \<open>Requests of the fetching functions\<close>

lemma fetch_expecting_Inr: "fetch_expecting X n E r w = (Inr res, w') \<longleftrightarrow>
    x_fetch X r w = Inr res \<and> res_status res = n \<and> w' = sent X r w"
  by (auto simp: fetch_expecting_def bindIO_Inr_iff fetch_def hasStatusOrThrow_Inr_iff)

lemma fetch_expecting_world: "snd (fetch_expecting X n E r w) = sent X r w"
  by (auto simp: fetch_expecting_def bindIO_def fetch_def split: prod.splits sum.splits)

lemma sends_fetch_expecting: "sends 1 (fetch_expecting X n E r)"
  by (rule sendsI) (simp add: fetch_expecting_world)

lemma fetched_document:
  assumes "fetchAndParseEntityConfiguration X url sch w = (Inr v, w')"
  shows "\<exists>res j. x_fetch X (GET (url @ ''/.well-known/openid-federation'')) w = Inr res
    \<and> res_status res = 200 \<and> x_decodeJwt X (res_body res) = Inr j
    \<and> zparse X sch (jwt_object j) = Inr v
    \<and> w' = sent X (GET (url @ ''/.well-known/openid-federation'')) w"
  using assms
  by (auto simp: fetchAndParseEntityConfiguration_def getSignedEntityConfiguration_def bindIO_Inr_iff
      fetch_expecting_Inr res_text_def)

lemma zparse_conforms: "zod_library (x_zod X) \<Longrightarrow> zparse X s v = Inr u \<Longrightarrow> conforms s u"
  using zod_library.result_conforms [of "x_zod X" s v u] by (simp add: zparse_def)

lemma sends_getSignedEntityConfiguration: "sends 1 (getSignedEntityConfiguration X url)"
  unfolding getSignedEntityConfiguration_def
  by (intro sends_bind_still sends_fetch_expecting still_sends still_prims)

lemma sends_fetchAndParse: "sends 1 (fetchAndParseEntityConfiguration X url sch)"
  unfolding fetchAndParseEntityConfiguration_def
  by (intro sends_bind_still sends_getSignedEntityConfiguration sends_bind0 still_sends still_prims)

section \<open>Chains of trust\<close>

text \<open>Element \<open>i\<close> is signed by one of \<open>ks\<close>, the first with the \<open>kid\<close> of the element's header.\<close>

definition signed_under :: "ext \<Rightarrow> world \<Rightarrow> string list \<Rightarrow> nat \<Rightarrow> js list \<Rightarrow> bool" where
  "signed_under X w chain i ks \<longleftrightarrow> (\<exists>kid jwk. selectKid X chain i = Inr kid
     \<and> find (has_kid kid) ks = Some jwk \<and> isOk (x_verifyJwt X (chain ! i) jwk w))"

text \<open>\<open>anchored i\<close>: there is a path of signatures from element \<open>i\<close> to the trust anchor.\<close>

inductive anchored :: "ext \<Rightarrow> world \<Rightarrow> js \<Rightarrow> string list \<Rightarrow> nat \<Rightarrow> bool"
  for X :: ext and w :: world and anchor :: js and chain :: "string list" where
  by_anchor: "Suc i = length chain \<Longrightarrow> js_path anchor [''payload'', ''jwks'', ''keys''] = Inr (Arr ks) \<Longrightarrow>
    signed_under X w chain i ks \<Longrightarrow> anchored X w anchor chain i"
| by_next: "Suc i < length chain \<Longrightarrow> chain ! Suc i \<noteq> [] \<Longrightarrow> parse_element X chain (Suc i) = Inr v \<Longrightarrow>
    js_path v [''payload'', ''jwks'', ''keys''] = Inr (Arr ks) \<Longrightarrow>
    signed_under X w chain i ks \<Longrightarrow> anchored X w anchor chain (Suc i) \<Longrightarrow>
    anchored X w anchor chain i"

definition link_ok :: "ext \<Rightarrow> world \<Rightarrow> js \<Rightarrow> string list \<Rightarrow> nat \<Rightarrow> bool" where
  "link_ok X w anchor chain i \<longleftrightarrow>
     (\<exists>ks. selectKeys X anchor chain i = Inr (Arr ks) \<and> signed_under X w chain i ks)"

lemma link_ok_last: "Suc i = length chain \<Longrightarrow> link_ok X w anchor chain i \<longleftrightarrow>
    (\<exists>ks. js_path anchor [''payload'', ''jwks'', ''keys''] = Inr (Arr ks)
       \<and> signed_under X w chain i ks)"
  by (auto simp: link_ok_def selectKeys_def simp del: js_path.simps)

lemma link_ok_inner: "Suc i < length chain \<Longrightarrow> link_ok X w anchor chain i \<longleftrightarrow>
    chain ! Suc i \<noteq> [] \<and> (\<exists>v ks. parse_element X chain (Suc i) = Inr v
       \<and> js_path v [''payload'', ''jwks'', ''keys''] = Inr (Arr ks) \<and> signed_under X w chain i ks)"
  by (auto simp: link_ok_def selectKeys_def bindR_Inr_iff simp del: js_path.simps)

lemma anchored_iff_links:
  assumes "i < length chain"
  shows "anchored X w anchor chain i \<longleftrightarrow> (\<forall>j. i \<le> j \<and> j < length chain \<longrightarrow> link_ok X w anchor chain j)"
  using assms
proof (induction "length chain - i" arbitrary: i)
  case (Suc m)
  show ?case
  proof (cases "Suc i = length chain")
    case True
    then have "anchored X w anchor chain i \<longleftrightarrow> link_ok X w anchor chain i"
      by (subst anchored.simps) (auto simp: link_ok_last simp del: js_path.simps)
    moreover have "i \<le> j \<and> j < length chain \<longleftrightarrow> j = i" for j using True by auto
    ultimately show ?thesis by simp
  next
    case False
    with Suc.prems have i: "Suc i < length chain" by simp
    with Suc.hyps Suc.prems have IH: "anchored X w anchor chain (Suc i) \<longleftrightarrow>
        (\<forall>j. Suc i \<le> j \<and> j < length chain \<longrightarrow> link_ok X w anchor chain j)" by simp
    have "anchored X w anchor chain i \<longleftrightarrow>
        link_ok X w anchor chain i \<and> anchored X w anchor chain (Suc i)"
      using i by (subst anchored.simps) (auto simp: link_ok_inner simp del: js_path.simps)
    with IH Suc.prems show ?thesis by (metis le_antisym not_less_eq_eq order_refl Suc_leD)
  qed
qed simp

lemma mapR_compose:
  "(\<exists>ys. mapR f xs = Inr ys \<and> mapR g ys = Inr zs) \<longleftrightarrow> mapR (\<lambda>x. bindR (f x) g) xs = Inr zs"
proof (induction xs arbitrary: zs)
  case (Cons x xs)
  show ?case by (auto simp: bindR_Inr_iff Cons [symmetric])
qed auto

lemma validate_ok_pointwise:
  "fst (validateTrustChain X anchor chain w) = Inr ts \<longleftrightarrow> chain \<noteq> [] \<and>
     mapR (\<lambda>i. bindR (bindR (select_args X anchor chain i) find_key) (verify_signed X w))
       [0..<length chain] = Inr ts"
proof -
  have "mapR (\<lambda>i. bindR (bindR (select_args X anchor chain i) find_key) (verify_signed X w))
      [0..<length chain] = Inr ts \<longleftrightarrow>
    (\<exists>tks. (\<exists>as. mapR (select_args X anchor chain) [0..<length chain] = Inr as \<and>
       mapR find_key as = Inr tks) \<and> mapR (verify_signed X w) tks = Inr ts)"
    by (simp only: mapR_compose [symmetric])
  then show ?thesis by (auto simp: validateTrustChain_def fst_bindIO_Inr)
qed

lemma link_step_ok:
  "(\<exists>t. bindR (bindR (select_args X anchor chain i) find_key) (verify_signed X w) = Inr t) \<longleftrightarrow>
     link_ok X w anchor chain i" (is "?L \<longleftrightarrow> ?R")
proof
  assume ?L
  then show ?R
    by (auto simp: select_args_def find_key_def verify_signed_def link_ok_def signed_under_def
        bindR_Inr_iff js_elems_Inr_iff isOk_iff split: option.splits)
next
  assume ?R
  then show ?L
    by (auto simp: select_args_def find_key_def verify_signed_def link_ok_def signed_under_def
        js_elems_def isOk_iff)
qed

lemma validate_ok_links:
  "isOk (fst (validateTrustChain X anchor chain w)) \<longleftrightarrow>
     chain \<noteq> [] \<and> (\<forall>i < length chain. link_ok X w anchor chain i)"
proof -
  have "(\<exists>ts. mapR (\<lambda>i. bindR (bindR (select_args X anchor chain i) find_key) (verify_signed X w))
      [0..<length chain] = Inr ts) \<longleftrightarrow> (\<forall>i < length chain. link_ok X w anchor chain i)"
    by (auto simp: mapR_ok_iff link_step_ok)
  then show ?thesis by (auto simp: isOk_iff validate_ok_pointwise)
qed

lemma validate_ok_anchored:
  "isOk (fst (validateTrustChain X anchor chain w)) \<longleftrightarrow> chain \<noteq> [] \<and> anchored X w anchor chain 0"
  by (cases "chain = []") (simp_all add: validate_ok_links anchored_iff_links)

lemma validate_still: "still (validateTrustChain X anchor chain)"
  unfolding validateTrustChain_def by (auto intro!: effect_intros)

end
