(* ===== verification/Trust_Correct.thy ===== *)
theory Trust_Correct
  imports Trust Sample_Environment
begin

text \<open>
  What the federation component guarantees: validation of chains, renewal, fetched documents;
  and that a failed validation does not lead to the renewal.
\<close>

section \<open>Shapes of chain elements\<close>

lemma shape_paths:
  assumes zod: "zod_library (x_zod X)" and v: "parse_element X chain i = Inr v"
  shows "\<exists>kid. js_path v [''header'', ''kid''] = Inr (Str kid)"
    and "\<exists>ks. js_path v [''payload'', ''jwks'', ''keys''] = Inr (Arr ks)"
proof -
  have c: "conforms (selectTokenShape chain i) v"
    using v zparse_conforms [OF zod] by (auto simp: parse_element_def bindR_Inr_iff)
  have "conforms BaseEntityConfiguration v \<or> conforms EntityStatement v"
  proof (cases "i = 0")
    case True
    then have "selectTokenShape chain i = EntityConfiguration"
      by (simp add: selectTokenShape_def FirstElementShape_def)
    with c show ?thesis by (simp only: EntityConfiguration_base simp_thms)
  next
    case False
    with c show ?thesis
      by (auto simp: selectTokenShape_def LastElementShape_def MiddleElementShape_def
          TrustAnchorEntityConfiguration_def simp del: conforms.simps(9,10) split: if_splits)
  qed
  then show "\<exists>kid. js_path v [''header'', ''kid''] = Inr (Str kid)"
    and "\<exists>ks. js_path v [''payload'', ''jwks'', ''keys''] = Inr (Arr ks)"
    using path_string [OF _ configuration_types(1)] path_string [OF _ statement_types(1)]
      path_array [OF _ configuration_types(2)] path_array [OF _ statement_types(2)] by blast+
qed

section \<open>Validation\<close>

text \<open>C4. \<open>validateTrustChain\<close> accepts a chain exactly when it is not empty and there is a path of
  signatures from its first element to the trust anchor: each element but the last is signed by the
  key, among those listed by the next element (which parses in the shape its position
  requires), whose \<open>kid\<close> is the one in the element's header, and the last element is signed by such a
  key of the trust anchor.\<close>

theorem validateTrustChain_iff_anchored:
  "isOk (fst (validateTrustChain X anchor chain w)) \<longleftrightarrow> chain \<noteq> [] \<and> anchored X w anchor chain 0"
  by (rule validate_ok_anchored)

text \<open>Selecting keys never goes wrong on well-shaped input: when the anchor is a trust anchor
  configuration and every element is a non-empty token that parses in the shape of its
  position, every element gets a string \<open>kid\<close> and an array of keys, so the outcome of
  the validation only depends on the lookup of the \<open>kid\<close> and on the signatures.\<close>

theorem chain_selection_total:
  assumes zod: "zod_library (x_zod X)" and anchor: "conforms TrustAnchorEntityConfiguration anchor"
    and shapes: "list_all (\<lambda>i. chain ! i \<noteq> [] \<and> isOk (parse_element X chain i)) [0..<length chain]"
    and i: "i < length chain"
  shows "\<exists>kid ks. select_args X anchor chain i = Inr (chain ! i, Str kid, Arr ks)"
proof -
  have el: "chain ! j \<noteq> [] \<and> isOk (parse_element X chain j)" if "j < length chain" for j
    using shapes that by (simp add: list_all_iff)
  have "\<exists>kid. selectKid X chain i = Inr (Str kid)"
    using el [OF i] shape_paths(1) [OF zod]
    by (auto simp: selectKid_def isOk_iff simp del: js_path.simps)
  then obtain kid where kid: "selectKid X chain i = Inr (Str kid)" by blast
  have "\<exists>ks. selectKeys X anchor chain i = Inr (Arr ks)"
  proof (cases "i = length chain - 1")
    case True
    have "conforms BaseEntityConfiguration anchor" using anchor
      by (simp only: TrustAnchorEntityConfiguration_def)
    from path_array [OF this configuration_types(2)] True show ?thesis
      by (auto simp: selectKeys_def simp del: js_path.simps)
  next
    case False
    with i have "Suc i < length chain" by simp
    from el [OF this] shape_paths(2) [OF zod] False show ?thesis
      by (auto simp: selectKeys_def isOk_iff simp del: js_path.simps)
  qed
  with kid show ?thesis by (auto simp: select_args_def)
qed

definition sample_config :: "string \<Rightarrow> string \<Rightarrow> jwt" where
  "sample_config iss key = \<lparr>
     protectedHeader = Obj [(''typ'', Str ''entity-statement+jwt''), (''alg'', Str ''ES256''), (''kid'', Str key)],
     jwt_payload = Obj [(''iss'', Str iss), (''sub'', Str iss), (''iat'', Num 1), (''exp'', Num 2),
       (''metadata'', Obj [(''federation_entity'', Obj [])]),
       (''jwks'', Obj [(''keys'', Arr [Obj [(''kty'', Str ''EC''), (''kid'', Str key)]])])]\<rparr>"

definition anchor_doc :: js where
  "anchor_doc = jwt_object (sample_config ''anchor'' ''k'')"

definition trust_ext :: ext where
  "trust_ext = sample_ext\<lparr>
     x_decodeJwt := (\<lambda>s. if s \<in> set [''old'', ''new''] then Inr (sample_config ''leaf'' ''k'') else Inl sample_error),
     x_verifyJwt := (\<lambda>s _ _. if s = ''new'' then Inr (sample_config ''leaf'' ''k'') else Inl sample_error),
     x_fetch := (\<lambda>_ _. Inr \<lparr>res_status = 200, res_url = ''u'', res_ctype = None, res_body = ''new''\<rparr>)\<rparr>"

lemma trust_zod: "zod_library (x_zod trust_ext)"
  by (simp add: trust_ext_def sample_ext_def reference_zod.zod_library_axioms)

lemma chain_selection_total_witness:
  "\<exists>kid ks. select_args trust_ext anchor_doc [''old''] 0 = Inr ([''old''] ! 0, Str kid, Arr ks)"
proof (rule chain_selection_total [OF trust_zod])
  show "conforms TrustAnchorEntityConfiguration anchor_doc" by code_simp
  show "list_all (\<lambda>i. [''old''] ! i \<noteq> [] \<and> isOk (parse_element trust_ext [''old''] i))
      [0..<length [''old'']]" by code_simp
qed simp

lemma async_returned: "bindIO (catchIO (async_call m) h) await_promise = m"
proof (rule HOL.ext)
  fix w
  show "bindIO (catchIO (async_call m) h) await_promise w = m w"
    by (cases "m w"; cases "fst (m w)") (simp_all add: bindIO_def catchIO_def async_call_def)
qed

text \<open>\<open>verifyTrustChain\<close> is \<open>validateTrustChain\<close>, also with \<open>renewOnFail\<close>: since the promise is
  returned without being awaited, its rejection leaves the \<open>try\<close> block and the renewal
  documented for a failed validation never takes place.  No request is ever sent.\<close>

lemma verifyTrustChain_never_renews:
  "verifyTrustChain X anchor chain renewOnFail w = validateTrustChain X anchor chain w
    \<and> snd (verifyTrustChain X anchor chain renewOnFail w) = w"
  using validate_still [of X anchor chain]
  by (simp add: verifyTrustChain_def async_returned still_def)

section \<open>Renewal\<close>

text \<open>The request that renews a document: its own configuration, or the statement its issuer makes
  about its subject.\<close>

definition renewal_request :: "js \<Rightarrow> request option" where
  "renewal_request e = (case js_path e [''payload'', ''iss''] of
      Inr (Str iss) \<Rightarrow>
        if conforms EntityConfiguration e then Some (GET (iss @ ''/.well-known/openid-federation''))
        else (case js_path e [''payload'', ''sub''] of
            Inr (Str sub) \<Rightarrow> Some (GET (iss @ ''/fetch?'' @ URLSearchParams [(''sub'', Str sub)]))
          | _ \<Rightarrow> None)
    | _ \<Rightarrow> None)"

lemma sub_path_str:
  "sub_val u v \<Longrightarrow> js_path u ks = Inr (Str s) \<Longrightarrow> js_path v ks = Inr (Str s)"
proof (induction ks arbitrary: u v)
  case Nil
  then show ?case by (simp add: sub_val_prim_simps)
next
  case (Cons k ks)
  then obtain x where x: "js_get u k = Inr x" "js_path x ks = Inr (Str s)"
    by (auto simp: bindR_Inr_iff)
  then have ne: "x \<noteq> Undef" by (cases ks) (auto simp: js_get_def)
  with x obtain us where u: "u = Obj us" "x = pget us k" by (auto simp: js_get_def split: js.splits)
  with Cons.prems obtain vs where v: "v = Obj vs" by (auto dest: sub_val_obj_right)
  with Cons.prems u ne have "sub_val x (pget vs k)" by (auto simp: sub_val_Obj_iff)
  from Cons.IH [OF this x(2)] v show ?case by simp
qed

lemma renew_element_request:
  assumes zod: "zod_library (x_zod X)" and ok: "renew_element X i e w = (Inr t, w')"
  shows "\<exists>r. renewal_request e = Some r \<and> w_sent w' = w_sent w @ [r]"
proof (cases "x_zod X EntityConfiguration e")
  case (Inr ec)
  then have ce: "conforms EntityConfiguration e" and sub: "sub_val ec e"
    using zod_library.ok_conforms [OF zod] zod_library.result_sub [OF zod] by blast+
  from ok Inr obtain iss where i: "js_path ec [''payload'', ''iss''] = Inr (Str iss)"
    and g: "getSignedEntityConfiguration X iss w = (Inr t, w')"
    by (auto simp: renew_element_def bindIO_Inr_iff bindR_Inr_iff simp del: js_path.simps)
  from g sub_path_str [OF sub i] ce show ?thesis
    by (auto simp: renewal_request_def getSignedEntityConfiguration_def bindIO_Inr_iff
        fetch_expecting_Inr simp del: js_path.simps conforms.simps)
next
  case (Inl m)
  then have ce: "\<not> conforms EntityConfiguration e"
    using zod_library.conforms_ok [OF zod] by force
  from ok Inl obtain es where es: "x_zod X EntityStatement e = Inr es"
    by (auto simp: renew_element_def split: sum.splits)
  then have sub: "sub_val es e" using zod_library.result_sub [OF zod] by blast
  from ok Inl es obtain iss sb where i: "js_path es [''payload'', ''iss''] = Inr (Str iss)"
      "js_path es [''payload'', ''sub''] = Inr (Str sb)"
    and g: "getSignedEntityStatement X iss sb w = (Inr t, w')"
    by (auto simp: renew_element_def bindIO_Inr_iff bindR_Inr_iff simp del: js_path.simps)
  from g i [THEN sub_path_str [OF sub]] ce show ?thesis
    by (auto simp: renewal_request_def getSignedEntityStatement_def bindIO_Inr_iff
        fetch_expecting_Inr simp del: js_path.simps conforms.simps)
qed

lemma renew_all_requests:
  assumes zod: "zod_library (x_zod X)"
  shows "allIO (map (\<lambda>(i, e). renew_element X i e) ies) w = (Inr ts, w') \<Longrightarrow>
    \<exists>rs. map Some rs = map (\<lambda>(i, e). renewal_request e) ies \<and> w_sent w' = w_sent w @ rs
      \<and> length ts = length ies"
proof (induction ies arbitrary: w ts)
  case (Cons ie ies)
  obtain i e where ie: "ie = (i, e)" by (cases ie)
  from Cons.prems obtain t ts' w1 where h: "renew_element X i e w = (Inr t, w1)"
    and tl: "allIO (map (\<lambda>(i, e). renew_element X i e) ies) w1 = (Inr ts', w')" and ts: "ts = t # ts'"
    by (auto simp: ie bindR_Inr_iff split: prod.splits)
  obtain r where r: "renewal_request e = Some r" "w_sent w1 = w_sent w @ [r]"
    using renew_element_request [OF zod h] by blast
  obtain rs where "map Some rs = map (\<lambda>(i, e). renewal_request e) ies" "w_sent w' = w_sent w1 @ rs"
    "length ts' = length ies" using Cons.IH [OF tl] by blast
  with r ts show ?case by (intro exI [of _ "r # rs"]) (simp add: ie)
qed simp

text \<open>A successful renewal asks for each element of the chain once, in the order of the chain: an
  element that is an entity configuration at its issuer's well-known url, any other at its issuer's
  fetch endpoint for its subject; it returns as many tokens as the chain has.\<close>

theorem renewTrustChain_requests:
  assumes zod: "zod_library (x_zod X)" and ok: "renewTrustChain X chain w = (Inr renewed, w')"
  shows "\<exists>es rs. mapR (\<lambda>t. bindR (x_decodeJwt X t) (\<lambda>j. Inr (jwt_object j))) chain = Inr es
    \<and> map Some rs = map renewal_request es \<and> w_sent w' = w_sent w @ rs
    \<and> length renewed = length chain"
proof -
  from ok obtain es where es: "mapR (\<lambda>t. bindR (x_decodeJwt X t) (\<lambda>j. Inr (jwt_object j))) chain = Inr es"
    and all: "allIO (map (\<lambda>(i, e). renew_element X i e) (zip [0..<length es] es)) w = (Inr renewed, w')"
    by (auto simp: renewTrustChain_def bindIO_Inr_iff)
  have "map (\<lambda>(i, e). renewal_request e) (zip [0..<length es] es) = map renewal_request es"
    by (simp add: map_snd_zip_take case_prod_unfold map_map [symmetric, of renewal_request snd, unfolded comp_def] del: map_map)
  with renew_all_requests [OF zod all] es mapR_length [OF es] show ?thesis by auto
qed

lemma renewTrustChain_requests_witness:
  "\<exists>renewed w' es rs. renewTrustChain trust_ext [''old''] sample_world = (Inr renewed, w')
    \<and> mapR (\<lambda>t. bindR (x_decodeJwt trust_ext t) (\<lambda>j. Inr (jwt_object j))) [''old''] = Inr es
    \<and> map Some rs = map renewal_request es \<and> w_sent w' = w_sent sample_world @ rs
    \<and> length renewed = length [''old'']"
proof -
  have "isOk (fst (renewTrustChain trust_ext [''old''] sample_world))" by code_simp
  then obtain renewed w' where r: "renewTrustChain trust_ext [''old''] sample_world = (Inr renewed, w')"
    by (cases "renewTrustChain trust_ext [''old''] sample_world") (auto simp: isOk_iff)
  from renewTrustChain_requests [OF trust_zod r] r show ?thesis by auto
qed

section \<open>Fetched documents\<close>

text \<open>A fetched entity configuration was obtained with exactly one \<open>GET\<close> of the entity's
  well-known url, answered with status 200, and has the shape of the requested kind of
  entity; but its signature plays no part: the result is the same for every behaviour of
  the signature check.\<close>

theorem fetched_configuration:
  assumes zod: "zod_library (x_zod X)"
    and ok: "fetchAndParseEntityConfiguration X url sch w = (Inr v, w')"
  shows "conforms sch v
    \<and> w' = sent X (GET (url @ ''/.well-known/openid-federation'')) w
    \<and> (\<exists>res. x_fetch X (GET (url @ ''/.well-known/openid-federation'')) w = Inr res \<and> res_status res = 200)
    \<and> fetchAndParseEntityConfiguration (X\<lparr>x_verifyJwt := check\<rparr>) url sch w = (Inr v, w')"
proof -
  have same: "fetchAndParseEntityConfiguration (X\<lparr>x_verifyJwt := check\<rparr>) url sch w =
      fetchAndParseEntityConfiguration X url sch w"
    by (simp add: fetchAndParseEntityConfiguration_def getSignedEntityConfiguration_def
        fetch_expecting_def fetch_def [abs_def] sent_def zparse_def)
  from fetched_document [OF ok] zparse_conforms [OF zod] ok same show ?thesis by auto
qed

lemma fetched_configuration_witness:
  "\<exists>v w'. fetchAndParseEntityConfiguration trust_ext ''e'' EntityConfiguration sample_world = (Inr v, w')
    \<and> conforms EntityConfiguration v
    \<and> fetchAndParseEntityConfiguration (trust_ext\<lparr>x_verifyJwt := (\<lambda>_ _ _. Inl sample_error)\<rparr>) ''e''
        EntityConfiguration sample_world = (Inr v, w')"
proof -
  have "isOk (fst (fetchAndParseEntityConfiguration trust_ext ''e'' EntityConfiguration sample_world))"
    by code_simp
  then obtain v w' where
    r: "fetchAndParseEntityConfiguration trust_ext ''e'' EntityConfiguration sample_world = (Inr v, w')"
    by (cases "fetchAndParseEntityConfiguration trust_ext ''e'' EntityConfiguration sample_world")
      (auto simp: isOk_iff)
  from fetched_configuration [OF trust_zod r, of "\<lambda>_ _ _. Inl sample_error"] r show ?thesis by blast
qed

end
