(* ===== verification/Form_Post.thy ===== *)
theory Form_Post
  imports Web_Encoding
begin

text \<open>
  The value a \<open>form_post.jwt\<close> page carries is the one \<open>getJwtFromFormPost\<close> extracts: the greedy,
  backtracking search of the expression ends at the hidden input the page is made for.
\<close>

abbreviation quot :: char where
  "quot \<equiv> CHR 0x22"

lemma lower_plain: "lower c = CHR 0x22 \<longleftrightarrow> c = CHR 0x22" "lower c = CHR ''='' \<longleftrightarrow> c = CHR ''=''"
  "lower c = CHR ''>'' \<longleftrightarrow> c = CHR ''>''" "lower c = CHR ''<'' \<longleftrightarrow> c = CHR ''<''"
proof -
  have up: "lower c \<noteq> d" if "c \<noteq> d" "(of_char d :: nat) < 97" for d
  proof
    assume l: "lower c = d"
    with that(1) have n: "65 \<le> (of_char c :: nat)" "(of_char c :: nat) \<le> 90"
      and "d = char_of ((of_char c :: nat) + 32)"
      by (auto simp: lower_def Let_def split: if_splits)
    then have "(of_char d :: nat) = of_char c + 32" by simp
    with n that(2) show False by simp
  qed
  have dn: "lower d = d" if "(of_char d :: nat) < 65" for d
    using that by (simp add: lower_def Let_def)
  show "lower c = CHR 0x22 \<longleftrightarrow> c = CHR 0x22" "lower c = CHR ''='' \<longleftrightarrow> c = CHR ''=''"
    "lower c = CHR ''>'' \<longleftrightarrow> c = CHR ''>''" "lower c = CHR ''<'' \<longleftrightarrow> c = CHR ''<''"
    using up [of "CHR 0x22"] up [of "CHR ''=''"] up [of "CHR ''>''"] up [of "CHR ''<''"]
      dn [of "CHR 0x22"] dn [of "CHR ''=''"] dn [of "CHR ''>''"] dn [of "CHR ''<''"] by auto
qed

lemma match_ci_self [simp]: "match_ci p (p @ s) = Some s"
  by (induction p) auto

text \<open>Where a literal that ends with an attribute's opening quote matches.\<close>

lemma match_ci_quote:
  assumes "match_ci (p @ ''='' @ quot # t) s = Some r"
  shows "\<exists>u z. s = u @ CHR ''='' # quot # z \<and> map lower u = map lower p"
proof -
  from match_ci_Some [OF assms] obtain q where s: "s = q @ r"
    and q: "map lower q = map lower p @ lower (CHR ''='') # lower quot # map lower t" by auto
  from q obtain u x y v where "q = u @ x # y # v" "map lower u = map lower p"
      "lower x = lower (CHR ''='')" "lower y = lower quot"
    by (auto simp: map_eq_append_conv map_eq_Cons_conv)
  moreover have "lower (CHR ''='') = CHR ''=''" "lower quot = quot" using lower_plain by simp_all
  ultimately have "q = u @ CHR ''='' # quot # v" "map lower u = map lower p"
    using lower_plain(1) [of y] lower_plain(2) [of x] by simp_all
  then have "s = u @ CHR ''='' # quot # (v @ r)" "map lower u = map lower p" using s by simp_all
  then show ?thesis by blast
qed

lemma star_not_gt_here:
  assumes "\<And>c b'. b = c @ b' \<Longrightarrow> c \<noteq> [] \<Longrightarrow> CHR ''>'' \<notin> set c \<Longrightarrow> k b' = None"
  shows "star_not_gt k b = k b"
proof (cases b)
  case (Cons x xs)
  show ?thesis
  proof (cases "x = CHR ''>''")
    case False
    have "star_not_gt k xs = None"
    proof (rule ccontr)
      assume "star_not_gt k xs \<noteq> None"
      then obtain r where "star_not_gt k xs = Some r" by auto
      from star_not_gt_Some [OF this] obtain a b' where "xs = a @ b'" "CHR ''>'' \<notin> set a" "k b' = Some r"
        by blast
      with assms [of "x # a" b'] Cons False show False by simp
    qed
    with Cons False show ?thesis by simp
  qed (simp add: Cons)
qed simp

lemma star_not_gt_reaches:
  assumes "CHR ''>'' \<notin> set a" and "k b = Some r"
    and "\<And>c b'. b = c @ b' \<Longrightarrow> c \<noteq> [] \<Longrightarrow> CHR ''>'' \<notin> set c \<Longrightarrow> k b' = None"
  shows "star_not_gt k (a @ b) = Some r"
  using assms(1)
proof (induction a)
  case Nil
  show ?case using star_not_gt_here [OF assms(3)] assms(2) by simp
next
  case (Cons d a)
  then show ?case by auto
qed

lemma next_quote:
  assumes "C @ q # r = A @ q # B" and "q \<notin> set A"
  shows "(C = A \<and> r = B) \<or> (\<exists>C'. C = A @ q # C' \<and> B = C' @ q # r)"
  using assms
proof (induction A arbitrary: C)
  case Nil
  then show ?case by (cases C) auto
next
  case (Cons x A)
  then obtain C' where "C = x # C'" by (cases C) auto
  with Cons show ?case by auto
qed

text \<open>After the opening quote of the value no attribute starts before the tag is closed.\<close>

lemma no_later_quote:
  assumes "v @ quot # rest = C @ quot # r" and "quot \<notin> set v" and "CHR ''='' \<notin> set v"
    and "quot \<notin> set (takeWhile (\<lambda>c. c \<noteq> CHR ''>'') rest)"
    and "\<exists>u. X @ quot # C = u @ ''=''" and "CHR ''>'' \<notin> set C"
  shows False
  using next_quote [OF assms(1) [symmetric] assms(2)]
proof
  assume "C = v \<and> r = rest"
  with assms(3,5) show False by (cases v rule: rev_cases) auto
next
  assume "\<exists>C'. C = v @ quot # C' \<and> rest = C' @ quot # r"
  then obtain C' where "CHR ''>'' \<notin> set C'" "rest = C' @ quot # r" using assms(6) by auto
  then have "quot \<in> set (takeWhile (\<lambda>c. c \<noteq> CHR ''>'') rest)"
    by (auto simp: takeWhile_append)
  with assms(4) show False by simp
qed

lemma lower_no_gt: "map lower u = p \<Longrightarrow> CHR ''>'' \<notin> set p \<Longrightarrow> CHR ''>'' \<notin> set u"
  using lower_plain(3) by (metis (full_types) image_eqI list.set_map)

lemma value_found:
  assumes y: "CHR ''>'' \<notin> set y" and v: "quot \<notin> set v" "CHR ''='' \<notin> set v"
    and rest: "quot \<notin> set (takeWhile (\<lambda>c. c \<noteq> CHR ''>'') rest)"
  shows "star_not_gt match_value (y @ ''value='' @ quot # v @ quot # rest) = Some v"
proof (rule star_not_gt_reaches [OF y])
  show "match_value (''value='' @ quot # v @ quot # rest) = Some v"
    using match_ci_self [of "''value='' @ [quot]" "v @ quot # rest"] v
    by (simp add: match_value_def capture_quoted_Some)
next
  fix c b' assume b: "''value='' @ quot # v @ quot # rest = c @ b'" and c: "c \<noteq> []" "CHR ''>'' \<notin> set c"
  show "match_value b' = None"
  proof (rule ccontr)
    assume "match_value b' \<noteq> None"
    then obtain s where "match_ci (''value'' @ ''='' @ quot # []) b' = Some s"
      by (auto simp: match_value_def split: option.splits)
    from match_ci_quote [OF this] obtain u z where u: "b' = u @ CHR ''='' # quot # z"
      "map lower u = map lower ''value''" by blast
    let ?C = "c @ u @ ''=''"
    have gt: "CHR ''>'' \<notin> set ?C"
      using c lower_no_gt [OF u(2)] by (simp add: lower_def)
    have eq: "?C @ quot # z = ''value='' @ quot # (v @ quot # rest)" using b u by simp
    have "?C \<noteq> ''value=''"
    proof
      assume "?C = ''value=''"
      from arg_cong [OF this, of length] arg_cong [OF u(2), of length] c show False by simp
    qed
    with next_quote [OF eq] obtain C' where
      C': "?C = ''value='' @ quot # C'" "v @ quot # rest = C' @ quot # z" by auto
    have "CHR ''>'' \<notin> set C'" using gt unfolding C'(1) by simp
    moreover have "\<exists>u'. ''value='' @ quot # C' = u' @ ''=''" using C'(1) by (metis append.assoc)
    ultimately show False using no_later_quote [OF C'(2) v rest] by blast
  qed
qed

lemma suffix_conflict:
  assumes "c @ u @ ''='' = a @ ''alue=''" and "length u = 4"
  shows "u = ''alue''"
proof -
  have "(c @ u) @ ''='' = (a @ ''alue'') @ ''=''" using assms(1) by simp
  then have "c @ u = a @ ''alue''" by (simp only: append_same_eq)
  then show ?thesis using assms(2) by (simp add: append_eq_append_conv)
qed

lemma name_found:
  assumes x: "CHR ''>'' \<notin> set x" and y: "CHR ''>'' \<notin> set y" "quot \<notin> set y"
    and v: "quot \<notin> set v" "CHR ''='' \<notin> set v"
    and rest: "quot \<notin> set (takeWhile (\<lambda>c. c \<noteq> CHR ''>'') rest)"
  shows "star_not_gt match_name (x @ ''name='' @ quot # ''response'' @ quot # y @ ''value='' @ quot # v
    @ quot # rest) = Some v"
proof (rule star_not_gt_reaches [OF x])
  let ?t = "y @ ''value='' @ quot # v @ quot # rest"
  show "match_name (''name='' @ quot # ''response'' @ quot # ?t) = Some v"
    using match_ci_self [of "''name='' @ [quot] @ ''response'' @ [quot]" ?t]
      value_found [OF y(1) v rest] by (simp add: match_name_def)
  fix c b' assume b: "''name='' @ quot # ''response'' @ quot # ?t = c @ b'"
    and c: "c \<noteq> []" "CHR ''>'' \<notin> set c"
  show "match_name b' = None"
  proof (rule ccontr)
    assume "match_name b' \<noteq> None"
    then obtain s where "match_ci (''name'' @ ''='' @ quot # ''response'' @ [quot]) b' = Some s"
      by (auto simp: match_name_def split: option.splits)
    from match_ci_quote [OF this] obtain u z where u: "b' = u @ CHR ''='' # quot # z"
      "map lower u = map lower ''name''" by blast
    let ?C = "c @ u @ ''=''"
    have lu: "length u = 4" using arg_cong [OF u(2), of length] by simp
    have gt: "CHR ''>'' \<notin> set ?C"
      using c lower_no_gt [OF u(2)] by (simp add: lower_def)
    have eq: "?C @ quot # z = ''name='' @ quot # (''response'' @ quot # ?t)" using b u by simp
    have "?C \<noteq> ''name=''"
    proof
      assume "?C = ''name=''"
      from arg_cong [OF this, of length] lu c show False by simp
    qed
    with next_quote [OF eq] obtain C1 where
      C1: "?C = ''name='' @ quot # C1" "C1 @ quot # z = ''response'' @ quot # ?t" by auto
    have "C1 \<noteq> ''response''"
    proof
      assume "C1 = ''response''"
      with C1(1) have "last ?C = CHR ''e''" by simp
      then show False by simp
    qed
    with next_quote [OF C1(2)] obtain C2 where
      C2: "C1 = ''response'' @ quot # C2" "C2 @ quot # z = (y @ ''value='') @ quot # (v @ quot # rest)" by auto
    have "C2 \<noteq> y @ ''value=''"
    proof
      assume "C2 = y @ ''value=''"
      with C1(1) C2(1) have "?C = (''name='' @ quot # ''response'' @ quot # y @ ''v'') @ ''alue=''" by simp
      from suffix_conflict [OF this lu] u(2) show False by (simp add: lower_def)
    qed
    with next_quote [OF C2(2)] y(2) obtain C3 where
      C3: "C2 = y @ ''value='' @ quot # C3" "v @ quot # rest = C3 @ quot # z" by auto
    have C: "?C = (''name='' @ quot # ''response'' @ quot # y @ ''value='') @ quot # C3"
      using C1(1) C2(1) C3(1) by simp
    have "CHR ''>'' \<notin> set C3" using gt unfolding C by simp
    moreover have "\<exists>u'. (''name='' @ quot # ''response'' @ quot # y @ ''value='') @ quot # C3 = u' @ ''=''"
      using C by (metis append.assoc)
    ultimately show False using no_later_quote [OF C3(2) v rest] by blast
  qed
qed

text \<open>Nothing before the first \<open><input\<close> matches.\<close>

lemma input_not_before:
  assumes "\<not> str_includes ''<input'' (map lower t)" and "t \<noteq> []"
  shows "match_ci ''<input'' (t @ CHR ''<'' # s) = None"
proof (rule ccontr)
  assume "match_ci ''<input'' (t @ CHR ''<'' # s) \<noteq> None"
  then obtain r where "match_ci ''<input'' (t @ CHR ''<'' # s) = Some r" by auto
  from match_ci_Some [OF this] obtain q where q: "t @ CHR ''<'' # s = q @ r"
    "map lower q = ''<input''" by (auto simp: lower_def)
  have len: "length q = 6" using arg_cong [OF q(2), of length] by simp
  show False
  proof (cases "6 \<le> length t")
    case True
    with q(1) len have "q = take 6 t" by (metis append_eq_conv_conj take_append diff_is_0_eq take0 append_Nil2)
    then have "map lower t = ''<input'' @ map lower (drop 6 t)"
      using q(2) by (metis append_take_drop_id map_append)
    then have "str_includes ''<input'' (map lower t)" unfolding str_includes_iff by (metis append_Nil)
    with assms(1) show False by simp
  next
    case False
    then have i: "length t < 6" by simp
    then have "q ! length t = CHR ''<''" using q(1) len by (metis nth_append nth_append_length)
    then have "(''<input'' :: string) ! length t = CHR ''<''"
      using q(2) i len by (metis lower_plain(4) nth_map)
    moreover have "length t > 0" using assms(2) by simp
    with i have "length t \<in> {1, 2, 3, 4, 5}" unfolding insert_iff empty_iff by linarith
    ultimately show False by auto
  qed
qed

lemma formPost_skip:
  assumes "\<not> str_includes ''<input'' (map lower pre)"
  shows "formPostRegex (pre @ CHR ''<'' # s) = formPostRegex (CHR ''<'' # s)"
  using assms
proof (induction pre)
  case (Cons c pre)
  have "match_ci ''<input'' ((c # pre) @ CHR ''<'' # s) = None"
    by (rule input_not_before [OF Cons.prems]) simp
  then have "match_input (c # pre @ CHR ''<'' # s) = None" by (simp add: match_input_def)
  with Cons show ?case by simp
qed simp

lemma formPost_finds:
  assumes "\<not> str_includes ''<input'' (map lower pre)"
    and "CHR ''>'' \<notin> set x" and "CHR ''>'' \<notin> set y" "quot \<notin> set y"
    and "quot \<notin> set v" "CHR ''='' \<notin> set v"
    and "quot \<notin> set (takeWhile (\<lambda>c. c \<noteq> CHR ''>'') rest)"
  shows "formPostRegex (pre @ ''<input'' @ x @ ''name='' @ quot # ''response'' @ quot # y @ ''value=''
    @ quot # v @ quot # rest) = Some v"
proof -
  let ?b = "x @ ''name='' @ quot # ''response'' @ quot # y @ ''value='' @ quot # v @ quot # rest"
  have "match_input (''<input'' @ ?b) = Some v"
    using name_found [OF assms(2-7)] match_ci_self [of "''<input''" ?b] by (simp add: match_input_def)
  then have "formPostRegex (CHR ''<'' # ''input'' @ ?b) = Some v" by simp
  with formPost_skip [OF assms(1), of "''input'' @ ?b"] show ?thesis by simp
qed

definition printable :: "char \<Rightarrow> bool" where
  "printable c = (33 \<le> (of_char c :: nat) \<and> (of_char c :: nat) < 127)"

lemma ws_len_printable: "printable c \<Longrightarrow> ws_len (c # s) = 0"
  by (auto simp: ws_len_def printable_def split: list.splits)

lemma strip_ws_printable: "list_all printable s \<Longrightarrow> strip_ws s = s"
  by (induction s) (simp_all add: ws_len_printable)

end
