(* ===== verification/Utils_Correct.thy ===== *)
theory Utils_Correct
  imports Keys Form_Post Sample_Environment
begin

text \<open>
  What the utilities guarantee: the status guard, hashes, random strings, obfuscation, keys.
\<close>

section \<open>Responses\<close>

text \<open>The status guard returns the response unchanged exactly when it has the expected status.
  Otherwise it throws an \<open>UnexpectedStatusCodeError\<close> that carries the received status and, as the
  reason, the body (parsed when its content type is JSON) --- except when the body
  claims to be JSON and is not, when the status is lost and a \<open>SyntaxError\<close> is thrown.\<close>

theorem status_guard:
  "(res_status r = n \<and> hasStatusOrThrow n new_UnexpectedStatusCodeError r = Inr r)
   \<or> (res_status r \<noteq> n \<and>
      ((\<exists>e. hasStatusOrThrow n new_UnexpectedStatusCodeError r = Inl e
          \<and> err_class e = UnexpectedStatusCodeError
          \<and> err_get e ''statusCode'' = Num (of_nat (res_status r))
          \<and> parseRawHttpResponse r = Inr (err_get e ''reason''))
       \<or> (hasStatusOrThrow n new_UnexpectedStatusCodeError r = Inl SyntaxError
          \<and> JSON_parse (res_body r) = None)))"
proof (cases "res_status r = n")
  case True
  then show ?thesis by (simp add: hasStatusOrThrow_def)
next
  case False
  then show ?thesis
    using parseRaw_error [of r]
    by (cases "parseRawHttpResponse r") (auto simp: hasStatusOrThrow_def status_error_get)
qed

text \<open>The hash of a credential only depends on its signed part: it is the SHA-256 of the text before
  the first separator, whatever disclosures follow; a text with no separator is rejected.\<close>

theorem credential_hash_of_signed_part:
  "getCredentialHashWithouDiscloures X credential =
     (if CHR ''~'' \<in> set credential then Inr (x_sha256 X (hd (split_on (CHR ''~'') credential)))
      else Inl (new_IoWalletError ''Invalid credential format''))"
proof (cases "CHR ''~'' \<in> set credential")
  case True
  from split_list_first [OF this] obtain s t where
    c: "credential = s @ CHR ''~'' # t" and s: "CHR ''~'' \<notin> set s" by blast
  have "hd (split_on (CHR ''~'') credential) = s"
    using s by (simp add: c split_on_append_sep)
  with True hash_of_parts [OF s, of X t] c show ?thesis by simp
next
  case False
  then show ?thesis by (simp add: getCredentialHashWithouDiscloures_def iffD2 [OF index_of_None])
qed

section \<open>Random strings and obfuscation\<close>

text \<open>With a random source in the unit interval, a random string has exactly the requested
  length and only lower case letters and digits, and it consumes one random number per character.\<close>

theorem random_string_shape:
  assumes "\<And>i. 0 \<le> x_random X i \<and> x_random X i < 1"
  shows "\<exists>s w'. generateRandomAlphaNumericString X sz w = (Inr s, w') \<and> length s = sz
    \<and> list_all alphanumeric s \<and> w' = w\<lparr>w_randoms := w_randoms w + sz\<rparr>"
  by (rule generateRandomAlphaNumericString_spec [OF assms])

lemma random_string_shape_witness:
  "\<exists>s w'. generateRandomAlphaNumericString sample_ext 64 sample_world = (Inr s, w') \<and> length s = 64
    \<and> list_all alphanumeric s \<and> w' = sample_world\<lparr>w_randoms := w_randoms sample_world + 64\<rparr>"
  by (rule random_string_shape) (simp add: sample_ext_def)

text \<open>C35. When the engine's sort returns a permutation of the positions, obfuscation keeps the length,
  replaces exactly \<open>floor(length * percentage / 100)\<close> positions (the percentage clamped to
  0..100) with the filler character and leaves every other character in place.\<close>

theorem obfuscation_exact:
  assumes "mset (randSort [0..<length val]) = mset [0..<length val]"
  shows "\<exists>P. P \<subseteq> {..<length val}
    \<and> int (card P) = \<lfloor>(of_nat (length val) * max 0 (min 100 percentage)) / 100\<rfloor>
    \<and> length (obfuscateString randSort val percentage [filler]) = length val
    \<and> (\<forall>i < length val. obfuscateString randSort val percentage [filler] ! i =
         (if i \<in> P then filler else val ! i))"
proof -
  let ?P = "{i. i < length val \<and>
      i \<in> set (take (charsToObfuscate (length val) percentage) (randSort [0..<length val]))}"
  have "0 \<le> \<lfloor>(of_nat (length val) * max 0 (min 100 percentage)) / 100\<rfloor>" by simp
  then have "int (charsToObfuscate (length val) percentage) =
      \<lfloor>(of_nat (length val) * max 0 (min 100 percentage)) / 100\<rfloor>"
    by (simp add: charsToObfuscate_def)
  with obfuscateString_count [where randSort = randSort and val = val and p = percentage, OF assms]
    obfuscateString_nth [where randSort = randSort and val = val and p = percentage
      and f = filler, OF assms]
  show ?thesis by (intro exI [of _ ?P]) auto
qed

lemma obfuscation_exact_witness:
  "\<exists>P. P \<subseteq> {..<length ''1234567890''}
    \<and> int (card P) = \<lfloor>(of_nat (length ''1234567890'') * max 0 (min 100 60)) / (100 :: rat)\<rfloor>
    \<and> length (obfuscateString rev ''1234567890'' 60 [CHR ''*'']) = length ''1234567890''
    \<and> (\<forall>i < length ''1234567890''. obfuscateString rev ''1234567890'' 60 [CHR ''*''] ! i =
         (if i \<in> P then CHR ''*'' else ''1234567890'' ! i))"
  by (rule obfuscation_exact) simp

section \<open>Keys\<close>

text \<open>The public key of a crypto context is the key of the device with every field kept, except
  that the padding is removed from the coordinates \<open>x\<close>, \<open>y\<close>, \<open>e\<close>, \<open>n\<close> (an empty or absent one is
  left out) and that \<open>kid\<close> is the thumbprint of the key so fixed.\<close>

theorem context_public_key:
  assumes "getPublicKey (createCryptoContextFor X tag) w = Inr jwk"
  shows "\<exists>kvs fixed out t. x_keyPublic X tag w = Inr (Obj kvs) \<and> jwk = Obj out
    \<and> fixBase64EncodingOnKey X (Obj kvs) = Inr (Obj fixed) \<and> x_thumbprint X (Obj fixed) = Inr t
    \<and> pget out ''kid'' = Str t
    \<and> (\<forall>k. k \<noteq> ''kid'' \<longrightarrow> pget out k =
        (if k \<in> {''x'', ''y'', ''e'', ''n''} then unpadded_value X kvs k else pget kvs k))"
proof -
  from assms obtain key fixed t where k: "x_keyPublic X tag w = Inr key"
    and f: "fixBase64EncodingOnKey X key = Inr fixed" and t: "x_thumbprint X fixed = Inr t"
    and out: "(case fixed of Obj kvs \<Rightarrow> Inr (Obj (pset kvs ''kid'' (Str t))) | _ \<Rightarrow> Inl TypeError) = Inr jwk"
    by (auto simp: createCryptoContextFor_def bindR_Inr_iff)
  from f obtain kvs where kvs: "key = Obj kvs" by (auto simp: fixBase64EncodingOnKey_def split: js.splits)
  with f obtain out where o: "fixed = Obj out" "\<And>k. pget out k =
      (if k \<in> {''x'', ''y'', ''e'', ''n''} then unpadded_value X kvs k else pget kvs k)"
    using fixBase64_fields [of X kvs fixed] by blast
  from k f t out kvs o show ?thesis by (auto simp: pget_pset)
qed

lemma context_public_key_witness:
  "\<exists>jwk kvs fixed out t. getPublicKey (createCryptoContextFor sample_ext ''tag'') sample_world = Inr jwk
    \<and> x_keyPublic sample_ext ''tag'' sample_world = Inr (Obj kvs) \<and> jwk = Obj out
    \<and> fixBase64EncodingOnKey sample_ext (Obj kvs) = Inr (Obj fixed)
    \<and> x_thumbprint sample_ext (Obj fixed) = Inr t \<and> pget out ''kid'' = Str t"
proof -
  have "isOk (getPublicKey (createCryptoContextFor sample_ext ''tag'') sample_world)" by code_simp
  then obtain jwk where j: "getPublicKey (createCryptoContextFor sample_ext ''tag'') sample_world = Inr jwk"
    by (auto simp: isOk_iff)
  from context_public_key [OF j] show ?thesis
    by (elim exE conjE) (intro exI conjI, rule j, assumption+)
qed

text \<open>C34. An ephemeral key does not outlive its use: the procedure runs with the context of a key
  that was just created under a fresh tag, its outcome --- value or error --- is the outcome of the whole,
  and afterwards the key is not in the store, also when the procedure fails.\<close>

theorem ephemeral_key_deleted:
  assumes tag: "tag = ''ephemeral-'' @ x_uuidv4 X (w_uuids w)"
    and w1: "w1 = w\<lparr>w_uuids := Suc (w_uuids w)\<rparr>"
    and gen: "x_keyGenerate X tag w1 = Inr ()"
    and del: "\<And>w'. x_keyDelete X tag w' = Inr ()"
  shows "\<exists>w2. tag \<in> set (w_keys w2)
    \<and> fst (withEphemeralKey X fn w) = fst (fn (createCryptoContextFor X tag) w2)
    \<and> tag \<notin> set (w_keys (snd (withEphemeralKey X fn w)))"
proof -
  let ?w2 = "w1\<lparr>w_keys := tag # w_keys w1\<rparr>"
  let ?m = "fn (createCryptoContextFor X tag)"
  have "withEphemeralKey X fn w = finallyIO ?m (deleteKey X tag) ?w2"
    using gen by (simp add: withEphemeralKey_def uuidv4_def bindIO_def generate_def tag w1 Let_def)
  moreover have "deleteKey X tag (snd (?m ?w2)) =
      (Inr (), (snd (?m ?w2))\<lparr>w_keys := removeAll tag (w_keys (snd (?m ?w2)))\<rparr>)"
    using del by (simp add: deleteKey_def)
  from finallyIO_ok [where m = ?m and f = "deleteKey X tag", OF this] calculation
  show ?thesis by (intro exI [of _ ?w2]) simp
qed

lemma ephemeral_key_deleted_witness:
  "\<exists>w2. ''ephemeral-0'' \<in> set (w_keys w2)
    \<and> fst (withEphemeralKey sample_ext (\<lambda>_. throwIO sample_error :: unit io) sample_world) =
        fst ((\<lambda>_. throwIO sample_error :: unit io) (createCryptoContextFor sample_ext ''ephemeral-0'') w2)
    \<and> ''ephemeral-0'' \<notin>
        set (w_keys (snd (withEphemeralKey sample_ext (\<lambda>_. throwIO sample_error :: unit io) sample_world)))"
proof (rule ephemeral_key_deleted [OF _ refl])
  show "''ephemeral-0'' = ''ephemeral-'' @ x_uuidv4 sample_ext (w_uuids sample_world)" by code_simp
qed (simp_all add: sample_ext_def)

section \<open>form\_post.jwt\<close>

text \<open>The token of a \<open>form_post.jwt\<close> page is found and decoded: if the first \<open><input\<close> of the page
  (in any letter case) is the one named \<open>response\<close>, with no closing bracket before its value and no
  quote between its name and its value nor after its value up to the end of the tag, and the value is a
  non-empty printable text without quotes and equal signs, as a compact JWT is, then
  \<open>getJwtFromFormPost\<close> returns exactly that value with its decoding.\<close>

theorem form_post_token_found:
  assumes "\<not> str_includes ''<input'' (map lower pre)"
    and "CHR ''>'' \<notin> set attrs" and "CHR ''>'' \<notin> set gap" "quot \<notin> set gap"
    and "quot \<notin> set token" "CHR ''='' \<notin> set token" "token \<noteq> []" "list_all printable token"
    and "quot \<notin> set (takeWhile (\<lambda>c. c \<noteq> CHR ''>'') rest)"
    and "x_decodeJwt X token = Inr j"
  shows "getJwtFromFormPost X (pre @ ''<input'' @ attrs @ ''name='' @ quot # ''response'' @ quot # gap
    @ ''value='' @ quot # token @ quot # rest) = Inr (token, j)"
  using formPost_finds [OF assms(1-6,9)] assms(7,10) strip_ws_printable [OF assms(8)]
  by (simp only: getJwtFromFormPost_def Let_def) simp

lemma form_post_token_found_witness:
  "getJwtFromFormPost (sample_ext\<lparr>x_decodeJwt := (\<lambda>_. Inr sample_sd_jwt)\<rparr>)
     (''<form action=x><div>'' @ ''<input'' @ '' type=hidden '' @ ''name='' @ quot # ''response'' @ quot # '' ''
      @ ''value='' @ quot # ''ab.cd'' @ quot # '' /></div></form>'') = Inr (''ab.cd'', sample_sd_jwt)"
proof (rule form_post_token_found)
  show "\<not> str_includes ''<input'' (map lower ''<form action=x><div>'')" by code_simp
  show "list_all printable ''ab.cd''" by code_simp
qed simp_all

end
