(* ===== verification/Wallet_Provider.thy ===== *)
theory Wallet_Provider
  imports Web_Encoding Trust
begin

text \<open>
  The wallet's side of the wallet provider: \<open>src/client/index.ts\<close>, \<open>src/wallet-instance/index.ts\<close>
  and \<open>src/wallet-instance-attestation/{index,issuing,types}.ts\<close>.  The API client and the
  \<open>ProblemDetail\<close> schema are generated at build time from an OpenAPI document; they are the
  parameter \<open>G\<close>.
\<close>

section \<open>The generated client\<close>

type_synonym fetcher = "string \<Rightarrow> string \<Rightarrow> js \<Rightarrow> js io"

record generated =
  createWalletProviderApiClient :: "fetcher \<Rightarrow> string \<Rightarrow> string \<Rightarrow> string \<Rightarrow> js \<Rightarrow> js io"
  ProblemDetail :: schema

text \<open>What the sources rely on: a method of the client calls the fetcher with the method, the
  base url followed by the path template, and the parameters.\<close>

definition calls_fetcher :: "generated \<Rightarrow> bool" where
  "calls_fetcher G \<longleftrightarrow> (\<forall>f base m path params.
     createWalletProviderApiClient G f base m path params = f m (base @ path) params)"

section \<open>Client\<close>

definition problem_fallback :: js where
  "problem_fallback = Obj [(''title'', Str ''Invalid response from Wallet Provider'')]"

definition problem_detail :: "ext \<Rightarrow> generated \<Rightarrow> response \<Rightarrow> js" where
  "problem_detail X G r = (case bindR (res_json r) (zparse X (ProblemDetail G)) of
      Inr v \<Rightarrow> v | Inl _ \<Rightarrow> problem_fallback)"

definition validateResponse :: "ext \<Rightarrow> generated \<Rightarrow> response \<Rightarrow> response res" where
  "validateResponse X G r =
     (if \<not> res_ok r then
        let problemDetail = problem_detail X G r in
        bindR (js_get problemDetail ''title'') (\<lambda>title.
          Inl (new_WalletProviderResponseError
            [(''message'', nullish title (Str ''Invalid response from Wallet Provider'')),
             (''reason'', problemDetail),
             (''statusCode'', Num (of_nat (res_status r)))]))
      else Inr r)"

fun interpolate_entries :: "props \<Rightarrow> string \<Rightarrow> string" where
  "interpolate_entries [] url = url"
| "interpolate_entries ((k, v) # kvs) url =
     interpolate_entries kvs (case v of Str value \<Rightarrow> js_replace url (''{'' @ k @ ''}'') value | _ \<Rightarrow> url)"

definition interpolateUrl :: "string \<Rightarrow> js \<Rightarrow> string" where
  "interpolateUrl url params =
     (case params of
        Obj ps \<Rightarrow> (case pget ps ''path'' of
            Obj path \<Rightarrow> interpolate_entries (entries path) url
          | _ \<Rightarrow> url)
      | _ \<Rightarrow> url)"

definition client_request :: "string \<Rightarrow> string \<Rightarrow> js \<Rightarrow> request" where
  "client_request method url params = \<lparr>req_url = interpolateUrl url params, req_options = True, req_method = method,
     req_headers = [(''Content-Type'', Str ''application/json'')],
     req_body = (case params of Obj ps \<Rightarrow> JSON_stringify (pget ps ''body'') | _ \<Rightarrow> Undef)\<rparr>"

definition client_fetcher :: "ext \<Rightarrow> generated \<Rightarrow> fetcher" where
  "client_fetcher X G method url params =
     bindIO (fetch X (client_request method url params)) (\<lambda>res.
     bindIO (liftR (validateResponse X G res)) (\<lambda>r.
     liftR (parseRawHttpResponse r)))"

definition getWalletProviderClient ::
  "ext \<Rightarrow> generated \<Rightarrow> string \<Rightarrow> string \<Rightarrow> string \<Rightarrow> js \<Rightarrow> js io" where
  "getWalletProviderClient X G walletProviderBaseUrl =
     createWalletProviderApiClient G (client_fetcher X G) walletProviderBaseUrl"

section \<open>Wallet instances\<close>

definition createWalletInstance_errors :: response_error_builder where
  "createWalletInstance_errors =
     handle ''*'' (error_case WalletInstanceCreationFailed ''Unable to create wallet instance'')
    (handle ''409'' (error_case WalletInstanceIntegrityFailed
       ''Unable to create a wallet instance with a device that failed the integrity check'')
    (new_ResponseErrorBuilder new_WalletProviderResponseError))"

text \<open>The error the handler throws.\<close>

definition handleCreateWalletInstanceError :: "js_error \<Rightarrow> js_error" where
  "handleCreateWalletInstanceError e =
     (if \<not> instanceof e WalletProviderResponseError then e
      else buildFrom createWalletInstance_errors e)"

definition get_nonce :: "ext \<Rightarrow> generated \<Rightarrow> string \<Rightarrow> js io" where
  "get_nonce X G baseUrl =
     bindIO (getWalletProviderClient X G baseUrl ''get'' ''/nonce'' Undef) (\<lambda>response.
     liftR (js_get response ''nonce''))"

definition createWalletInstance :: "ext \<Rightarrow> generated \<Rightarrow> integrity_context \<Rightarrow> string \<Rightarrow> string io" where
  "createWalletInstance X G integrityContext baseUrl =
     bindIO (get_nonce X G baseUrl) (\<lambda>challenge.
     bindIO (askIO (getAttestation integrityContext challenge)) (\<lambda>keyAttestation.
     let hardwareKeyTag = getHardwareKeyTag integrityContext in
     bindIO (catchIO
       (getWalletProviderClient X G baseUrl ''post'' ''/wallet-instances''
         (Obj [(''body'', Obj [(''challenge'', challenge), (''key_attestation'', Str keyAttestation),
            (''hardware_key_tag'', Str hardwareKeyTag)])]))
       (\<lambda>e. throwIO (handleCreateWalletInstanceError e))) (\<lambda>_.
     returnIO hardwareKeyTag)))"

definition revokeWalletInstance :: "ext \<Rightarrow> generated \<Rightarrow> string \<Rightarrow> string \<Rightarrow> unit io" where
  "revokeWalletInstance X G ident baseUrl =
     bindIO (getWalletProviderClient X G baseUrl ''put'' ''/wallet-instances/{id}/status''
       (Obj [(''path'', Obj [(''id'', Str ident)]), (''body'', Obj [(''status'', Str ''REVOKED'')])]))
     (\<lambda>_. returnIO ())"

definition getWalletInstanceStatus :: "ext \<Rightarrow> generated \<Rightarrow> string \<Rightarrow> string \<Rightarrow> js io" where
  "getWalletInstanceStatus X G ident baseUrl =
     getWalletProviderClient X G baseUrl ''get'' ''/wallet-instances/{id}/status''
       (Obj [(''path'', Obj [(''id'', Str ident)])])"

section \<open>Wallet Instance Attestation\<close>

definition WiaJwt_header :: schema where
  "WiaJwt_header = ZObject [(''alg'', ZString), (''kid'', ZString), (''typ'', ZString),
     (''x5c'', ZOptional (ZArray ZString)), (''trust_chain'', ZOptional (ZArray ZString))]"

definition WiaJwt_payload :: schema where
  "WiaJwt_payload = ZObject [(''iss'', ZString), (''iat'', UnixTime), (''exp'', UnixTime),
     (''cnf'', ZObject [(''jwk'', ZAnd JWK (ZObject [(''kid'', ZString)]))])]"

definition WalletInstanceAttestationRequestJwt :: schema where
  "WalletInstanceAttestationRequestJwt = ZObject
     [(''header'', ZAnd WiaJwt_header (ZObject [(''typ'', ZLiteral ''war+jwt'')])),
      (''payload'', ZAnd WiaJwt_payload (ZObject (strings [''aud'', ''jti'', ''nonce''])))]"

definition sd_jwt_algs :: schema where
  "sd_jwt_algs = ZOptional (ZObject [(''sd-jwt_alg_values'', ZArray ZString)])"

definition WalletInstanceAttestationJwt :: schema where
  "WalletInstanceAttestationJwt = ZObject
     [(''header'', ZAnd WiaJwt_header (ZObject [(''typ'', ZLiteral ''wallet-attestation+jwt'')])),
      (''payload'', ZAnd WiaJwt_payload (ZObject
        [(''sub'', ZString), (''aal'', ZString), (''authorization_endpoint'', ZString),
         (''response_types_supported'', ZArray ZString),
         (''vp_formats_supported'', ZObject [(''vc+sd-jwt'', sd_jwt_algs), (''vp+sd-jwt'', sd_jwt_algs)]),
         (''request_object_signing_alg_values_supported'', ZArray ZString),
         (''presentation_definition_uri_supported'', ZBoolean)]))]"

definition WiaTokenResponse :: schema where
  "WiaTokenResponse = ZObject [(''wallet_attestation'', ZString)]"

text \<open>\<open>WalletInstanceAttestation.decode\<close> and \<open>.verify\<close>.\<close>

definition wia_decode :: "ext \<Rightarrow> string \<Rightarrow> js res" where
  "wia_decode X token = bindR (x_decodeJwt X token) (\<lambda>decodedJwt.
     zparse X WalletInstanceAttestationJwt (jwt_object decodedJwt))"

definition wia_verify :: "ext \<Rightarrow> string \<Rightarrow> js io" where
  "wia_verify X token =
     bindIO (liftR (wia_decode X token)) (\<lambda>dec.
     bindIO (liftR (js_path dec [''payload'', ''cnf'', ''jwk''])) (\<lambda>pubKey.
     bindIO (askIO (x_verifyJwt X token pubKey)) (\<lambda>_. returnIO dec)))"

definition getAttestationRequest ::
  "ext \<Rightarrow> js \<Rightarrow> crypto_context \<Rightarrow> integrity_context \<Rightarrow> string \<Rightarrow> string io" where
  "getAttestationRequest X challenge wiaCryptoContext integrityContext walletProviderBaseUrl =
     bindIO (askIO (getPublicKey wiaCryptoContext)) (\<lambda>jwk.
     bindIO (liftR (zparse X JWK jwk)) (\<lambda>parsedJwk.
     bindIO (liftR (x_thumbprint X parsedJwk)) (\<lambda>keyThumbprint.
     let publicKey = (case parsedJwk of Obj kvs \<Rightarrow> Obj (pset kvs ''kid'' (Str keyThumbprint))
                      | _ \<Rightarrow> Obj [(''kid'', Str keyThumbprint)]);
         clientData = Obj [(''challenge'', challenge), (''jwk_thumbprint'', Str keyThumbprint)];
         hardwareKeyTag = getHardwareKeyTag integrityContext in
     bindIO (askIO (getHardwareSignatureWithAuthData integrityContext (stringify clientData))) (\<lambda>hs.
     bindIO (liftR (fixBase64EncodingOnKey X publicKey)) (\<lambda>fixedKey.
     sign X wiaCryptoContext (SignJWT
       [(''kid'', Str keyThumbprint), (''typ'', Str ''war+jwt'')]
       [(''iss'', Str keyThumbprint), (''sub'', Str walletProviderBaseUrl), (''challenge'', challenge),
        (''hardware_signature'', Str (signature hs)),
        (''integrity_assertion'', Str (authenticatorData hs)),
        (''hardware_key_tag'', Str hardwareKeyTag),
        (''cnf'', Obj [(''jwk'', fixedKey)])]
       (Str ''1h'')))))))"

definition getAttestation_errors :: response_error_builder where
  "getAttestation_errors =
     handle ''*'' (error_case WalletInstanceAttestationIssuingFailed
       ''Unable to obtain wallet instance attestation'')
    (handle ''409'' (error_case WalletInstanceIntegrityFailed
       ''Unable to get an attestation for a Wallet Instance that failed the integrity check'')
    (handle ''404'' (error_case WalletInstanceNotFound
       ''Unable to get an attestation for a Wallet Instance that does not exist'')
    (handle ''403'' (error_case WalletInstanceRevoked
       ''Unable to get an attestation for a revoked Wallet Instance'')
    (new_ResponseErrorBuilder new_WalletProviderResponseError))))"

definition handleAttestationCreationError :: "js_error \<Rightarrow> js_error" where
  "handleAttestationCreationError e =
     (if \<not> instanceof e WalletProviderResponseError then e
      else buildFrom getAttestation_errors e)"

definition wia_getAttestation ::
  "ext \<Rightarrow> generated \<Rightarrow> crypto_context \<Rightarrow> integrity_context \<Rightarrow> string \<Rightarrow> js io" where
  "wia_getAttestation X G wiaCryptoContext integrityContext baseUrl =
     bindIO (get_nonce X G baseUrl) (\<lambda>challenge.
     bindIO (getAttestationRequest X challenge wiaCryptoContext integrityContext baseUrl)
       (\<lambda>signedAttestationRequest.
     bindIO (catchIO
       (bindIO (getWalletProviderClient X G baseUrl ''post'' ''/token''
          (Obj [(''body'', Obj
             [(''grant_type'', Str ''urn:ietf:params:oauth:grant-type:jwt-bearer''),
              (''assertion'', Str signedAttestationRequest)])]))
         (\<lambda>result. liftR (zparse X WiaTokenResponse result)))
       (\<lambda>e. throwIO (handleAttestationCreationError e))) (\<lambda>tokenResponse.
     liftR (js_get tokenResponse ''wallet_attestation''))))"

section \<open>The handlers meet the contract of status error handlers\<close>

interpretation create_instance: status_error_handler handleCreateWalletInstanceError
  WalletProviderResponseError WalletProviderResponseError
  "case_code (errorCases createWalletInstance_errors)"
  by (rule builder_handler [where b = createWalletInstance_errors
        and C = new_WalletProviderResponseError and dflt = "Str WalletProviderGenericError"
        and nm = "Str ''WalletProviderResponseError''"])
    (auto simp: createWalletInstance_errors_def simple_cases_base handle_lookup status_error_get
      handleCreateWalletInstanceError_def split: if_splits)

interpretation attestation_creation: status_error_handler handleAttestationCreationError
  WalletProviderResponseError WalletProviderResponseError
  "case_code (errorCases getAttestation_errors)"
  by (rule builder_handler [where b = getAttestation_errors
        and C = new_WalletProviderResponseError and dflt = "Str WalletProviderGenericError"
        and nm = "Str ''WalletProviderResponseError''"])
    (auto simp: getAttestation_errors_def simple_cases_base handle_lookup status_error_get
      handleAttestationCreationError_def split: if_splits)

lemma create_instance_code: "case_code (errorCases createWalletInstance_errors) s =
    (if s = ''409'' then WalletInstanceIntegrityFailed else WalletInstanceCreationFailed)"
  by (auto simp: case_code_def createWalletInstance_errors_def handle_lookup error_case_def)

lemma attestation_creation_code: "case_code (errorCases getAttestation_errors) s =
    (if s = ''403'' then WalletInstanceRevoked else if s = ''404'' then WalletInstanceNotFound
     else if s = ''409'' then WalletInstanceIntegrityFailed
     else WalletInstanceAttestationIssuingFailed)"
  by (auto simp: case_code_def getAttestation_errors_def handle_lookup error_case_def)

section \<open>Requests of the client\<close>

lemma client_call:
  "calls_fetcher G \<Longrightarrow> getWalletProviderClient X G base m path params =
     client_fetcher X G m (base @ path) params"
  by (simp add: getWalletProviderClient_def calls_fetcher_def)

lemma client_fetcher_Inr: "client_fetcher X G m url params w = (Inr v, w') \<longleftrightarrow>
    (\<exists>res. x_fetch X (client_request m url params) w = Inr res \<and> res_ok res
      \<and> parseRawHttpResponse res = Inr v
      \<and> w' = sent X (client_request m url params) w)"
  by (auto simp: client_fetcher_def bindIO_Inr_iff fetch_def validateResponse_def bindR_Inr_iff Let_def
      split: if_splits)

lemma client_fetcher_world: "snd (client_fetcher X G m url params w) =
    sent X (client_request m url params) w"
  by (auto simp: client_fetcher_def bindIO_def fetch_def split: prod.splits sum.splits)

lemma sends_client_fetcher: "sends 1 (client_fetcher X G m url params)"
  by (rule sendsI) (simp add: client_fetcher_world)

text \<open>A failed status surfaces as a \<open>WalletProviderResponseError\<close> that carries it.\<close>

lemma validateResponse_error:
  assumes zod: "zod_library (x_zod X)"
    and obj: "\<And>v. conforms (ProblemDetail G) v \<Longrightarrow> \<exists>kvs. v = Obj kvs"
    and bad: "\<not> res_ok r"
  shows "\<exists>e. validateResponse X G r = Inl e \<and> err_class e = WalletProviderResponseError
    \<and> err_get e ''statusCode'' = Num (of_nat (res_status r))
    \<and> err_get e ''reason'' = problem_detail X G r
    \<and> err_get e ''code'' = Str WalletProviderGenericError"
proof -
  have "\<exists>kvs. problem_detail X G r = Obj kvs"
  proof (cases "bindR (res_json r) (zparse X (ProblemDetail G))")
    case (Inr v)
    then have "conforms (ProblemDetail G) v" using zparse_conforms [OF zod] by (auto simp: bindR_Inr_iff)
    with Inr obj show ?thesis by (simp add: problem_detail_def)
  qed (simp add: problem_detail_def problem_fallback_def)
  with bad show ?thesis
    by (auto simp: validateResponse_def Let_def status_error_get nullish_def)
qed

section \<open>Interpolation\<close>

lemma find_split_first:
  assumes "\<not> str_includes pat (a @ butlast pat)" and "pat \<noteq> []"
  shows "find_split pat (a @ pat @ b) = Some (a, b)"
  using assms(1)
proof (induction a)
  case Nil
  have "pat @ b \<noteq> []" using assms(2) by simp
  then obtain x xs where "pat @ b = x # xs" by (cases "pat @ b") auto
  moreover from this have "prefix pat (x # xs)" by (metis prefixI)
  ultimately show ?case by (metis append_Nil append_eq_conv_conj find_split.simps(2))
next
  case (Cons c a)
  have "\<not> prefix pat (c # a @ pat @ b)"
  proof
    assume "prefix pat (c # a @ pat @ b)"
    then have "prefix pat ((c # a @ butlast pat) @ last pat # b)"
      using assms(2) by (metis append.assoc append_Cons append_butlast_last_id append_Nil)
    then have "prefix pat (c # a @ butlast pat)"
      by (rule prefix_length_prefix) (use assms(2) in \<open>simp_all add: Suc_leI\<close>)
    with Cons.prems show False by simp
  qed
  with Cons show ?case by simp
qed

lemma js_replace_first:
  assumes "\<not> str_includes pat (a @ butlast pat)" and "pat \<noteq> []" and "CHR ''$'' \<notin> set v"
  shows "js_replace (a @ pat @ b) pat v = a @ v @ b"
  using assms by (simp add: js_replace_def find_split_first expand_template_plain)

text \<open>A named parameter takes the place of its name in the template, when the text before it has no
  brace and the value no dollar sign.\<close>

lemma js_replace_named:
  assumes "CHR ''{'' \<notin> set a" and "CHR ''{'' \<notin> set k" and "CHR ''$'' \<notin> set v"
  shows "js_replace (a @ ''{'' @ k @ ''}'' @ b) (''{'' @ k @ ''}'') v = a @ v @ b"
proof -
  have "\<not> str_includes (''{'' @ k @ ''}'') (a @ butlast (''{'' @ k @ ''}''))"
  proof
    assume "str_includes (''{'' @ k @ ''}'') (a @ butlast (''{'' @ k @ ''}''))"
    then obtain us vs where "a @ CHR ''{'' # k = us @ CHR ''{'' # (k @ ''}'' @ vs)"
      by (auto simp: str_includes_iff butlast_append)
    with assms have "k = k @ ''}'' @ vs" by (simp add: append_Cons_eq_iff)
    then show False by simp
  qed
  from js_replace_first [OF this _ assms(3), of b] show ?thesis by simp
qed

definition status_url :: "string \<Rightarrow> string \<Rightarrow> string" where
  "status_url base ident = base @ ''/wallet-instances/'' @ ident @ ''/status''"

lemma interpolate_status_url:
  assumes "CHR ''{'' \<notin> set base" and "CHR ''$'' \<notin> set ident"
    and "pget ps ''path'' = Obj [(''id'', Str ident)]"
  shows "interpolateUrl (base @ ''/wallet-instances/{id}/status'') (Obj ps) = status_url base ident"
proof -
  have "js_replace ((base @ ''/wallet-instances/'') @ ''{'' @ ''id'' @ ''}'' @ ''/status'')
      (''{'' @ ''id'' @ ''}'') ident = (base @ ''/wallet-instances/'') @ ident @ ''/status''"
    by (rule js_replace_named) (use assms in auto)
  moreover have "entries [(''id'', Str ident)] = [(''id'', Str ident)]"
    by (simp add: entries_def is_array_index_def is_digit_def)
  ultimately show ?thesis
    using assms(3) by (simp add: interpolateUrl_def status_url_def)
qed

section \<open>The attestation request\<close>

lemma wia_types:
  "ZString \<in> set (types_at [WalletInstanceAttestationJwt] [''payload'', ''iss''])"
  "UnixTime \<in> set (types_at [WalletInstanceAttestationJwt] [''payload'', ''exp''])"
  "ZAnd JWK (ZObject [(''kid'', ZString)]) \<in> set (types_at [WalletInstanceAttestationJwt]
     [''payload'', ''cnf'', ''jwk''])"
  "ZString \<in> set (types_at [WalletInstanceAttestationJwt] [''payload'', ''cnf'', ''jwk'', ''kid''])"
  by (simp_all add: WalletInstanceAttestationJwt_def WiaJwt_payload_def)

lemma wia_decode_conforms:
  "zod_library (x_zod X) \<Longrightarrow> wia_decode X t = Inr d \<Longrightarrow> conforms WalletInstanceAttestationJwt d"
  by (auto simp: wia_decode_def bindR_Inr_iff intro: zparse_conforms)

lemma wia_kid:
  assumes "zod_library (x_zod X)" and "wia_decode X t = Inr d"
  shows "\<exists>kid. js_path d [''payload'', ''cnf'', ''jwk'', ''kid''] = Inr (Str kid)"
  by (rule path_string [OF wia_decode_conforms [OF assms] wia_types(4)])

end
