(* ===== verification/Issuance_Authorization.thy ===== *)
theory Issuance_Authorization
  imports Wallet_Provider
begin

text \<open>
  The first half of the issuance flow: \<open>src/utils/{par,auth}.ts\<close> and
  \<open>src/credential/issuance/{02,03,04}*.ts\<close> with \<open>const.ts\<close> and \<open>types.ts\<close>: the issuer's
  configuration, the pushed authorization request, and the two ways an authorization response
  reaches the wallet.
\<close>

section \<open>Schemas\<close>

definition AuthorizationDetail :: schema where
  "AuthorizationDetail = ZObject [(''credential_configuration_id'', ZString),
     (''format'', ZUnion [ZLiteral ''vc+sd-jwt'', ZLiteral ''vc+mdoc-cbor'']),
     (''type'', ZLiteral ''openid_credential'')]"

definition AuthorizationDetails :: schema where
  "AuthorizationDetails = ZArray AuthorizationDetail"

definition AuthorizationResultShape :: schema where
  "AuthorizationResultShape = ZObject [(''code'', ZString), (''state'', ZString),
     (''iss'', ZOptional ZString)]"

definition AuthorizationErrorShape :: schema where
  "AuthorizationErrorShape = ZObject ((''error'', ZString)
     # opt_strings [''error_description'', ''error_uri'', ''state''])"

definition RequestObject :: schema where
  "RequestObject = ZObject [(''iss'', ZString), (''iat'', UnixTime), (''exp'', UnixTime),
     (''state'', ZString), (''nonce'', ZString), (''response_uri'', ZString),
     (''response_type'', ZLiteral ''vp_token''), (''response_mode'', ZLiteral ''direct_post.jwt''),
     (''client_id'', ZString), (''client_id_scheme'', ZLiteral ''entity_id''), (''scope'', ZString)]"

definition ASSERTION_TYPE :: string where
  "ASSERTION_TYPE = ''urn:ietf:params:oauth:client-assertion-type:jwt-client-attestation''"

definition SupportedCredentialFormat :: schema where
  "SupportedCredentialFormat = ZUnion [ZLiteral ''vc+sd-jwt'', ZLiteral ''vc+mdoc-cbor'']"

definition TokenResponse :: schema where
  "TokenResponse = ZObject [(''access_token'', ZString),
     (''authorization_details'', ZArray AuthorizationDetail), (''c_nonce'', ZString),
     (''c_nonce_expires_in'', ZNumber None None), (''expires_in'', ZNumber None None),
     (''token_type'', ZString)]"

definition CredentialResponse :: schema where
  "CredentialResponse = ZObject [(''c_nonce'', ZString), (''c_nonce_expires_in'', ZNumber None None),
     (''credential'', ZString), (''format'', SupportedCredentialFormat)]"

definition ResponseUriResultShape :: schema where
  "ResponseUriResultShape = ZObject [(''redirect_uri'', ZString)]"

section \<open>Shared steps\<close>

text \<open>A string property of the issuer configuration.\<close>

definition conf_str :: "js \<Rightarrow> string list \<Rightarrow> string res" where
  "conf_str conf ks = bindR (js_path conf ks) js_str"

text \<open>\<open>`${url.protocol}//${url.hostname}`\<close> of \<open>new URL(endpoint)\<close>\<close>

definition origin_of :: "ext \<Rightarrow> string \<Rightarrow> string res" where
  "origin_of X endpoint = bindR (x_URL X endpoint) (\<lambda>u. Inr (u_protocol u @ ''//'' @ u_hostname u))"

definition wia_holder_kid :: "ext \<Rightarrow> string \<Rightarrow> js res" where
  "wia_holder_kid X wia = bindR (wia_decode X wia) (\<lambda>d.
     js_path d [''payload'', ''cnf'', ''jwk'', ''kid''])"

definition form_headers :: props where
  "form_headers = [(''Content-Type'', Str ''application/x-www-form-urlencoded'')]"

definition POST :: "string \<Rightarrow> props \<Rightarrow> js \<Rightarrow> request" where
  "POST url headers body = \<lparr>req_url = url, req_options = True, req_method = ''POST'', req_headers = headers,
     req_body = body\<rparr>"

text \<open>\<open>safeParse\<close> followed by \<open>throw new ValidationFailed(...)\<close> when it fails.\<close>

definition validated :: "ext \<Rightarrow> schema \<Rightarrow> string \<Rightarrow> js \<Rightarrow> js res" where
  "validated X s m v = (case x_zod X s v of
      Inr u \<Rightarrow> Inr u | Inl reason \<Rightarrow> Inl (new_ValidationFailed m None (Some reason)))"

section \<open>Evaluating the issuer\<close>

definition evaluateIssuerTrust :: "ext \<Rightarrow> string \<Rightarrow> js io" where
  "evaluateIssuerTrust X issuerUrl =
     bindIO (getCredentialIssuerEntityConfiguration X issuerUrl) (\<lambda>ec.
     liftR (js_path ec [''payload'', ''metadata'']))"

section \<open>Pushed authorization request\<close>

definition makeParRequest :: "ext \<Rightarrow> crypto_context \<Rightarrow> js \<Rightarrow> string \<Rightarrow> string \<Rightarrow> string \<Rightarrow> string \<Rightarrow>
    string \<Rightarrow> js list \<Rightarrow> string \<Rightarrow> js io" where
  "makeParRequest X wiaCryptoContext clientId codeVerifier redirectUri responseMode parEndpoint
       walletInstanceAttestation authorizationDetails assertionType =
     bindIO (askIO (getPublicKey wiaCryptoContext)) (\<lambda>wiaPublicKey.
     bindIO (liftR (origin_of X parEndpoint)) (\<lambda>aud.
     bindIO (liftR (wia_holder_kid X walletInstanceAttestation)) (\<lambda>iss.
     bindIO (uuidv4 X) (\<lambda>popJti.
     bindIO (createPopToken X [(''jti'', Str popJti), (''aud'', Str aud), (''iss'', iss)]
       wiaCryptoContext) (\<lambda>signedWiaPoP.
     let codeChallengeMethod = ''S256'';
         codeChallenge = x_sha256ToBase64 X codeVerifier;
         clientAssertion = walletInstanceAttestation @ ''~'' @ signedWiaPoP in
     bindIO (liftR (js_get wiaPublicKey ''kid'')) (\<lambda>kid.
     bindIO (uuidv4 X) (\<lambda>jti.
     bindIO (generateRandomAlphaNumericString X 32) (\<lambda>state.
     bindIO (sign X wiaCryptoContext (SignJWT
       [(''typ'', Str ''jwk''), (''kid'', kid)]
       [(''jti'', Str jti), (''aud'', Str aud), (''response_type'', Str ''code''),
        (''response_mode'', Str responseMode), (''client_id'', clientId), (''iss'', iss),
        (''state'', Str state), (''code_challenge'', Str codeChallenge),
        (''code_challenge_method'', Str codeChallengeMethod),
        (''authorization_details'', Arr authorizationDetails), (''redirect_uri'', Str redirectUri),
        (''client_assertion_type'', Str assertionType), (''client_assertion'', Str clientAssertion)]
       (Str ''5min''))) (\<lambda>signedJwtForPar.
     let formBody = URLSearchParams
       [(''response_type'', Str ''code''), (''client_id'', clientId),
        (''code_challenge'', Str codeChallenge), (''code_challenge_method'', Str ''S256''),
        (''request'', Str signedJwtForPar), (''client_assertion_type'', Str assertionType),
        (''client_assertion'', Str clientAssertion)] in
     bindIO (fetch_expecting X 201 new_IssuerResponseError
       (POST parEndpoint form_headers (Str formBody))) (\<lambda>res.
     bindIO (liftR (res_json res)) (\<lambda>result.
     liftR (js_get result ''request_uri''))))))))))))"

section \<open>Starting the authorization\<close>

definition object_keys :: "js \<Rightarrow> string list res" where
  "object_keys v = (case v of Obj kvs \<Rightarrow> Inr (Js_Value.keys kvs) | Undef \<Rightarrow> Inl TypeError
     | Null \<Rightarrow> Inl TypeError | _ \<Rightarrow> Inr [])"

definition selectCredentialDefinition :: "js \<Rightarrow> string \<Rightarrow> js res" where
  "selectCredentialDefinition issuerConf credentialType =
     bindR (js_path issuerConf [''openid_credential_issuer'', ''credential_configurations_supported''])
       (\<lambda>supported.
     bindR (object_keys supported) (\<lambda>ks.
     bindR (mapR (\<lambda>e. bindR (js_path supported [e, ''format'']) (\<lambda>format.
         Inr (Obj [(''credential_configuration_id'', Str credentialType), (''format'', format),
                   (''type'', Str ''openid_credential'')])))
       (filter (str_includes credentialType) ks)) (\<lambda>results.
     case results of
       result # _ \<Rightarrow> Inr result
     | [] \<Rightarrow> Inl (new_Error (''No credential support the type '' @ [CHR 0x27] @ credentialType
             @ [CHR 0x27])))))"

definition expectedResponseMode :: "string \<Rightarrow> string" where
  "expectedResponseMode credentialType =
     (if credentialType = ''PersonIdentificationData'' then ''query'' else ''form_post.jwt'')"

definition selectResponseMode :: "js \<Rightarrow> string \<Rightarrow> string res" where
  "selectResponseMode issuerConf credentialType =
     bindR (js_path issuerConf [''oauth_authorization_server'', ''response_modes_supported'']) (\<lambda>v.
     bindR (js_elems v) (\<lambda>responseModeSupported.
     let responseMode = expectedResponseMode credentialType in
     if Str responseMode \<notin> set responseModeSupported
     then Inl (new_Error (''No response mode support the type '' @ [CHR 0x27] @ credentialType
            @ [CHR 0x27]))
     else Inr responseMode))"

record user_authorization =
  issuerRequestUri :: js
  clientId :: js
  codeVerifier :: string
  credentialDefinition :: js

definition startUserAuthorization :: "ext \<Rightarrow> js \<Rightarrow> string \<Rightarrow> crypto_context \<Rightarrow> string \<Rightarrow> string \<Rightarrow>
    user_authorization io" where
  "startUserAuthorization X issuerConf credentialType wiaCryptoContext walletInstanceAttestation
       redirectUri =
     bindIO (askIO (getPublicKey wiaCryptoContext)) (\<lambda>jwk.
     bindIO (liftR (js_get jwk ''kid'')) (\<lambda>client.
     bindIO (generateRandomAlphaNumericString X 64) (\<lambda>verifier.
     bindIO (liftR (conf_str issuerConf
       [''oauth_authorization_server'', ''pushed_authorization_request_endpoint''])) (\<lambda>parEndpoint.
     bindIO (liftR (selectCredentialDefinition issuerConf credentialType)) (\<lambda>definition.
     bindIO (liftR (selectResponseMode issuerConf credentialType)) (\<lambda>responseMode.
     bindIO (makeParRequest X wiaCryptoContext client verifier redirectUri responseMode
       parEndpoint walletInstanceAttestation [definition] ASSERTION_TYPE) (\<lambda>requestUri.
     returnIO \<lparr>issuerRequestUri = requestUri, clientId = client, codeVerifier = verifier,
               credentialDefinition = definition\<rparr>)))))))"

section \<open>Completing the authorization\<close>

definition parseAuthorizationResponse :: "ext \<Rightarrow> js \<Rightarrow> js res" where
  "parseAuthorizationResponse X authRes =
     (case x_zod X AuthorizationResultShape authRes of
        Inr result \<Rightarrow> Inr result
      | Inl message \<Rightarrow>
          (case x_zod X AuthorizationErrorShape authRes of
             Inl _ \<Rightarrow> Inl (new_AuthorizationError message)
           | Inr authErr \<Rightarrow>
               bindR (js_get authErr ''error'') (\<lambda>err.
               bindR (js_get authErr ''error_description'') (\<lambda>descr.
               Inl (new_AuthorizationIdpError err descr)))))"

definition buildAuthorizationUrl :: "js \<Rightarrow> js \<Rightarrow> js \<Rightarrow> string \<Rightarrow> string res" where
  "buildAuthorizationUrl requestUri client issuerConf idpHint =
     bindR (js_path issuerConf [''oauth_authorization_server'', ''authorization_endpoint''])
       (\<lambda>authzRequestEndpoint.
     Inr (to_str authzRequestEndpoint @ ''?'' @ URLSearchParams
       [(''client_id'', client), (''request_uri'', requestUri), (''idphint'', Str idpHint)]))"

definition completeUserAuthorizationWithQueryMode :: "ext \<Rightarrow> string \<Rightarrow> js res" where
  "completeUserAuthorizationWithQueryMode X authRedirectUrl =
     bindR (x_parseUrl X authRedirectUrl) (\<lambda>query. parseAuthorizationResponse X query)"

definition getRequestedCredentialToBePresented :: "ext \<Rightarrow> js \<Rightarrow> js \<Rightarrow> js \<Rightarrow> js io" where
  "getRequestedCredentialToBePresented X requestUri client issuerConf =
     bindIO (liftR (js_path issuerConf [''oauth_authorization_server'', ''authorization_endpoint'']))
       (\<lambda>authzRequestEndpoint.
     bindIO (fetch_expecting X 200 new_IssuerResponseError
       (GET (to_str authzRequestEndpoint @ ''?'' @ URLSearchParams
          [(''client_id'', client), (''request_uri'', requestUri)]))) (\<lambda>res.
     bindIO (liftR (x_decodeJwt X (res_text res))) (\<lambda>reqObj.
     liftR (validated X RequestObject ''Request Object validation failed'' (jwt_payload reqObj)))))"

text \<open>The token presenting one credential in the \<open>form_post.jwt\<close> mode.\<close>

definition sign_presentation :: "ext \<Rightarrow> crypto_context \<Rightarrow> string \<Rightarrow> js \<Rightarrow> string io" where
  "sign_presentation X ctx vp requestObject =
     bindIO (uuidv4 X) (\<lambda>jti.
     bindIO (liftR (js_get requestObject ''nonce'')) (\<lambda>nonce.
     bindIO (liftR (js_get requestObject ''response_uri'')) (\<lambda>aud.
     sign X ctx ((SignJWT [(''alg'', Str ''ES256''), (''typ'', Str ''JWT'')]
       [(''vp'', Str vp), (''jti'', Str jti), (''nonce'', nonce)] (Str ''5m''))\<lparr>jws_aud := aud\<rparr>))))"

definition form_post_descriptor_map :: js where
  "form_post_descriptor_map = Arr
     [Obj [(''id'', Str ''PersonIdentificationData''), (''path'', Str ''$.vp_token[0].vp''),
           (''format'', Str ''vc+sd-jwt'')],
      Obj [(''id'', Str ''WalletAttestation''), (''path'', Str ''$.vp_token[1].vp''),
           (''format'', Str ''jwt'')]]"

definition completeUserAuthorizationWithFormPostJwtMode ::
  "ext \<Rightarrow> js \<Rightarrow> crypto_context \<Rightarrow> crypto_context \<Rightarrow> string \<Rightarrow> string \<Rightarrow> js io" where
  "completeUserAuthorizationWithFormPostJwtMode X requestObject wiaCryptoContext pidCryptoContext
       pid walletInstanceAttestation =
     bindIO (sign_presentation X wiaCryptoContext walletInstanceAttestation requestObject)
       (\<lambda>wiaWpToken.
     bindIO (sign_presentation X pidCryptoContext pid requestObject) (\<lambda>pidWpToken.
     bindIO (uuidv4 X) (\<lambda>definitionId.
     bindIO (uuidv4 X) (\<lambda>ident.
     bindIO (liftR (js_get requestObject ''state'')) (\<lambda>state.
     let presentationSubmission = Obj [(''definition_id'', Str definitionId), (''id'', Str ident),
           (''descriptor_map'', form_post_descriptor_map)];
         authzResponsePayload = x_encodeBase64 X (stringify (Obj [(''state'', state),
           (''presentation_submission'', presentationSubmission),
           (''vp_token'', Arr [Str pidWpToken, Str wiaWpToken])]));
         body = URLSearchParams [(''response'', Str authzResponsePayload)] in
     bindIO (liftR (conf_str requestObject [''response_uri''])) (\<lambda>responseUrl.
     bindIO (fetch_expecting X 200 new_IssuerResponseError
       (POST responseUrl form_headers (Str body))) (\<lambda>res.
     bindIO (liftR (res_json res)) (\<lambda>resUriRes.
     bindIO (liftR (validated X ResponseUriResultShape ''Response Uri validation failed'' resUriRes))
       (\<lambda>responseUri.
     bindIO (liftR (conf_str responseUri [''redirect_uri''])) (\<lambda>redirectUrl.
     bindIO (fetch_expecting X 200 new_IssuerResponseError ((GET redirectUrl)\<lparr>req_options := False\<rparr>)) (\<lambda>cb.
     bindIO (liftR (getJwtFromFormPost X (res_text cb))) (\<lambda>cbRes.
     liftR (parseAuthorizationResponse X (jwt_payload (snd cbRes)))))))))))))))"

end
