(* ===== verification/Issuance_Credential.thy ===== *)
theory Issuance_Credential
  imports Issuance_Authorization
begin

text \<open>
  The second half of the issuance flow: \<open>src/credential/issuance/{05,06,07}*.ts\<close>: the access token,
  the credential request, and the verification and parsing of the received credential.
\<close>

section \<open>Access token\<close>

definition authorizeAccess :: "ext \<Rightarrow> js \<Rightarrow> js \<Rightarrow> js \<Rightarrow> string \<Rightarrow> string \<Rightarrow> string \<Rightarrow> crypto_context \<Rightarrow>
    crypto_context \<Rightarrow> js io" where
  "authorizeAccess X issuerConf code client redirectUri verifier walletInstanceAttestation
       wiaCryptoContext dPopCryptoContext =
     bindIO (liftR (conf_str issuerConf
       [''oauth_authorization_server'', ''pushed_authorization_request_endpoint''])) (\<lambda>parEndpoint.
     bindIO (liftR (origin_of X parEndpoint)) (\<lambda>aud.
     bindIO (liftR (wia_holder_kid X walletInstanceAttestation)) (\<lambda>iss.
     bindIO (liftR (conf_str issuerConf [''oauth_authorization_server'', ''token_endpoint''])) (\<lambda>tokenUrl.
     bindIO (uuidv4 X) (\<lambda>dpopJti.
     bindIO (createDPopToken X [(''htm'', Str ''POST''), (''htu'', Str tokenUrl), (''jti'', Str dpopJti)]
       dPopCryptoContext) (\<lambda>tokenRequestSignedDPop.
     bindIO (uuidv4 X) (\<lambda>popJti.
     bindIO (createPopToken X [(''jti'', Str popJti), (''aud'', Str aud), (''iss'', iss)]
       wiaCryptoContext) (\<lambda>signedWiaPoP.
     let requestBody = URLSearchParams
           [(''grant_type'', Str ''authorization_code''), (''client_id'', client), (''code'', code),
            (''redirect_uri'', Str redirectUri), (''code_verifier'', Str verifier),
            (''client_assertion_type'', Str ASSERTION_TYPE),
            (''client_assertion'', Str (walletInstanceAttestation @ ''~'' @ signedWiaPoP))] in
     bindIO (fetch_expecting X 200 new_IssuerResponseError
       (POST tokenUrl (form_headers @ [(''DPoP'', Str tokenRequestSignedDPop)]) (Str requestBody))) (\<lambda>res.
     bindIO (liftR (res_json res)) (\<lambda>body.
     liftR (validated X TokenResponse ''Token Response validation failed'' body)))))))))))"

section \<open>Credential request\<close>

definition createNonceProof :: "ext \<Rightarrow> js \<Rightarrow> js \<Rightarrow> string \<Rightarrow> crypto_context \<Rightarrow> string io" where
  "createNonceProof X nonce issuer audience ctx =
     bindIO (askIO (getPublicKey ctx)) (\<lambda>jwk.
     sign X ctx ((SignJWT [(''typ'', Str ''openid4vci-proof+jwt''), (''jwk'', jwk)]
       [(''nonce'', nonce)] (Str ''5min''))\<lparr>jws_aud := Str audience, jws_iss := issuer\<rparr>))"

definition obtainCredential_errors :: response_error_builder where
  "obtainCredential_errors =
     handle ''*'' (error_case CredentialRequestFailed ''Unable to obtain the requested credential'')
    (handle ''404'' (error_case CredentialInvalidStatus ''Invalid status found for the given credential'')
    (handle ''403'' (error_case CredentialInvalidStatus ''Invalid status found for the given credential'')
    (handle ''201'' (error_case CredentialIssuingNotSynchronous
       ''This credential cannot be issued synchronously. It will be available at a later time.'')
    (new_ResponseErrorBuilder new_IssuerResponseError))))"

definition handleObtainCredentialError :: "js_error \<Rightarrow> js_error" where
  "handleObtainCredentialError e =
     (if \<not> instanceof e UnexpectedStatusCodeError then e else buildFrom obtainCredential_errors e)"

definition same_definition :: "js \<Rightarrow> js \<Rightarrow> bool res" where
  "same_definition definition c =
     bindR (js_get c ''credential_configuration_id'') (\<lambda>i.
     bindR (js_get definition ''credential_configuration_id'') (\<lambda>i'.
     bindR (js_get c ''format'') (\<lambda>f.
     bindR (js_get definition ''format'') (\<lambda>f'.
     bindR (js_get c ''type'') (\<lambda>t.
     bindR (js_get definition ''type'') (\<lambda>t'.
     Inr (i = i' \<and> f = f' \<and> t = t')))))))"

text \<open>\<open>Array.prototype.some\<close> with a callback that may throw.\<close>

fun someR :: "('a \<Rightarrow> bool res) \<Rightarrow> 'a list \<Rightarrow> bool res" where
  "someR p [] = Inr False"
| "someR p (x # xs) = bindR (p x) (\<lambda>b. if b then Inr True else someR p xs)"

definition containsCredentialDefinition :: "js \<Rightarrow> js \<Rightarrow> bool res" where
  "containsCredentialDefinition accessToken definition =
     bindR (js_get accessToken ''authorization_details'') (\<lambda>v.
     bindR (js_elems v) (\<lambda>details. someR (same_definition definition) details))"

definition obtainCredential ::
  "ext \<Rightarrow> js \<Rightarrow> js \<Rightarrow> js \<Rightarrow> js \<Rightarrow> crypto_context \<Rightarrow> crypto_context \<Rightarrow> js io" where
  "obtainCredential X issuerConf accessToken client definition dPopCryptoContext
       credentialCryptoContext =
     bindIO (liftR (conf_str issuerConf [''openid_credential_issuer'', ''credential_endpoint'']))
       (\<lambda>credentialUrl.
     bindIO (liftR (js_get accessToken ''c_nonce'')) (\<lambda>c_nonce.
     bindIO (createNonceProof X c_nonce client credentialUrl credentialCryptoContext)
       (\<lambda>signedNonceProof.
     bindIO (liftR (containsCredentialDefinition accessToken definition)) (\<lambda>contained.
     if \<not> contained then throwIO (new_ValidationFailed
       ''The access token response does not contain the requested credential'' None None)
     else
     bindIO (liftR (js_get definition ''credential_configuration_id'')) (\<lambda>configId.
     bindIO (liftR (js_get definition ''format'')) (\<lambda>format.
     let credentialRequestFormBody = Obj
           [(''credential_definition'', Obj [(''type'', Arr [configId])]), (''format'', format),
            (''proof'', Obj [(''jwt'', Str signedNonceProof), (''proof_type'', Str ''jwt'')])] in
     bindIO (uuidv4 X) (\<lambda>jti.
     bindIO (liftR (conf_str accessToken [''access_token''])) (\<lambda>access_token.
     bindIO (createDPopToken X
       [(''htm'', Str ''POST''), (''htu'', Str credentialUrl), (''jti'', Str jti),
        (''ath'', Str (x_sha256ToBase64 X access_token))] dPopCryptoContext)
       (\<lambda>tokenRequestSignedDPop.
     bindIO (liftR (js_get accessToken ''token_type'')) (\<lambda>token_type.
     bindIO (catchIO
       (bindIO (fetch_expecting X 200 new_UnexpectedStatusCodeError
          (POST credentialUrl
            [(''Content-Type'', Str ''application/json''), (''DPoP'', Str tokenRequestSignedDPop),
             (''Authorization'', Str (to_str token_type @ '' '' @ access_token))]
            (JSON_stringify credentialRequestFormBody))) (\<lambda>res.
        bindIO (liftR (res_json res)) (\<lambda>body. returnIO (x_zod X CredentialResponse body))))
       (\<lambda>e. throwIO (handleObtainCredentialError e))) (\<lambda>credentialRes.
     case credentialRes of
       Inr data \<Rightarrow> returnIO data
     | Inl message \<Rightarrow> throwIO (new_ValidationFailed ''Credential Response validation failed''
         None (Some message)))))))))))))"

section \<open>Parsing the credential\<close>

text \<open>\<open>display.reduce((names, {locale, name}) => ({...names, [locale]: name}), {})\<close>\<close>

definition add_locale :: "props res \<Rightarrow> js \<Rightarrow> props res" where
  "add_locale acc entry = bindR acc (\<lambda>names.
     bindR (js_get entry ''locale'') (\<lambda>loc.
     bindR (js_get entry ''name'') (\<lambda>name.
     Inr (pset names (to_str loc) name))))"

definition disclosed_value :: "js list \<Rightarrow> string \<Rightarrow> js" where
  "disclosed_value ds attrKey =
     (case find (\<lambda>d. claim_name d = Str attrKey) ds of Some d \<Rightarrow> component d 2 | None \<Rightarrow> Undef)"

text \<open>One attribute: the definition of the issuer with the disclosed value, and the localized name in
  place of \<open>display\<close>.  Definitions are objects by the schema of the configuration.\<close>

definition parse_attribute :: "js list \<Rightarrow> string \<times> js \<Rightarrow> (string \<times> js) res" where
  "parse_attribute ds kd = (case snd kd of
      Obj definition \<Rightarrow>
        (let withValue = pset definition ''value'' (disclosed_value ds (fst kd)) in
         bindR (js_elems (pget withValue ''display'')) (\<lambda>display.
         bindR (foldl add_locale (Inr []) display) (\<lambda>names.
         Inr (fst kd, Obj (pset (pdel [''display''] withValue) ''name'' (Obj names))))))
    | _ \<Rightarrow> Inl TypeError)"

definition undefined_attribute :: "js \<Rightarrow> string \<times> js" where
  "undefined_attribute d = (to_str (claim_name d),
     Obj [(''value'', component d 2), (''name'', claim_name d)])"

definition is_named :: "string \<Rightarrow> js \<Rightarrow> bool" where
  "is_named k d = (claim_name d = Str k)"

definition missing_attributes :: "props \<Rightarrow> js list \<Rightarrow> string list" where
  "missing_attributes claims ds =
     map fst (filter (\<lambda>(k, _). \<not> list_ex (is_named k) ds) (entries claims))"

definition parseCredentialSdJwt :: "js \<Rightarrow> verified_sd_jwt \<Rightarrow> bool \<Rightarrow> bool \<Rightarrow> props res" where
  "parseCredentialSdJwt credentials_supported dec ignoreMissingAttributes includeUndefinedAttributes =
     bindR (js_path (v_sdJwt dec) [''payload'', ''vct'']) (\<lambda>vct.
     bindR (js_get credentials_supported (to_str vct)) (\<lambda>credentialSubject.
     if \<not> truthy credentialSubject
     then Inl (new_IoWalletError ''Credential type not supported by the issuer'')
     else
     bindR (js_get credentialSubject ''format'') (\<lambda>format.
     bindR (js_path (v_sdJwt dec) [''header'', ''typ'']) (\<lambda>typ.
     if format \<noteq> typ
     then Inl (new_IoWalletError (''Received credential is of an unknwown type. Expected one of [''
       @ to_str format @ ''], received '' @ [CHR 0x27] @ to_str typ @ [CHR 0x27] @ '', ''))
     else
     bindR (js_get credentialSubject ''claims'') (\<lambda>claims.
     case claims of
       Obj defs \<Rightarrow>
         (let attrDefinitions = entries defs;
              missing = missing_attributes defs (v_disclosures dec) in
          if missing \<noteq> [] \<and> \<not> ignoreMissingAttributes
          then Inl (new_IoWalletError (''Some attributes are missing in the credential. Missing: [''
            @ join_with '', '' missing @ ''], received: [''
            @ join_with '', '' (map (\<lambda>d. to_str (claim_name d)) (v_disclosures dec)) @ '']''))
          else
          bindR (mapR (parse_attribute (v_disclosures dec)) attrDefinitions) (\<lambda>attrs.
          let definedValues = from_entries attrs in
          if includeUndefinedAttributes
          then Inr (pspread definedValues (from_entries (map undefined_attribute
                 (filter (\<lambda>d. \<not> list_ex (\<lambda>k. is_named k d) (keys definedValues)) (v_disclosures dec)))))
          else Inr definedValues))
     | _ \<Rightarrow> Inl (new_IoWalletError ''Missing claims in the credential subject''))))))"

section \<open>Verifying the credential\<close>

definition verifyCredentialSdJwt ::
  "ext \<Rightarrow> string \<Rightarrow> js \<Rightarrow> crypto_context \<Rightarrow> verified_sd_jwt io" where
  "verifyCredentialSdJwt X rawCredential issuerKeys holderBindingContext =
     bindIO (verify X rawCredential issuerKeys (Some SdJwt4VC)) (\<lambda>decodedCredential.
     bindIO (askIO (getPublicKey holderBindingContext)) (\<lambda>holderBindingKey.
     bindIO (liftR (js_path (v_sdJwt decodedCredential) [''payload'', ''cnf'', ''jwk'', ''kid''])) (\<lambda>kid.
     bindIO (liftR (if truthy kid then js_get holderBindingKey ''kid'' else Inr Undef)) (\<lambda>holderKid.
     if \<not> truthy kid \<or> kid \<noteq> holderKid
     then bindIO (liftR (js_get holderBindingKey ''kid'')) (\<lambda>expected.
       throwIO (new_IoWalletError (''Failed to verify holder binding, expected kid: ''
         @ to_str expected @ '', got: '' @ to_str kid)))
     else returnIO decodedCredential))))"

text \<open>\<open>new Date(ms)\<close> of a number: the time value is clipped and its fraction dropped.\<close>

definition new_Date :: "rat \<Rightarrow> js" where
  "new_Date ms = (if \<bar>ms\<bar> \<le> 8640000000000000
     then DateV (Some (if ms < 0 then \<lceil>ms\<rceil> else \<lfloor>ms\<rfloor>)) else DateV None)"

definition date_of_seconds :: "js \<Rightarrow> js" where
  "date_of_seconds v = (case v of Num q \<Rightarrow> new_Date (q * 1000) | _ \<Rightarrow> DateV None)"

record parsed_credential =
  parsedCredential :: props
  expiration :: js
  issuedAt :: js

definition verifyAndParseCredentialSdJwt ::
  "ext \<Rightarrow> js \<Rightarrow> string \<Rightarrow> crypto_context \<Rightarrow> bool \<Rightarrow> bool \<Rightarrow> parsed_credential io" where
  "verifyAndParseCredentialSdJwt X issuerConf credential credentialCryptoContext
       ignoreMissingAttributes includeUndefinedAttributes =
     bindIO (liftR (js_path issuerConf [''openid_credential_issuer'', ''jwks'', ''keys''])) (\<lambda>issuerKeys.
     bindIO (verifyCredentialSdJwt X credential issuerKeys credentialCryptoContext) (\<lambda>dec.
     bindIO (liftR (js_path issuerConf
       [''openid_credential_issuer'', ''credential_configurations_supported''])) (\<lambda>supported.
     bindIO (liftR (parseCredentialSdJwt supported dec ignoreMissingAttributes
       includeUndefinedAttributes)) (\<lambda>parsed.
     let maybeIssuedAt = getValueFromDisclosures (v_disclosures dec) ''iat'' in
     bindIO (liftR (js_path (v_sdJwt dec) [''payload'', ''exp''])) (\<lambda>exp.
     returnIO \<lparr>parsedCredential = parsed, expiration = date_of_seconds exp,
       issuedAt = (case maybeIssuedAt of Num q \<Rightarrow> new_Date (q * 1000) | _ \<Rightarrow> Undef)\<rparr>)))))"

definition verifyAndParseCredential ::
  "ext \<Rightarrow> js \<Rightarrow> string \<Rightarrow> string \<Rightarrow> crypto_context \<Rightarrow> bool \<Rightarrow> bool \<Rightarrow> parsed_credential io" where
  "verifyAndParseCredential X issuerConf credential format ctx ignoreMissing includeUndefined =
     (if format = ''vc+sd-jwt''
      then verifyAndParseCredentialSdJwt X issuerConf credential ctx ignoreMissing includeUndefined
      else throwIO (new_IoWalletError (''Unsupported credential format: '' @ format)))"

section \<open>The request's errors\<close>

interpretation credential_request: status_error_handler handleObtainCredentialError
  UnexpectedStatusCodeError IssuerResponseError "case_code (errorCases obtainCredential_errors)"
  by (rule builder_handler [where b = obtainCredential_errors
        and C = new_IssuerResponseError and dflt = "Str IssuerGenericError"
        and nm = "Str ''IssuerResponseError''"])
    (auto simp: obtainCredential_errors_def simple_cases_base handle_lookup status_error_get
      handleObtainCredentialError_def subclass_issuer split: if_splits)

lemma credential_request_code: "case_code (errorCases obtainCredential_errors) s =
    (if s = ''201'' then CredentialIssuingNotSynchronous
     else if s = ''403'' \<or> s = ''404'' then CredentialInvalidStatus else CredentialRequestFailed)"
  by (auto simp: case_code_def obtainCredential_errors_def handle_lookup error_case_def)

end
