(* ===== verification/Wallet_Provider_Correct.thy ===== *)
theory Wallet_Provider_Correct
  imports Wallet_Provider Sample_Environment
begin

text \<open>
  What the wallet provider's side guarantees: the requests of a wallet instance's life and of
  its attestation, and the errors they surface as.
\<close>

section \<open>Status codes as keys of the error tables\<close>

lemma status_texts: "nat_str 201 = ''201''" "nat_str 403 = ''403''" "nat_str 404 = ''404''"
  "nat_str 409 = ''409''"
  by code_simp+

lemma status_key: "nat_str n = ''201'' \<longleftrightarrow> n = 201" "nat_str n = ''403'' \<longleftrightarrow> n = 403"
  "nat_str n = ''404'' \<longleftrightarrow> n = 404" "nat_str n = ''409'' \<longleftrightarrow> n = 409"
  using nat_str_inj status_texts by metis+

lemma instanceof_self: "err_class e = c \<Longrightarrow> instanceof e c"
  by (simp add: instanceof_def)

section \<open>Creating a wallet instance\<close>

lemma get_nonce_Inr:
  assumes "calls_fetcher G"
  shows "get_nonce X G base w = (Inr challenge, w') \<longleftrightarrow>
    (\<exists>res v. x_fetch X (client_request ''get'' (base @ ''/nonce'') Undef) w = Inr res \<and> res_ok res
      \<and> parseRawHttpResponse res = Inr v \<and> js_get v ''nonce'' = Inr challenge
      \<and> w' = sent X (client_request ''get'' (base @ ''/nonce'') Undef) w)"
  by (auto simp: get_nonce_def client_call [OF assms] bindIO_Inr_iff client_fetcher_Inr)

definition instance_request :: "string \<Rightarrow> js \<Rightarrow> string \<Rightarrow> string \<Rightarrow> request" where
  "instance_request base challenge attestation tag =
     client_request ''post'' (base @ ''/wallet-instances'')
       (Obj [(''body'', Obj [(''challenge'', challenge), (''key_attestation'', Str attestation),
          (''hardware_key_tag'', Str tag)])])"

text \<open>C13. Creating a wallet instance that succeeds sends exactly two requests: it gets a nonce, then posts
  that nonce with an attestation the device made for it and the hardware key tag; the posted answer
  had a success status and the result is the hardware key tag.\<close>

theorem createWalletInstance_protocol:
  assumes G: "calls_fetcher G" and ok: "createWalletInstance X G ic base w = (Inr tag, w')"
  shows "tag = getHardwareKeyTag ic \<and> (\<exists>challenge att w1 res.
      get_nonce X G base w = (Inr challenge, w1)
      \<and> getAttestation ic challenge w1 = Inr att
      \<and> x_fetch X (instance_request base challenge att tag) w1 = Inr res \<and> res_ok res
      \<and> w_sent w' = w_sent w @ [client_request ''get'' (base @ ''/nonce'') Undef,
          instance_request base challenge att tag])"
proof -
  from ok obtain challenge w1 att v where n: "get_nonce X G base w = (Inr challenge, w1)"
    and a: "getAttestation ic challenge w1 = Inr att"
    and p: "client_fetcher X G ''post'' (base @ ''/wallet-instances'')
      (Obj [(''body'', Obj [(''challenge'', challenge), (''key_attestation'', Str att),
          (''hardware_key_tag'', Str (getHardwareKeyTag ic))])]) w1 = (Inr v, w')"
    and t: "tag = getHardwareKeyTag ic"
    by (auto simp: createWalletInstance_def Let_def client_call [OF G] bindIO_Inr_iff catchIO_Inr_iff)
  from n have "w_sent w1 = w_sent w @ [client_request ''get'' (base @ ''/nonce'') Undef]"
    by (auto simp: get_nonce_Inr [OF G])
  with n a p t show ?thesis by (auto simp: client_fetcher_Inr instance_request_def)
qed

definition sample_generated :: generated where
  "sample_generated = \<lparr>createWalletProviderApiClient = (\<lambda>f base m path params. f m (base @ path) params),
     ProblemDetail = ZObject [(''title'', ZOptional ZString)]\<rparr>"

definition sample_integrity :: integrity_context where
  "sample_integrity = \<lparr>getHardwareKeyTag = ''tag'', getAttestation = (\<lambda>_ _. Inr ''att''),
     getHardwareSignatureWithAuthData = (\<lambda>_ _. Inr \<lparr>signature = ''s'', authenticatorData = ''d''\<rparr>)\<rparr>"

definition json_response :: "nat \<Rightarrow> string \<Rightarrow> response" where
  "json_response status body = \<lparr>res_status = status, res_url = ''u'',
     res_ctype = Some ''application/json'', res_body = body\<rparr>"

definition nonce_body :: string where
  "nonce_body = ''{'' @ [CHR 0x22] @ ''nonce'' @ [CHR 0x22] @ '':'' @ [CHR 0x22] @ ''n'' @ [CHR 0x22] @ ''}''"

text \<open>A provider that answers every \<open>get\<close> with a nonce and every other request with a status.\<close>

definition provider_ext :: "nat \<Rightarrow> ext" where
  "provider_ext status = sample_ext\<lparr>x_fetch := (\<lambda>r _. Inr (if req_method r = ''get''
     then json_response 200 nonce_body else json_response status ''{}''))\<rparr>"

lemma sample_calls: "calls_fetcher sample_generated"
  by (simp add: calls_fetcher_def sample_generated_def)

lemma provider_zod: "zod_library (x_zod (provider_ext status))"
  by (simp add: provider_ext_def sample_ext_def reference_zod.zod_library_axioms)

lemma createWalletInstance_protocol_witness:
  "\<exists>tag w' challenge att w1 res.
      createWalletInstance (provider_ext 201) sample_generated sample_integrity ''b'' sample_world = (Inr tag, w')
      \<and> get_nonce (provider_ext 201) sample_generated ''b'' sample_world = (Inr challenge, w1)
      \<and> getAttestation sample_integrity challenge w1 = Inr att
      \<and> x_fetch (provider_ext 201) (instance_request ''b'' challenge att tag) w1 = Inr res \<and> res_ok res
      \<and> w_sent w' = w_sent sample_world @ [client_request ''get'' (''b'' @ ''/nonce'') Undef,
          instance_request ''b'' challenge att tag]"
proof -
  let ?c = "createWalletInstance (provider_ext 201) sample_generated sample_integrity ''b'' sample_world"
  have "isOk (fst ?c)" by code_simp
  then obtain tag w' where c: "?c = (Inr tag, w')" by (cases ?c) (auto simp: isOk_iff)
  from createWalletInstance_protocol [OF sample_calls c] c show ?thesis by (elim conjE exE) blast
qed

text \<open>A failed creation is reported by status: when the provider answers the post with a failure
  status, the error is a \<open>WalletProviderResponseError\<close> with the status, whose code says that the
  integrity check failed for 409 and that the creation failed for every other status.\<close>

theorem createWalletInstance_error_codes:
  assumes zod: "zod_library (x_zod X)" and G: "calls_fetcher G"
    and pd: "\<And>v. conforms (ProblemDetail G) v \<Longrightarrow> \<exists>kvs. v = Obj kvs"
    and nonce: "get_nonce X G base w = (Inr challenge, w1)"
    and att: "getAttestation ic challenge w1 = Inr att"
    and res: "x_fetch X (instance_request base challenge att (getHardwareKeyTag ic)) w1 = Inr res"
    and bad: "\<not> res_ok res"
  shows "\<exists>e. fst (createWalletInstance X G ic base w) = Inl e
    \<and> err_class e = WalletProviderResponseError
    \<and> err_get e ''statusCode'' = Num (of_nat (res_status res))
    \<and> err_get e ''code'' = Str (if res_status res = 409 then WalletInstanceIntegrityFailed
        else WalletInstanceCreationFailed)"
proof -
  obtain e where e: "validateResponse X G res = Inl e" "err_class e = WalletProviderResponseError"
    "err_get e ''statusCode'' = Num (of_nat (res_status res))"
    using validateResponse_error [OF zod pd bad] by blast
  have "fst (createWalletInstance X G ic base w) = Inl (handleCreateWalletInstanceError e)"
    using nonce att res e(1)
    by (simp add: createWalletInstance_def Let_def client_call [OF G] bindIO_def catchIO_def
        client_fetcher_def fetch_def instance_request_def)
  moreover note i = instanceof_self [OF e(2)]
  ultimately show ?thesis
    using create_instance.builds [OF i] create_instance.code [OF i] create_instance.status_kept [OF i] e(3)
    by (simp add: create_instance_code status_key)
qed

lemma createWalletInstance_error_codes_witness:
  "\<exists>e. fst (createWalletInstance (provider_ext 409) sample_generated sample_integrity ''b'' sample_world) = Inl e
    \<and> err_get e ''code'' = Str WalletInstanceIntegrityFailed"
proof -
  let ?X = "provider_ext 409"
  have "isOk (fst (get_nonce ?X sample_generated ''b'' sample_world))" by code_simp
  then obtain ch w1 where n: "get_nonce ?X sample_generated ''b'' sample_world = (Inr ch, w1)"
    by (cases "get_nonce ?X sample_generated ''b'' sample_world") (auto simp: isOk_iff)
  have pd: "\<And>v. conforms (ProblemDetail sample_generated) v \<Longrightarrow> \<exists>kvs. v = Obj kvs"
    by (auto simp: sample_generated_def split: js.splits)
  have "x_fetch ?X (instance_request ''b'' ch ''att'' (getHardwareKeyTag sample_integrity)) w1 =
      Inr (json_response 409 ''{}'')"
    by (simp add: provider_ext_def instance_request_def client_request_def)
  from createWalletInstance_error_codes [OF provider_zod sample_calls pd n _ this]
  show ?thesis by (auto simp: sample_integrity_def res_ok_def json_response_def)
qed

section \<open>Status and revocation\<close>

text \<open>C38. Reading the status of a wallet instance sends one \<open>get\<close> request and revoking it one \<open>put\<close>
  request with status \<open>REVOKED\<close>, both to the instance's own url, for a base url without braces
  and an identifier without dollar signs (base64url key tags have none).\<close>

theorem instance_status_requests:
  assumes G: "calls_fetcher G" and base: "CHR ''{'' \<notin> set base" and ident: "CHR ''$'' \<notin> set ident"
  shows "(\<exists>r. w_sent (snd (getWalletInstanceStatus X G ident base w)) = w_sent w @ [r]
      \<and> req_method r = ''get'' \<and> req_url r = status_url base ident \<and> req_body r = Undef)
    \<and> (\<exists>r. w_sent (snd (revokeWalletInstance X G ident base w)) = w_sent w @ [r]
      \<and> req_method r = ''put'' \<and> req_url r = status_url base ident
      \<and> req_body r = JSON_stringify (Obj [(''status'', Str ''REVOKED'')]))"
proof (rule conjI)
  let ?p = "[(''path'', Obj [(''id'', Str ident)])]"
  let ?q = "[(''path'', Obj [(''id'', Str ident)]), (''body'', Obj [(''status'', Str ''REVOKED'')])]"
  have u: "interpolateUrl (base @ ''/wallet-instances/{id}/status'') (Obj ?p) = status_url base ident"
    "interpolateUrl (base @ ''/wallet-instances/{id}/status'') (Obj ?q) = status_url base ident"
    by (rule interpolate_status_url [OF base ident], simp)+
  show "\<exists>r. w_sent (snd (getWalletInstanceStatus X G ident base w)) = w_sent w @ [r]
      \<and> req_method r = ''get'' \<and> req_url r = status_url base ident \<and> req_body r = Undef"
    using u(1) by (simp add: getWalletInstanceStatus_def client_call [OF G] client_fetcher_world
        client_request_def JSON_stringify_def)
  have "snd (revokeWalletInstance X G ident base w) = snd (client_fetcher X G ''put''
      (base @ ''/wallet-instances/{id}/status'') (Obj ?q) w)"
    by (simp add: revokeWalletInstance_def client_call [OF G] bindIO_def split: prod.splits sum.splits)
  then show "\<exists>r. w_sent (snd (revokeWalletInstance X G ident base w)) = w_sent w @ [r]
      \<and> req_method r = ''put'' \<and> req_url r = status_url base ident
      \<and> req_body r = JSON_stringify (Obj [(''status'', Str ''REVOKED'')])"
    using u(2) by (simp add: client_fetcher_world client_request_def)
qed

lemma instance_status_requests_witness:
  "(\<exists>r. w_sent (snd (getWalletInstanceStatus sample_ext sample_generated ''id1'' ''b'' sample_world)) =
        w_sent sample_world @ [r]
      \<and> req_method r = ''get'' \<and> req_url r = status_url ''b'' ''id1'' \<and> req_body r = Undef)
   \<and> (\<exists>r. w_sent (snd (revokeWalletInstance sample_ext sample_generated ''id1'' ''b'' sample_world)) =
        w_sent sample_world @ [r]
      \<and> req_method r = ''put'' \<and> req_url r = status_url ''b'' ''id1''
      \<and> req_body r = JSON_stringify (Obj [(''status'', Str ''REVOKED'')]))"
  using instance_status_requests [OF sample_calls, of "''b''" "''id1''" sample_ext sample_world] by simp

text \<open>An identifier is not always inserted literally: \<open>String.prototype.replace\<close> expands dollar
  patterns of the replacement, so the identifier \<open>$&\<close> leaves the placeholder in the url.\<close>

theorem interpolation_expands_dollar:
  "interpolateUrl ''/wallet-instances/{id}/status'' (Obj [(''path'', Obj [(''id'', Str ''$&'')])]) =
     ''/wallet-instances/{id}/status''"
  by code_simp

section \<open>Attestation\<close>

text \<open>C12. The attestation request binds the wallet's key: whenever it is signed, by that key, the
  thumbprint of the public key is the \<open>kid\<close> of the header, the issuer and the \<open>kid\<close> of the \<open>cnf\<close> key;
  the \<open>cnf\<close> key is the public key with its coordinates unpadded; and the hardware signature and
  assertion were made by the device over the provider's challenge together with that thumbprint.
  Exactly one token is signed, it is the one returned, and no request is sent.\<close>

theorem attestation_request_binding:
  assumes zod: "zod_library (x_zod X)"
    and ok: "getAttestationRequest X challenge ctx ic base w = (Inr token, w')"
  shows "\<exists>jwk kvs t hs fixed spec.
    getPublicKey ctx w = Inr jwk \<and> zparse X JWK jwk = Inr (Obj kvs) \<and> x_thumbprint X (Obj kvs) = Inr t \<and>
    getHardwareSignatureWithAuthData ic
      (stringify (Obj [(''challenge'', challenge), (''jwk_thumbprint'', Str t)])) w = Inr hs \<and>
    (\<forall>k. pget fixed k = (if k = ''kid'' then Str t
       else if k \<in> {''x'', ''y'', ''e'', ''n''} then unpadded_value X kvs k else pget kvs k)) \<and>
    spec = SignJWT [(''kid'', Str t), (''typ'', Str ''war+jwt'')]
      [(''iss'', Str t), (''sub'', Str base), (''challenge'', challenge),
       (''hardware_signature'', Str (signature hs)),
       (''integrity_assertion'', Str (authenticatorData hs)),
       (''hardware_key_tag'', Str (getHardwareKeyTag ic)),
       (''cnf'', Obj [(''jwk'', Obj fixed)])] (Str ''1h'') \<and>
    x_signJwt X ctx spec w = Inr token \<and> w_signed w' = w_signed w @ [spec] \<and> w_sent w' = w_sent w"
proof -
  from ok obtain jwk parsed t hs fixed where
    1: "getPublicKey ctx w = Inr jwk" "zparse X JWK jwk = Inr parsed" "x_thumbprint X parsed = Inr t"
    and 2: "getHardwareSignatureWithAuthData ic
      (stringify (Obj [(''challenge'', challenge), (''jwk_thumbprint'', Str t)])) w = Inr hs"
    and 3: "fixBase64EncodingOnKey X (case parsed of Obj kvs \<Rightarrow> Obj (pset kvs ''kid'' (Str t))
                      | _ \<Rightarrow> Obj [(''kid'', Str t)]) = Inr fixed"
    and 4: "sign X ctx (SignJWT [(''kid'', Str t), (''typ'', Str ''war+jwt'')]
      [(''iss'', Str t), (''sub'', Str base), (''challenge'', challenge),
       (''hardware_signature'', Str (signature hs)),
       (''integrity_assertion'', Str (authenticatorData hs)),
       (''hardware_key_tag'', Str (getHardwareKeyTag ic)),
       (''cnf'', Obj [(''jwk'', fixed)])] (Str ''1h'')) w = (Inr token, w')"
    unfolding getAttestationRequest_def Let_def bindIO_Inr_iff by auto
  have "conforms JWK parsed" using 1(2) zod_library.result_conforms [OF zod] by (simp add: zparse_def)
  then obtain kvs where kvs: "parsed = Obj kvs" by (auto simp: JWK_def split: js.splits)
  with 3 obtain out where out: "fixed = Obj out" "\<forall>k. pget out k =
      (if k \<in> {''x'', ''y'', ''e'', ''n''} then unpadded_value X (pset kvs ''kid'' (Str t)) k
       else pget (pset kvs ''kid'' (Str t)) k)"
    using fixBase64_fields [of X "pset kvs ''kid'' (Str t)" fixed] by auto
  have fields: "\<forall>k. pget out k = (if k = ''kid'' then Str t
      else if k \<in> {''x'', ''y'', ''e'', ''n''} then unpadded_value X kvs k else pget kvs k)"
    using out(2) by (auto simp: pget_pset unpadded_value_def)
  from 4 obtain spec where "spec = SignJWT [(''kid'', Str t), (''typ'', Str ''war+jwt'')]
      [(''iss'', Str t), (''sub'', Str base), (''challenge'', challenge),
       (''hardware_signature'', Str (signature hs)),
       (''integrity_assertion'', Str (authenticatorData hs)),
       (''hardware_key_tag'', Str (getHardwareKeyTag ic)),
       (''cnf'', Obj [(''jwk'', Obj out)])] (Str ''1h'')"
    "x_signJwt X ctx spec w = Inr token" "w_signed w' = w_signed w @ [spec]" "w_sent w' = w_sent w"
    by (simp add: sign_Inr out(1))
  with 1 [unfolded kvs] 2 fields show ?thesis by (intro exI conjI) assumption+
qed

lemma attestation_request_binding_witness:
  "\<exists>token w' t hs spec.
    getAttestationRequest sample_ext (Str ''n'') sample_ctx sample_integrity ''b'' sample_world = (Inr token, w')
    \<and> getHardwareSignatureWithAuthData sample_integrity
      (stringify (Obj [(''challenge'', Str ''n''), (''jwk_thumbprint'', Str t)])) sample_world = Inr hs
    \<and> x_signJwt sample_ext sample_ctx spec sample_world = Inr token
    \<and> w_sent w' = w_sent sample_world \<and> w_signed w' = w_signed sample_world @ [spec]"
proof -
  let ?r = "getAttestationRequest sample_ext (Str ''n'') sample_ctx sample_integrity ''b'' sample_world"
  have "isOk (fst ?r)" by code_simp
  then obtain token w' where r: "?r = (Inr token, w')" by (cases ?r) (auto simp: isOk_iff)
  from attestation_request_binding [OF sample_zod(1) r] r show ?thesis by (elim exE conjE) (intro exI conjI)
qed

text \<open>C39. A failed attestation is reported by status: when the provider answers the token request with a
  failure status, the error is a \<open>WalletProviderResponseError\<close> with the status whose code says
  revoked for 403, not found for 404, integrity failed for 409 and issuing failed otherwise.\<close>

theorem getAttestation_error_codes:
  assumes zod: "zod_library (x_zod X)" and G: "calls_fetcher G"
    and pd: "\<And>v. conforms (ProblemDetail G) v \<Longrightarrow> \<exists>kvs. v = Obj kvs"
    and nonce: "get_nonce X G base w = (Inr challenge, w1)"
    and req: "getAttestationRequest X challenge ctx ic base w1 = (Inr signed, w2)"
    and answers: "\<And>r. req_method r = ''post'' \<Longrightarrow> x_fetch X r w2 = Inr res"
    and bad: "\<not> res_ok res"
  shows "\<exists>e. fst (wia_getAttestation X G ctx ic base w) = Inl e
    \<and> err_class e = WalletProviderResponseError
    \<and> err_get e ''statusCode'' = Num (of_nat (res_status res))
    \<and> err_get e ''code'' = Str (if res_status res = 403 then WalletInstanceRevoked
        else if res_status res = 404 then WalletInstanceNotFound
        else if res_status res = 409 then WalletInstanceIntegrityFailed
        else WalletInstanceAttestationIssuingFailed)"
proof -
  obtain e where e: "validateResponse X G res = Inl e" "err_class e = WalletProviderResponseError"
    "err_get e ''statusCode'' = Num (of_nat (res_status res))"
    using validateResponse_error [OF zod pd bad] by blast
  have "fst (wia_getAttestation X G ctx ic base w) = Inl (handleAttestationCreationError e)"
    using nonce req e(1) answers
    by (simp add: wia_getAttestation_def client_call [OF G] bindIO_def catchIO_def
        client_fetcher_def fetch_def client_request_def)
  moreover note i = instanceof_self [OF e(2)]
  ultimately show ?thesis
    using attestation_creation.builds [OF i] attestation_creation.code [OF i]
      attestation_creation.status_kept [OF i] e(3)
    by (simp add: attestation_creation_code status_key)
qed

lemma getAttestation_error_codes_witness:
  "\<exists>e. fst (wia_getAttestation (provider_ext 403) sample_generated sample_ctx sample_integrity ''b'' sample_world) = Inl e
    \<and> err_get e ''code'' = Str WalletInstanceRevoked"
proof -
  let ?X = "provider_ext 403"
  have "isOk (fst (get_nonce ?X sample_generated ''b'' sample_world))" by code_simp
  then obtain ch w1 where n: "get_nonce ?X sample_generated ''b'' sample_world = (Inr ch, w1)"
    by (cases "get_nonce ?X sample_generated ''b'' sample_world") (auto simp: isOk_iff)
  have pd: "\<And>v. conforms (ProblemDetail sample_generated) v \<Longrightarrow> \<exists>kvs. v = Obj kvs"
    by (auto simp: sample_generated_def split: js.splits)
  have "isOk (case get_nonce ?X sample_generated ''b'' sample_world of (Inl e, _) \<Rightarrow> Inl e
      | (Inr ch, w1) \<Rightarrow> fst (getAttestationRequest ?X ch sample_ctx sample_integrity ''b'' w1))" by code_simp
  then obtain s w2 where q: "getAttestationRequest ?X ch sample_ctx sample_integrity ''b'' w1 = (Inr s, w2)"
    using n by (cases "getAttestationRequest ?X ch sample_ctx sample_integrity ''b'' w1") (auto simp: isOk_iff)
  have a: "x_fetch ?X r w2 = Inr (json_response 403 ''{}'')" if "req_method r = ''post''" for r
    using that by (simp add: provider_ext_def)
  from getAttestation_error_codes [OF provider_zod sample_calls pd n q a]
  show ?thesis by (auto simp: res_ok_def json_response_def)
qed

end
