(* ===== verification/Issuance_Correct.thy ===== *)
theory Issuance_Correct
  imports Issuance_Credential Wallet_Provider_Correct
begin

text \<open>
  What the issuance flow guarantees: the pushed authorization request and its PKCE challenge, the choice of
  the credential definition, the credential request and the errors it surfaces as, the verification
  and parsing of the received credential.
\<close>

section \<open>Authorization request\<close>

lemma random_world: "generateRandomAlphaNumericString X n w = (Inr s, w') \<Longrightarrow>
    w_sent w' = w_sent w \<and> w_signed w' = w_signed w"
  by (auto simp: generateRandomAlphaNumericString_def)

lemma uuid_world: "uuidv4 X w = (Inr s, w') \<Longrightarrow> w_sent w' = w_sent w \<and> w_signed w' = w_signed w"
  by (auto simp: uuidv4_def)

lemma createPopToken_world: "createPopToken X payload ctx w = (Inr t, w') \<Longrightarrow>
    w_sent w' = w_sent w \<and> (\<exists>kid. w_signed w' = w_signed w @
      [SignJWT [(''typ'', Str ''jwt-client-attestation-pop''), (''kid'', kid)] payload (Str ''5min'')])"
  by (auto simp: createPopToken_def bindIO_Inr_iff sign_Inr)

lemma createDPopToken_world: "createDPopToken X payload ctx w = (Inr t, w') \<Longrightarrow>
    w_sent w' = w_sent w \<and> (\<exists>jwk. getPublicKey ctx w = Inr jwk \<and> w_signed w' = w_signed w @
      [SignJWT [(''typ'', Str ''dpop+jwt''), (''jwk'', jwk)] payload (Str ''1h'')])"
  by (auto simp: createDPopToken_def bindIO_Inr_iff sign_Inr)

definition par_body :: "ext \<Rightarrow> js \<Rightarrow> string \<Rightarrow> string \<Rightarrow> string \<Rightarrow> string \<Rightarrow> string" where
  "par_body X client verifier request assertionType assertion = URLSearchParams
     [(''response_type'', Str ''code''), (''client_id'', client),
      (''code_challenge'', Str (x_sha256ToBase64 X verifier)), (''code_challenge_method'', Str ''S256''),
      (''request'', Str request), (''client_assertion_type'', Str assertionType),
      (''client_assertion'', Str assertion)]"

lemma makeParRequest_effects:
  assumes "makeParRequest X ctx client verifier redirect mode endpoint wia details atype w = (Inr uri, w')"
  shows "\<exists>assertion signed pop par. w_signed w' = w_signed w @ [pop, par]
    \<and> pget (jws_payload par) ''code_challenge'' = Str (x_sha256ToBase64 X verifier)
    \<and> pget (jws_payload par) ''client_id'' = client
    \<and> pget (jws_payload par) ''response_mode'' = Str mode
    \<and> pget (jws_payload par) ''redirect_uri'' = Str redirect
    \<and> pget (jws_payload par) ''authorization_details'' = Arr details
    \<and> w_sent w' = w_sent w @
        [POST endpoint form_headers (Str (par_body X client verifier signed atype assertion))]"
proof -
  let ?payload = "\<lambda>jti aud iss state assertion. [(''jti'', Str jti), (''aud'', Str aud), (''response_type'', Str ''code''),
        (''response_mode'', Str mode), (''client_id'', client), (''iss'', iss),
        (''state'', Str state), (''code_challenge'', Str (x_sha256ToBase64 X verifier)),
        (''code_challenge_method'', Str ''S256''),
        (''authorization_details'', Arr details), (''redirect_uri'', Str redirect),
        (''client_assertion_type'', Str atype), (''client_assertion'', Str assertion)]"
  from assms obtain aud iss jti1 w1 pop w2 kid jti w3 state w4 signed w5 res where
    1: "uuidv4 X w = (Inr jti1, w1)"
    and 2: "createPopToken X [(''jti'', Str jti1), (''aud'', Str aud), (''iss'', iss)] ctx w1 = (Inr pop, w2)"
    and 3: "uuidv4 X w2 = (Inr jti, w3)"
    and 4: "generateRandomAlphaNumericString X 32 w3 = (Inr state, w4)"
    and 5: "sign X ctx (SignJWT [(''typ'', Str ''jwk''), (''kid'', kid)]
        (?payload jti aud iss state (wia @ ''~'' @ pop)) (Str ''5min'')) w4 = (Inr signed, w5)"
    and 6: "fetch_expecting X 201 new_IssuerResponseError (POST endpoint form_headers
        (Str (par_body X client verifier signed atype (wia @ ''~'' @ pop)))) w5 = (Inr res, w')"
    unfolding makeParRequest_def par_body_def Let_def bindIO_Inr_iff by auto
  have "w_sent w' = w_sent w @
        [POST endpoint form_headers (Str (par_body X client verifier signed atype (wia @ ''~'' @ pop)))]"
    using uuid_world [OF 1] createPopToken_world [OF 2] uuid_world [OF 3] random_world [OF 4] 5 6
    by (simp add: sign_Inr fetch_expecting_Inr)
  moreover obtain pk where "w_signed w' = w_signed w @
      [SignJWT [(''typ'', Str ''jwt-client-attestation-pop''), (''kid'', pk)]
         [(''jti'', Str jti1), (''aud'', Str aud), (''iss'', iss)] (Str ''5min''),
       SignJWT [(''typ'', Str ''jwk''), (''kid'', kid)]
         (?payload jti aud iss state (wia @ ''~'' @ pop)) (Str ''5min'')]"
    using uuid_world [OF 1] createPopToken_world [OF 2] uuid_world [OF 3] random_world [OF 4] 5 6
    by (auto simp: sign_Inr fetch_expecting_Inr)
  ultimately show ?thesis by (intro exI conjI) (assumption | simp add: SignJWT_def)+
qed

definition has_param :: "string \<Rightarrow> string \<Rightarrow> string \<Rightarrow> bool" where
  "has_param body k v \<longleftrightarrow> (k, v) \<in> set (parse_query body)"

text \<open>C11. Starting the authorization sends exactly one request, a form post to the issuer's pushed
  authorization endpoint, and signs exactly two tokens.  The verifier handed back to the caller and the request
  belong together: a reader of the form finds the verifier's SHA-256 digest as the
  \<open>S256\<close> code challenge and the returned client id, and the signed request object carries the
  same challenge, the same client, the response mode expected for the credential type and the
  returned credential definition.\<close>

theorem startUserAuthorization_pkce:
  assumes "startUserAuthorization X conf credentialType ctx wia redirect w = (Inr ua, w')"
  shows "\<exists>url body pop par. w_sent w' = w_sent w @ [POST url form_headers (Str body)]
    \<and> conf_str conf [''oauth_authorization_server'', ''pushed_authorization_request_endpoint''] = Inr url
    \<and> has_param body ''code_challenge'' (x_sha256ToBase64 X (codeVerifier ua))
    \<and> has_param body ''code_challenge_method'' ''S256''
    \<and> has_param body ''client_id'' (to_str (clientId ua))
    \<and> w_signed w' = w_signed w @ [pop, par]
    \<and> pget (jws_payload par) ''code_challenge'' = Str (x_sha256ToBase64 X (codeVerifier ua))
    \<and> pget (jws_payload par) ''client_id'' = clientId ua
    \<and> pget (jws_payload par) ''response_mode'' = Str (expectedResponseMode credentialType)
    \<and> pget (jws_payload par) ''redirect_uri'' = Str redirect
    \<and> pget (jws_payload par) ''authorization_details'' = Arr [credentialDefinition ua]"
proof -
  from assms obtain verifier w1 url mode where
    v: "generateRandomAlphaNumericString X 64 w = (Inr (codeVerifier ua), w1)"
    and url: "conf_str conf [''oauth_authorization_server'', ''pushed_authorization_request_endpoint''] = Inr url"
    and mode: "selectResponseMode conf credentialType = Inr mode"
    and par: "makeParRequest X ctx (clientId ua) (codeVerifier ua) redirect mode url wia
      [credentialDefinition ua] ASSERTION_TYPE w1 = (Inr (issuerRequestUri ua), w')"
    unfolding startUserAuthorization_def bindIO_Inr_iff by auto
  have m: "mode = expectedResponseMode credentialType"
    using mode by (auto simp: selectResponseMode_def Let_def bindR_Inr_iff split: if_splits)
  obtain assertion signed pop p where s: "w_signed w' = w_signed w1 @ [pop, p]"
    "pget (jws_payload p) ''code_challenge'' = Str (x_sha256ToBase64 X (codeVerifier ua))"
    "pget (jws_payload p) ''client_id'' = clientId ua"
    "pget (jws_payload p) ''response_mode'' = Str mode"
    "pget (jws_payload p) ''redirect_uri'' = Str redirect"
    "pget (jws_payload p) ''authorization_details'' = Arr [credentialDefinition ua]"
    and snt: "w_sent w' = w_sent w1 @ [POST url form_headers
      (Str (par_body X (clientId ua) (codeVerifier ua) signed ASSERTION_TYPE assertion))]"
    using makeParRequest_effects [OF par] by blast
  let ?b = "par_body X (clientId ua) (codeVerifier ua) signed ASSERTION_TYPE assertion"
  have "has_param ?b ''code_challenge'' (x_sha256ToBase64 X (codeVerifier ua))"
    "has_param ?b ''code_challenge_method'' ''S256''" "has_param ?b ''client_id'' (to_str (clientId ua))"
    by (simp_all add: has_param_def par_body_def parse_query_URLSearchParams)
  with s snt url m random_world [OF v] show ?thesis
    by (intro exI [of _ url] exI [of _ ?b] exI [of _ pop] exI [of _ p]) simp
qed

text \<open>The sample issuer and wallet attestation.\<close>

definition sample_issuer :: js where
  "sample_issuer = Obj
     [(''openid_credential_issuer'', Obj
        [(''credential_endpoint'', Str ''https://i/cred''),
         (''status_attestation_endpoint'', Str ''https://i/status''),
         (''jwks'', Obj [(''keys'', Arr [])]),
         (''credential_configurations_supported'', Obj [(''mDL'', Obj
            [(''format'', Str ''vc+sd-jwt''), (''scope'', Str ''s''), (''display'', Arr []),
             (''claims'', Obj []), (''cryptographic_binding_methods_supported'', Arr []),
             (''credential_signing_alg_values_supported'', Arr [])])])]),
      (''oauth_authorization_server'', Obj
        [(''pushed_authorization_request_endpoint'', Str ''https://i/par''),
         (''response_modes_supported'', Arr [Str ''query'', Str ''form_post.jwt''])])]"

definition sample_wia :: jwt where
  "sample_wia = \<lparr>
     protectedHeader = Obj [(''alg'', Str ''ES256''), (''kid'', Str ''p''), (''typ'', Str ''wallet-attestation+jwt'')],
     jwt_payload = Obj [(''iss'', Str ''i''), (''iat'', Num 1), (''exp'', Num 2),
       (''cnf'', Obj [(''jwk'', Obj [(''kty'', Str ''EC''), (''kid'', Str ''k'')])]),
       (''sub'', Str ''s''), (''aal'', Str ''a''), (''authorization_endpoint'', Str ''e''),
       (''response_types_supported'', Arr []), (''vp_formats_supported'', Obj []),
       (''request_object_signing_alg_values_supported'', Arr []),
       (''presentation_definition_uri_supported'', Bool False)]\<rparr>"

definition issuer_ext :: "nat \<Rightarrow> string \<Rightarrow> ext" where
  "issuer_ext status body = sample_ext\<lparr>x_decodeJwt := (\<lambda>_. Inr sample_wia),
     x_fetch := (\<lambda>_ _. Inr (json_response status body))\<rparr>"

lemma startUserAuthorization_pkce_witness:
  "\<exists>ua w' url body. startUserAuthorization (issuer_ext 201 ''{}'') sample_issuer ''mDL'' sample_ctx ''wia'' ''r''
      sample_world = (Inr ua, w')
    \<and> w_sent w' = w_sent sample_world @ [POST url form_headers (Str body)]
    \<and> has_param body ''code_challenge'' (x_sha256ToBase64 (issuer_ext 201 ''{}'') (codeVerifier ua))"
proof -
  let ?r = "startUserAuthorization (issuer_ext 201 ''{}'') sample_issuer ''mDL'' sample_ctx ''wia'' ''r'' sample_world"
  have "isOk (fst ?r)" by code_simp
  then obtain ua w' where r: "?r = (Inr ua, w')" by (cases ?r) (auto simp: isOk_iff)
  from startUserAuthorization_pkce [OF r] r show ?thesis by (elim exE conjE) (intro exI conjI)
qed

section \<open>Credential definition\<close>

lemma object_keys_Obj [simp]: "object_keys (Obj kvs) = Inr (Js_Value.keys kvs)"
  by (simp add: object_keys_def)

lemma supported_format:
  assumes "conforms (ZRecord SupportedCredentialMetadata) (Obj kvs)" and "(k, Undef) \<notin> set kvs"
    and "distinct (map fst kvs)" and "k \<in> set (Js_Value.keys kvs)"
  shows "\<exists>f. js_path (Obj kvs) [k, ''format''] = Inr (Str f)"
proof -
  have k: "k \<in> fst ` set kvs" using assms(4) by simp
  then obtain v where v: "(k, v) \<in> set kvs" by auto
  then have "pget kvs k = v" using assms(3) by (simp add: pget_distinct)
  with assms(2) v have ne: "pget kvs k \<noteq> Undef" by auto
  with assms(1) k have "conforms SupportedCredentialMetadata (pget kvs k)"
    by (auto simp: list_all_iff)
  then obtain m where m: "pget kvs k = Obj m"
    "conforms (ZUnion [ZLiteral ''vc+sd-jwt'', ZLiteral ''vc+mdoc-cbor'']) (pget m ''format'')"
    using conforms_object_field [of _ "pget kvs k" "''format''"
        "ZUnion [ZLiteral ''vc+sd-jwt'', ZLiteral ''vc+mdoc-cbor'']"]
    unfolding SupportedCredentialMetadata_def by (metis list.set_intros(1))
  then show ?thesis by auto
qed

text \<open>On a configuration whose supported credentials have the schema's shape, the selected definition
  names the requested type and takes the format of the first configuration, in the order of
  \<open>Object.keys\<close>, whose identifier contains the requested type as a substring; when there is none the
  call fails.  An identifier equal to the requested type is not required.\<close>

theorem selectCredentialDefinition_first_match:
  assumes conf: "js_path conf [''openid_credential_issuer'', ''credential_configurations_supported'']
      = Inr (Obj supported)"
    and shape: "conforms (ZRecord SupportedCredentialMetadata) (Obj supported)"
    and defined: "Undef \<notin> snd ` set supported" and dist: "distinct (map fst supported)"
  shows "selectCredentialDefinition conf credentialType =
    (case find (str_includes credentialType) (Js_Value.keys supported) of
       None \<Rightarrow> Inl (new_Error (''No credential support the type '' @ [CHR 0x27] @ credentialType @ [CHR 0x27]))
     | Some k \<Rightarrow> bindR (js_path (Obj supported) [k, ''format'']) (\<lambda>format.
         Inr (Obj [(''credential_configuration_id'', Str credentialType), (''format'', format),
           (''type'', Str ''openid_credential'')])))"
proof -
  let ?f = "\<lambda>e. bindR (js_path (Obj supported) [e, ''format'']) (\<lambda>format.
         Inr (Obj [(''credential_configuration_id'', Str credentialType), (''format'', format),
                   (''type'', Str ''openid_credential'')]))"
  let ?ks = "filter (str_includes credentialType) (Js_Value.keys supported)"
  have "\<exists>d. ?f k = Inr d" if "k \<in> set ?ks" for k
    using supported_format [OF shape _ dist, of k] defined that by force
  then obtain ds where ds: "mapR ?f ?ks = Inr ds" using mapR_ok_iff [of ?f ?ks] by blast
  have sel: "selectCredentialDefinition conf credentialType = (case ds of result # _ \<Rightarrow> Inr result
      | [] \<Rightarrow> Inl (new_Error (''No credential support the type '' @ [CHR 0x27] @ credentialType @ [CHR 0x27])))"
    by (simp only: selectCredentialDefinition_def conf bindR_simps object_keys_Obj ds)
  show ?thesis
  proof (cases "find (str_includes credentialType) (Js_Value.keys supported)")
    case None
    then have "?ks = []" by (simp add: find_None_iff filter_empty_conv)
    with ds None sel show ?thesis by simp
  next
    case (Some k)
    from find_Some_hd [OF this] obtain ks' where ks: "?ks = k # ks'" by blast
    from ds obtain d ds' where d: "?f k = Inr d" "ds = d # ds'"
      unfolding ks mapR.simps bindR_Inr_iff by blast
    with sel Some show ?thesis by simp
  qed
qed

lemma selectCredentialDefinition_substring_witness:
  "selectCredentialDefinition sample_issuer ''DL'' = Inr (Obj
     [(''credential_configuration_id'', Str ''DL''), (''format'', Str ''vc+sd-jwt''),
      (''type'', Str ''openid_credential'')])"
proof -
  let ?s = "[(''mDL'', Obj
            [(''format'', Str ''vc+sd-jwt''), (''scope'', Str ''s''), (''display'', Arr []),
             (''claims'', Obj []), (''cryptographic_binding_methods_supported'', Arr []),
             (''credential_signing_alg_values_supported'', Arr [])])]"
  have "selectCredentialDefinition sample_issuer ''DL'' =
    (case find (str_includes ''DL'') (Js_Value.keys ?s) of
       None \<Rightarrow> Inl (new_Error (''No credential support the type '' @ [CHR 0x27] @ ''DL'' @ [CHR 0x27]))
     | Some k \<Rightarrow> bindR (js_path (Obj ?s) [k, ''format'']) (\<lambda>format.
         Inr (Obj [(''credential_configuration_id'', Str ''DL''), (''format'', format),
           (''type'', Str ''openid_credential'')])))"
  proof (rule selectCredentialDefinition_first_match)
    show "conforms (ZRecord SupportedCredentialMetadata) (Obj ?s)" by code_simp
  qed (simp_all add: sample_issuer_def)
  also have "\<dots> = Inr (Obj [(''credential_configuration_id'', Str ''DL''), (''format'', Str ''vc+sd-jwt''),
      (''type'', Str ''openid_credential'')])" by code_simp
  finally show ?thesis .
qed

end
