(* ===== verification/Status.thy ===== *)
theory Status
  imports Issuance_Credential
begin

text \<open>
  Status attestations (\<open>src/credential/status/{02,03}*.ts\<close>, \<open>types.ts\<close>), PIDs
  (\<open>src/pid/sd-jwt/{index,converters,types}.ts\<close>) and trustmarks
  (\<open>src/credential/trustmark/get-credential-trustmark.ts\<close>).
\<close>

section \<open>Status attestation\<close>

definition StatusAttestationResponse :: schema where
  "StatusAttestationResponse = ZObject [(''status_attestation'', ZString)]"

definition ParsedStatusAttestation :: schema where
  "ParsedStatusAttestation = ZObject
     [(''header'', ZObject [(''typ'', ZLiteral ''status-attestation+jwt''), (''alg'', ZString),
         (''kid'', ZOptional ZString)]),
      (''payload'', ZObject [(''credential_hash_alg'', ZString), (''credential_hash'', ZString),
         (''cnf'', ZObject [(''jwk'', JWK)]), (''exp'', UnixTime), (''iat'', UnixTime)])]"

definition statusAttestation_errors :: response_error_builder where
  "statusAttestation_errors =
     handle ''*'' (error_case StatusAttestationRequestFailed
       ''Unable to obtain the status attestation for the given credential'')
    (handle ''404'' (error_case CredentialInvalidStatus ''Invalid status found for the given credential'')
    (new_ResponseErrorBuilder new_IssuerResponseError))"

definition handleStatusAttestationError :: "js_error \<Rightarrow> js_error" where
  "handleStatusAttestationError e =
     (if \<not> instanceof e UnexpectedStatusCodeError then e else buildFrom statusAttestation_errors e)"

definition statusAttestation :: "ext \<Rightarrow> js \<Rightarrow> string \<Rightarrow> crypto_context \<Rightarrow> js io" where
  "statusAttestation X issuerConf credential credentialCryptoContext =
     bindIO (askIO (getPublicKey credentialCryptoContext)) (\<lambda>jwk.
     bindIO (liftR (getCredentialHashWithouDiscloures X credential)) (\<lambda>credentialHash.
     bindIO (liftR (conf_str issuerConf [''openid_credential_issuer'', ''status_attestation_endpoint'']))
       (\<lambda>statusAttUrl.
     bindIO (uuidv4 X) (\<lambda>jti.
     bindIO (liftR (js_get jwk ''kid'')) (\<lambda>kid.
     bindIO (sign X credentialCryptoContext (SignJWT
       [(''alg'', Str ''ES256''), (''typ'', Str ''status-attestation-request+jwt''), (''kid'', kid)]
       [(''aud'', Str statusAttUrl), (''jti'', Str jti), (''credential_hash'', Str credentialHash),
        (''credential_hash_alg'', Str ''S256'')] (Str ''5m''))) (\<lambda>credentialPop.
     bindIO (catchIO
       (bindIO (fetch_expecting X 201 new_UnexpectedStatusCodeError
          (POST statusAttUrl [(''Content-Type'', Str ''application/json'')]
            (JSON_stringify (Obj [(''credential_pop'', Str credentialPop)])))) (\<lambda>raw.
        bindIO (liftR (res_json raw)) (\<lambda>json.
        liftR (zparse X StatusAttestationResponse json))))
       (\<lambda>e. throwIO (handleStatusAttestationError e))) (\<lambda>result.
     liftR (js_get result ''status_attestation''))))))))"

text \<open>The body of the \<open>try\<close> block.\<close>

definition checkStatusAttestation :: "ext \<Rightarrow> js \<Rightarrow> string \<Rightarrow> crypto_context \<Rightarrow> js io" where
  "checkStatusAttestation X issuerConf attestation credentialCryptoContext =
     bindIO (liftR (js_path issuerConf [''openid_credential_issuer'', ''jwks'', ''keys''])) (\<lambda>ks.
     bindIO (askIO (x_verifyJwt X attestation ks)) (\<lambda>_.
     bindIO (liftR (x_decodeJwt X attestation)) (\<lambda>decodedJwt.
     bindIO (liftR (zparse X ParsedStatusAttestation (jwt_object decodedJwt))) (\<lambda>parsed.
     bindIO (askIO (getPublicKey credentialCryptoContext)) (\<lambda>holderBindingKey.
     bindIO (liftR (js_path parsed [''payload'', ''cnf'', ''jwk'', ''kid''])) (\<lambda>kid.
     bindIO (liftR (if truthy kid then js_get holderBindingKey ''kid'' else Inr Undef)) (\<lambda>holderKid.
     if \<not> truthy kid \<or> kid \<noteq> holderKid
     then bindIO (liftR (js_get holderBindingKey ''kid'')) (\<lambda>expected.
       throwIO (new_IoWalletError
         (''Failed to verify holder binding for status attestation, expected kid: ''
          @ to_str expected @ '', got: '' @ to_str kid)))
     else returnIO parsed)))))))"

definition verifyAndParseStatusAttestation :: "ext \<Rightarrow> js \<Rightarrow> string \<Rightarrow> crypto_context \<Rightarrow> js io" where
  "verifyAndParseStatusAttestation X issuerConf attestation ctx =
     catchIO (checkStatusAttestation X issuerConf attestation ctx)
       (\<lambda>e. throwIO (new_IoWalletError
          (''Failed to verify status attestation: '' @ stringify (Obj (err_props e)))))"

section \<open>PID\<close>

definition VerificationEvidence :: schema where
  "VerificationEvidence = ZObject [(''type'', ZString), (''record'', ZObject [(''type'', ZString),
     (''source'', ZObject (strings [''organization_name'', ''organization_id'', ''country_code'']))])]"

definition Verification :: schema where
  "Verification = ZObject [(''trustFramework'', ZLiteral ''eidas''), (''assuranceLevel'', ZString),
     (''evidence'', ZArray VerificationEvidence)]"

definition PID :: schema where
  "PID = ZObject [(''issuer'', ZString), (''issuedAt'', ZDate), (''expiration'', ZDate),
     (''verification'', ZOptional Verification),
     (''claims'', ZObject
       (strings [''uniqueId'', ''givenName'', ''familyName'', ''birthDate'']
        @ [(''placeOfBirth'', ZOptional (ZObject (strings [''country'', ''locality'']))),
           (''taxIdCode'', ZString)]))]"

text \<open>\<open>...(placeOfBirth && placeOfBirth)\<close>: the own properties of an object; the value of the
  claim is one by the PID data model.\<close>

definition spread_value :: "js \<Rightarrow> props" where
  "spread_value v = (case v of Obj kvs \<Rightarrow> kvs | _ \<Rightarrow> [])"

definition pidFromToken :: "ext \<Rightarrow> js \<Rightarrow> js list \<Rightarrow> js res" where
  "pidFromToken X sd ds =
     (let get = getValueFromDisclosures ds; placeOfBirth = get ''place_of_birth'' in
      bindR (js_path sd [''payload'', ''iss'']) (\<lambda>iss.
      bindR (js_path sd [''payload'', ''exp'']) (\<lambda>exp.
      zparse X PID (Obj
        [(''issuer'', iss), (''issuedAt'', date_of_seconds (get ''iat'')),
         (''expiration'', date_of_seconds exp),
         (''claims'', Obj (pset (pspread
           [(''uniqueId'', get ''unique_id''), (''givenName'', get ''given_name''),
            (''familyName'', get ''family_name''), (''birthDate'', get ''birth_date'')]
           (spread_value placeOfBirth)) ''taxIdCode'' (get ''tax_id_code'')))]))))"

record pid_with_token =
  pid_parsed :: js
  pid_sdJwt :: js
  pid_disclosures :: "js list"

definition pid_decode :: "ext \<Rightarrow> string \<Rightarrow> pid_with_token res" where
  "pid_decode X token =
     bindR (decode X token (Some SdJwt4VC)) (\<lambda>d.
     let ds = map decoded (disclosures d) in
     bindR (pidFromToken X (sdJwt d) ds) (\<lambda>pid.
     Inr \<lparr>pid_parsed = pid, pid_sdJwt = sdJwt d, pid_disclosures = ds\<rparr>))"

definition pid_verify :: "ext \<Rightarrow> string \<Rightarrow> pid_with_token io" where
  "pid_verify X token =
     bindIO (liftR (pid_decode X token)) (\<lambda>dec.
     bindIO (liftR (js_path (pid_sdJwt dec) [''payload'', ''cnf'', ''jwk''])) (\<lambda>publicKey.
     bindIO (verify X token publicKey (Some SdJwt4VC)) (\<lambda>_.
     returnIO dec)))"

section \<open>Trustmark\<close>

record trustmark =
  tm_jwt :: string
  tm_expirationTime :: js

definition trustmark_payload :: "string \<Rightarrow> string \<Rightarrow> string option \<Rightarrow> props" where
  "trustmark_payload wia credentialType sub =
     (''iss'', Str wia) # (case sub of Some s \<Rightarrow> [(''sub'', Str s)] | None \<Rightarrow> [])
       @ [(''subtyp'', Str credentialType)]"

definition getCredentialTrustmark ::
  "ext \<Rightarrow> string \<Rightarrow> crypto_context \<Rightarrow> string \<Rightarrow> string option \<Rightarrow> js \<Rightarrow> trustmark io" where
  "getCredentialTrustmark X walletInstanceAttestation wiaCryptoContext credentialType docNumber
       expirationTime =
     bindIO (askIO (getPublicKey wiaCryptoContext)) (\<lambda>holderBindingKey.
     bindIO (liftR (wia_decode X walletInstanceAttestation)) (\<lambda>decodedWia.
     bindIO (liftR (js_path decodedWia [''payload'', ''exp''])) (\<lambda>exp.
     bindIO (askIO (\<lambda>w. Inr (case exp of Num q \<Rightarrow> q * 1000 < x_now X w | _ \<Rightarrow> False))) (\<lambda>expired.
     if expired then throwIO (new_IoWalletError ''Wallet Instance Attestation expired'')
     else
     bindIO (liftR (js_path decodedWia [''payload'', ''cnf'', ''jwk''])) (\<lambda>wiaKey.
     bindIO (liftR (x_thumbprint X wiaKey)) (\<lambda>wiaThumbprint.
     bindIO (liftR (x_thumbprint X holderBindingKey)) (\<lambda>cryptoContextThumbprint.
     if wiaThumbprint \<noteq> cryptoContextThumbprint
     then throwIO (new_IoWalletError
       (''Failed to verify holder binding for status attestation, expected thumbprint: ''
        @ cryptoContextThumbprint @ '', got: '' @ wiaThumbprint))
     else
     bindIO (askIO (\<lambda>w. Inr (case docNumber of
        Some n \<Rightarrow> if n = [] then None else Some (obfuscateString (x_randomSort X w) n 60 ''*'')
      | None \<Rightarrow> None))) (\<lambda>sub.
     bindIO (sign X wiaCryptoContext (SignJWT [(''alg'', Str ''ES256'')]
       (trustmark_payload walletInstanceAttestation credentialType sub)
       (if expirationTime = Undef then Str ''2m'' else expirationTime))) (\<lambda>signedTrustmarkJwt.
     bindIO (liftR (x_decodeJwt X signedTrustmarkJwt)) (\<lambda>decodedTrustmark.
     bindIO (liftR (js_get (jwt_payload decodedTrustmark) ''exp'')) (\<lambda>tmExp.
     returnIO \<lparr>tm_jwt = signedTrustmarkJwt, tm_expirationTime = nullish tmExp (Num 0)\<rparr>)))))))))))"

section \<open>The errors of the status request\<close>

interpretation status_request: status_error_handler handleStatusAttestationError
  UnexpectedStatusCodeError IssuerResponseError "case_code (errorCases statusAttestation_errors)"
  by (rule builder_handler [where b = statusAttestation_errors
        and C = new_IssuerResponseError and dflt = "Str IssuerGenericError"
        and nm = "Str ''IssuerResponseError''"])
    (auto simp: statusAttestation_errors_def simple_cases_base handle_lookup status_error_get
      handleStatusAttestationError_def subclass_issuer split: if_splits)

lemma status_request_code: "case_code (errorCases statusAttestation_errors) s =
    (if s = ''404'' then CredentialInvalidStatus else StatusAttestationRequestFailed)"
  by (auto simp: case_code_def statusAttestation_errors_def handle_lookup error_case_def)

end
