(* ===== verification/Credential_Correct.thy ===== *)
theory Credential_Correct
  imports Issuance_Correct Status
begin

text \<open>
  What obtaining, verifying and parsing a credential guarantees.
\<close>

section \<open>The credential request\<close>

lemma sends_createNonceProof: "sends 0 (createNonceProof X n i a ctx)"
  unfolding createNonceProof_def
  by (intro sends_bind0 still_sends still_prims sends_sign)

text \<open>C28. If the access token's authorization details do not contain the requested credential definition
  (same configuration id, format and type), no request reaches the issuer: \<open>obtainCredential\<close>
  fails and the log of requests is unchanged.\<close>

theorem obtainCredential_requires_authorization:
  assumes "containsCredentialDefinition accessToken definition = Inr False"
  shows "\<not> isOk (fst (obtainCredential X conf accessToken client definition dpop ctx w))
    \<and> w_sent (snd (obtainCredential X conf accessToken client definition dpop ctx w)) = w_sent w"
proof
  let ?e = "new_ValidationFailed ''The access token response does not contain the requested credential'' None None"
  let ?m = "bindIO (liftR (conf_str conf [''openid_credential_issuer'', ''credential_endpoint''])) (\<lambda>url.
     bindIO (liftR (js_get accessToken ''c_nonce'')) (\<lambda>c_nonce.
     bindIO (createNonceProof X c_nonce client url ctx) (\<lambda>_. throwIO ?e)))"
  have m: "obtainCredential X conf accessToken client definition dpop ctx = ?m"
    by (simp only: obtainCredential_def assms bindIO_liftR_Inr not_False_eq_True if_True)
  show "\<not> isOk (fst (obtainCredential X conf accessToken client definition dpop ctx w))"
    unfolding m by (auto simp: isOk_iff fst_bindIO_Inr)
  have "sends 0 ?m"
    by (intro sends_bind0 sends_createNonceProof still_sends still_prims)
  then show "w_sent (snd (obtainCredential X conf accessToken client definition dpop ctx w)) = w_sent w"
    unfolding m sends_def by (metis append_Nil2 le_zero_eq length_0_conv)
qed

definition sample_definition :: "string \<Rightarrow> js" where
  "sample_definition i = Obj [(''credential_configuration_id'', Str i), (''format'', Str ''vc+sd-jwt''),
     (''type'', Str ''openid_credential'')]"

definition sample_token :: js where
  "sample_token = Obj [(''access_token'', Str ''at''), (''authorization_details'', Arr [sample_definition ''mDL'']),
     (''c_nonce'', Str ''n''), (''token_type'', Str ''DPoP'')]"

lemma obtainCredential_requires_authorization_witness:
  "\<not> isOk (fst (obtainCredential (issuer_ext 200 ''{}'') sample_issuer sample_token (Str ''k'')
      (sample_definition ''other'') sample_ctx sample_ctx sample_world))
   \<and> w_sent (snd (obtainCredential (issuer_ext 200 ''{}'') sample_issuer sample_token (Str ''k'')
      (sample_definition ''other'') sample_ctx sample_ctx sample_world)) = w_sent sample_world"
  by (rule obtainCredential_requires_authorization) code_simp

lemma unwrap_Inr: "(case c of Inr d \<Rightarrow> returnIO d | Inl m \<Rightarrow> throwIO (E m)) w = (Inr r, w') \<longleftrightarrow>
    c = Inr r \<and> w' = w"
  by (auto split: sum.splits)

text \<open>The steps before the request, and the request.\<close>

definition credential_request_of :: "string \<Rightarrow> string \<Rightarrow> js \<Rightarrow> string \<Rightarrow> js \<Rightarrow> js \<Rightarrow> string \<Rightarrow> request" where
  "credential_request_of url dpopToken token_type access_token configId format proof' =
     POST url [(''Content-Type'', Str ''application/json''), (''DPoP'', Str dpopToken),
         (''Authorization'', Str (to_str token_type @ '' '' @ access_token))]
       (JSON_stringify (Obj [(''credential_definition'', Obj [(''type'', Arr [configId])]), (''format'', format),
          (''proof'', Obj [(''jwt'', Str proof'), (''proof_type'', Str ''jwt'')])]))"

text \<open>The two proofs of the request: of the holder's key, for the nonce, and of the DPoP key.\<close>

definition nonce_proof :: "js \<Rightarrow> js \<Rightarrow> js \<Rightarrow> string \<Rightarrow> jwt_spec" where
  "nonce_proof jwk nonce client url =
     (SignJWT [(''typ'', Str ''openid4vci-proof+jwt''), (''jwk'', jwk)] [(''nonce'', nonce)] (Str ''5min''))
       \<lparr>jws_aud := Str url, jws_iss := client\<rparr>"

definition dpop_proof :: "js \<Rightarrow> string \<Rightarrow> string \<Rightarrow> string \<Rightarrow> jwt_spec" where
  "dpop_proof jwk url jti ath = SignJWT [(''typ'', Str ''dpop+jwt''), (''jwk'', jwk)]
     [(''htm'', Str ''POST''), (''htu'', Str url), (''jti'', Str jti), (''ath'', Str ath)] (Str ''1h'')"

lemma createNonceProof_Inr: "createNonceProof X nonce client url ctx w = (Inr p, w') \<longleftrightarrow>
    (\<exists>jwk. getPublicKey ctx w = Inr jwk \<and> x_signJwt X ctx (nonce_proof jwk nonce client url) w = Inr p
      \<and> w' = w\<lparr>w_signed := w_signed w @ [nonce_proof jwk nonce client url]\<rparr>)"
  by (auto simp: createNonceProof_def nonce_proof_def bindIO_Inr_iff sign_Inr)

lemma createDPopToken_Inr: "createDPopToken X [(''htm'', Str ''POST''), (''htu'', Str url), (''jti'', Str jti),
      (''ath'', Str ath)] ctx w = (Inr t, w') \<longleftrightarrow>
    (\<exists>jwk. getPublicKey ctx w = Inr jwk \<and> x_signJwt X ctx (dpop_proof jwk url jti ath) w = Inr t
      \<and> w' = w\<lparr>w_signed := w_signed w @ [dpop_proof jwk url jti ath]\<rparr>)"
  by (auto simp: createDPopToken_def dpop_proof_def bindIO_Inr_iff sign_Inr)

text \<open>C9. A credential that is obtained came with status 200 in answer to the one request sent: a post to
  the issuer's credential endpoint that carries, in its body, the requested configuration and format
  and a proof signed with the holder's key over the access token's nonce, with the client as issuer
  and the endpoint as audience; in its headers, the access token and a DPoP proof signed with the
  DPoP key over the method, the endpoint and the digest of the access token.  The access token was
  authorized for the requested definition, and the result is the answer's body, of the shape of a
  credential response.\<close>

theorem obtainCredential_bound:
  assumes zod: "zod_library (x_zod X)"
    and ok: "obtainCredential X conf accessToken client definition dpop ctx w = (Inr r, w')"
  shows "containsCredentialDefinition accessToken definition = Inr True
    \<and> (\<exists>url nonce tok ttype configId format jwk jwk' jti keyProof dpopProof wd wf res body.
        conf_str conf [''openid_credential_issuer'', ''credential_endpoint''] = Inr url
        \<and> js_get accessToken ''c_nonce'' = Inr nonce \<and> conf_str accessToken [''access_token''] = Inr tok
        \<and> js_get accessToken ''token_type'' = Inr ttype
        \<and> js_get definition ''credential_configuration_id'' = Inr configId \<and> js_get definition ''format'' = Inr format
        \<and> getPublicKey ctx w = Inr jwk \<and> x_signJwt X ctx (nonce_proof jwk nonce client url) w = Inr keyProof
        \<and> getPublicKey dpop wd = Inr jwk'
        \<and> x_signJwt X dpop (dpop_proof jwk' url jti (x_sha256ToBase64 X tok)) wd = Inr dpopProof
        \<and> w_signed w' = w_signed w
            @ [nonce_proof jwk nonce client url, dpop_proof jwk' url jti (x_sha256ToBase64 X tok)]
        \<and> w_sent w' = w_sent w @ [credential_request_of url dpopProof ttype tok configId format keyProof]
        \<and> x_fetch X (credential_request_of url dpopProof ttype tok configId format keyProof) wf = Inr res
        \<and> res_status res = 200 \<and> res_json res = Inr body \<and> x_zod X CredentialResponse body = Inr r
        \<and> conforms CredentialResponse r)"
proof -
  from ok obtain url nonce keyProof w1 configId format jti w2 tok dpopProof w3 ttype body res w4 where
    url: "conf_str conf [''openid_credential_issuer'', ''credential_endpoint''] = Inr url"
    and n: "js_get accessToken ''c_nonce'' = Inr nonce"
    and p: "createNonceProof X nonce client url ctx w = (Inr keyProof, w1)"
    and con: "containsCredentialDefinition accessToken definition = Inr True"
    and df: "js_get definition ''credential_configuration_id'' = Inr configId" "js_get definition ''format'' = Inr format"
    and u: "uuidv4 X w1 = (Inr jti, w2)"
    and tk: "conf_str accessToken [''access_token''] = Inr tok" "js_get accessToken ''token_type'' = Inr ttype"
    and d: "createDPopToken X [(''htm'', Str ''POST''), (''htu'', Str url), (''jti'', Str jti),
        (''ath'', Str (x_sha256ToBase64 X tok))] dpop w2 = (Inr dpopProof, w3)"
    and f: "fetch_expecting X 200 new_UnexpectedStatusCodeError
        (credential_request_of url dpopProof ttype tok configId format keyProof) w3 = (Inr res, w4)"
    and b: "res_json res = Inr body" and z: "x_zod X CredentialResponse body = Inr r" and w4: "w' = w4"
    unfolding obtainCredential_def Let_def bindIO_Inr_iff catchIO_Inr_iff credential_request_of_def
    by (auto simp: bindIO_Inr_iff catchIO_Inr_iff unwrap_Inr split: if_splits)
  from p obtain jwk where jwk: "getPublicKey ctx w = Inr jwk"
      "x_signJwt X ctx (nonce_proof jwk nonce client url) w = Inr keyProof"
      "w1 = w\<lparr>w_signed := w_signed w @ [nonce_proof jwk nonce client url]\<rparr>"
    by (auto simp: createNonceProof_Inr)
  from d obtain jwk' where jwk': "getPublicKey dpop w2 = Inr jwk'"
      "x_signJwt X dpop (dpop_proof jwk' url jti (x_sha256ToBase64 X tok)) w2 = Inr dpopProof"
      "w3 = w2\<lparr>w_signed := w_signed w2 @ [dpop_proof jwk' url jti (x_sha256ToBase64 X tok)]\<rparr>"
    by (auto simp: createDPopToken_Inr)
  let ?q = "credential_request_of url dpopProof ttype tok configId format keyProof"
  have sent: "x_fetch X ?q w3 = Inr res" "res_status res = 200" "w_sent w' = w_sent w @ [?q]"
    "w_signed w' = w_signed w @ [nonce_proof jwk nonce client url, dpop_proof jwk' url jti (x_sha256ToBase64 X tok)]"
    using f w4 jwk(3) jwk'(3) uuid_world [OF u] by (auto simp: fetch_expecting_Inr)
  show ?thesis
    using con url n tk df jwk(1,2) jwk'(1,2) sent b z zod_library.result_conforms [OF zod z]
    by (intro conjI exI) assumption+
qed

lemma obtainCredential_bound_witness:
  "\<exists>r w' dpopProof keyProof. obtainCredential (issuer_ext 200 (stringify (Obj [(''c_nonce'', Str ''n''),
      (''c_nonce_expires_in'', Num 1), (''credential'', Str ''c''), (''format'', Str ''vc+sd-jwt'')])))
      sample_issuer sample_token (Str ''k'') (sample_definition ''mDL'') sample_ctx sample_ctx sample_world = (Inr r, w')
    \<and> conforms CredentialResponse r \<and> map req_method (w_sent w') = [''POST'']
    \<and> map req_headers (w_sent w') = [[(''Content-Type'', Str ''application/json''), (''DPoP'', Str dpopProof),
         (''Authorization'', Str ''DPoP at'')]]"
proof -
  let ?X = "issuer_ext 200 (stringify (Obj [(''c_nonce'', Str ''n''),
      (''c_nonce_expires_in'', Num 1), (''credential'', Str ''c''), (''format'', Str ''vc+sd-jwt'')]))"
  let ?r = "obtainCredential ?X sample_issuer sample_token (Str ''k'') (sample_definition ''mDL'')
      sample_ctx sample_ctx sample_world"
  have "isOk (fst ?r)" by code_simp
  then obtain r w' where r: "?r = (Inr r, w')" by (cases ?r) (auto simp: isOk_iff)
  have zod: "zod_library (x_zod ?X)"
    by (simp add: issuer_ext_def sample_ext_def reference_zod.zod_library_axioms)
  have tok: "conf_str sample_token [''access_token''] = Inr ''at''" "js_get sample_token ''token_type'' = Inr (Str ''DPoP'')"
    by code_simp+
  from obtainCredential_bound [OF zod r] r show ?thesis
    by (elim exE conjE) (auto simp: tok credential_request_of_def POST_def sample_world_def)
qed

section \<open>Errors of requests\<close>

lemma failed_fetch:
  assumes "\<And>r w. x_fetch X r w = Inr res" and "res_status res \<noteq> n"
    and "parseRawHttpResponse res = Inr reason"
  shows "\<exists>e. fst (fetch_expecting X n new_UnexpectedStatusCodeError r w) = Inl e
    \<and> err_class e = UnexpectedStatusCodeError
    \<and> err_get e ''statusCode'' = Num (of_nat (res_status res)) \<and> err_get e ''reason'' = reason"
  using assms by (simp add: fetch_expecting_def fetch_def bindIO_def hasStatusOrThrow_fails status_error_get)

lemma fetch_then_handle:
  assumes "fst (m w) = Inl e"
  shows "fst (bindIO (catchIO (bindIO m f) (\<lambda>e. throwIO (h e))) g w) = Inl (h e)"
  using assms by (cases "m w") (simp add: bindIO_def catchIO_def)

text \<open>C29. When the issuer answers the credential request with a status other than 200 (and the body
  can be read), \<open>obtainCredential\<close> throws an \<open>IssuerResponseError\<close> that keeps the status and the
  body and whose code says: not issued synchronously for 201, invalid credential status for 403
  and 404, request failed otherwise.\<close>

theorem obtainCredential_error_codes:
  assumes server: "\<And>r w. x_fetch X r w = Inr res" "res_status res \<noteq> 200"
      "parseRawHttpResponse res = Inr reason"
    and sent: "w_sent (snd (obtainCredential X conf tok client definition dpop ctx w)) \<noteq> w_sent w"
  shows "\<exists>e. fst (obtainCredential X conf tok client definition dpop ctx w) = Inl e
    \<and> err_class e = IssuerResponseError
    \<and> err_get e ''statusCode'' = Num (of_nat (res_status res)) \<and> err_get e ''reason'' = reason
    \<and> err_get e ''code'' = Str (if res_status res = 201 then CredentialIssuingNotSynchronous
        else if res_status res = 403 \<or> res_status res = 404 then CredentialInvalidStatus
        else CredentialRequestFailed)" (is "?Q (fst _)")
proof -
  have h: "?Q (Inl (handleObtainCredentialError e))" if "err_class e = UnexpectedStatusCodeError"
    "err_get e ''statusCode'' = Num (of_nat (res_status res))" "err_get e ''reason'' = reason" for e
    using credential_request.builds [OF instanceof_self [OF that(1)]]
      credential_request.code [OF instanceof_self [OF that(1)]]
      credential_request.status_kept [OF instanceof_self [OF that(1)]]
      credential_request.reason_kept [OF instanceof_self [OF that(1)]] that
    by (simp add: credential_request_code status_key)
  have tail: "once_sent (bindIO (catchIO (bindIO (fetch_expecting X 200 new_UnexpectedStatusCodeError r) f)
      (\<lambda>e. throwIO (handleObtainCredentialError e))) g) ?Q" for r f g
    unfolding once_sent_def
  proof (intro allI impI)
    fix w
    obtain e where e: "fst (fetch_expecting X 200 new_UnexpectedStatusCodeError r w) = Inl e"
      "err_class e = UnexpectedStatusCodeError" "err_get e ''statusCode'' = Num (of_nat (res_status res))"
      "err_get e ''reason'' = reason" using failed_fetch [OF server, of r w] by blast
    show "?Q (fst (bindIO (catchIO (bindIO (fetch_expecting X 200 new_UnexpectedStatusCodeError r) f)
      (\<lambda>e. throwIO (handleObtainCredentialError e))) g w))"
      by (subst fetch_then_handle [where m = "fetch_expecting X 200 new_UnexpectedStatusCodeError r" and w = w
            and e = e and h = handleObtainCredentialError, OF e(1)]) (rule h [OF e(2-4)])
  qed
  have dp: "sends 0 (createDPopToken X p c)" for p c
    unfolding createDPopToken_def by (intro sends_bind0 still_sends still_prims sends_sign)
  have "once_sent (obtainCredential X conf tok client definition dpop ctx) ?Q"
    unfolding obtainCredential_def Let_def
    by (rule once_sent_bind once_sent_if sends_createNonceProof sends_uuidv4 dp tail
         once_sent_quiet still_sends still_prims)+
  from once_sentD [OF this sent] show ?thesis .
qed

lemma obtainCredential_error_codes_witness:
  "\<exists>e. fst (obtainCredential (issuer_ext 404 ''{}'') sample_issuer sample_token (Str ''k'')
       (sample_definition ''mDL'') sample_ctx sample_ctx sample_world) = Inl e
    \<and> err_class e = IssuerResponseError \<and> err_get e ''code'' = Str CredentialInvalidStatus"
proof -
  let ?r = "obtainCredential (issuer_ext 404 ''{}'') sample_issuer sample_token (Str ''k'')
    (sample_definition ''mDL'') sample_ctx sample_ctx sample_world"
  have f: "x_fetch (issuer_ext 404 ''{}'') r w = Inr (json_response 404 ''{}'')" for r w
    by (simp add: issuer_ext_def)
  have p: "parseRawHttpResponse (json_response 404 ''{}'') = Inr (Obj [])" by code_simp
  have s: "res_status (json_response 404 ''{}'') = 404" by (simp add: json_response_def)
  have "length (w_sent (snd ?r)) \<noteq> length (w_sent sample_world)" by code_simp
  then have "w_sent (snd ?r) \<noteq> w_sent sample_world" by metis
  from obtainCredential_error_codes [OF f _ p this] show ?thesis by (auto simp: s)
qed

section \<open>The received credential\<close>

text \<open>The criterion: the token decodes to a credential \<open>d\<close>, its signature is accepted for the issuer's
  keys, every disclosure's digest is in the signed list, and the credential is bound to the holder's
  key by its non-empty identifier.\<close>

definition credential_accepted ::
  "ext \<Rightarrow> js \<Rightarrow> string \<Rightarrow> crypto_context \<Rightarrow> world \<Rightarrow> decoded_sd_jwt \<Rightarrow> bool" where
  "credential_accepted X issuerKeys credential ctx w d \<longleftrightarrow>
     decode X credential (Some SdJwt4VC) = Inr d
     \<and> isOk (x_verifyJwt X (hd (split_on (CHR ''~'') credential)) issuerKeys w)
     \<and> (\<exists>hashes. js_path (sdJwt d) [''payload'', ''_sd''] = Inr (Arr hashes)
         \<and> list_all (\<lambda>e. Str (x_sha256ToBase64 X (encoded e)) \<in> set hashes) (disclosures d))
     \<and> (\<exists>kid key. kid \<noteq> [] \<and> js_path (sdJwt d) [''payload'', ''cnf'', ''jwk'', ''kid''] = Inr (Str kid)
         \<and> getPublicKey ctx w = Inr key \<and> js_get key ''kid'' = Inr (Str kid))"

lemma SdJwt4VC_types:
  "ZOptional ZString \<in> set (types_at [SdJwt4VC] [''payload'', ''cnf'', ''jwk'', ''kid''])"
  "ZNumber (Some 0) (Some 2147483647000) \<in> set (types_at [SdJwt4VC] [''payload'', ''exp''])"
  by (simp_all add: SdJwt4VC_def ObfuscatedDisclosures_def UnixTime_def JWK_def opt_strings_def)

lemma truthy_optional_string: "conforms (ZOptional ZString) v \<Longrightarrow> truthy v \<Longrightarrow> \<exists>s. v = Str s \<and> s \<noteq> []"
  by (cases v) (auto simp: truthy_def)

lemma verifyCredentialSdJwt_ok:
  assumes zod: "zod_library (x_zod X)"
    and ok: "verifyCredentialSdJwt X credential issuerKeys ctx w = (Inr dec, w')"
  obtains d where "w' = w" "credential_accepted X issuerKeys credential ctx w d"
    "dec = \<lparr>v_sdJwt = sdJwt d, v_disclosures = map decoded (disclosures d)\<rparr>"
proof -
  from ok obtain w1 key kid holderKid where v: "verify X credential issuerKeys (Some SdJwt4VC) w = (Inr dec, w1)"
    and k: "getPublicKey ctx w1 = Inr key"
    and kid: "js_path (v_sdJwt dec) [''payload'', ''cnf'', ''jwk'', ''kid''] = Inr kid"
    and hk: "(if truthy kid then js_get key ''kid'' else Inr Undef) = Inr holderKid"
    and t: "truthy kid" "kid = holderKid" and w': "w' = w1"
    by (auto simp: verifyCredentialSdJwt_def bindIO_Inr_iff simp del: js_path.simps split: if_splits)
  have w1: "w1 = w" using v verify_still [of X credential issuerKeys "Some SdJwt4VC"]
    by (metis snd_conv still_def)
  from v obtain d hashes where d: "decode X credential (Some SdJwt4VC) = Inr d"
    and sig: "isOk (x_verifyJwt X (hd (split_on (CHR ''~'') credential)) issuerKeys w)"
    and h: "js_path (sdJwt d) [''payload'', ''_sd''] = Inr (Arr hashes)"
      "list_all (\<lambda>e. Str (x_sha256ToBase64 X (encoded e)) \<in> set hashes) (disclosures d)"
    and dec: "dec = \<lparr>v_sdJwt = sdJwt d, v_disclosures = map decoded (disclosures d)\<rparr>"
    by (metis fst_conv verify_ok_iff)
  have "conforms SdJwt4VC (sdJwt d)" using decode_shape [OF zod d] by simp
  from path_typed [OF this SdJwt4VC_types(1)] kid dec have "conforms (ZOptional ZString) kid"
    by (simp del: js_path.simps conforms.simps)
  from truthy_optional_string [OF this t(1)] obtain s where s: "kid = Str s" "s \<noteq> []" by blast
  have "credential_accepted X issuerKeys credential ctx w d"
    unfolding credential_accepted_def using d sig h s t kid hk k w1 dec
    by (auto simp del: js_path.simps)
  with w' w1 dec show ?thesis by (auto intro: that)
qed

lemma date_of_UnixTime:
  assumes "conforms (ZNumber (Some 0) (Some 2147483647000)) v"
  shows "\<exists>ms. date_of_seconds v = DateV (Some ms) \<and> 0 \<le> ms \<and> ms \<le> 2147483647000000"
proof -
  from assms obtain q where v: "v = Num q" "0 \<le> q" "q \<le> 2147483647000" by (cases v) auto
  then have "\<bar>q * 1000\<bar> \<le> 8640000000000000" "\<not> q * 1000 < 0" by (simp_all add: abs_if)
  then have "date_of_seconds v = DateV (Some \<lfloor>q * 1000\<rfloor>)"
    using v by (simp add: date_of_seconds_def new_Date_def)
  moreover have "0 \<le> \<lfloor>q * 1000\<rfloor>" using v by simp
  moreover have "\<lfloor>q * 1000\<rfloor> \<le> 2147483647000000" using v by (simp add: floor_le_iff)
  ultimately show ?thesis by blast
qed

text \<open>C2. A credential that \<open>verifyAndParseCredential\<close> accepts is in the SD-JWT format, meets the
  criterion for the issuer's published keys and the holder's key, and has an expiration that is a
  valid date: the bound of the schema on \<open>exp\<close>, which is in milliseconds, keeps the product with
  1000 within the range of \<open>Date\<close>.  Nothing is sent and no key changes.\<close>

theorem verifyAndParseCredential_sound:
  assumes zod: "zod_library (x_zod X)"
    and ok: "verifyAndParseCredential X conf credential format ctx ignoreMissing includeUndefined w = (Inr p, w')"
  shows "w' = w \<and> format = ''vc+sd-jwt''
    \<and> (\<exists>issuerKeys d. js_path conf [''openid_credential_issuer'', ''jwks'', ''keys''] = Inr issuerKeys
        \<and> credential_accepted X issuerKeys credential ctx w d)
    \<and> (\<exists>ms. expiration p = DateV (Some ms) \<and> 0 \<le> ms \<and> ms \<le> 2147483647000000)"
proof -
  have f: "format = ''vc+sd-jwt''" using ok
    by (auto simp: verifyAndParseCredential_def split: if_splits)
  with ok obtain issuerKeys dec w1 exp where
      ks: "js_path conf [''openid_credential_issuer'', ''jwks'', ''keys''] = Inr issuerKeys"
    and v: "verifyCredentialSdJwt X credential issuerKeys ctx w = (Inr dec, w1)" and w': "w' = w1"
    and e: "js_path (v_sdJwt dec) [''payload'', ''exp''] = Inr exp" "expiration p = date_of_seconds exp"
    by (auto simp: verifyAndParseCredential_def verifyAndParseCredentialSdJwt_def bindIO_Inr_iff Let_def
        simp del: js_path.simps)
  from verifyCredentialSdJwt_ok [OF zod v] obtain d where d: "w1 = w"
    "credential_accepted X issuerKeys credential ctx w d"
    "dec = \<lparr>v_sdJwt = sdJwt d, v_disclosures = map decoded (disclosures d)\<rparr>" by blast
  then have "conforms SdJwt4VC (sdJwt d)"
    using decode_shape [OF zod] by (auto simp: credential_accepted_def)
  from path_typed [OF this SdJwt4VC_types(2)] e d(3)
  have "conforms (ZNumber (Some 0) (Some 2147483647000)) exp" by (simp del: js_path.simps conforms.simps)
  from date_of_UnixTime [OF this] e(2) f ks d w' show ?thesis by auto
qed

definition sample_issuer_keys :: js where
  "sample_issuer_keys = Obj [(''openid_credential_issuer'', Obj [(''jwks'', Obj [(''keys'', Arr [])]),
     (''credential_configurations_supported'', Obj [(''V'', Obj [(''format'', Str ''vc+sd-jwt''),
       (''claims'', Obj [(''a'', Obj [(''display'', Arr [Obj [(''locale'', Str ''it''), (''name'', Str ''A'')]])])])])])])]"

lemma verifyAndParseCredential_sound_witness:
  "\<exists>p. verifyAndParseCredential sd_ext sample_issuer_keys sd_token ''vc+sd-jwt'' sample_ctx False True
      sample_world = (Inr p, sample_world)
    \<and> (\<exists>issuerKeys d. credential_accepted sd_ext issuerKeys sd_token sample_ctx sample_world d)"
proof -
  let ?r = "verifyAndParseCredential sd_ext sample_issuer_keys sd_token ''vc+sd-jwt'' sample_ctx False True sample_world"
  have "isOk (fst ?r)" by code_simp
  then obtain p w' where r: "?r = (Inr p, w')" by (cases ?r) (auto simp: isOk_iff)
  from verifyAndParseCredential_sound [OF sample_zod(2) r] r show ?thesis by blast
qed

end
