(* ===== verification/Presentation.thy ===== *)
theory Presentation
  imports Issuance_Authorization
begin

text \<open>
  Presenting a credential to a relying party: \<open>src/credential/presentation/{01,02,03,04}*.ts\<close>.
\<close>

section \<open>Starting from a QR code\<close>

definition QRCodePayload :: schema where
  "QRCodePayload = ZObject (strings [''protocol'', ''resource'', ''clientId'', ''requestURI''])"

definition search_get :: "url_parts \<Rightarrow> string \<Rightarrow> js" where
  "search_get u k = (case map_of (u_search u) k of Some v \<Rightarrow> Str v | None \<Rightarrow> Null)"

definition startFlowFromQR :: "ext \<Rightarrow> string \<Rightarrow> js res" where
  "startFlowFromQR X qrcode =
     bindR (x_URL X (x_decodeBase64 X qrcode)) (\<lambda>decodedUrl.
     case x_zod X QRCodePayload (Obj
       [(''protocol'', Str (u_protocol decodedUrl)), (''resource'', Str (u_hostname decodedUrl)),
        (''requestURI'', search_get decodedUrl ''request_uri''),
        (''clientId'', search_get decodedUrl ''client_id'')]) of
       Inr result \<Rightarrow> Inr result
     | Inl message \<Rightarrow> Inl (new_AuthRequestDecodeError message (Some (u_href decodedUrl)) None))"

section \<open>The relying party and its request\<close>

definition evaluateRelyingPartyTrust :: "ext \<Rightarrow> string \<Rightarrow> js io" where
  "evaluateRelyingPartyTrust X rpUrl =
     bindIO (getRelyingPartyEntityConfiguration X rpUrl) (\<lambda>ec.
     liftR (js_path ec [''payload'', ''metadata'']))"

definition rp_keys :: "js \<Rightarrow> js list res" where
  "rp_keys rpConf = bindR (js_path rpConf [''wallet_relying_party'', ''jwks'', ''keys'']) js_elems"

definition getRequestObject :: "ext \<Rightarrow> string \<Rightarrow> js \<Rightarrow> crypto_context \<Rightarrow> string \<Rightarrow> js io" where
  "getRequestObject X requestUri rpConf wiaCryptoContext walletInstanceAttestation =
     bindIO (uuidv4 X) (\<lambda>jti.
     bindIO (createDPopToken X [(''jti'', Str jti), (''htm'', Str ''GET''), (''htu'', Str requestUri),
       (''ath'', Str (x_sha256ToBase64 X walletInstanceAttestation))] wiaCryptoContext)
       (\<lambda>signedWalletInstanceDPoP.
     bindIO (fetch_expecting X 200 new_UnexpectedStatusCodeError
       \<lparr>req_url = requestUri, req_options = True, req_method = ''GET'',
        req_headers = [(''Authorization'', Str (''DPoP '' @ walletInstanceAttestation)),
          (''DPoP'', Str signedWalletInstanceDPoP)], req_body = Undef\<rparr>) (\<lambda>res.
     bindIO (liftR (res_json res)) (\<lambda>responseJson.
     bindIO (liftR (bindR (js_get responseJson ''response'') js_str)) (\<lambda>responseEncodedJwt.
     bindIO (liftR (x_decodeJwt X responseEncodedJwt)) (\<lambda>responseJwt.
     bindIO (liftR (rp_keys rpConf)) (\<lambda>ks.
     bindIO (liftR (js_get (protectedHeader responseJwt) ''kid'')) (\<lambda>kid.
     case find (has_kid kid) ks of
       None \<Rightarrow> throwIO (new_NoSuitableKeysFoundInEntityConfiguration
         ''Request Object signature verification'')
     | Some pubKey \<Rightarrow>
       bindIO (askIO (x_verifyJwt X responseEncodedJwt pubKey)) (\<lambda>_.
       liftR (zparse X RequestObject (jwt_payload responseJwt)))))))))))"

section \<open>The authorization response\<close>

definition AuthorizationResponse :: schema where
  "AuthorizationResponse = ZObject [(''status'', ZString), (''response_code'', ZOptional ZString)]"

definition rsa_encryption_key :: "js \<Rightarrow> bool" where
  "rsa_encryption_key jwk = (case jwk of
      Obj kvs \<Rightarrow> pget kvs ''use'' = Str ''enc'' \<and> pget kvs ''kty'' = Str ''RSA'' | _ \<Rightarrow> False)"

definition chooseRSAPublicKeyToEncrypt :: "js \<Rightarrow> js res" where
  "chooseRSAPublicKeyToEncrypt entity =
     bindR (rp_keys entity) (\<lambda>ks.
     case filter rsa_encryption_key ks of
       usingRsa256 # _ \<Rightarrow> Inr usingRsa256
     | [] \<Rightarrow> Inl (new_NoSuitableKeysFoundInEntityConfiguration ''Encrypt with RP public key''))"

record vp_response =
  vp_token :: string
  presentation_submission :: js

definition descriptor :: "js \<Rightarrow> string \<times> string \<Rightarrow> js" where
  "descriptor vc_scope p = Obj [(''id'', vc_scope), (''path'', Str (''$.vp_token.'' @ snd p)),
     (''format'', Str ''vc+sd-jwt'')]"

definition prepareVpToken ::
  "ext \<Rightarrow> js \<Rightarrow> string \<Rightarrow> string \<Rightarrow> string list \<Rightarrow> crypto_context \<Rightarrow> vp_response io" where
  "prepareVpToken X requestObject walletInstanceAttestation vc claims cryptoCtx =
     bindIO (liftR (disclose X vc claims)) (\<lambda>d.
     bindIO (liftR (bindR (wia_decode X walletInstanceAttestation) (\<lambda>wia.
       js_path wia [''payload'', ''iss'']))) (\<lambda>iss.
     bindIO (askIO (getPublicKey cryptoCtx)) (\<lambda>jwk.
     bindIO (liftR (js_get jwk ''kid'')) (\<lambda>pidKid.
     bindIO (uuidv4 X) (\<lambda>jti.
     bindIO (liftR (js_get requestObject ''nonce'')) (\<lambda>nonce.
     bindIO (liftR (js_get requestObject ''response_uri'')) (\<lambda>aud.
     bindIO (sign X cryptoCtx ((SignJWT [(''typ'', Str ''JWT''), (''kid'', pidKid)]
       [(''vp'', Str (d_token d)), (''jti'', Str jti), (''iss'', iss), (''nonce'', nonce)]
       (Str ''1h''))\<lparr>jws_aud := aud\<rparr>)) (\<lambda>token.
     bindIO (liftR (js_get requestObject ''scope'')) (\<lambda>vc_scope.
     bindIO (uuidv4 X) (\<lambda>definitionId.
     bindIO (uuidv4 X) (\<lambda>ident.
     returnIO \<lparr>vp_token = token, presentation_submission = Obj
       [(''definition_id'', Str definitionId), (''id'', Str ident),
        (''descriptor_map'', Arr (map (descriptor vc_scope) (d_paths d)))]\<rparr>)))))))))))"

definition sendAuthorizationResponse ::
  "ext \<Rightarrow> js \<Rightarrow> js \<Rightarrow> string \<times> string list \<times> crypto_context \<Rightarrow> string \<Rightarrow> js io" where
  "sendAuthorizationResponse X requestObject rpConf presentation walletInstanceAttestation =
     (case presentation of (vc, claims, cryptoCtx) \<Rightarrow>
     bindIO (liftR (chooseRSAPublicKeyToEncrypt rpConf)) (\<lambda>rsaPublicJwk.
     bindIO (prepareVpToken X requestObject walletInstanceAttestation vc claims cryptoCtx) (\<lambda>vp.
     bindIO (liftR (js_get requestObject ''state'')) (\<lambda>state.
     bindIO (liftR (js_get requestObject ''nonce'')) (\<lambda>nonce.
     bindIO (liftR (js_get rsaPublicJwk ''kid'')) (\<lambda>kid.
     let authzResponsePayload = stringify (Obj [(''state'', state),
           (''presentation_submission'', presentation_submission vp), (''nonce'', nonce),
           (''vp_token'', Str (vp_token vp))]) in
     bindIO (askIO (x_encryptJwe X authzResponsePayload
       [(''alg'', Str ''RSA-OAEP-256''), (''enc'', Str ''A256CBC-HS512''), (''kid'', kid)]
       rsaPublicJwk)) (\<lambda>encrypted.
     let body = URLSearchParams [(''response'', Str encrypted)] in
     bindIO (liftR (conf_str requestObject [''response_uri''])) (\<lambda>responseUrl.
     bindIO (fetch_expecting X 200 new_UnexpectedStatusCodeError
       (POST responseUrl form_headers (Str body))) (\<lambda>res.
     bindIO (liftR (res_json res)) (\<lambda>json.
     liftR (zparse X AuthorizationResponse json)))))))))))"

end
