(* ===== verification/Holder_Correct.thy ===== *)
theory Holder_Correct
  imports Credential_Correct Presentation
begin

text \<open>
  What a holder of credentials can rely on after issuance: the status attestation, the request of a
  relying party, the response to it, and the PID helpers.
\<close>

section \<open>Status attestation\<close>

text \<open>C16. \<open>verifyAndParseStatusAttestation\<close> returns an attestation only if its signature is accepted for
  the issuer's published keys, it has the documented shape, and it is bound to the holder's key by
  a non-empty identifier; every failure, of whatever origin, is reported as an \<open>IoWalletError\<close>.
  It never sends a request.\<close>

theorem status_attestation_verified:
  assumes zod: "zod_library (x_zod X)"
  shows "case verifyAndParseStatusAttestation X conf attestation ctx w of (result, w') \<Rightarrow> w' = w \<and>
    (case result of
       Inl e \<Rightarrow> err_class e = IoWalletError
     | Inr parsed \<Rightarrow> conforms ParsedStatusAttestation parsed
        \<and> (\<exists>issuerKeys key kid. kid \<noteq> []
            \<and> js_path conf [''openid_credential_issuer'', ''jwks'', ''keys''] = Inr issuerKeys
            \<and> isOk (x_verifyJwt X attestation issuerKeys w)
            \<and> js_path parsed [''payload'', ''cnf'', ''jwk'', ''kid''] = Inr (Str kid)
            \<and> getPublicKey ctx w = Inr key \<and> js_get key ''kid'' = Inr (Str kid)))"
proof -
  obtain r w' where m: "checkStatusAttestation X conf attestation ctx w = (r, w')" by fastforce
  have "still (checkStatusAttestation X conf attestation ctx)"
    unfolding checkStatusAttestation_def by (auto intro!: effect_intros)
  with m have w': "w' = w" by (metis snd_conv still_def)
  show ?thesis
  proof (cases r)
    case (Inl e)
    with m w' show ?thesis
      by (simp add: verifyAndParseStatusAttestation_def catchIO_def new_IoWalletError_def)
  next
    case (Inr parsed)
    with m w' obtain issuerKeys j key kid holderKid v where
        k: "js_path conf [''openid_credential_issuer'', ''jwks'', ''keys''] = Inr issuerKeys"
      and s: "x_verifyJwt X attestation issuerKeys w = Inr j"
      and z: "zparse X ParsedStatusAttestation v = Inr parsed"
      and p: "getPublicKey ctx w = Inr key"
      and kid: "js_path parsed [''payload'', ''cnf'', ''jwk'', ''kid''] = Inr kid"
      and h: "(if truthy kid then js_get key ''kid'' else Inr Undef) = Inr holderKid"
      and t: "truthy kid" "kid = holderKid"
      by (auto simp: checkStatusAttestation_def bindIO_Inr_iff simp del: js_path.simps split: if_splits)
    have c: "conforms ParsedStatusAttestation parsed"
      using z zod_library.result_conforms [OF zod] by (simp add: zparse_def)
    have "ZOptional ZString \<in> set (types_at [ParsedStatusAttestation] [''payload'', ''cnf'', ''jwk'', ''kid''])"
      by (simp add: ParsedStatusAttestation_def JWK_def opt_strings_def)
    from path_typed [OF c this] kid have "conforms (ZOptional ZString) kid"
      by (simp del: js_path.simps conforms.simps)
    from truthy_optional_string [OF this t(1)] obtain n where "kid = Str n" "n \<noteq> []" by blast
    with m Inr w' c k s p kid h t show ?thesis
      by (auto simp: verifyAndParseStatusAttestation_def catchIO_def simp del: js_path.simps)
  qed
qed

definition status_ext :: ext where
  "status_ext = sample_ext\<lparr>x_verifyJwt := (\<lambda>_ _ _. Inr sample_sd_jwt), x_decodeJwt := (\<lambda>_. Inr \<lparr>
     protectedHeader = Obj [(''typ'', Str ''status-attestation+jwt''), (''alg'', Str ''ES256''), (''kid'', Str ''i'')],
     jwt_payload = Obj [(''credential_hash_alg'', Str ''sha-256''), (''credential_hash'', Str ''h''),
       (''cnf'', Obj [(''jwk'', Obj [(''kty'', Str ''EC''), (''kid'', Str ''k'')])]),
       (''exp'', Num 9), (''iat'', Num 1)]\<rparr>)\<rparr>"

lemma status_attestation_verified_witness:
  "\<exists>parsed. fst (verifyAndParseStatusAttestation status_ext sample_issuer ''a'' sample_ctx sample_world) = Inr parsed
    \<and> conforms ParsedStatusAttestation parsed"
proof -
  have "zod_library (x_zod status_ext)"
    by (simp add: status_ext_def sample_ext_def reference_zod.zod_library_axioms)
  note t = status_attestation_verified [OF this, where conf = sample_issuer and attestation = "''a''"
      and ctx = sample_ctx and w = sample_world]
  have "isOk (fst (verifyAndParseStatusAttestation status_ext sample_issuer ''a'' sample_ctx sample_world))"
    by code_simp
  with t show ?thesis by (auto simp: isOk_iff split: prod.splits)
qed

section \<open>The request of a relying party\<close>

text \<open>C15. A request object is returned only if the relying party signed it: the header of the received
  token names, by its \<open>kid\<close>, a key that the party's metadata publishes, the token's signature is
  accepted for that very key, and the object has the shape of a request and comes from that token.
  Exactly one request was sent, the GET with the wallet attestation.\<close>

theorem request_object_signed:
  assumes zod: "zod_library (x_zod X)"
    and ok: "getRequestObject X uri rpConf ctx wia w = (Inr obj, w')"
  shows "conforms RequestObject obj \<and> (\<exists>token jwt ks kid key wv rq.
    x_decodeJwt X token = Inr jwt \<and> rp_keys rpConf = Inr ks
    \<and> js_get (protectedHeader jwt) ''kid'' = Inr kid \<and> key \<in> set ks \<and> has_kid kid key
    \<and> isOk (x_verifyJwt X token key wv) \<and> zparse X RequestObject (jwt_payload jwt) = Inr obj
    \<and> w_sent w' = w_sent w @ [rq] \<and> req_url rq = uri \<and> req_method rq = ''GET''
    \<and> pget (req_headers rq) ''Authorization'' = Str (''DPoP '' @ wia))"
proof -
  from ok obtain jti w1 dpop w2 res w3 token jwt ks kid key j where
      u: "uuidv4 X w = (Inr jti, w1)"
    and d: "createDPopToken X [(''jti'', Str jti), (''htm'', Str ''GET''), (''htu'', Str uri),
       (''ath'', Str (x_sha256ToBase64 X wia))] ctx w1 = (Inr dpop, w2)"
    and f: "fetch_expecting X 200 new_UnexpectedStatusCodeError
       \<lparr>req_url = uri, req_options = True, req_method = ''GET'', req_headers = [(''Authorization'', Str (''DPoP '' @ wia)),
          (''DPoP'', Str dpop)], req_body = Undef\<rparr> w2 = (Inr res, w3)"
    and t: "x_decodeJwt X token = Inr jwt" "rp_keys rpConf = Inr ks"
      "js_get (protectedHeader jwt) ''kid'' = Inr kid" "find (has_kid kid) ks = Some key"
      "x_verifyJwt X token key w3 = Inr j" "zparse X RequestObject (jwt_payload jwt) = Inr obj"
    and w': "w' = w3"
    unfolding getRequestObject_def by (auto simp: bindIO_Inr_iff split: option.splits)
  from t(4) have "key \<in> set ks" "has_kid kid key" by (auto simp: find_Some_iff)
  moreover have "conforms RequestObject obj"
    using t(6) zod_library.result_conforms [OF zod] by (simp add: zparse_def)
  moreover have "w_sent w' = w_sent w @ [\<lparr>req_url = uri, req_options = True, req_method = ''GET'',
      req_headers = [(''Authorization'', Str (''DPoP '' @ wia)), (''DPoP'', Str dpop)], req_body = Undef\<rparr>]"
    using f w' createDPopToken_world [OF d] uuid_world [OF u] by (auto simp: fetch_expecting_Inr)
  ultimately show ?thesis using t
    by (intro conjI exI [of _ token] exI [of _ jwt] exI [of _ ks] exI [of _ kid] exI [of _ key] exI [of _ w3]
        exI [of _ "\<lparr>req_url = uri, req_options = True, req_method = ''GET'',
          req_headers = [(''Authorization'', Str (''DPoP '' @ wia)), (''DPoP'', Str dpop)], req_body = Undef\<rparr>"])
      simp_all
qed

definition sample_rp :: js where
  "sample_rp = Obj [(''wallet_relying_party'', Obj [(''jwks'', Obj [(''keys'', Arr
     [Obj [(''kty'', Str ''RSA''), (''use'', Str ''enc''), (''kid'', Str ''e'')],
      Obj [(''kty'', Str ''EC''), (''kid'', Str ''s'')]])])])]"

definition sample_request_object :: jwt where
  "sample_request_object = \<lparr>protectedHeader = Obj [(''kid'', Str ''s'')],
     jwt_payload = Obj [(''iss'', Str ''rp''), (''iat'', Num 1), (''exp'', Num 2), (''state'', Str ''st''),
       (''nonce'', Str ''n''), (''response_uri'', Str ''https://rp/cb''), (''response_type'', Str ''vp_token''),
       (''response_mode'', Str ''direct_post.jwt''), (''client_id'', Str ''rp''),
       (''client_id_scheme'', Str ''entity_id''), (''scope'', Str ''PID'')]\<rparr>"

definition rp_ext :: ext where
  "rp_ext = sample_ext\<lparr>x_decodeJwt := (\<lambda>_. Inr sample_request_object),
     x_verifyJwt := (\<lambda>_ k _. if k = Obj [(''kty'', Str ''EC''), (''kid'', Str ''s'')]
        then Inr sample_request_object else Inl sample_error),
     x_fetch := (\<lambda>_ _. Inr (json_response 200 (''{'' @ [CHR 0x22] @ ''response'' @ [CHR 0x22] @ '':''
       @ [CHR 0x22] @ ''t'' @ [CHR 0x22] @ ''}'')))\<rparr>"

lemma request_object_signed_witness:
  "\<exists>obj. fst (getRequestObject rp_ext ''u'' sample_rp sample_ctx ''wia'' sample_world) = Inr obj
    \<and> conforms RequestObject obj"
proof -
  let ?r = "getRequestObject rp_ext ''u'' sample_rp sample_ctx ''wia'' sample_world"
  have z: "zod_library (x_zod rp_ext)"
    by (simp add: rp_ext_def sample_ext_def reference_zod.zod_library_axioms)
  have "isOk (fst ?r)" by code_simp
  then obtain obj w' where r: "?r = (Inr obj, w')" by (cases ?r) (auto simp: isOk_iff)
  from request_object_signed [OF z r] r show ?thesis by auto
qed

section \<open>The response to a relying party\<close>

lemma chosen_key:
  assumes "chooseRSAPublicKeyToEncrypt rpConf = Inr key"
  obtains ks where "rp_keys rpConf = Inr ks" "key \<in> set ks" "rsa_encryption_key key"
proof -
  from assms obtain ks where ks: "rp_keys rpConf = Inr ks"
    by (auto simp: chooseRSAPublicKeyToEncrypt_def bindR_Inr_iff)
  with assms obtain rest where "filter rsa_encryption_key ks = key # rest"
    by (cases "filter rsa_encryption_key ks") (simp_all add: chooseRSAPublicKeyToEncrypt_def)
  then have "key \<in> set (filter rsa_encryption_key ks)" by simp
  with ks show ?thesis by (intro that) auto
qed

text \<open>The presentation the holder signs, and the response payload with it.\<close>

definition presentation_of :: "js \<Rightarrow> string \<Rightarrow> string \<Rightarrow> js \<Rightarrow> js \<Rightarrow> string \<Rightarrow> jwt_spec" where
  "presentation_of kid vp jti iss nonce uri = (SignJWT [(''typ'', Str ''JWT''), (''kid'', kid)]
     [(''vp'', Str vp), (''jti'', Str jti), (''iss'', iss), (''nonce'', nonce)] (Str ''1h''))\<lparr>jws_aud := Str uri\<rparr>"

definition response_payload :: "js \<Rightarrow> js \<Rightarrow> string \<Rightarrow> string \<Rightarrow> (string \<times> string) list \<Rightarrow> js \<Rightarrow> string \<Rightarrow> string" where
  "response_payload state scope definitionId ident paths nonce token = stringify (Obj [(''state'', state),
     (''presentation_submission'', Obj [(''definition_id'', Str definitionId), (''id'', Str ident),
        (''descriptor_map'', Arr (map (descriptor scope) paths))]),
     (''nonce'', nonce), (''vp_token'', Str token)])"

text \<open>C14. What the relying party receives: a successful response posts one form to the \<open>response_uri\<close> of
  the request, whose only field is the encryption, under an RSA encryption key the party publishes,
  of the state and nonce of the request, the paths of the disclosed claims and one token.  That token is
  what the holder's key signed over the credential reduced to the requested claims, for the nonce of
  the request and with that uri as its audience.  Nothing else of the credential leaves the wallet.\<close>

theorem authorization_response_discloses_requested:
  assumes ok: "sendAuthorizationResponse X obj rpConf (vc, claims, ctx) wia w = (Inr r, w')"
  shows "\<exists>d jwk kid jti attestation iss nonce uri ws token state scope definitionId ident ks key keyId encrypted we.
    disclose X vc claims = Inr d
    \<and> js_get obj ''nonce'' = Inr nonce \<and> js_get obj ''response_uri'' = Inr (Str uri)
    \<and> js_get obj ''state'' = Inr state \<and> js_get obj ''scope'' = Inr scope
    \<and> wia_decode X wia = Inr attestation \<and> js_path attestation [''payload'', ''iss''] = Inr iss
    \<and> getPublicKey ctx w = Inr jwk \<and> js_get jwk ''kid'' = Inr kid
    \<and> x_signJwt X ctx (presentation_of kid (d_token d) jti iss nonce uri) ws = Inr token
    \<and> w_signed w' = w_signed w @ [presentation_of kid (d_token d) jti iss nonce uri]
    \<and> rp_keys rpConf = Inr ks \<and> key \<in> set ks \<and> rsa_encryption_key key \<and> js_get key ''kid'' = Inr keyId
    \<and> x_encryptJwe X (response_payload state scope definitionId ident (d_paths d) nonce token)
        [(''alg'', Str ''RSA-OAEP-256''), (''enc'', Str ''A256CBC-HS512''), (''kid'', keyId)] key we = Inr encrypted
    \<and> w_sent w' = w_sent w @ [POST uri form_headers (Str (URLSearchParams [(''response'', Str encrypted)]))]"
proof -
  from ok obtain key vp w1 state nonce keyId uri encrypted res w2 where
      c: "chooseRSAPublicKeyToEncrypt rpConf = Inr key"
    and p: "prepareVpToken X obj wia vc claims ctx w = (Inr vp, w1)"
    and n: "js_get obj ''nonce'' = Inr nonce" "js_get obj ''state'' = Inr state" "js_get key ''kid'' = Inr keyId"
    and e: "x_encryptJwe X (stringify (Obj [(''state'', state),
           (''presentation_submission'', presentation_submission vp), (''nonce'', nonce),
           (''vp_token'', Str (vp_token vp))]))
        [(''alg'', Str ''RSA-OAEP-256''), (''enc'', Str ''A256CBC-HS512''), (''kid'', keyId)] key w1 = Inr encrypted"
    and uri: "conf_str obj [''response_uri''] = Inr uri"
    and f: "fetch_expecting X 200 new_UnexpectedStatusCodeError
       (POST uri form_headers (Str (URLSearchParams [(''response'', Str encrypted)]))) w1 = (Inr res, w2)"
    and w': "w' = w2"
    unfolding sendAuthorizationResponse_def Let_def by (auto simp: bindIO_Inr_iff)
  from uri have u: "js_get obj ''response_uri'' = Inr (Str uri)"
    by (auto simp: conf_str_def bindR_Inr_iff)
  from p n(1) u obtain d attestation iss jwk kid jti ws wk scope definitionId ident where d: "disclose X vc claims = Inr d"
    and at: "wia_decode X wia = Inr attestation" "js_path attestation [''payload'', ''iss''] = Inr iss"
    and k: "getPublicKey ctx w = Inr jwk" "js_get jwk ''kid'' = Inr kid" "js_get obj ''scope'' = Inr scope"
    and s: "sign X ctx (presentation_of kid (d_token d) jti iss nonce uri) ws = (Inr (vp_token vp), wk)"
    and ps: "presentation_submission vp = Obj [(''definition_id'', Str definitionId), (''id'', Str ident),
        (''descriptor_map'', Arr (map (descriptor scope) (d_paths d)))]"
    and ww: "w_signed ws = w_signed w" "w_sent ws = w_sent w" "w_signed w1 = w_signed wk" "w_sent w1 = w_sent wk"
    unfolding prepareVpToken_def presentation_of_def
    by (auto simp: bindIO_Inr_iff bindR_Inr_iff uuidv4_def simp del: js_path.simps)
  from c obtain ks where ks: "rp_keys rpConf = Inr ks" "key \<in> set ks" "rsa_encryption_key key"
    by (rule chosen_key)
  have sw: "x_signJwt X ctx (presentation_of kid (d_token d) jti iss nonce uri) ws = Inr (vp_token vp)"
    "w_signed w' = w_signed w @ [presentation_of kid (d_token d) jti iss nonce uri]"
    "w_sent w' = w_sent w @ [POST uri form_headers (Str (URLSearchParams [(''response'', Str encrypted)]))]"
    using s ww f w' by (auto simp: sign_def fetch_expecting_Inr)
  have e': "x_encryptJwe X (response_payload state scope definitionId ident (d_paths d) nonce (vp_token vp))
      [(''alg'', Str ''RSA-OAEP-256''), (''enc'', Str ''A256CBC-HS512''), (''kid'', keyId)] key w1 = Inr encrypted"
    using e by (simp add: response_payload_def ps)
  show ?thesis
    using d at n u k sw ks e' by (intro exI conjI) assumption+
qed

definition response_ext :: ext where
  "response_ext = sample_ext\<lparr>
     x_decodeJwt := (\<lambda>t. if t = ''j'' then Inr sample_sd_jwt else Inr sample_wia),
     x_fetch := (\<lambda>_ _. Inr (json_response 200 (''{'' @ [CHR 0x22] @ ''status'' @ [CHR 0x22] @ '':''
       @ [CHR 0x22] @ ''ok'' @ [CHR 0x22] @ ''}'')))\<rparr>"

lemma authorization_response_discloses_requested_witness:
  "\<exists>r w' d. sendAuthorizationResponse response_ext (jwt_payload sample_request_object) sample_rp
      (sd_token, [''a''], sample_ctx) ''wia'' sample_world = (Inr r, w') \<and> disclose response_ext sd_token [''a''] = Inr d"
proof -
  let ?r = "sendAuthorizationResponse response_ext (jwt_payload sample_request_object) sample_rp
      (sd_token, [''a''], sample_ctx) ''wia'' sample_world"
  have "isOk (fst ?r)" by code_simp
  then obtain r w' where r: "?r = (Inr r, w')" by (cases ?r) (auto simp: isOk_iff)
  from authorization_response_discloses_requested [OF r] r show ?thesis by blast
qed

section \<open>The PID\<close>

text \<open>\<open>verify\<close> of the PID module accepts a token exactly when it decodes as a PID and verifies under
  the key that the token itself names in \<open>cnf.jwk\<close>: no key of an issuer takes part, so the check
  shows integrity under the holder's key and nothing about who issued the PID.\<close>

theorem pid_verified_by_own_key:
  "isOk (fst (pid_verify X token w)) \<longleftrightarrow>
    (\<exists>p jwk. pid_decode X token = Inr p \<and> js_path (pid_sdJwt p) [''payload'', ''cnf'', ''jwk''] = Inr jwk
      \<and> isOk (fst (verify X token jwk (Some SdJwt4VC) w)))"
  unfolding pid_verify_def isOk_iff fst_bindIO_Inr
  by (auto simp del: js_path.simps) (metis prod.collapse)+

section \<open>The authorization url\<close>

text \<open>C30. The query of the url that \<open>buildAuthorizationUrl\<close> returns, read back the way servers read
  queries, gives the client id, the request uri and the identity provider's hint, unchanged and
  unmixed whatever characters they contain.\<close>

theorem authorization_url_roundtrip:
  assumes "buildAuthorizationUrl (Str requestUri) (Str client) conf idpHint = Inr url"
  shows "\<exists>endpoint query. js_path conf [''oauth_authorization_server'', ''authorization_endpoint''] = Inr endpoint
    \<and> url = to_str endpoint @ ''?'' @ query
    \<and> parse_query query = [(''client_id'', client), (''request_uri'', requestUri), (''idphint'', idpHint)]"
  using assms
  by (auto simp: buildAuthorizationUrl_def bindR_Inr_iff parse_query_URLSearchParams simp del: js_path.simps)

lemma authorization_url_roundtrip_witness:
  "\<exists>url query. buildAuthorizationUrl (Str ''urn:a&b=c'') (Str ''k'')
      (Obj [(''oauth_authorization_server'', Obj [(''authorization_endpoint'', Str ''https://i/auth'')])])
      ''https://idp/?x=1'' = Inr url \<and> url = ''https://i/auth?'' @ query
    \<and> parse_query query = [(''client_id'', ''k''), (''request_uri'', ''urn:a&b=c''), (''idphint'', ''https://idp/?x=1'')]"
proof -
  let ?r = "buildAuthorizationUrl (Str ''urn:a&b=c'') (Str ''k'')
      (Obj [(''oauth_authorization_server'', Obj [(''authorization_endpoint'', Str ''https://i/auth'')])])
      ''https://idp/?x=1''"
  have "isOk ?r" by code_simp
  then obtain url where u: "?r = Inr url" by (auto simp: isOk_iff)
  from authorization_url_roundtrip [OF u] u show ?thesis by (auto simp: js_get_def)
qed

end
