(* ===== verification/App_Store.thy ===== *)
theory App_Store
  imports Issuance_Credential
begin

text \<open>
  The redux store of the example application, \<open>example/src/store\<close>: the state of every slice, the
  actions that reach it (the plain actions and the \<open>pending\<close>, \<open>fulfilled\<close> and \<open>rejected\<close> actions
  of each thunk), one reducer per slice, the root reducer and the selectors, and the secure
  storage that is handed to redux-persist.  A reducer is a pure
  function of the state and the action, as the toolkit prescribes; the drafts a case reducer
  assigns to are record updates here.
\<close>

section \<open>Types, \<open>store/types.ts\<close> and \<open>store/utils.ts\<close>\<close>

datatype SupportedCredentialsWithoutPid = MDL | EuropeanDisabilityCard | EuropeanHealthInsuranceCard

datatype SupportedCredentials =
  PersonIdentificationData | Credential SupportedCredentialsWithoutPid

datatype PidAuthMethods = spid | cieL2 | cieL3

datatype EnvType = Pre | Prod

text \<open>\<open>{status: false}\<close> or \<open>{status: true, error}\<close> with the serialized error.\<close>

datatype has_error = NoError | HasError js

record AsyncStatus =
  isDone :: bool
  isLoading :: bool
  hasError :: has_error

definition asyncStatusInitial :: AsyncStatus where
  "asyncStatusInitial = \<lparr>isDone = False, isLoading = False, hasError = NoError\<rparr>"

text \<open>\<open>{...asyncStatusInitial, isDone: true}\<close> and its siblings, the values most cases assign.\<close>

abbreviation async_done :: AsyncStatus where
  "async_done \<equiv> asyncStatusInitial\<lparr>isDone := True\<rparr>"

abbreviation async_loading :: AsyncStatus where
  "async_loading \<equiv> asyncStatusInitial\<lparr>isLoading := True\<rparr>"

abbreviation async_failed :: "js \<Rightarrow> AsyncStatus" where
  "async_failed e \<equiv> asyncStatusInitial\<lparr>hasError := HasError e\<rparr>"

text \<open>\<open>CredentialResult\<close> and \<open>PidResult\<close> differ in the range of \<open>credentialType\<close> only.\<close>

record 't credential_result =
  r_credential :: string
  r_parsedCredential :: props
  r_keyTag :: string
  r_credentialType :: 't

type_synonym CredentialResult = "SupportedCredentialsWithoutPid credential_result"
type_synonym PidResult = "SupportedCredentials credential_result"

record GetCredentialStatusAttestationThunkOutput =
  sa_statusAttestation :: string
  sa_parsedStatusAttestation :: js
  sa_credentialType :: SupportedCredentialsWithoutPid

record GetTrustmarkThunkOutput =
  tk_trustmarkJwt :: string
  tk_credentialType :: SupportedCredentialsWithoutPid
  tk_expirationTime :: js

record PreparePidFlowParamsThunkOutput =
  fp_authUrl :: string
  fp_issuerConf :: js
  fp_clientId :: js
  fp_codeVerifier :: string
  fp_walletInstanceAttestation :: string
  fp_credentialDefinition :: js
  fp_redirectUri :: string
  fp_ciePin :: "string option"

section \<open>Actions\<close>

text \<open>The call a thunk's actions carry in \<open>meta.arg\<close>.\<close>

datatype thunk_call =
    createWalletInstanceThunk
  | revokeWalletInstanceThunk
  | getAttestationThunk
  | getCredentialThunk SupportedCredentialsWithoutPid
  | getCredentialStatusAttestationThunk SupportedCredentialsWithoutPid string string
  | getTrustmarkThunk SupportedCredentialsWithoutPid "string option"
  | getPidCieIDThunk string PidAuthMethods
  | preparePidFlowParamsThunk string PidAuthMethods "string option"
  | continuePidFlowThunk string

text \<open>What a thunk's \<open>fulfilled\<close> action carries in \<open>payload\<close>.\<close>

datatype thunk_payload =
    Nothing
  | KeyTag string
  | Attestation string
  | CredentialObtained CredentialResult
  | StatusAttestationObtained GetCredentialStatusAttestationThunkOutput
  | TrustmarkObtained GetTrustmarkThunkOutput
  | PidObtained PidResult
  | FlowParams PreparePidFlowParamsThunkOutput

datatype action =
    sessionSet string
  | sessionReset
  | envSet EnvType
  | envReset
  | setDebugVisibility bool
  | setDebugData props
  | resetDebugData "string list"
  | instanceReset
  | attestationReset
  | credentialReset
  | trustmarkReset SupportedCredentialsWithoutPid
  | pidReset
  | pidCiel3FlowReset
  | pending thunk_call
  | fulfilled thunk_call thunk_payload
  | rejected thunk_call js

section \<open>Slices\<close>

subsection \<open>Session, environment, debug\<close>

record SessionState = ioAuthToken :: "string option"

definition session_initial :: SessionState where
  "session_initial = \<lparr>ioAuthToken = None\<rparr>"

definition sessionReducer :: "SessionState \<Rightarrow> action \<Rightarrow> SessionState" where
  "sessionReducer s a = (case a of
     sessionSet token \<Rightarrow> s\<lparr>ioAuthToken := Some token\<rparr>
   | sessionReset \<Rightarrow> session_initial
   | _ \<Rightarrow> s)"

record EnvironmentState = env :: EnvType

definition environment_initial :: EnvironmentState where
  "environment_initial = \<lparr>env = Prod\<rparr>"

definition environmentReducer :: "EnvironmentState \<Rightarrow> action \<Rightarrow> EnvironmentState" where
  "environmentReducer s a = (case a of
     envSet e \<Rightarrow> s\<lparr>env := e\<rparr>
   | envReset \<Rightarrow> environment_initial
   | _ \<Rightarrow> s)"

record DebugState =
  debugData :: props
  isVisible :: bool

definition debug_initial :: DebugState where
  "debug_initial = \<lparr>debugData = [], isVisible = False\<rparr>"

definition debugReducer :: "DebugState \<Rightarrow> action \<Rightarrow> DebugState" where
  "debugReducer s a = (case a of
     setDebugVisibility b \<Rightarrow> s\<lparr>isVisible := b\<rparr>
   | setDebugData d \<Rightarrow> s\<lparr>debugData := d\<rparr>
   | resetDebugData ks \<Rightarrow>
       s\<lparr>debugData := from_entries (filter (\<lambda>(k, _). k \<notin> set ks) (entries (debugData s)))\<rparr>
   | _ \<Rightarrow> s)"

subsection \<open>Wallet instance\<close>

record InstanceState =
  in_keyTag :: "string option"
  in_asyncStatus :: AsyncStatus
  in_revocationAsyncStatus :: AsyncStatus

definition instance_initial :: InstanceState where
  "instance_initial = \<lparr>in_keyTag = None, in_asyncStatus = asyncStatusInitial,
     in_revocationAsyncStatus = asyncStatusInitial\<rparr>"

definition instanceReducer :: "InstanceState \<Rightarrow> action \<Rightarrow> InstanceState" where
  "instanceReducer s a = (case a of
     instanceReset \<Rightarrow> instance_initial
   | fulfilled createWalletInstanceThunk (KeyTag tag) \<Rightarrow>
       s\<lparr>in_asyncStatus := (in_asyncStatus s)\<lparr>isDone := True,
            isLoading := isLoading asyncStatusInitial, hasError := hasError asyncStatusInitial\<rparr>,
          in_keyTag := Some tag\<rparr>
   | fulfilled revokeWalletInstanceThunk _ \<Rightarrow>
       s\<lparr>in_revocationAsyncStatus := (in_revocationAsyncStatus s)\<lparr>isDone := True, isLoading := False,
            hasError := hasError asyncStatusInitial\<rparr>\<rparr>
   | pending createWalletInstanceThunk \<Rightarrow>
       s\<lparr>in_asyncStatus := (in_asyncStatus s)\<lparr>isDone := False, isLoading := True,
            hasError := hasError asyncStatusInitial\<rparr>\<rparr>
   | pending revokeWalletInstanceThunk \<Rightarrow>
       s\<lparr>in_revocationAsyncStatus := (in_revocationAsyncStatus s)\<lparr>isDone := False, isLoading := True,
            hasError := hasError asyncStatusInitial\<rparr>\<rparr>
   | rejected createWalletInstanceThunk e \<Rightarrow>
       s\<lparr>in_asyncStatus := (in_asyncStatus s)\<lparr>isDone := isDone asyncStatusInitial,
            isLoading := isLoading asyncStatusInitial, hasError := HasError e\<rparr>\<rparr>
   | rejected revokeWalletInstanceThunk e \<Rightarrow>
       s\<lparr>in_revocationAsyncStatus := (in_revocationAsyncStatus s)\<lparr>isDone := False, isLoading := False,
            hasError := HasError e\<rparr>\<rparr>
   | sessionReset \<Rightarrow> instance_initial
   | _ \<Rightarrow> s)"

subsection \<open>Wallet instance attestation\<close>

record AttestationState =
  at_attestation :: "string option"
  at_asyncStatus :: AsyncStatus

definition attestation_initial :: AttestationState where
  "attestation_initial = \<lparr>at_attestation = None, at_asyncStatus = asyncStatusInitial\<rparr>"

definition attestationReducer :: "AttestationState \<Rightarrow> action \<Rightarrow> AttestationState" where
  "attestationReducer s a = (case a of
     attestationReset \<Rightarrow> attestation_initial
   | fulfilled getAttestationThunk (Attestation wia) \<Rightarrow>
       s\<lparr>at_asyncStatus := (at_asyncStatus s)\<lparr>isDone := True,
            isLoading := isLoading asyncStatusInitial, hasError := hasError asyncStatusInitial\<rparr>,
          at_attestation := Some wia\<rparr>
   | pending getAttestationThunk \<Rightarrow>
       s\<lparr>at_asyncStatus := (at_asyncStatus s)\<lparr>isLoading := True, isDone := isDone asyncStatusInitial,
            hasError := hasError asyncStatusInitial\<rparr>\<rparr>
   | rejected getAttestationThunk e \<Rightarrow>
       s\<lparr>at_asyncStatus := (at_asyncStatus s)\<lparr>isDone := isDone asyncStatusInitial,
            isLoading := isLoading asyncStatusInitial, hasError := HasError e\<rparr>\<rparr>
   | instanceReset \<Rightarrow> attestation_initial
   | sessionReset \<Rightarrow> attestation_initial
   | _ \<Rightarrow> s)"

subsection \<open>Credentials\<close>

text \<open>A \<open>Record<SupportedCredentialsWithoutPid, V>\<close> holds a value for every key: a function.\<close>

record CredentialState =
  cr_credentials :: "SupportedCredentialsWithoutPid \<Rightarrow> CredentialResult option"
  cr_credentialsAsyncStatus :: "SupportedCredentialsWithoutPid \<Rightarrow> AsyncStatus"
  cr_statusAttestation ::
    "SupportedCredentialsWithoutPid \<Rightarrow> GetCredentialStatusAttestationThunkOutput option"
  cr_statusAttAsyncStatus :: "SupportedCredentialsWithoutPid \<Rightarrow> AsyncStatus"
  cr_trustmark :: "SupportedCredentialsWithoutPid \<Rightarrow> GetTrustmarkThunkOutput option"
  cr_trustmarkAsyncStatus :: "SupportedCredentialsWithoutPid \<Rightarrow> AsyncStatus"

definition credential_initial :: CredentialState where
  "credential_initial = \<lparr>
     cr_credentials = (\<lambda>_. None), cr_credentialsAsyncStatus = (\<lambda>_. asyncStatusInitial),
     cr_statusAttestation = (\<lambda>_. None), cr_statusAttAsyncStatus = (\<lambda>_. asyncStatusInitial),
     cr_trustmark = (\<lambda>_. None), cr_trustmarkAsyncStatus = (\<lambda>_. asyncStatusInitial)\<rparr>"

definition credentialReducer :: "CredentialState \<Rightarrow> action \<Rightarrow> CredentialState" where
  "credentialReducer s a = (case a of
     credentialReset \<Rightarrow> credential_initial
   | trustmarkReset t \<Rightarrow> s\<lparr>cr_trustmark := (cr_trustmark s)(t := None)\<rparr>
   | fulfilled (getCredentialThunk _) (CredentialObtained r) \<Rightarrow>
       s\<lparr>cr_credentials := (cr_credentials s)(r_credentialType r := Some r),
         cr_credentialsAsyncStatus :=
           (cr_credentialsAsyncStatus s)(r_credentialType r := async_done)\<rparr>
   | pending (getCredentialThunk t) \<Rightarrow>
       s\<lparr>cr_credentialsAsyncStatus := (cr_credentialsAsyncStatus s)(t := async_loading)\<rparr>
   | rejected (getCredentialThunk t) e \<Rightarrow>
       s\<lparr>cr_credentialsAsyncStatus := (cr_credentialsAsyncStatus s)(t := async_failed e)\<rparr>
   | fulfilled (getCredentialStatusAttestationThunk _ _ _) (StatusAttestationObtained r) \<Rightarrow>
       s\<lparr>cr_statusAttestation := (cr_statusAttestation s)(sa_credentialType r := Some r),
         cr_statusAttAsyncStatus := (cr_statusAttAsyncStatus s)(sa_credentialType r := async_done)\<rparr>
   | pending (getCredentialStatusAttestationThunk t _ _) \<Rightarrow>
       s\<lparr>cr_statusAttAsyncStatus := (cr_statusAttAsyncStatus s)(t := async_loading)\<rparr>
   | rejected (getCredentialStatusAttestationThunk t _ _) e \<Rightarrow>
       s\<lparr>cr_statusAttAsyncStatus := (cr_statusAttAsyncStatus s)(t := async_failed e)\<rparr>
   | fulfilled (getTrustmarkThunk _ _) (TrustmarkObtained r) \<Rightarrow>
       s\<lparr>cr_trustmark := (cr_trustmark s)(tk_credentialType r := Some r),
         cr_trustmarkAsyncStatus := (cr_trustmarkAsyncStatus s)(tk_credentialType r := async_done)\<rparr>
   | pending (getTrustmarkThunk t _) \<Rightarrow>
       s\<lparr>cr_trustmarkAsyncStatus := (cr_trustmarkAsyncStatus s)(t := async_loading)\<rparr>
   | rejected (getTrustmarkThunk t _) e \<Rightarrow>
       s\<lparr>cr_trustmarkAsyncStatus := (cr_trustmarkAsyncStatus s)(t := async_failed e)\<rparr>
   | instanceReset \<Rightarrow> credential_initial
   | sessionReset \<Rightarrow> credential_initial
   | _ \<Rightarrow> s)"

subsection \<open>PID\<close>

record PidState =
  pi_pid :: "PidResult option"
  pi_pidAsyncStatus :: "PidAuthMethods \<Rightarrow> AsyncStatus"
  pi_pidFlowParams :: "PreparePidFlowParamsThunkOutput option"

definition pid_initial :: PidState where
  "pid_initial = \<lparr>pi_pid = None, pi_pidAsyncStatus = (\<lambda>_. asyncStatusInitial), pi_pidFlowParams = None\<rparr>"

text \<open>Which method a continued flow is booked on: what the loading flags say, and when the thunk is
  rejected what its URL says.\<close>

definition continued_method :: "PidState \<Rightarrow> PidAuthMethods" where
  "continued_method s = (if isLoading (pi_pidAsyncStatus s cieL3) then cieL3 else spid)"

definition rejected_method :: "string \<Rightarrow> PidAuthMethods" where
  "rejected_method authRedirectUrl = (if str_includes ''cie'' authRedirectUrl then cieL3 else spid)"

definition pidReducer :: "PidState \<Rightarrow> action \<Rightarrow> PidState" where
  "pidReducer s a = (case a of
     pidReset \<Rightarrow> pid_initial
   | pidCiel3FlowReset \<Rightarrow>
       s\<lparr>pi_pidFlowParams := pi_pidFlowParams pid_initial,
         pi_pidAsyncStatus := (pi_pidAsyncStatus s)(cieL3 := asyncStatusInitial)\<rparr>
   | fulfilled (getPidCieIDThunk _ m) (PidObtained r) \<Rightarrow>
       s\<lparr>pi_pid := Some r, pi_pidAsyncStatus := (pi_pidAsyncStatus s)(m := async_done)\<rparr>
   | pending (getPidCieIDThunk _ m) \<Rightarrow>
       s\<lparr>pi_pidAsyncStatus := (pi_pidAsyncStatus s)(m := async_loading)\<rparr>
   | rejected (getPidCieIDThunk _ m) e \<Rightarrow>
       s\<lparr>pi_pidAsyncStatus := (pi_pidAsyncStatus s)(m := async_failed e)\<rparr>
   | fulfilled (preparePidFlowParamsThunk _ _ _) (FlowParams p) \<Rightarrow> s\<lparr>pi_pidFlowParams := Some p\<rparr>
   | pending (preparePidFlowParamsThunk _ m _) \<Rightarrow>
       s\<lparr>pi_pidAsyncStatus := (pi_pidAsyncStatus s)(m := async_loading)\<rparr>
   | rejected (preparePidFlowParamsThunk _ m _) e \<Rightarrow>
       s\<lparr>pi_pidFlowParams := pi_pidFlowParams pid_initial,
         pi_pidAsyncStatus := (pi_pidAsyncStatus s)(m := async_failed e)\<rparr>
   | fulfilled (continuePidFlowThunk _) (PidObtained r) \<Rightarrow>
       s\<lparr>pi_pidFlowParams := pi_pidFlowParams pid_initial, pi_pid := Some r,
         pi_pidAsyncStatus := (pi_pidAsyncStatus s)(continued_method s := async_done)\<rparr>
   | pending (continuePidFlowThunk _) \<Rightarrow>
       s\<lparr>pi_pidAsyncStatus := (pi_pidAsyncStatus s)(continued_method s := async_loading)\<rparr>
   | rejected (continuePidFlowThunk url) e \<Rightarrow>
       s\<lparr>pi_pidFlowParams := pi_pidFlowParams pid_initial,
         pi_pidAsyncStatus := (pi_pidAsyncStatus s)(rejected_method url := async_failed e)\<rparr>
   | instanceReset \<Rightarrow> pid_initial
   | sessionReset \<Rightarrow> pid_initial
   | _ \<Rightarrow> s)"

section \<open>The store, \<open>store/store.ts\<close>\<close>

record RootState =
  st_environment :: EnvironmentState
  st_debug :: DebugState
  st_session :: SessionState
  st_instance :: InstanceState
  st_attestation :: AttestationState
  st_credential :: CredentialState
  st_pid :: PidState

definition initialState :: RootState where
  "initialState = \<lparr>st_environment = environment_initial, st_debug = debug_initial,
     st_session = session_initial, st_instance = instance_initial,
     st_attestation = attestation_initial, st_credential = credential_initial, st_pid = pid_initial\<rparr>"

definition rootReducer :: "RootState \<Rightarrow> action \<Rightarrow> RootState" where
  "rootReducer s a = \<lparr>
     st_environment = environmentReducer (st_environment s) a,
     st_debug = debugReducer (st_debug s) a,
     st_session = sessionReducer (st_session s) a,
     st_instance = instanceReducer (st_instance s) a,
     st_attestation = attestationReducer (st_attestation s) a,
     st_credential = credentialReducer (st_credential s) a,
     st_pid = pidReducer (st_pid s) a\<rparr>"

section \<open>Secure storage, \<open>store/storage.ts\<close>\<close>

text \<open>The native storage, a package, is a parameter: what each of its calls answers or rejects with, and the
  contents it leaves.\<close>

record 's SecureStorage =
  ss_get :: "string \<Rightarrow> 's \<Rightarrow> string res"
  ss_put :: "string \<Rightarrow> string \<Rightarrow> 's \<Rightarrow> unit res \<times> 's"
  ss_remove :: "string \<Rightarrow> 's \<Rightarrow> unit res \<times> 's"

record 's Storage =
  getItem :: "string \<Rightarrow> 's \<Rightarrow> string option res"
  setItem :: "string \<Rightarrow> string \<Rightarrow> 's \<Rightarrow> unit res \<times> 's"
  removeItem :: "string \<Rightarrow> 's \<Rightarrow> unit res \<times> 's"

definition createSecureStorage :: "'s SecureStorage \<Rightarrow> 's Storage" where
  "createSecureStorage N = \<lparr>
     getItem = (\<lambda>key s. case ss_get N key s of Inr v \<Rightarrow> Inr (Some v) | Inl err \<Rightarrow> Inr None),
     setItem = (\<lambda>key v s. ss_put N key v s),
     removeItem = (\<lambda>key s. ss_remove N key s)\<rparr>"

section \<open>Selectors\<close>

definition selectIoAuthToken :: "RootState \<Rightarrow> string option" where
  "selectIoAuthToken s = ioAuthToken (st_session s)"

definition selectEnv :: "RootState \<Rightarrow> EnvType" where
  "selectEnv s = env (st_environment s)"

definition debugDataSelector :: "RootState \<Rightarrow> props" where
  "debugDataSelector s = debugData (st_debug s)"

definition debugVisibilitySelector :: "RootState \<Rightarrow> bool" where
  "debugVisibilitySelector s = isVisible (st_debug s)"

definition selectInstanceAsyncStatus :: "RootState \<Rightarrow> AsyncStatus" where
  "selectInstanceAsyncStatus s = in_asyncStatus (st_instance s)"

definition selectInstanceRevocationAsyncStatus :: "RootState \<Rightarrow> AsyncStatus" where
  "selectInstanceRevocationAsyncStatus s = in_revocationAsyncStatus (st_instance s)"

definition selectInstanceKeyTag :: "RootState \<Rightarrow> string option" where
  "selectInstanceKeyTag s = in_keyTag (st_instance s)"

definition selectHasInstanceKeyTag :: "RootState \<Rightarrow> bool" where
  "selectHasInstanceKeyTag s = (selectInstanceKeyTag s \<noteq> None)"

definition selectAttestationAsyncStatus :: "RootState \<Rightarrow> AsyncStatus" where
  "selectAttestationAsyncStatus s = at_asyncStatus (st_attestation s)"

definition selectAttestation :: "RootState \<Rightarrow> string option" where
  "selectAttestation s = at_attestation (st_attestation s)"

definition selectCredential ::
  "SupportedCredentialsWithoutPid \<Rightarrow> RootState \<Rightarrow> CredentialResult option" where
  "selectCredential t s = cr_credentials (st_credential s) t"

definition selectCredentials ::
  "RootState \<Rightarrow> SupportedCredentialsWithoutPid \<Rightarrow> CredentialResult option" where
  "selectCredentials s = cr_credentials (st_credential s)"

text \<open>\<open>Object.values\<close> lists the values in the order in which \<open>initialState\<close> has the keys.\<close>

definition selectObtainedCredentials :: "RootState \<Rightarrow> CredentialResult list" where
  "selectObtainedCredentials s = List.map_filter (selectCredentials s)
     [MDL, EuropeanDisabilityCard, EuropeanHealthInsuranceCard]"

definition selectCredentialAsyncStatus ::
  "SupportedCredentialsWithoutPid \<Rightarrow> RootState \<Rightarrow> AsyncStatus" where
  "selectCredentialAsyncStatus t s = cr_credentialsAsyncStatus (st_credential s) t"

definition selectStatusAttestation ::
  "SupportedCredentialsWithoutPid \<Rightarrow> RootState \<Rightarrow> GetCredentialStatusAttestationThunkOutput option" where
  "selectStatusAttestation t s = cr_statusAttestation (st_credential s) t"

definition selectStatusAttestationAsyncStatus ::
  "SupportedCredentialsWithoutPid \<Rightarrow> RootState \<Rightarrow> AsyncStatus" where
  "selectStatusAttestationAsyncStatus t s = cr_statusAttAsyncStatus (st_credential s) t"

definition selectTrustmark ::
  "SupportedCredentialsWithoutPid \<Rightarrow> RootState \<Rightarrow> GetTrustmarkThunkOutput option" where
  "selectTrustmark t s = cr_trustmark (st_credential s) t"

definition selectTrustmarkAsyncStatus ::
  "SupportedCredentialsWithoutPid \<Rightarrow> RootState \<Rightarrow> AsyncStatus" where
  "selectTrustmarkAsyncStatus t s = cr_trustmarkAsyncStatus (st_credential s) t"

definition selectPid :: "RootState \<Rightarrow> PidResult option" where
  "selectPid s = pi_pid (st_pid s)"

definition selectPidAsyncStatus :: "PidAuthMethods \<Rightarrow> RootState \<Rightarrow> AsyncStatus" where
  "selectPidAsyncStatus m s = pi_pidAsyncStatus (st_pid s) m"

definition selectPidFlowParams :: "RootState \<Rightarrow> PreparePidFlowParamsThunkOutput option" where
  "selectPidFlowParams s = pi_pidFlowParams (st_pid s)"

text \<open>The function \<open>shouldRequestAttestationSelector\<close> computes from the attestation and the clock,
  before \<open>createSelector\<close> memoizes it.\<close>

definition shouldRequestAttestation :: "ext \<Rightarrow> world \<Rightarrow> string option \<Rightarrow> bool res" where
  "shouldRequestAttestation X w attestation = (case attestation of
     None \<Rightarrow> Inr True
   | Some wia \<Rightarrow> if wia = [] then Inr True else
       bindR (wia_decode X wia) (\<lambda>decoded.
       bindR (js_path decoded [''payload'', ''exp'']) (\<lambda>exp.
       Inr (case date_of_seconds exp of DateV (Some expiryDate) \<Rightarrow> of_int expiryDate < x_now X w
         | _ \<Rightarrow> False))))"

end
