(* ===== verification/App_Utils.thy ===== *)
theory App_Utils
  imports App_Store Status
begin

text \<open>
  The utilities of the example application, \<open>example/src/utils\<close>: environments, identity provider
  hints, the authenticated fetch, the key store helpers, the integrity context of the platform, the
  polling loop \<open>until\<close> and the listener for the authentication redirect.

  The variables of the generated module \<open>@env\<close> and the functions of the native packages
  (io-react-native-integrity, Linking, js-sha256) are parameters.
\<close>

section \<open>Environments, \<open>utils/environment.ts\<close>\<close>

record env_vars =
  PRE_WALLET_PROVIDER_BASE_URL :: string
  PRE_WALLET_PID_PROVIDER_BASE_URL :: string
  PRE_WALLET_EAA_PROVIDER_BASE_URL :: string
  PRE_REDIRECT_URI :: string
  PRE_GOOGLE_CLOUD_PROJECT_NUMBER :: string
  PRE_VERIFIER_BASE_URL :: string
  PROD_WALLET_PROVIDER_BASE_URL :: string
  PROD_WALLET_PID_PROVIDER_BASE_URL :: string
  PROD_WALLET_EAA_PROVIDER_BASE_URL :: string
  PROD_REDIRECT_URI :: string
  PROD_GOOGLE_CLOUD_PROJECT_NUMBER :: string
  PROD_VERIFIER_BASE_URL :: string

record Env =
  WALLET_PROVIDER_BASE_URL :: string
  WALLET_PID_PROVIDER_BASE_URL :: string
  WALLET_EAA_PROVIDER_BASE_URL :: string
  REDIRECT_URI :: string
  GOOGLE_CLOUD_PROJECT_NUMBER :: string
  VERIFIER_BASE_URL :: string

definition getEnv :: "env_vars \<Rightarrow> EnvType \<Rightarrow> Env" where
  "getEnv V e = (case e of
     Pre \<Rightarrow> \<lparr>WALLET_PROVIDER_BASE_URL = PRE_WALLET_PROVIDER_BASE_URL V,
       WALLET_PID_PROVIDER_BASE_URL = PRE_WALLET_PID_PROVIDER_BASE_URL V,
       WALLET_EAA_PROVIDER_BASE_URL = PRE_WALLET_EAA_PROVIDER_BASE_URL V,
       REDIRECT_URI = PRE_REDIRECT_URI V,
       GOOGLE_CLOUD_PROJECT_NUMBER = PRE_GOOGLE_CLOUD_PROJECT_NUMBER V,
       VERIFIER_BASE_URL = PRE_VERIFIER_BASE_URL V\<rparr>
   | Prod \<Rightarrow> \<lparr>WALLET_PROVIDER_BASE_URL = PROD_WALLET_PROVIDER_BASE_URL V,
       WALLET_PID_PROVIDER_BASE_URL = PROD_WALLET_PID_PROVIDER_BASE_URL V,
       WALLET_EAA_PROVIDER_BASE_URL = PROD_WALLET_EAA_PROVIDER_BASE_URL V,
       REDIRECT_URI = PROD_REDIRECT_URI V,
       GOOGLE_CLOUD_PROJECT_NUMBER = PROD_GOOGLE_CLOUD_PROJECT_NUMBER V,
       VERIFIER_BASE_URL = PROD_VERIFIER_BASE_URL V\<rparr>)"

definition CIE_PROD_IDPHINT :: string where
  "CIE_PROD_IDPHINT = ''https://idserver.servizicie.interno.gov.it/idp/profile/SAML2/POST/SSO''"

definition CIE_UAT_IDPHINT :: string where
  "CIE_UAT_IDPHINT = ''https://collaudo.idserver.servizicie.interno.gov.it/idp/profile/SAML2/POST/SSO''"

definition getCieIdpHint :: "EnvType \<Rightarrow> string" where
  "getCieIdpHint e = (if e = Pre then CIE_UAT_IDPHINT else CIE_PROD_IDPHINT)"

definition SPID_DEMO_IDPHINT :: string where
  "SPID_DEMO_IDPHINT = ''https://demo.spid.gov.it''"

text \<open>\<open>utils/idps.ts\<close>: an unknown identifier selects \<open>undefined\<close>.\<close>

definition SPID_IDP_HINTS :: "(string \<times> string) list" where
  "SPID_IDP_HINTS = [
     (''arubaid'', ''https://loginspid.aruba.it''),
     (''ehtid'', ''https://id.eht.eu''),
     (''infocamereid'', ''https://loginspid.infocamere.it''),
     (''infocertid'', ''https://identity.infocert.it''),
     (''intesiid'', ''https://idp.intesigroup.com''),
     (''lepidaid'', ''https://id.lepida.it/idp/shibboleth''),
     (''namirialid'', ''https://idp.namirialtsp.com/idp''),
     (''posteid'', ''https://posteid.poste.it''),
     (''sielteid'', ''https://identity.sieltecloud.it''),
     (''spiditalia'', ''https://spid.register.it''),
     (''timid'', ''https://login.id.tim.it/affwebservices/public/saml2sso''),
     (''teamsystemid'', ''https://spid.teamsystem.com/idp''),
     (''spiddemo'', SPID_DEMO_IDPHINT)]"

definition getSpidIdpHint :: "string \<Rightarrow> string option" where
  "getSpidIdpHint spidIdpId = map_of SPID_IDP_HINTS spidIdpId"

section \<open>Authenticated requests, \<open>utils/fetch.ts\<close>\<close>

text \<open>\<open>options.headers\<close> raises a \<open>TypeError\<close> when \<open>appFetch\<close> is called without options.\<close>

definition addAuthHeaders :: "request \<Rightarrow> props \<Rightarrow> request res" where
  "addAuthHeaders r authHeaders = (if req_options r
     then Inr (r\<lparr>req_headers := pspread (req_headers r) authHeaders\<rparr>) else Inl TypeError)"

definition auth_request :: "ext \<Rightarrow> env_vars \<Rightarrow> RootState \<Rightarrow> request \<Rightarrow> request res" where
  "auth_request X V state r =
     bindR (x_URL X (req_url r)) (\<lambda>requestUrl.
     bindR (x_URL X (WALLET_PROVIDER_BASE_URL (getEnv V (selectEnv state)))) (\<lambda>providerUrl.
     addAuthHeaders r (if u_origin requestUrl = u_origin providerUrl
       then [(''Authorization'', Str (''Bearer '' @ (case selectIoAuthToken state of
               Some authToken \<Rightarrow> authToken | None \<Rightarrow> ''undefined'')))]
       else [])))"

text \<open>\<open>appFetch\<close> in place of the built-in \<open>fetch\<close>: the library's requests pass through it, and one it rejects is
  not sent.\<close>

definition appFetch :: "ext \<Rightarrow> env_vars \<Rightarrow> RootState \<Rightarrow> request \<Rightarrow> world \<Rightarrow> response res" where
  "appFetch X V state r w = bindR (auth_request X V state r) (\<lambda>r'. x_fetch X r' w)"

definition with_appFetch :: "ext \<Rightarrow> env_vars \<Rightarrow> RootState \<Rightarrow> ext" where
  "with_appFetch X V state = X\<lparr>x_fetch := appFetch X V state,
     x_wire := (\<lambda>r. case auth_request X V state r of Inr r' \<Rightarrow> x_wire X r' | Inl _ \<Rightarrow> [])\<rparr>"

section \<open>Keys, \<open>utils/crypto.ts\<close>\<close>

definition WIA_KEYTAG :: string where
  "WIA_KEYTAG = ''WIA_KEYTAG''"

definition DPOP_KEYTAG :: string where
  "DPOP_KEYTAG = ''DPOP_KEYTAG''"

definition deleteKeyIfExists :: "ext \<Rightarrow> string \<Rightarrow> unit io" where
  "deleteKeyIfExists X keyTag = catchIO (deleteKey X keyTag)
     (\<lambda>e. if err_message e \<noteq> ''PUBLIC_KEY_NOT_FOUND'' then throwIO e else returnIO ())"

definition regenerateCryptoKey :: "ext \<Rightarrow> string \<Rightarrow> unit io" where
  "regenerateCryptoKey X keyTag =
     bindIO (deleteKeyIfExists X keyTag) (\<lambda>_. generate X keyTag)"

section \<open>Integrity, \<open>utils/integrity.ts\<close>\<close>

datatype platform = ios | android | other_platform

record device =
  d_OS :: platform
  d_addPadding :: "string \<Rightarrow> string"
  d_sha256 :: "string \<Rightarrow> string"
  d_generateHardwareKey :: "world \<Rightarrow> string res"
  d_generateHardwareSignatureWithAssertion :: "string \<Rightarrow> string \<Rightarrow> world \<Rightarrow> string res"
  d_decodeAssertion :: "string \<Rightarrow> world \<Rightarrow> hardware_signature res"
  d_requestIntegrityToken :: "string \<Rightarrow> world \<Rightarrow> string res"
  d_getAttestation :: "string \<Rightarrow> string \<Rightarrow> world \<Rightarrow> string res"
  d_isAttestationServiceAvailable :: "world \<Rightarrow> bool res"
  d_isPlayServicesAvailable :: "world \<Rightarrow> bool res"
  d_prepareIntegrityToken :: "string \<Rightarrow> world \<Rightarrow> unit res"
  d_openURL :: "string \<Rightarrow> world \<Rightarrow> unit res"
  d_urlEvents :: "world \<Rightarrow> nat \<Rightarrow> string list"
  d_timerDelay :: "world \<Rightarrow> nat \<Rightarrow> nat"

definition unsupported :: "'a res" where
  "unsupported = Inl (new_Error ''Unsupported platform'')"

definition app_getHardwareSignatureWithAuthData ::
  "ext \<Rightarrow> device \<Rightarrow> string \<Rightarrow> string \<Rightarrow> world \<Rightarrow> hardware_signature res" where
  "app_getHardwareSignatureWithAuthData X D hardwareKeyTag clientData w = (case d_OS D of
     ios \<Rightarrow> bindR (d_generateHardwareSignatureWithAssertion D clientData
              (d_addPadding D hardwareKeyTag) w) (\<lambda>assertion. d_decodeAssertion D assertion w)
   | android \<Rightarrow> bindR (x_keySign X clientData hardwareKeyTag w) (\<lambda>sig.
              bindR (d_requestIntegrityToken D (d_sha256 D clientData) w) (\<lambda>auth.
              Inr \<lparr>signature = sig, authenticatorData = auth\<rparr>))
   | other_platform \<Rightarrow> unsupported)"

definition generateIntegrityHardwareKeyTag :: "ext \<Rightarrow> device \<Rightarrow> string io" where
  "generateIntegrityHardwareKeyTag X D = (case d_OS D of
     ios \<Rightarrow> bindIO (askIO (d_generateHardwareKey D)) (\<lambda>key. returnIO (x_removePadding X key))
   | android \<Rightarrow> uuidv4 X
   | other_platform \<Rightarrow> liftR unsupported)"

definition ensureIntegrityServiceIsReady :: "device \<Rightarrow> string option \<Rightarrow> world \<Rightarrow> bool res" where
  "ensureIntegrityServiceIsReady D googleCloudProjectNumber w = (case d_OS D of
     ios \<Rightarrow> d_isAttestationServiceAvailable D w
   | android \<Rightarrow> bindR (d_isPlayServicesAvailable D w) (\<lambda>res.
       if \<not> res then Inr False
       else (case googleCloudProjectNumber of
           Some n \<Rightarrow> if n = []
             then Inl (new_Error ''Google Cloud Project Number is required for Android'')
             else bindR (d_prepareIntegrityToken D n w) (\<lambda>_. Inr True)
         | None \<Rightarrow> Inl (new_Error ''Google Cloud Project Number is required for Android'')))
   | other_platform \<Rightarrow> unsupported)"

definition app_getAttestation :: "device \<Rightarrow> string \<Rightarrow> string \<Rightarrow> world \<Rightarrow> string res" where
  "app_getAttestation D challenge hardwareKeyTag w = (case d_OS D of
     ios \<Rightarrow> d_getAttestation D challenge (d_addPadding D hardwareKeyTag) w
   | android \<Rightarrow> d_getAttestation D challenge hardwareKeyTag w
   | other_platform \<Rightarrow> unsupported)"

definition getIntegrityContext :: "ext \<Rightarrow> device \<Rightarrow> string \<Rightarrow> integrity_context" where
  "getIntegrityContext X D hardwareKeyTag = \<lparr>
     getHardwareKeyTag = hardwareKeyTag,
     getAttestation = (\<lambda>nonce w. bindR (js_str nonce) (\<lambda>n. app_getAttestation D n hardwareKeyTag w)),
     getHardwareSignatureWithAuthData = app_getHardwareSignatureWithAuthData X D hardwareKeyTag\<rparr>"

section \<open>Polling, \<open>utils/misc.ts\<close>\<close>

text \<open>\<open>until\<close>: \<open>k\<close> counts the polls and \<open>elapsed\<close> is \<open>Date.now() - start\<close> in milliseconds.  The timer
  set after poll \<open>k\<close> fires \<open>400 + delay k\<close> milliseconds later.  The value \<open>None\<close> is a promise that
  is never settled.\<close>

partial_function (option) until_from ::
  "(nat \<Rightarrow> bool) \<Rightarrow> (nat \<Rightarrow> nat) \<Rightarrow> nat option \<Rightarrow> nat \<Rightarrow> nat \<Rightarrow> unit res option" where
  "until_from conditionFunction delay timeoutSeconds k elapsed =
     (if conditionFunction k then Some (Inr ())
      else if (case timeoutSeconds of Some t \<Rightarrow> t * 1000 \<le> elapsed | None \<Rightarrow> False)
      then Some (Inl (new_Error ''Timeout exceeded''))
      else until_from conditionFunction delay timeoutSeconds (Suc k) (elapsed + 400 + delay k))"

definition until :: "(nat \<Rightarrow> bool) \<Rightarrow> (nat \<Rightarrow> nat) \<Rightarrow> nat option \<Rightarrow> unit res option" where
  "until conditionFunction delay timeoutSeconds =
     until_from conditionFunction delay timeoutSeconds 0 0"

text \<open>The same loop with a time limit in milliseconds, which always ends: the poll that settled the promise and the
  outcome.\<close>

function until_limited ::
  "(nat \<Rightarrow> bool) \<Rightarrow> (nat \<Rightarrow> nat) \<Rightarrow> nat \<Rightarrow> nat \<Rightarrow> nat \<Rightarrow> nat \<times> unit res" where
  "until_limited conditionFunction delay limit k elapsed =
     (if conditionFunction k then (k, Inr ())
      else if limit \<le> elapsed then (k, Inl (new_Error ''Timeout exceeded''))
      else until_limited conditionFunction delay limit (Suc k) (elapsed + 400 + delay k))"
  by pat_completeness auto
termination
  by (relation "measure (\<lambda>(_, _, limit, _, elapsed). limit - elapsed)") auto

declare until_limited.simps [simp del]

section \<open>The authentication redirect, \<open>utils/openUrlAndListenForRedirect.ts\<close>\<close>

text \<open>\<open>d_urlEvents D w k\<close> are the urls the listener has received before poll \<open>k\<close>; the last one that
  contains the redirect uri is in \<open>authRedirectUrl\<close>.\<close>

definition received_redirect :: "device \<Rightarrow> world \<Rightarrow> string \<Rightarrow> nat \<Rightarrow> string option" where
  "received_redirect D w redirectUri k =
     (case filter (\<lambda>url. str_includes redirectUri url) (rev (d_urlEvents D w k)) of
        [] \<Rightarrow> None | url # _ \<Rightarrow> Some url)"

definition new_OperationAbortedError :: "string \<Rightarrow> js_error" where
  "new_OperationAbortedError m = \<lparr>err_class = OperationAbortedError, err_message = m, err_props = []\<rparr>"

text \<open>The optional abort signal is the number of the poll before which it is aborted.  The promise of
  \<open>createAbortPromiseFromSignal\<close> is the first of the race: the abortion wins when it is there at the
  poll that settles the other promise.\<close>

definition aborted_before :: "nat option \<Rightarrow> nat \<Rightarrow> bool" where
  "aborted_before signal k = (case signal of Some a \<Rightarrow> a \<le> k | None \<Rightarrow> False)"

definition listenForAuthRedirect ::
  "device \<Rightarrow> string \<Rightarrow> string \<Rightarrow> nat option \<Rightarrow> world \<Rightarrow> string res" where
  "listenForAuthRedirect D redirectUri authUrl signal w =
     (if redirectUri \<noteq> [] \<and> authUrl \<noteq> []
      then bindR (d_openURL D authUrl w) (\<lambda>_.
        case until_limited (\<lambda>k. received_redirect D w redirectUri k \<noteq> None) (d_timerDelay D w)
               (120 * 1000) 0 0 of
          (k, r) \<Rightarrow>
            if aborted_before signal k
            then Inl (new_OperationAbortedError ''DefaultQueryModeAuthorization'')
            else bindR r (\<lambda>_.
              case received_redirect D w redirectUri k of
                Some url \<Rightarrow> Inr url
              | None \<Rightarrow> Inl (new_AuthorizationError ''Invalid authentication redirect url'')))
      else Inl (new_AuthorizationError ''Invalid authentication redirect url''))"

text \<open>The callers pass no signal.\<close>

definition openUrlAndListenForAuthRedirect ::
  "device \<Rightarrow> string \<Rightarrow> string \<Rightarrow> world \<Rightarrow> string res" where
  "openUrlAndListenForAuthRedirect D redirectUri authUrl =
     listenForAuthRedirect D redirectUri authUrl None"

end
