(* ===== verification/App_Flows.thy ===== *)
theory App_Flows
  imports App_Utils
begin

text \<open>
  The issuance flows of the example application, \<open>example/src/utils/credential.ts\<close>, and its thunks,
  \<open>example/src/thunks\<close>.  A thunk is modelled as it runs with no other thunk's actions in between:
  the dispatched actions go through the reducers of \<^theory_text>\<open>App_Store\<close>, the effects through the world.
\<close>

section \<open>Flows, \<open>utils/credential.ts\<close>\<close>

definition credential_name :: "SupportedCredentialsWithoutPid \<Rightarrow> string" where
  "credential_name t = (case t of MDL \<Rightarrow> ''MDL''
     | EuropeanDisabilityCard \<Rightarrow> ''EuropeanDisabilityCard''
     | EuropeanHealthInsuranceCard \<Rightarrow> ''EuropeanHealthInsuranceCard'')"

text \<open>The end that the flows share: access token, credential, verification.  \<open>XA\<close> is the environment
  with \<open>appFetch\<close>.\<close>

definition finish_issuance :: "ext \<Rightarrow> ext \<Rightarrow> js \<Rightarrow> js \<Rightarrow> js \<Rightarrow> string \<Rightarrow> string \<Rightarrow> js \<Rightarrow> string \<Rightarrow>
    crypto_context \<Rightarrow> string \<Rightarrow> bool \<Rightarrow> 't \<Rightarrow> 't credential_result io" where
  "finish_issuance X XA issuerConf code client redirectUri verifier definition
       walletInstanceAttestation wiaCryptoContext credentialKeyTag ignoreMissingAttributes t =
     bindIO (regenerateCryptoKey X DPOP_KEYTAG) (\<lambda>_.
     let dPopCryptoContext = createCryptoContextFor X DPOP_KEYTAG;
         credentialCryptoContext = createCryptoContextFor X credentialKeyTag in
     bindIO (authorizeAccess XA issuerConf code client redirectUri verifier
       walletInstanceAttestation wiaCryptoContext dPopCryptoContext) (\<lambda>accessToken.
     bindIO (obtainCredential XA issuerConf accessToken client definition dPopCryptoContext
       credentialCryptoContext) (\<lambda>res.
     bindIO (liftR (conf_str res [''credential''])) (\<lambda>credential.
     bindIO (liftR (conf_str res [''format''])) (\<lambda>format.
     bindIO (verifyAndParseCredential X issuerConf credential format credentialCryptoContext
       ignoreMissingAttributes False) (\<lambda>parsed.
     returnIO \<lparr>r_credential = credential, r_parsedCredential = parsedCredential parsed,
       r_keyTag = credentialKeyTag, r_credentialType = t\<rparr>))))))"

definition getPidCieID :: "ext \<Rightarrow> ext \<Rightarrow> device \<Rightarrow> string \<Rightarrow> string \<Rightarrow> string \<Rightarrow> string \<Rightarrow>
    crypto_context \<Rightarrow> PidResult io" where
  "getPidCieID X XA D pidIssuerUrl redirectUri idpHint walletInstanceAttestation wiaCryptoContext =
     bindIO (uuidv4 X) (\<lambda>credentialKeyTag.
     bindIO (generate X credentialKeyTag) (\<lambda>_.
     bindIO (evaluateIssuerTrust XA pidIssuerUrl) (\<lambda>issuerConf.
     bindIO (startUserAuthorization XA issuerConf ''PersonIdentificationData'' wiaCryptoContext
       walletInstanceAttestation redirectUri) (\<lambda>ua.
     bindIO (liftR (buildAuthorizationUrl (issuerRequestUri ua) (clientId ua) issuerConf idpHint)) (\<lambda>authUrl.
     bindIO (askIO (openUrlAndListenForAuthRedirect D redirectUri authUrl)) (\<lambda>authRedirectUrl.
     bindIO (liftR (completeUserAuthorizationWithQueryMode X authRedirectUrl)) (\<lambda>authRes.
     bindIO (liftR (js_get authRes ''code'')) (\<lambda>code.
     finish_issuance X XA issuerConf code (clientId ua) redirectUri (codeVerifier ua)
       (credentialDefinition ua) walletInstanceAttestation wiaCryptoContext credentialKeyTag False
       PersonIdentificationData))))))))"

definition getCredential :: "ext \<Rightarrow> ext \<Rightarrow> string \<Rightarrow> string \<Rightarrow> SupportedCredentialsWithoutPid \<Rightarrow> string \<Rightarrow>
    crypto_context \<Rightarrow> string \<Rightarrow> crypto_context \<Rightarrow> CredentialResult io" where
  "getCredential X XA credentialIssuerUrl redirectUri credentialType walletInstanceAttestation
       wiaCryptoContext pid pidCryptoContext =
     bindIO (uuidv4 X) (\<lambda>credentialKeyTag.
     bindIO (generate X credentialKeyTag) (\<lambda>_.
     bindIO (evaluateIssuerTrust X credentialIssuerUrl) (\<lambda>issuerConf.
     bindIO (startUserAuthorization XA issuerConf (credential_name credentialType) wiaCryptoContext
       walletInstanceAttestation redirectUri) (\<lambda>ua.
     bindIO (getRequestedCredentialToBePresented XA (issuerRequestUri ua) (clientId ua) issuerConf)
       (\<lambda>requestObject.
     bindIO (completeUserAuthorizationWithFormPostJwtMode X requestObject wiaCryptoContext
       pidCryptoContext pid walletInstanceAttestation) (\<lambda>authRes.
     bindIO (liftR (js_get authRes ''code'')) (\<lambda>code.
     finish_issuance X XA issuerConf code (clientId ua) redirectUri (codeVerifier ua)
       (credentialDefinition ua) walletInstanceAttestation wiaCryptoContext credentialKeyTag True
       credentialType)))))))"

definition getCredentialStatusAttestation :: "ext \<Rightarrow> string \<Rightarrow> string \<Rightarrow> crypto_context \<Rightarrow>
    SupportedCredentialsWithoutPid \<Rightarrow> GetCredentialStatusAttestationThunkOutput io" where
  "getCredentialStatusAttestation X credentialIssuerUrl credential credentialCryptoContext
       credentialType =
     bindIO (evaluateIssuerTrust X credentialIssuerUrl) (\<lambda>issuerConf.
     bindIO (statusAttestation X issuerConf credential credentialCryptoContext) (\<lambda>att.
     bindIO (liftR (js_str att)) (\<lambda>jwt.
     bindIO (verifyAndParseStatusAttestation X issuerConf jwt credentialCryptoContext) (\<lambda>parsed.
     returnIO \<lparr>sa_statusAttestation = jwt, sa_parsedStatusAttestation = parsed,
       sa_credentialType = credentialType\<rparr>))))"

section \<open>Thunks\<close>

text \<open>The state a thunk runs in: the store, what \<open>createSelector\<close> has memoized, the world.\<close>

record 'c app_state =
  a_store :: RootState
  a_memo :: 'c
  a_world :: world

type_synonym ('a, 'c) app = "'c app_state \<Rightarrow> 'a res \<times> 'c app_state"

text \<open>The memoization of \<open>createSelector\<close> is reselect's: \<open>memo f c x\<close> is the selector's answer to \<open>x\<close>,
  given the result function and the cache, and the new cache.\<close>

type_synonym 'c memoizer =
  "(string option \<Rightarrow> bool res) \<Rightarrow> 'c \<Rightarrow> string option \<Rightarrow> bool res \<times> 'c"

definition bindA :: "('a, 'c) app \<Rightarrow> ('a \<Rightarrow> ('b, 'c) app) \<Rightarrow> ('b, 'c) app" where
  "bindA m f s = (case m s of (Inl e, s') \<Rightarrow> (Inl e, s') | (Inr x, s') \<Rightarrow> f x s')"

definition ioA :: "'a io \<Rightarrow> ('a, 'c) app" where
  "ioA m s = (case m (a_world s) of (r, w) \<Rightarrow> (r, s\<lparr>a_world := w\<rparr>))"

definition getState :: "(RootState, 'c) app" where
  "getState s = (Inr (a_store s), s)"

definition dispatch :: "action \<Rightarrow> (unit, 'c) app" where
  "dispatch a s = (Inr (), s\<lparr>a_store := rootReducer (a_store s) a\<rparr>)"

definition shouldRequestAttestationSelector :: "ext \<Rightarrow> 'c memoizer \<Rightarrow> (bool, 'c) app" where
  "shouldRequestAttestationSelector X memo s =
     (case memo (shouldRequestAttestation X (a_world s)) (a_memo s) (selectAttestation (a_store s)) of
        (r, c) \<Rightarrow> (r, s\<lparr>a_memo := c\<rparr>))"

text \<open>\<open>createAsyncThunk\<close>: the \<open>pending\<close> action, the payload creator, and the \<open>fulfilled\<close> action with its
  value or the \<open>rejected\<close> action with the serialized error.  The promise \<open>dispatch\<close> returns for a
  thunk is always fulfilled.\<close>

definition run_thunk :: "(js_error \<Rightarrow> js) \<Rightarrow> thunk_call \<Rightarrow> (thunk_payload, 'c) app \<Rightarrow> (unit, 'c) app" where
  "run_thunk ser call creator s =
     (case creator (s\<lparr>a_store := rootReducer (a_store s) (pending call)\<rparr>) of
        (Inr p, s') \<Rightarrow> dispatch (fulfilled call p) s'
      | (Inl e, s') \<Rightarrow> dispatch (rejected call (ser e)) s')"

text \<open>What the thunks depend on besides the store and the world.\<close>

record 'c app_env =
  ae_X :: ext
  ae_G :: generated
  ae_V :: env_vars
  ae_D :: device
  ae_memo :: "'c memoizer"
  ae_ser :: "js_error \<Rightarrow> js"

definition app_ext :: "'c app_env \<Rightarrow> RootState \<Rightarrow> ext" where
  "app_ext E st = with_appFetch (ae_X E) (ae_V E) st"

abbreviation throwA :: "string \<Rightarrow> ('a, 'c) app" where
  "throwA m \<equiv> ioA (throwIO (new_Error m))"

subsection \<open>Attestation and wallet instance\<close>

text \<open>\<open>!tag\<close> holds for \<open>undefined\<close> and for the empty string.\<close>

definition present :: "string option \<Rightarrow> string option" where
  "present v = (case v of Some x \<Rightarrow> if x = [] then None else Some x | None \<Rightarrow> None)"

definition getAttestation_creator :: "'c app_env \<Rightarrow> (thunk_payload, 'c) app" where
  "getAttestation_creator E = bindA getState (\<lambda>st.
     case present (selectInstanceKeyTag st) of
       None \<Rightarrow> throwA ''Integrity key not found''
     | Some integrityKeyTag \<Rightarrow>
       bindA (ioA (regenerateCryptoKey (ae_X E) WIA_KEYTAG)) (\<lambda>_.
       bindA (ioA (wia_getAttestation (app_ext E st) (ae_G E) (createCryptoContextFor (ae_X E) WIA_KEYTAG)
         (getIntegrityContext (ae_X E) (ae_D E) integrityKeyTag)
         (WALLET_PROVIDER_BASE_URL (getEnv (ae_V E) (selectEnv st))))) (\<lambda>v.
       bindA (ioA (liftR (js_str v))) (\<lambda>wia.
       ioA (returnIO (Attestation wia))))))"

definition run_getAttestation :: "'c app_env \<Rightarrow> (unit, 'c) app" where
  "run_getAttestation E = run_thunk (ae_ser E) getAttestationThunk (getAttestation_creator E)"

definition createWalletInstance_creator :: "'c app_env \<Rightarrow> (thunk_payload, 'c) app" where
  "createWalletInstance_creator E = bindA getState (\<lambda>st.
     let envs = getEnv (ae_V E) (selectEnv st);
         googleCloudProjectNumber =
           (if d_OS (ae_D E) = android then Some (GOOGLE_CLOUD_PROJECT_NUMBER envs) else None) in
     bindA (ioA (askIO (ensureIntegrityServiceIsReady (ae_D E) googleCloudProjectNumber))) (\<lambda>_.
     bindA (ioA (generateIntegrityHardwareKeyTag (ae_X E) (ae_D E))) (\<lambda>integrityKeyTag.
     bindA (ioA (createWalletInstance (app_ext E st) (ae_G E)
       (getIntegrityContext (ae_X E) (ae_D E) integrityKeyTag) (WALLET_PROVIDER_BASE_URL envs))) (\<lambda>_.
     ioA (returnIO (KeyTag integrityKeyTag))))))"

definition run_createWalletInstance :: "'c app_env \<Rightarrow> (unit, 'c) app" where
  "run_createWalletInstance E =
     run_thunk (ae_ser E) createWalletInstanceThunk (createWalletInstance_creator E)"

definition revokeWalletInstance_creator :: "'c app_env \<Rightarrow> (thunk_payload, 'c) app" where
  "revokeWalletInstance_creator E = bindA getState (\<lambda>st.
     case present (selectInstanceKeyTag st) of
       None \<Rightarrow> throwA ''Integrity key not found''
     | Some integrityKeyTag \<Rightarrow>
       bindA (ioA (revokeWalletInstance (app_ext E st) (ae_G E) integrityKeyTag
         (WALLET_PROVIDER_BASE_URL (getEnv (ae_V E) (selectEnv st))))) (\<lambda>_.
       bindA (dispatch instanceReset) (\<lambda>_.
       ioA (returnIO Nothing))))"

definition run_revokeWalletInstance :: "'c app_env \<Rightarrow> (unit, 'c) app" where
  "run_revokeWalletInstance E =
     run_thunk (ae_ser E) revokeWalletInstanceThunk (revokeWalletInstance_creator E)"

text \<open>The head of the thunks that need the attestation: request one if it is missing or expired, then
  read it from the store.\<close>

definition with_attestation :: "'c app_env \<Rightarrow> (string \<Rightarrow> ('a, 'c) app) \<Rightarrow> ('a, 'c) app" where
  "with_attestation E f =
     bindA (shouldRequestAttestationSelector (ae_X E) (ae_memo E)) (\<lambda>needed.
     bindA (if needed then run_getAttestation E else ioA (returnIO ())) (\<lambda>_.
     bindA getState (\<lambda>st.
     case present (selectAttestation st) of
       None \<Rightarrow> throwA ''Wallet Instance Attestation not found''
     | Some wia \<Rightarrow> f wia)))"

subsection \<open>Credentials\<close>

definition getCredential_creator ::
  "'c app_env \<Rightarrow> SupportedCredentialsWithoutPid \<Rightarrow> (thunk_payload, 'c) app" where
  "getCredential_creator E credentialType = with_attestation E (\<lambda>walletInstanceAttestation.
     bindA getState (\<lambda>st.
     let envs = getEnv (ae_V E) (selectEnv st) in
     case selectPid st of
       None \<Rightarrow> throwA ''PID not found''
     | Some pid \<Rightarrow>
       bindA (ioA (getCredential (ae_X E) (app_ext E st) (WALLET_EAA_PROVIDER_BASE_URL envs)
         (REDIRECT_URI envs) credentialType walletInstanceAttestation
         (createCryptoContextFor (ae_X E) WIA_KEYTAG) (r_credential pid)
         (createCryptoContextFor (ae_X E) (r_keyTag pid)))) (\<lambda>r.
       ioA (returnIO (CredentialObtained r)))))"

definition run_getCredential :: "'c app_env \<Rightarrow> SupportedCredentialsWithoutPid \<Rightarrow> (unit, 'c) app" where
  "run_getCredential E t = run_thunk (ae_ser E) (getCredentialThunk t) (getCredential_creator E t)"

definition statusAttestation_creator :: "'c app_env \<Rightarrow> SupportedCredentialsWithoutPid \<Rightarrow> string \<Rightarrow> string \<Rightarrow>
    (thunk_payload, 'c) app" where
  "statusAttestation_creator E credentialType credential keyTag = bindA getState (\<lambda>st.
     bindA (ioA (getCredentialStatusAttestation (ae_X E)
       (WALLET_EAA_PROVIDER_BASE_URL (getEnv (ae_V E) (selectEnv st))) credential
       (createCryptoContextFor (ae_X E) keyTag) credentialType)) (\<lambda>r.
     ioA (returnIO (StatusAttestationObtained r))))"

definition run_statusAttestation :: "'c app_env \<Rightarrow> SupportedCredentialsWithoutPid \<Rightarrow> string \<Rightarrow> string \<Rightarrow>
    (unit, 'c) app" where
  "run_statusAttestation E t credential keyTag =
     run_thunk (ae_ser E) (getCredentialStatusAttestationThunk t credential keyTag)
       (statusAttestation_creator E t credential keyTag)"

definition trustmark_creator :: "'c app_env \<Rightarrow> SupportedCredentialsWithoutPid \<Rightarrow> string option \<Rightarrow>
    (thunk_payload, 'c) app" where
  "trustmark_creator E credentialType documentNumber = bindA getState (\<lambda>st.
     case present (selectAttestation st) of
       None \<Rightarrow> throwA ''Wallet Instance Attestation not found''
     | Some walletInstanceAttestation \<Rightarrow>
       bindA (ioA (getCredentialTrustmark (ae_X E) walletInstanceAttestation
         (createCryptoContextFor (ae_X E) WIA_KEYTAG) (credential_name credentialType) documentNumber
         Undef)) (\<lambda>tm.
       ioA (returnIO (TrustmarkObtained \<lparr>tk_trustmarkJwt = tm_jwt tm,
         tk_credentialType = credentialType, tk_expirationTime = tm_expirationTime tm\<rparr>))))"

definition run_trustmark :: "'c app_env \<Rightarrow> SupportedCredentialsWithoutPid \<Rightarrow> string option \<Rightarrow> (unit, 'c) app" where
  "run_trustmark E t documentNumber =
     run_thunk (ae_ser E) (getTrustmarkThunk t documentNumber) (trustmark_creator E t documentNumber)"

subsection \<open>PID\<close>

definition CIE_L3_REDIRECT_URI :: string where
  "CIE_L3_REDIRECT_URI = ''https://cie.callback''"

definition getPidCieID_creator :: "'c app_env \<Rightarrow> string \<Rightarrow> (thunk_payload, 'c) app" where
  "getPidCieID_creator E idpHint = with_attestation E (\<lambda>walletInstanceAttestation.
     bindA getState (\<lambda>st.
     let envs = getEnv (ae_V E) (selectEnv st) in
     bindA (dispatch credentialReset) (\<lambda>_.
     bindA (ioA (getPidCieID (ae_X E) (app_ext E st) (ae_D E) (WALLET_PID_PROVIDER_BASE_URL envs)
       (REDIRECT_URI envs) idpHint walletInstanceAttestation
       (createCryptoContextFor (ae_X E) WIA_KEYTAG))) (\<lambda>r.
     ioA (returnIO (PidObtained r))))))"

definition run_getPidCieID :: "'c app_env \<Rightarrow> string \<Rightarrow> PidAuthMethods \<Rightarrow> (unit, 'c) app" where
  "run_getPidCieID E idpHint authMethod =
     run_thunk (ae_ser E) (getPidCieIDThunk idpHint authMethod) (getPidCieID_creator E idpHint)"

definition preparePidFlowParams_creator ::
  "'c app_env \<Rightarrow> string \<Rightarrow> string option \<Rightarrow> (thunk_payload, 'c) app" where
  "preparePidFlowParams_creator E idpHint ciePin = with_attestation E (\<lambda>walletInstanceAttestation.
     bindA (dispatch credentialReset) (\<lambda>_.
     bindA getState (\<lambda>st.
     let isCie = str_includes ''servizicie'' idpHint;
         wiaCryptoContext = createCryptoContextFor (ae_X E) WIA_KEYTAG;
         envs = getEnv (ae_V E) (selectEnv st);
         redirectUri = (if isCie then CIE_L3_REDIRECT_URI else REDIRECT_URI envs) in
     bindA (ioA (evaluateIssuerTrust (app_ext E st) (WALLET_PID_PROVIDER_BASE_URL envs))) (\<lambda>issuerConf.
     bindA (ioA (startUserAuthorization (app_ext E st) issuerConf ''PersonIdentificationData''
       wiaCryptoContext walletInstanceAttestation redirectUri)) (\<lambda>ua.
     bindA (ioA (liftR (buildAuthorizationUrl (issuerRequestUri ua) (clientId ua) issuerConf idpHint)))
       (\<lambda>authUrl.
     ioA (returnIO (FlowParams \<lparr>fp_authUrl = authUrl, fp_issuerConf = issuerConf,
       fp_clientId = clientId ua, fp_codeVerifier = codeVerifier ua,
       fp_walletInstanceAttestation = walletInstanceAttestation,
       fp_credentialDefinition = credentialDefinition ua, fp_redirectUri = redirectUri,
       fp_ciePin = ciePin\<rparr>))))))))"

definition run_preparePidFlowParams ::
  "'c app_env \<Rightarrow> string \<Rightarrow> PidAuthMethods \<Rightarrow> string option \<Rightarrow> (unit, 'c) app" where
  "run_preparePidFlowParams E idpHint authMethod ciePin =
     run_thunk (ae_ser E) (preparePidFlowParamsThunk idpHint authMethod ciePin)
       (preparePidFlowParams_creator E idpHint ciePin)"

definition continuePidFlow_creator :: "'c app_env \<Rightarrow> string \<Rightarrow> (thunk_payload, 'c) app" where
  "continuePidFlow_creator E authRedirectUrl = bindA getState (\<lambda>st.
     case selectPidFlowParams st of
       None \<Rightarrow> throwA ''Flow params not found''
     | Some p \<Rightarrow>
       bindA (ioA (bindIO (liftR (completeUserAuthorizationWithQueryMode (ae_X E) authRedirectUrl))
         (\<lambda>authRes. liftR (js_get authRes ''code'')))) (\<lambda>code.
       bindA (ioA (bindIO (uuidv4 (ae_X E)) (\<lambda>tag. bindIO (generate (ae_X E) tag) (\<lambda>_. returnIO tag))))
         (\<lambda>credentialKeyTag.
       bindA (ioA (finish_issuance (ae_X E) (app_ext E st) (fp_issuerConf p) code (fp_clientId p)
         (fp_redirectUri p) (fp_codeVerifier p) (fp_credentialDefinition p)
         (fp_walletInstanceAttestation p) (createCryptoContextFor (ae_X E) WIA_KEYTAG)
         credentialKeyTag False PersonIdentificationData)) (\<lambda>r.
       ioA (returnIO (PidObtained r))))))"

definition run_continuePidFlow :: "'c app_env \<Rightarrow> string \<Rightarrow> (unit, 'c) app" where
  "run_continuePidFlow E authRedirectUrl =
     run_thunk (ae_ser E) (continuePidFlowThunk authRedirectUrl)
       (continuePidFlow_creator E authRedirectUrl)"

text \<open>The thunk that \<open>dispatch\<close> runs for a call.\<close>

fun run_call :: "'c app_env \<Rightarrow> thunk_call \<Rightarrow> (unit, 'c) app" where
  "run_call E createWalletInstanceThunk = run_createWalletInstance E"
| "run_call E revokeWalletInstanceThunk = run_revokeWalletInstance E"
| "run_call E getAttestationThunk = run_getAttestation E"
| "run_call E (getCredentialThunk t) = run_getCredential E t"
| "run_call E (getCredentialStatusAttestationThunk t c k) = run_statusAttestation E t c k"
| "run_call E (getTrustmarkThunk t n) = run_trustmark E t n"
| "run_call E (getPidCieIDThunk h m) = run_getPidCieID E h m"
| "run_call E (preparePidFlowParamsThunk h m pin) = run_preparePidFlowParams E h m pin"
| "run_call E (continuePidFlowThunk url) = run_continuePidFlow E url"

lemmas run_defs = run_createWalletInstance_def run_revokeWalletInstance_def run_getAttestation_def
  run_getCredential_def run_statusAttestation_def run_trustmark_def run_getPidCieID_def
  run_preparePidFlowParams_def run_continuePidFlow_def

end
