(* ===== verification/App_Store_Correct.thy ===== *)
theory App_Store_Correct
  imports App_Store Sample_Environment
begin

text \<open>
  What the store guarantees for every sequence of dispatched actions: the actions of concurrently
  running thunks may interleave in any order.  The asynchronous status of each operation is an
  instance of one interface, \<open>async_operation\<close>, whose lemmas are proved once.
\<close>

section \<open>Reachable states\<close>

inductive reachable :: "RootState \<Rightarrow> bool" where
  start: "reachable initialState"
| dispatch: "reachable s \<Longrightarrow> reachable (rootReducer s a)"

abbreviation dispatch_all :: "action list \<Rightarrow> RootState" where
  "dispatch_all as \<equiv> foldl rootReducer initialState as"

lemma reachable_dispatch_all: "reachable (foldl rootReducer s as)" if "reachable s"
  using that by (induction as arbitrary: s) (auto intro: reachable.dispatch)

lemma reachable_iff: "reachable s \<longleftrightarrow> (\<exists>as. s = dispatch_all as)"
proof
  assume "reachable s"
  then show "\<exists>as. s = dispatch_all as"
  proof induction
    case start
    show ?case by (rule exI [of _ "[]"]) simp
  next
    case (dispatch s a)
    then obtain as where "s = dispatch_all as" by blast
    then show ?case by (intro exI [of _ "as @ [a]"]) simp
  qed
qed (auto intro: reachable_dispatch_all reachable.start)

section \<open>The status of an asynchronous operation\<close>

text \<open>An operation is idle, running, done or failed, one at a time.\<close>

definition exclusive :: "AsyncStatus \<Rightarrow> bool" where
  "exclusive x \<longleftrightarrow> \<not> (isDone x \<and> isLoading x) \<and> (hasError x \<noteq> NoError \<longrightarrow> \<not> isDone x \<and> \<not> isLoading x)"

lemma exclusive_values [simp]:
  "exclusive asyncStatusInitial" "exclusive async_done" "exclusive async_loading"
  "exclusive (async_failed e)"
  by (simp_all add: exclusive_def asyncStatusInitial_def)

text \<open>The status a history of actions leaves: what its last action that has an effect set.\<close>

definition last_effect :: "(action \<Rightarrow> AsyncStatus option) \<Rightarrow> action list \<Rightarrow> AsyncStatus" where
  "last_effect effect as =
     (case List.map_filter effect (rev as) of [] \<Rightarrow> asyncStatusInitial | x # _ \<Rightarrow> x)"

text \<open>The interface: a selector whose value each action either sets, to a value that depends on the
  action alone, or leaves.\<close>

locale async_operation =
  fixes sel :: "RootState \<Rightarrow> AsyncStatus"
    and effect :: "action \<Rightarrow> AsyncStatus option"
  assumes initial: "sel initialState = asyncStatusInitial"
    and step: "sel (rootReducer s a) = (case effect a of Some x \<Rightarrow> x | None \<Rightarrow> sel s)"
    and effect_exclusive: "effect a = Some x \<Longrightarrow> exclusive x"
begin

lemma status_of_history: "sel (dispatch_all as) = last_effect effect as"
  by (induction as rule: rev_induct)
    (simp_all add: initial step last_effect_def List.map_filter_simps split: option.splits)

lemma exclusive_always: "reachable s \<Longrightarrow> exclusive (sel s)"
  by (induction rule: reachable.induct)
    (auto simp: initial step effect_exclusive split: option.splits)

lemma unaffected: "(\<And>a. a \<in> set as \<Longrightarrow> effect a = None) \<Longrightarrow> sel (foldl rootReducer s as) = sel s"
  by (induction as arbitrary: s) (simp_all add: step)

end

text \<open>The reducers, one equation per slice of the root state.\<close>

lemma rootReducer_slices [simp]:
  "st_environment (rootReducer s a) = environmentReducer (st_environment s) a"
  "st_debug (rootReducer s a) = debugReducer (st_debug s) a"
  "st_session (rootReducer s a) = sessionReducer (st_session s) a"
  "st_instance (rootReducer s a) = instanceReducer (st_instance s) a"
  "st_attestation (rootReducer s a) = attestationReducer (st_attestation s) a"
  "st_credential (rootReducer s a) = credentialReducer (st_credential s) a"
  "st_pid (rootReducer s a) = pidReducer (st_pid s) a"
  by (simp_all add: rootReducer_def)

lemma initialState_slices [simp]:
  "st_session initialState = session_initial" "st_instance initialState = instance_initial"
  "st_attestation initialState = attestation_initial"
  "st_credential initialState = credential_initial" "st_pid initialState = pid_initial"
  "st_environment initialState = environment_initial" "st_debug initialState = debug_initial"
  by (simp_all add: initialState_def)

lemma set_all_fields [simp]:
  "x\<lparr>isDone := True, isLoading := isLoading asyncStatusInitial, hasError := hasError asyncStatusInitial\<rparr> = async_done"
  "x\<lparr>isDone := True, isLoading := False, hasError := hasError asyncStatusInitial\<rparr> = async_done"
  "x\<lparr>isDone := False, isLoading := True, hasError := hasError asyncStatusInitial\<rparr> = async_loading"
  "x\<lparr>isDone := isDone asyncStatusInitial, isLoading := True, hasError := hasError asyncStatusInitial\<rparr> = async_loading"
  "x\<lparr>isDone := isDone asyncStatusInitial, isLoading := isLoading asyncStatusInitial, hasError := HasError e\<rparr> = async_failed e"
  "x\<lparr>isDone := False, isLoading := False, hasError := HasError e\<rparr> = async_failed e"
  by (simp_all add: asyncStatusInitial_def)

subsection \<open>The operations of the application\<close>

definition instance_effect :: "action \<Rightarrow> AsyncStatus option" where
  "instance_effect a = (case a of
     fulfilled createWalletInstanceThunk (KeyTag _) \<Rightarrow> Some async_done
   | pending createWalletInstanceThunk \<Rightarrow> Some async_loading
   | rejected createWalletInstanceThunk e \<Rightarrow> Some (async_failed e)
   | instanceReset \<Rightarrow> Some asyncStatusInitial | sessionReset \<Rightarrow> Some asyncStatusInitial | _ \<Rightarrow> None)"

definition revocation_effect :: "action \<Rightarrow> AsyncStatus option" where
  "revocation_effect a = (case a of
     fulfilled revokeWalletInstanceThunk _ \<Rightarrow> Some async_done
   | pending revokeWalletInstanceThunk \<Rightarrow> Some async_loading
   | rejected revokeWalletInstanceThunk e \<Rightarrow> Some (async_failed e)
   | instanceReset \<Rightarrow> Some asyncStatusInitial | sessionReset \<Rightarrow> Some asyncStatusInitial | _ \<Rightarrow> None)"

definition attestation_effect :: "action \<Rightarrow> AsyncStatus option" where
  "attestation_effect a = (case a of
     fulfilled getAttestationThunk (Attestation _) \<Rightarrow> Some async_done
   | pending getAttestationThunk \<Rightarrow> Some async_loading
   | rejected getAttestationThunk e \<Rightarrow> Some (async_failed e)
   | attestationReset \<Rightarrow> Some asyncStatusInitial
   | instanceReset \<Rightarrow> Some asyncStatusInitial | sessionReset \<Rightarrow> Some asyncStatusInitial | _ \<Rightarrow> None)"

definition credential_effect :: "SupportedCredentialsWithoutPid \<Rightarrow> action \<Rightarrow> AsyncStatus option" where
  "credential_effect t a = (case a of
     fulfilled (getCredentialThunk _) (CredentialObtained r) \<Rightarrow>
       (if r_credentialType r = t then Some async_done else None)
   | pending (getCredentialThunk t') \<Rightarrow> (if t' = t then Some async_loading else None)
   | rejected (getCredentialThunk t') e \<Rightarrow> (if t' = t then Some (async_failed e) else None)
   | credentialReset \<Rightarrow> Some asyncStatusInitial
   | instanceReset \<Rightarrow> Some asyncStatusInitial | sessionReset \<Rightarrow> Some asyncStatusInitial | _ \<Rightarrow> None)"

definition status_effect :: "SupportedCredentialsWithoutPid \<Rightarrow> action \<Rightarrow> AsyncStatus option" where
  "status_effect t a = (case a of
     fulfilled (getCredentialStatusAttestationThunk _ _ _) (StatusAttestationObtained r) \<Rightarrow>
       (if sa_credentialType r = t then Some async_done else None)
   | pending (getCredentialStatusAttestationThunk t' _ _) \<Rightarrow>
       (if t' = t then Some async_loading else None)
   | rejected (getCredentialStatusAttestationThunk t' _ _) e \<Rightarrow>
       (if t' = t then Some (async_failed e) else None)
   | credentialReset \<Rightarrow> Some asyncStatusInitial
   | instanceReset \<Rightarrow> Some asyncStatusInitial | sessionReset \<Rightarrow> Some asyncStatusInitial | _ \<Rightarrow> None)"

definition trustmark_effect :: "SupportedCredentialsWithoutPid \<Rightarrow> action \<Rightarrow> AsyncStatus option" where
  "trustmark_effect t a = (case a of
     fulfilled (getTrustmarkThunk _ _) (TrustmarkObtained r) \<Rightarrow>
       (if tk_credentialType r = t then Some async_done else None)
   | pending (getTrustmarkThunk t' _) \<Rightarrow> (if t' = t then Some async_loading else None)
   | rejected (getTrustmarkThunk t' _) e \<Rightarrow> (if t' = t then Some (async_failed e) else None)
   | credentialReset \<Rightarrow> Some asyncStatusInitial
   | instanceReset \<Rightarrow> Some asyncStatusInitial | sessionReset \<Rightarrow> Some asyncStatusInitial | _ \<Rightarrow> None)"

lemmas action_splits = action.splits thunk_call.splits thunk_payload.splits

interpretation instance_op: async_operation selectInstanceAsyncStatus instance_effect
  by unfold_locales
    (auto simp: selectInstanceAsyncStatus_def instance_effect_def instanceReducer_def
      instance_initial_def split: action_splits)

interpretation revocation_op: async_operation selectInstanceRevocationAsyncStatus revocation_effect
  by unfold_locales
    (auto simp: selectInstanceRevocationAsyncStatus_def revocation_effect_def instanceReducer_def
      instance_initial_def split: action_splits)

interpretation attestation_op: async_operation selectAttestationAsyncStatus attestation_effect
  by unfold_locales
    (auto simp: selectAttestationAsyncStatus_def attestation_effect_def attestationReducer_def
      attestation_initial_def split: action_splits)

interpretation credential_op: async_operation "selectCredentialAsyncStatus t" "credential_effect t" for t
  by unfold_locales
    (auto simp: selectCredentialAsyncStatus_def credential_effect_def credentialReducer_def
      credential_initial_def split: action_splits if_splits)

interpretation status_op: async_operation "selectStatusAttestationAsyncStatus t" "status_effect t" for t
  by unfold_locales
    (auto simp: selectStatusAttestationAsyncStatus_def status_effect_def credentialReducer_def
      credential_initial_def split: action_splits if_splits)

interpretation trustmark_op: async_operation "selectTrustmarkAsyncStatus t" "trustmark_effect t" for t
  by unfold_locales
    (auto simp: selectTrustmarkAsyncStatus_def trustmark_effect_def credentialReducer_def
      credential_initial_def split: action_splits if_splits)

section \<open>Invariants of the store\<close>

lemma pid_status_exclusive: "reachable s \<Longrightarrow> exclusive (selectPidAsyncStatus m s)"
proof (induction arbitrary: m rule: reachable.induct)
  case start
  show ?case by (simp add: selectPidAsyncStatus_def pid_initial_def)
next
  case (dispatch s a)
  then show ?case
    by (auto simp: selectPidAsyncStatus_def pidReducer_def pid_initial_def split: action_splits)
qed

text \<open>C6. In every reachable state of the store, whatever the interleaving of the actions of running
  thunks, each asynchronous status has at most one of done, loading and failed set.\<close>

theorem async_statuses_exclusive:
  assumes "reachable s"
  shows "exclusive (selectInstanceAsyncStatus s) \<and> exclusive (selectInstanceRevocationAsyncStatus s)
    \<and> exclusive (selectAttestationAsyncStatus s) \<and> exclusive (selectCredentialAsyncStatus t s)
    \<and> exclusive (selectStatusAttestationAsyncStatus t s) \<and> exclusive (selectTrustmarkAsyncStatus t s)
    \<and> exclusive (selectPidAsyncStatus m s)"
  by (intro conjI instance_op.exclusive_always revocation_op.exclusive_always
      attestation_op.exclusive_always credential_op.exclusive_always status_op.exclusive_always
      trustmark_op.exclusive_always pid_status_exclusive assms)

definition sample_result :: CredentialResult where
  "sample_result = \<lparr>r_credential = ''c'', r_parsedCredential = [], r_keyTag = ''k'', r_credentialType = MDL\<rparr>"

definition sample_history :: "action list" where
  "sample_history = [sessionSet ''tok'', pending (getCredentialThunk MDL),
     pending (preparePidFlowParamsThunk ''idp'' cieL3 None),
     fulfilled (getCredentialThunk MDL) (CredentialObtained sample_result)]"

lemma reachable_sample: "reachable (dispatch_all sample_history)"
  using reachable_iff by blast

lemma async_statuses_exclusive_witness:
  "exclusive (selectCredentialAsyncStatus MDL (dispatch_all sample_history))
   \<and> isDone (selectCredentialAsyncStatus MDL (dispatch_all sample_history))
   \<and> exclusive (selectPidAsyncStatus cieL3 (dispatch_all sample_history))
   \<and> isLoading (selectPidAsyncStatus cieL3 (dispatch_all sample_history))"
  using async_statuses_exclusive [OF reachable_sample, of MDL cieL3] by (elim conjE, intro conjI) (assumption | code_simp)+

text \<open>C17. The status the store shows for an operation is a function of the history alone: it is the
  value set by the last action that concerns the operation (its own pending, fulfilled or rejected
  action, or a reset), and the initial one when there is none.  Actions of other operations never
  disturb it.\<close>

theorem async_status_is_last_effect:
  "selectCredentialAsyncStatus t (dispatch_all as) = last_effect (credential_effect t) as
   \<and> selectStatusAttestationAsyncStatus t (dispatch_all as) = last_effect (status_effect t) as
   \<and> selectTrustmarkAsyncStatus t (dispatch_all as) = last_effect (trustmark_effect t) as
   \<and> selectAttestationAsyncStatus (dispatch_all as) = last_effect attestation_effect as
   \<and> selectInstanceAsyncStatus (dispatch_all as) = last_effect instance_effect as
   \<and> selectInstanceRevocationAsyncStatus (dispatch_all as) = last_effect revocation_effect as"
  by (intro conjI credential_op.status_of_history status_op.status_of_history
      trustmark_op.status_of_history attestation_op.status_of_history
      instance_op.status_of_history revocation_op.status_of_history)

text \<open>C20. In every reachable state a credential, a status attestation and a trustmark are stored under
  the type they carry, so the list of obtained credentials has at most one credential per type.\<close>

theorem stored_under_own_type:
  assumes "reachable s"
  shows "(\<forall>r. selectCredential t s = Some r \<longrightarrow> r_credentialType r = t)
    \<and> (\<forall>r. selectStatusAttestation t s = Some r \<longrightarrow> sa_credentialType r = t)
    \<and> (\<forall>r. selectTrustmark t s = Some r \<longrightarrow> tk_credentialType r = t)
    \<and> distinct (map r_credentialType (selectObtainedCredentials s))"
proof -
  have own: "(\<forall>r. selectCredential t s = Some r \<longrightarrow> r_credentialType r = t)
    \<and> (\<forall>r. selectStatusAttestation t s = Some r \<longrightarrow> sa_credentialType r = t)
    \<and> (\<forall>r. selectTrustmark t s = Some r \<longrightarrow> tk_credentialType r = t)" for t
    using assms
  proof (induction arbitrary: t rule: reachable.induct)
    case start
    show ?case by (simp add: selectCredential_def selectStatusAttestation_def selectTrustmark_def
        credential_initial_def)
  next
    case (dispatch s a)
    then show ?case
      by (auto simp: selectCredential_def selectStatusAttestation_def selectTrustmark_def
        credential_initial_def credentialReducer_def split: action_splits if_splits)
  qed
  have "distinct (map r_credentialType (selectObtainedCredentials s))"
    using own [of MDL] own [of EuropeanDisabilityCard] own [of EuropeanHealthInsuranceCard]
    by (auto simp: selectObtainedCredentials_def selectCredentials_def selectCredential_def
        List.map_filter_simps split: option.splits)
  with own show ?thesis by blast
qed

lemma stored_under_own_type_witness:
  "distinct (map r_credentialType (selectObtainedCredentials (dispatch_all sample_history)))
   \<and> length (selectObtainedCredentials (dispatch_all sample_history)) = 1"
proof -
  have "length (selectObtainedCredentials (dispatch_all sample_history)) = 1" by code_simp
  then show ?thesis using stored_under_own_type [OF reachable_sample] by blast
qed

section \<open>Logging out\<close>

text \<open>Nothing of the user is in the slices that keep it, and nothing in the whole store, the debug data
  included.\<close>

definition no_stored_data :: "RootState \<Rightarrow> bool" where
  "no_stored_data s \<longleftrightarrow> selectIoAuthToken s = None \<and> selectInstanceKeyTag s = None \<and> selectAttestation s = None
     \<and> selectObtainedCredentials s = [] \<and> selectPid s = None \<and> selectPidFlowParams s = None
     \<and> (\<forall>t \<in> {MDL, EuropeanDisabilityCard, EuropeanHealthInsuranceCard}.
          selectStatusAttestation t s = None \<and> selectTrustmark t s = None)"

lemmas user_selectors = no_stored_data_def selectIoAuthToken_def selectInstanceKeyTag_def selectAttestation_def
  selectObtainedCredentials_def selectCredentials_def selectPid_def selectPidFlowParams_def
  selectStatusAttestation_def selectTrustmark_def

lemmas reducer_defs = sessionReducer_def instanceReducer_def attestationReducer_def credentialReducer_def
  pidReducer_def session_initial_def instance_initial_def attestation_initial_def
  credential_initial_def pid_initial_def

fun adds_data :: "action \<Rightarrow> bool" where
  "adds_data (sessionSet _) = True"
| "adds_data (fulfilled _ _) = True"
| "adds_data (setDebugData _) = True"
| "adds_data _ = False"

definition no_user_data :: "RootState \<Rightarrow> bool" where
  "no_user_data s \<longleftrightarrow> no_stored_data s \<and> debugDataSelector s = []"

lemma no_stored_data_step: "no_stored_data s \<Longrightarrow> \<not> adds_data a \<Longrightarrow> no_stored_data (rootReducer s a)"
  by (cases a) (auto simp: user_selectors reducer_defs List.map_filter_simps
      split: option.splits thunk_call.splits)

lemma no_user_data_step: "no_user_data s \<Longrightarrow> \<not> adds_data a \<Longrightarrow> no_user_data (rootReducer s a)"
  by (cases a) (auto simp: no_user_data_def no_stored_data_step debugDataSelector_def debugReducer_def
      from_entries_def entries_def)

lemma no_stored_data_steps:
  "no_stored_data s \<Longrightarrow> \<forall>a \<in> set as. \<not> adds_data a \<Longrightarrow> no_stored_data (foldl rootReducer s as)"
  by (induction as rule: rev_induct) (auto intro: no_stored_data_step)

lemma no_user_data_steps:
  "no_user_data s \<Longrightarrow> \<forall>a \<in> set as. \<not> adds_data a \<Longrightarrow> no_user_data (foldl rootReducer s as)"
  by (induction as rule: rev_induct) (auto intro: no_user_data_step)

lemma session_reset_clears: "no_stored_data (rootReducer s sessionReset)"
  by (simp add: user_selectors reducer_defs List.map_filter_simps)

text \<open>Reading the secure storage never rejects: a key that cannot be read is an absent one.\<close>

lemma secure_storage_reads:
  "getItem (createSecureStorage N) key s = Inr (case ss_get N key s of Inl _ \<Rightarrow> None | Inr v \<Rightarrow> Some v)"
  by (simp add: createSecureStorage_def split: sum.split)

text \<open>A thunk that was running when the user logged out still delivers: its \<open>fulfilled\<close> action, if it
  arrives after \<open>sessionReset\<close>, stores the credential, the PID, the key tag or the attestation of
  the session that ended, since no reducer relates the action to the session that started it.\<close>

theorem late_result_survives_logout:
  "selectCredential (r_credentialType r) (rootReducer (rootReducer s sessionReset)
       (fulfilled (getCredentialThunk t) (CredentialObtained r))) = Some r
   \<and> selectPid (rootReducer (rootReducer s sessionReset)
       (fulfilled (continuePidFlowThunk url) (PidObtained p))) = Some p
   \<and> selectInstanceKeyTag (rootReducer (rootReducer s sessionReset)
       (fulfilled createWalletInstanceThunk (KeyTag tag))) = Some tag
   \<and> selectAttestation (rootReducer (rootReducer s sessionReset)
       (fulfilled getAttestationThunk (Attestation wia))) = Some wia"
  by (simp add: selectCredential_def selectPid_def selectInstanceKeyTag_def selectAttestation_def
      credentialReducer_def pidReducer_def instanceReducer_def attestationReducer_def)

section \<open>The PID flow\<close>

text \<open>A PID obtained by continuing a flow is booked on SPID, unless a CIE flow is loading at that
  moment: then the CIE status becomes done, whichever flow delivered it, and a SPID flow that was
  running keeps its loading status.\<close>

theorem continued_pid_booking:
  "let s' = rootReducer s (fulfilled (continuePidFlowThunk url) (PidObtained p)) in
    selectPid s' = Some p \<and> selectPidFlowParams s' = None
    \<and> (if isLoading (selectPidAsyncStatus cieL3 s)
       then selectPidAsyncStatus cieL3 s' = async_done
         \<and> selectPidAsyncStatus spid s' = selectPidAsyncStatus spid s
       else selectPidAsyncStatus spid s' = async_done
         \<and> selectPidAsyncStatus cieL3 s' = selectPidAsyncStatus cieL3 s)"
  by (simp add: Let_def selectPid_def selectPidFlowParams_def selectPidAsyncStatus_def pidReducer_def
      continued_method_def pid_initial_def)

definition two_flows :: RootState where
  "two_flows = dispatch_all [pending (preparePidFlowParamsThunk ''idp'' spid None),
     pending (preparePidFlowParamsThunk ''servizicie'' cieL3 (Some ''12345678''))]"

lemma continued_pid_booking_witness:
  "isLoading (selectPidAsyncStatus spid (rootReducer two_flows
      (fulfilled (continuePidFlowThunk ''app://cb?code=spid'') (PidObtained
        \<lparr>r_credential = ''c'', r_parsedCredential = [], r_keyTag = ''k'', r_credentialType = PersonIdentificationData\<rparr>))))
   \<and> isDone (selectPidAsyncStatus cieL3 (rootReducer two_flows
      (fulfilled (continuePidFlowThunk ''app://cb?code=spid'') (PidObtained
        \<lparr>r_credential = ''c'', r_parsedCredential = [], r_keyTag = ''k'', r_credentialType = PersonIdentificationData\<rparr>))))"
proof -
  have "isLoading (selectPidAsyncStatus cieL3 two_flows)" "isLoading (selectPidAsyncStatus spid two_flows)"
    by code_simp+
  then show ?thesis
    using continued_pid_booking [of two_flows] by (simp add: Let_def asyncStatusInitial_def)
qed

end
