(* ===== verification/App_Correct.thy ===== *)
theory App_Correct
  imports App_Flows App_Store_Correct Credential_Correct
begin

text \<open>
  What the application's utilities and thunks guarantee: the polling loop, the listener for the
  redirect, the memoized expiry check, and the flows from end to end.
\<close>

section \<open>Polling\<close>

lemma poll_step: "\<not> limit \<le> e \<Longrightarrow> 400 * m \<le> limit - (e + 400 + d) + 399 \<Longrightarrow> 400 * Suc m \<le> limit - e + 399"
  for limit e m d :: nat
  by (cases "limit \<le> e + 400 + d"; cases m) simp_all

lemma until_limited_outcome:
  assumes "until_limited c delay limit k0 e0 = (k, r)"
  shows "k0 \<le> k \<and> (\<forall>j. k0 \<le> j \<and> j < k \<longrightarrow> \<not> c j) \<and> 400 * (k - k0) \<le> limit - e0 + 399
    \<and> r = (if c k then Inr () else Inl (new_Error ''Timeout exceeded''))"
  using assms
proof (induction c delay limit k0 e0 rule: until_limited.induct)
  case (1 c delay limit k0 e0)
  show ?case
  proof (cases "c k0 \<or> limit \<le> e0")
    case True
    with 1(2) show ?thesis by (auto simp: until_limited.simps [of c] split: if_splits)
  next
    case False
    with 1(2) have "until_limited c delay limit (Suc k0) (e0 + 400 + delay k0) = (k, r)"
      by (simp add: until_limited.simps [of c delay limit k0])
    with False have ih: "Suc k0 \<le> k" "\<forall>j. Suc k0 \<le> j \<and> j < k \<longrightarrow> \<not> c j"
      "400 * (k - Suc k0) \<le> limit - (e0 + 400 + delay k0) + 399"
      "r = (if c k then Inr () else Inl (new_Error ''Timeout exceeded''))"
      using 1(1) by blast+
    obtain m where m: "k = Suc k0 + m" using ih(1) by (auto simp: le_iff_add)
    have "400 * (k - k0) \<le> limit - e0 + 399"
      using ih(3) False poll_step [of limit e0 m "delay k0"] by (simp add: m)
    moreover have "\<not> c j" if "k0 \<le> j" "j < k" for j
      using that ih(2) False by (cases "j = k0") auto
    ultimately show ?thesis using ih by auto
  qed
qed

lemma until_from_limited:
  "until_from c delay (Some t) k e = Some (snd (until_limited c delay (t * 1000) k e))"
proof (induction c delay "t * 1000" k e rule: until_limited.induct)
  case (1 c delay k e)
  then show ?case
    by (subst until_from.simps, subst until_limited.simps) auto
qed

text \<open>C25. With a timeout of \<open>t\<close> seconds the promise of \<open>until\<close> is always settled, whatever the delays
  of the timers and the condition do: at a poll \<open>k\<close> at most \<open>t * 1000 / 400\<close>, rounded up, which is
  the first poll that finds the condition true, and then it resolves, or else it is rejected with
  the timeout error.\<close>

theorem until_with_timeout_settles:
  "\<exists>k r. until c delay (Some t) = Some r \<and> 400 * k \<le> t * 1000 + 399
    \<and> (\<forall>j < k. \<not> c j) \<and> r = (if c k then Inr () else Inl (new_Error ''Timeout exceeded''))"
proof -
  obtain k r where kr: "until_limited c delay (t * 1000) 0 0 = (k, r)" by fastforce
  then have "until c delay (Some t) = Some r" by (simp add: until_def until_from_limited)
  with until_limited_outcome [OF kr] show ?thesis by auto
qed

lemma until_with_timeout_settles_witness:
  "\<exists>k r. until (\<lambda>k. k = 3) (\<lambda>_. 5) (Some 120) = Some r \<and> 400 * k \<le> (120400 :: nat)
    \<and> (\<forall>j < k. j \<noteq> 3) \<and> r = (if k = 3 then Inr () else Inl (new_Error ''Timeout exceeded''))"
  using until_with_timeout_settles [of "\<lambda>k. k = 3" "\<lambda>_. 5" 120] by (elim exE conjE) (intro exI conjI, auto)

lemma until_from_None_Suc:
  "\<not> c k \<Longrightarrow> until_from c delay None k e = until_from c delay None (Suc k) (e + 400 + delay k)"
  by (subst until_from.simps) simp

lemma until_from_None_True: "c k \<Longrightarrow> until_from c delay None k e = Some (Inr ())"
  by (subst until_from.simps) simp

text \<open>Without a timeout \<open>until\<close> resolves as soon as some poll finds the condition true, however late
  that is; it never rejects.\<close>

theorem until_without_timeout_resolves:
  assumes "\<exists>k. c k"
  shows "until c delay None = Some (Inr ())"
proof -
  from assms obtain k where k: "c k" by blast
  have "until_from c delay None j e = Some (Inr ())" if "j \<le> k" for j e
    using that
  proof (induction "k - j" arbitrary: j e)
    case 0
    with k show ?case by (simp add: until_from_None_True)
  next
    case (Suc n)
    then have "n = k - Suc j" "Suc j \<le> k" by simp_all
    from Suc.hyps(1) [OF this] show ?case
      by (cases "c j") (simp_all add: until_from_None_True until_from_None_Suc)
  qed
  then show ?thesis by (simp add: until_def)
qed

lemma until_without_timeout_resolves_witness: "until (\<lambda>k. 1000 \<le> k) (\<lambda>_. 7) None = Some (Inr ())"
  by (rule until_without_timeout_resolves) (rule exI [of _ 1000], simp)

section \<open>The authentication redirect\<close>

lemma received_redirect_find: "received_redirect D w redirectUri k = find (str_includes redirectUri) (rev (d_urlEvents D w k))"
proof -
  have "(case filter P xs of [] \<Rightarrow> None | x # _ \<Rightarrow> Some x) = find P xs" for P and xs :: "string list"
    by (induction xs) auto
  then show ?thesis unfolding received_redirect_def .
qed

text \<open>The time at poll \<open>k\<close>, counted from the first one.\<close>

definition poll_time :: "device \<Rightarrow> world \<Rightarrow> nat \<Rightarrow> nat" where
  "poll_time D w k = (\<Sum>j < k. 400 + d_timerDelay D w j)"

lemma until_limited_first:
  assumes "until_limited c delay limit i elapsed = (k, r)"
  shows "i \<le> k \<and> (\<forall>j. i \<le> j \<and> j < k \<longrightarrow> \<not> c j \<and> elapsed + (\<Sum>m = i..<j. 400 + delay m) < limit)
    \<and> (c k \<or> limit \<le> elapsed + (\<Sum>m = i..<k. 400 + delay m))"
  using assms
proof (induction c delay limit i elapsed arbitrary: k r rule: until_limited.induct)
  case (1 c delay limit i elapsed)
  show ?case
  proof (cases "c i \<or> limit \<le> elapsed")
    case True
    with "1.prems" show ?thesis by (auto simp: until_limited.simps [of c] split: if_splits)
  next
    case False
    then have "until_limited c delay limit (Suc i) (elapsed + 400 + delay i) = (k, r)"
      using "1.prems" by (simp add: until_limited.simps [of c delay limit i])
    with False "1.IH" have ih: "Suc i \<le> k"
      "\<And>j. Suc i \<le> j \<Longrightarrow> j < k \<Longrightarrow> \<not> c j \<and> elapsed + 400 + delay i + (\<Sum>m = Suc i..<j. 400 + delay m) < limit"
      "c k \<or> limit \<le> elapsed + 400 + delay i + (\<Sum>m = Suc i..<k. 400 + delay m)" by blast+
    have sum: "elapsed + (\<Sum>m = i..<j. 400 + delay m) = elapsed + 400 + delay i + (\<Sum>m = Suc i..<j. 400 + delay m)"
      if "Suc i \<le> j" for j using that by (simp add: sum.atLeast_Suc_lessThan [of i j])
    have "\<not> c j \<and> elapsed + (\<Sum>m = i..<j. 400 + delay m) < limit" if "i \<le> j" "j < k" for j
    proof (cases "j = i")
      case True
      with False show ?thesis by simp
    next
      case False
      with that(1) have "Suc i \<le> j" by simp
      from ih(2) [OF this that(2)] show ?thesis unfolding sum [OF \<open>Suc i \<le> j\<close>] .
    qed
    with ih(1,3) sum [OF ih(1)] show ?thesis by (auto simp del: sum.op_ivl_Suc)
  qed
qed

text \<open>C26. What listening for the redirect ends with, exactly.  Once the page is open there is a poll, at
  most the three hundredth, before which no redirect was there and the 120 seconds were not over, and at
  which one of the two is the case.  If the signal was aborted by then the abortion is the outcome;
  otherwise it is the last received url that contains the redirect uri, or, when there is none, the
  plain \<open>Error\<close> of the timeout, not the documented \<open>AuthorizationError\<close>.  Without a redirect uri or an
  address nothing is opened, and a page that cannot be opened is the failure.\<close>

theorem redirect_listener_outcome:
  "((redirectUri = [] \<or> authUrl = []) \<longrightarrow> listenForAuthRedirect D redirectUri authUrl signal w =
      Inl (new_AuthorizationError ''Invalid authentication redirect url''))
   \<and> (\<forall>e. redirectUri \<noteq> [] \<and> authUrl \<noteq> [] \<and> d_openURL D authUrl w = Inl e \<longrightarrow>
      listenForAuthRedirect D redirectUri authUrl signal w = Inl e)
   \<and> (redirectUri \<noteq> [] \<and> authUrl \<noteq> [] \<and> isOk (d_openURL D authUrl w) \<longrightarrow>
      (\<exists>k \<le> 300. (\<forall>j < k. find (str_includes redirectUri) (rev (d_urlEvents D w j)) = None \<and> poll_time D w j < 120000)
         \<and> (find (str_includes redirectUri) (rev (d_urlEvents D w k)) \<noteq> None \<or> 120000 \<le> poll_time D w k)
         \<and> listenForAuthRedirect D redirectUri authUrl signal w =
             (if \<exists>a. signal = Some a \<and> a \<le> k then Inl (new_OperationAbortedError ''DefaultQueryModeAuthorization'')
              else case find (str_includes redirectUri) (rev (d_urlEvents D w k)) of
                Some url \<Rightarrow> Inr url | None \<Rightarrow> Inl (new_Error ''Timeout exceeded''))))"
proof (intro conjI impI allI)
  assume a: "redirectUri \<noteq> [] \<and> authUrl \<noteq> [] \<and> isOk (d_openURL D authUrl w)"
  let ?c = "\<lambda>k. received_redirect D w redirectUri k \<noteq> None"
  obtain k r where kr: "until_limited ?c (d_timerDelay D w) (120 * 1000) 0 0 = (k, r)" by fastforce
  from until_limited_outcome [OF kr] have o: "k \<le> 300"
    "r = (if ?c k then Inr () else Inl (new_Error ''Timeout exceeded''))" by simp_all
  from until_limited_first [OF kr] have first: "\<forall>j < k. \<not> ?c j \<and> poll_time D w j < 120000"
    "?c k \<or> 120000 \<le> poll_time D w k" by (auto simp: poll_time_def atLeast0LessThan)
  have ab: "aborted_before signal k \<longleftrightarrow> (\<exists>a. signal = Some a \<and> a \<le> k)"
    by (simp add: aborted_before_def split: option.splits)
  have "listenForAuthRedirect D redirectUri authUrl signal w =
      (if aborted_before signal k then Inl (new_OperationAbortedError ''DefaultQueryModeAuthorization'')
       else case received_redirect D w redirectUri k of Some url \<Rightarrow> Inr url | None \<Rightarrow> Inl (new_Error ''Timeout exceeded''))"
    using a o kr by (auto simp: listenForAuthRedirect_def isOk_iff split: option.splits)
  with o(1) first show "\<exists>k \<le> 300. (\<forall>j < k. find (str_includes redirectUri) (rev (d_urlEvents D w j)) = None
        \<and> poll_time D w j < 120000)
      \<and> (find (str_includes redirectUri) (rev (d_urlEvents D w k)) \<noteq> None \<or> 120000 \<le> poll_time D w k)
      \<and> listenForAuthRedirect D redirectUri authUrl signal w =
          (if \<exists>a. signal = Some a \<and> a \<le> k then Inl (new_OperationAbortedError ''DefaultQueryModeAuthorization'')
           else case find (str_includes redirectUri) (rev (d_urlEvents D w k)) of
             Some url \<Rightarrow> Inr url | None \<Rightarrow> Inl (new_Error ''Timeout exceeded''))"
    unfolding ab received_redirect_find by (intro exI [of _ k] conjI) simp_all
qed (auto simp: listenForAuthRedirect_def)

definition sample_vars :: env_vars where
  "sample_vars = \<lparr>PRE_WALLET_PROVIDER_BASE_URL = ''pre'', PRE_WALLET_PID_PROVIDER_BASE_URL = ''pre-pid'',
     PRE_WALLET_EAA_PROVIDER_BASE_URL = ''pre-eaa'', PRE_REDIRECT_URI = ''app'',
     PRE_GOOGLE_CLOUD_PROJECT_NUMBER = ''1'', PRE_VERIFIER_BASE_URL = ''pre-rp'',
     PROD_WALLET_PROVIDER_BASE_URL = ''wp'', PROD_WALLET_PID_PROVIDER_BASE_URL = ''pid'',
     PROD_WALLET_EAA_PROVIDER_BASE_URL = ''eaa'', PROD_REDIRECT_URI = ''app'',
     PROD_GOOGLE_CLOUD_PROJECT_NUMBER = ''1'', PROD_VERIFIER_BASE_URL = ''rp''\<rparr>"

section \<open>The memoized expiry check\<close>

text \<open>What reselect documents of a selector built with \<open>createSelector\<close>: called again with the input it has
  a result for, it returns that result and does not run the result function; called for the first
  time, it runs it.\<close>

locale memoizing_selector =
  fixes memo :: "'c memoizer" and unset :: 'c
  assumes miss: "fst (memo f unset x) = f x"
    and hit: "memo f c x = (Inr b, c') \<Longrightarrow> memo g c' x = (Inr b, c')"
begin

lemma fresh_answer: "a_memo s = unset \<Longrightarrow>
    fst (shouldRequestAttestationSelector X memo s) = shouldRequestAttestation X (a_world s) (selectAttestation (a_store s))"
  using miss [of "shouldRequestAttestation X (a_world s)" "selectAttestation (a_store s)"]
  by (auto simp: shouldRequestAttestationSelector_def split: prod.splits)

lemma stale_answer:
  assumes "fst (shouldRequestAttestationSelector X memo s) = Inr b"
    and "a_memo s2 = a_memo (snd (shouldRequestAttestationSelector X memo s))"
    and "selectAttestation (a_store s2) = selectAttestation (a_store s)"
  shows "shouldRequestAttestationSelector X memo s2 = (Inr b, s2)"
proof -
  obtain c where "memo (shouldRequestAttestation X (a_world s)) (a_memo s) (selectAttestation (a_store s)) = (Inr b, c)"
    and "a_memo s2 = c"
    using assms(1,2) by (auto simp: shouldRequestAttestationSelector_def split: prod.splits)
  from hit [OF this(1)] this(2) assms(3) show ?thesis by (simp add: shouldRequestAttestationSelector_def)
qed

end

text \<open>A cache of one entry, the default of the package's first versions, is an instance.\<close>

definition one_entry :: "(string option \<times> bool) option memoizer" where
  "one_entry f c x = (case c of
     Some (y, b) \<Rightarrow> if y = x then (Inr b, c) else
       (case f x of Inr b' \<Rightarrow> (Inr b', Some (x, b')) | Inl e \<Rightarrow> (Inl e, c))
   | None \<Rightarrow> (case f x of Inr b' \<Rightarrow> (Inr b', Some (x, b')) | Inl e \<Rightarrow> (Inl e, c)))"

interpretation one_entry_memo: memoizing_selector one_entry None
  by unfold_locales (auto simp: one_entry_def split: option.splits sum.splits if_splits)

text \<open>C36. The expiry of the attestation is checked once.  A selector that is asked for the first time no
  later than the expiry answers, rightly, that no new attestation is needed.  Asked again about the
  same attestation when the clock is past the expiry, it gives the same answer, although the
  check itself would now say the opposite, as a selector asked for the first time does; and the
  thunks go on with the expired attestation.\<close>

theorem expiry_check_is_stale:
  assumes memo: "memoizing_selector (ae_memo E) unset"
    and wia: "selectAttestation (a_store s) = Some wia" "wia \<noteq> []"
    and exp: "wia_decode (ae_X E) wia = Inr d" "js_path d [''payload'', ''exp''] = Inr seconds"
      "date_of_seconds seconds = DateV (Some expiry)"
    and first: "a_memo s = unset" "x_now (ae_X E) (a_world s) \<le> of_int expiry"
    and later: "a_memo s2 = a_memo (snd (shouldRequestAttestationSelector (ae_X E) (ae_memo E) s))"
      "selectAttestation (a_store s2) = Some wia" "of_int expiry < x_now (ae_X E) (a_world s2)"
  shows "fst (shouldRequestAttestationSelector (ae_X E) (ae_memo E) s) = Inr False
    \<and> fst (shouldRequestAttestationSelector (ae_X E) (ae_memo E) (s2\<lparr>a_memo := unset\<rparr>)) = Inr True
    \<and> with_attestation E f s2 = f wia s2"
proof -
  have check: "shouldRequestAttestation (ae_X E) w (Some wia) = Inr (of_int expiry < x_now (ae_X E) w)" for w
    using wia(2) exp by (simp add: shouldRequestAttestation_def del: js_path.simps)
  have a: "fst (shouldRequestAttestationSelector (ae_X E) (ae_memo E) s) = Inr False"
    using memoizing_selector.fresh_answer [OF memo first(1)] wia(1) check first(2) by simp
  moreover have "fst (shouldRequestAttestationSelector (ae_X E) (ae_memo E) (s2\<lparr>a_memo := unset\<rparr>)) = Inr True"
    using memoizing_selector.fresh_answer [OF memo, of "s2\<lparr>a_memo := unset\<rparr>"] later check by simp
  moreover have "with_attestation E f s2 = f wia s2"
    using memoizing_selector.stale_answer [OF memo a later(1)] later(2) wia
    by (simp add: with_attestation_def bindA_def ioA_def getState_def present_def)
  ultimately show ?thesis by blast
qed

definition sample_device :: device where
  "sample_device = \<lparr>d_OS = android, d_addPadding = (\<lambda>s. s), d_sha256 = (\<lambda>s. s),
     d_generateHardwareKey = (\<lambda>_. Inr ''hk''), d_generateHardwareSignatureWithAssertion = (\<lambda>_ _ _. Inr ''as''),
     d_decodeAssertion = (\<lambda>_ _. Inr \<lparr>signature = ''s'', authenticatorData = ''a''\<rparr>),
     d_requestIntegrityToken = (\<lambda>_ _. Inr ''it''), d_getAttestation = (\<lambda>_ _ _. Inr ''att''),
     d_isAttestationServiceAvailable = (\<lambda>_. Inr True), d_isPlayServicesAvailable = (\<lambda>_. Inr True),
     d_prepareIntegrityToken = (\<lambda>_ _. Inr ()), d_openURL = (\<lambda>_ _. Inr ()),
     d_urlEvents = (\<lambda>_ _. []), d_timerDelay = (\<lambda>_ _. 0)\<rparr>"

text \<open>A clock that has passed every expiry once a uuid has been drawn.\<close>

definition sample_app :: "(string option \<times> bool) option app_env" where
  "sample_app = \<lparr>ae_X = (issuer_ext 404 ''{}'')\<lparr>x_now := (\<lambda>w. if w_uuids w = 0 then 0 else 10 ^ 16)\<rparr>,
     ae_G = sample_generated, ae_V = sample_vars, ae_D = sample_device, ae_memo = one_entry,
     ae_ser = (\<lambda>e. Str (err_message e))\<rparr>"

definition sample_app_state :: "nat \<Rightarrow> (string option \<times> bool) option \<Rightarrow> (string option \<times> bool) option app_state" where
  "sample_app_state n c = \<lparr>a_store = dispatch_all [fulfilled getAttestationThunk (Attestation ''wia'')],
     a_memo = c, a_world = sample_world\<lparr>w_uuids := n\<rparr>\<rparr>"

lemma expiry_check_is_stale_witness:
  "fst (shouldRequestAttestationSelector (ae_X sample_app) (ae_memo sample_app)
      (sample_app_state 1 (Some (Some ''wia'', False))\<lparr>a_memo := None\<rparr>)) = Inr True
   \<and> with_attestation sample_app (\<lambda>wia. ioA (returnIO wia)) (sample_app_state 1 (Some (Some ''wia'', False)))
    = ioA (returnIO ''wia'') (sample_app_state 1 (Some (Some ''wia'', False)))"
proof -
  let ?X = "ae_X sample_app" and ?s = "sample_app_state 0 None" and ?s2 = "sample_app_state 1 (Some (Some ''wia'', False))"
  have m: "memoizing_selector (ae_memo sample_app) None"
    by (simp add: sample_app_def one_entry_memo.memoizing_selector_axioms)
  have a: "selectAttestation (a_store (sample_app_state n c)) = Some ''wia''" for n c
    by (simp add: sample_app_state_def selectAttestation_def attestationReducer_def)
  have "(case wia_decode ?X ''wia'' of Inr d \<Rightarrow> (case js_path d [''payload'', ''exp''] of
      Inr seconds \<Rightarrow> (case date_of_seconds seconds of DateV (Some t) \<Rightarrow> 0 \<le> t \<and> t < 10 ^ 16 | _ \<Rightarrow> False) | _ \<Rightarrow> False) | _ \<Rightarrow> False)"
    by code_simp
  then obtain d seconds t where d: "wia_decode ?X ''wia'' = Inr d" "js_path d [''payload'', ''exp''] = Inr seconds"
    "date_of_seconds seconds = DateV (Some t)" and t: "0 \<le> t" "t < 10 ^ 16"
    by (auto simp del: js_path.simps split: sum.splits js.splits option.splits)
  have now: "x_now ?X (a_world ?s) = 0" "x_now ?X (a_world ?s2) = 10 ^ 16"
    by (simp_all add: sample_app_def sample_app_state_def)
  have "(of_int t :: rat) < of_int (10 ^ 16)" using t(2) by (simp only: of_int_less_iff)
  with t(1) have clock: "x_now ?X (a_world ?s) \<le> of_int t" "of_int t < x_now ?X (a_world ?s2)"
    unfolding now by simp_all
  have "shouldRequestAttestation ?X (a_world ?s) (Some ''wia'') = Inr False" by code_simp
  then have memo: "a_memo ?s2 = a_memo (snd (shouldRequestAttestationSelector ?X (ae_memo sample_app) ?s))"
    using a [of 0 None]
    by (simp add: shouldRequestAttestationSelector_def one_entry_def sample_app_def sample_app_state_def)
  have u: "a_memo ?s = None" by (simp add: sample_app_state_def)
  have "''wia'' \<noteq> []" by simp
  from expiry_check_is_stale [OF m a this d u clock(1) memo a clock(2)] show ?thesis by blast
qed

lemma redirect_listener_outcome_witness:
  "listenForAuthRedirect (sample_device\<lparr>d_urlEvents := (\<lambda>_ k. if k < 2 then [] else [''app://cb?code=c''])\<rparr>)
     ''app://cb'' ''https://idp'' None sample_world = Inr ''app://cb?code=c''"
proof -
  let ?D = "sample_device\<lparr>d_urlEvents := (\<lambda>_ k. if k < 2 then [] else [''app://cb?code=c''])\<rparr>"
  have inc: "str_includes ''app://cb'' ''app://cb?code=c''" by code_simp
  have "''app://cb'' \<noteq> [] \<and> ''https://idp'' \<noteq> [] \<and> isOk (d_openURL ?D ''https://idp'' sample_world)"
    by (simp add: sample_device_def isOk_iff)
  from mp [OF conjunct2 [OF conjunct2 [OF redirect_listener_outcome [where signal = None]]] this]
  obtain k where k: "find (str_includes ''app://cb'') (rev (d_urlEvents ?D sample_world k)) \<noteq> None
        \<or> 120000 \<le> poll_time ?D sample_world k"
    and r: "listenForAuthRedirect ?D ''app://cb'' ''https://idp'' None sample_world =
      (if \<exists>a. None = Some a \<and> a \<le> k then Inl (new_OperationAbortedError ''DefaultQueryModeAuthorization'')
       else case find (str_includes ''app://cb'') (rev (d_urlEvents ?D sample_world k)) of
         Some url \<Rightarrow> Inr url | None \<Rightarrow> Inl (new_Error ''Timeout exceeded''))"
    by blast
  have "poll_time ?D sample_world k = 400 * k" by (simp add: poll_time_def sample_device_def)
  with k have "\<not> k < 2" by (auto split: if_splits)
  with r inc show ?thesis by simp
qed

section \<open>Runs of a thunk\<close>

lemma bindA_Inr_iff:
  "bindA m f s = (Inr y, s'') \<longleftrightarrow> (\<exists>x s'. m s = (Inr x, s') \<and> f x s' = (Inr y, s''))"
  by (auto simp: bindA_def split: prod.splits sum.splits)

lemma getState_simp [simp]: "getState s = (Inr (a_store s), s)"
  by (simp add: getState_def)

lemma ioA_Inr_iff: "ioA m s = (Inr y, s') \<longleftrightarrow> (\<exists>w. m (a_world s) = (Inr y, w) \<and> s' = s\<lparr>a_world := w\<rparr>)"
  by (auto simp: ioA_def split: prod.splits)

lemma bindA_getState [simp]: "bindA getState f s = f (a_store s) s"
  by (simp add: bindA_def)

text \<open>\<open>only as m\<close>: whatever the computation does, it changes the store by dispatching some of the
  actions \<open>as\<close>.\<close>

definition only :: "(action \<Rightarrow> bool) \<Rightarrow> ('a, 'c) app \<Rightarrow> bool" where
  "only P m \<longleftrightarrow> (\<forall>s. \<exists>as. list_all P as \<and> a_store (snd (m s)) = foldl rootReducer (a_store s) as)"

lemma only_ioA [intro]: "only P (ioA m)"
  unfolding only_def by (intro allI exI [of _ "[]"]) (simp add: ioA_def split: prod.splits)

lemma only_getState [intro]: "only P getState"
  unfolding only_def by (intro allI exI [of _ "[]"]) simp

lemma only_dispatch [intro]: "P a \<Longrightarrow> only P (dispatch a)"
  unfolding only_def by (intro allI exI [of _ "[a]"]) (simp add: dispatch_def)

lemma only_selector [intro]: "only P (shouldRequestAttestationSelector X memo)"
  unfolding only_def
  by (intro allI exI [of _ "[]"]) (simp add: shouldRequestAttestationSelector_def split: prod.splits)

lemma only_bindA [intro]:
  assumes "only P m" and "\<And>x. only P (f x)"
  shows "only P (bindA m f)"
  unfolding only_def
proof
  fix s
  obtain r s1 where m: "m s = (r, s1)" by fastforce
  with assms(1) obtain as where as: "list_all P as" "a_store s1 = foldl rootReducer (a_store s) as"
    unfolding only_def by (metis snd_conv)
  show "\<exists>as. list_all P as \<and> a_store (snd (bindA m f s)) = foldl rootReducer (a_store s) as"
  proof (cases r)
    case (Inl e)
    with m as show ?thesis by (auto simp: bindA_def)
  next
    case (Inr x)
    obtain bs where "list_all P bs" "a_store (snd (f x s1)) = foldl rootReducer (a_store s1) bs"
      using assms(2) [of x] unfolding only_def by blast
    with m Inr as show ?thesis by (intro exI [of _ "as @ bs"]) (simp add: bindA_def)
  qed
qed

lemma only_run_thunk [intro]:
  fixes creator :: "(thunk_payload, 'c) app"
  assumes "only P creator" and "P (pending call)" and "\<And>p. P (fulfilled call p)" and "\<And>e. P (rejected call e)"
  shows "only P (run_thunk ser call creator)"
  unfolding only_def
proof
  fix s :: "'c app_state"
  let ?s = "s\<lparr>a_store := rootReducer (a_store s) (pending call)\<rparr>"
  obtain r s1 where m: "creator ?s = (r, s1)" by fastforce
  with assms(1) obtain as where as: "list_all P as" "a_store s1 = foldl rootReducer (a_store ?s) as"
    unfolding only_def by (metis snd_conv)
  let ?a = "case r of Inr p \<Rightarrow> fulfilled call p | Inl e \<Rightarrow> rejected call (ser e)"
  have "P ?a" using assms(3,4) by (cases r) simp_all
  then show "\<exists>as. list_all P as \<and> a_store (snd (run_thunk ser call creator s)) = foldl rootReducer (a_store s) as"
    using as assms(2) m
    by (intro exI [of _ "pending call # as @ [?a]"])
      (cases r, simp_all add: run_thunk_def dispatch_def)
qed

lemma run_thunk_outcome:
  obtains (ok) p s1 where "creator (s\<lparr>a_store := rootReducer (a_store s) (pending call)\<rparr>) = (Inr p, s1)"
      "run_thunk ser call creator s = (Inr (), s1\<lparr>a_store := rootReducer (a_store s1) (fulfilled call p)\<rparr>)"
    | (err) e s1 where "creator (s\<lparr>a_store := rootReducer (a_store s) (pending call)\<rparr>) = (Inl e, s1)"
      "run_thunk ser call creator s = (Inr (), s1\<lparr>a_store := rootReducer (a_store s1) (rejected call (ser e))\<rparr>)"
proof (cases "creator (s\<lparr>a_store := rootReducer (a_store s) (pending call)\<rparr>)")
  case (Pair r s1)
  then show thesis
    by (cases r) (auto simp: run_thunk_def dispatch_def intro: ok err)
qed

section \<open>Obtaining a credential\<close>

lemma finish_issuance_verified:
  assumes zod: "zod_library (x_zod X)"
    and ok: "finish_issuance X XA conf code client uri verifier definition wia wiaCtx tag ign t w = (Inr r, w')"
  shows "r_credentialType r = t \<and> r_keyTag r = tag
    \<and> (\<exists>issuerKeys d wv. js_path conf [''openid_credential_issuer'', ''jwks'', ''keys''] = Inr issuerKeys
        \<and> credential_accepted X issuerKeys (r_credential r) (createCryptoContextFor X tag) wv d)"
proof -
  from ok obtain format p w1 w2 where
      v: "verifyAndParseCredential X conf (r_credential r) format (createCryptoContextFor X tag) ign False w1 = (Inr p, w2)"
    and r: "r_credentialType r = t" "r_keyTag r = tag"
    unfolding finish_issuance_def Let_def bindIO_Inr_iff by auto
  then have f: "format = ''vc+sd-jwt''" by (auto simp: verifyAndParseCredential_def split: if_splits)
  with v obtain issuerKeys dec w3 where
      "js_path conf [''openid_credential_issuer'', ''jwks'', ''keys''] = Inr issuerKeys"
    and "verifyCredentialSdJwt X (r_credential r) issuerKeys (createCryptoContextFor X tag) w1 = (Inr dec, w3)"
    by (auto simp: verifyAndParseCredential_def verifyAndParseCredentialSdJwt_def bindIO_Inr_iff Let_def
        simp del: js_path.simps)
  with verifyCredentialSdJwt_ok [OF zod] r show ?thesis by blast
qed

text \<open>What the application may rely on for a credential it has stored: the metadata came from the
  configured provider, and the credential was accepted for the keys published there and the key
  stored under the result's tag.\<close>

definition issued_by :: "ext \<Rightarrow> string \<Rightarrow> 't credential_result \<Rightarrow> bool" where
  "issued_by X url r \<longleftrightarrow> (\<exists>conf w0 w1 issuerKeys d wv. evaluateIssuerTrust X url w0 = (Inr conf, w1)
     \<and> js_path conf [''openid_credential_issuer'', ''jwks'', ''keys''] = Inr issuerKeys
     \<and> credential_accepted X issuerKeys (r_credential r) (createCryptoContextFor X (r_keyTag r)) wv d)"

lemma getCredential_issued:
  assumes "zod_library (x_zod X)"
    and "getCredential X XA url uri t wia wiaCtx pid pidCtx w = (Inr r, w')"
  shows "r_credentialType r = t \<and> issued_by X url r"
proof -
  from assms(2) obtain tag conf w0 w1 code client verifier defn w2 where
      "evaluateIssuerTrust X url w0 = (Inr conf, w1)"
    and "finish_issuance X XA conf code client uri verifier defn wia wiaCtx tag True t w2 = (Inr r, w')"
    unfolding getCredential_def bindIO_Inr_iff by blast
  with finish_issuance_verified [OF assms(1)] show ?thesis
    unfolding issued_by_def by metis
qed

lemma only_getAttestation_creator: "only P (getAttestation_creator E)"
  unfolding getAttestation_creator_def only_def
  by (auto intro!: exI [of _ "[]"] simp: bindA_def ioA_def split: option.splits prod.splits sum.splits)

text \<open>The attestation head of a thunk dispatches the actions of the attestation thunk at most.\<close>

fun concerns_attestation :: "action \<Rightarrow> bool" where
  "concerns_attestation (pending getAttestationThunk) = True"
| "concerns_attestation (fulfilled getAttestationThunk _) = True"
| "concerns_attestation (rejected getAttestationThunk _) = True"
| "concerns_attestation _ = False"

lemma only_attestation_head:
  "only concerns_attestation (bindA (shouldRequestAttestationSelector (ae_X E) (ae_memo E))
    (\<lambda>needed. if needed then run_getAttestation E else ioA (returnIO ())))"
proof (rule only_bindA [OF only_selector])
  fix needed
  have "only concerns_attestation (run_getAttestation E)"
    unfolding run_getAttestation_def by (rule only_run_thunk [OF only_getAttestation_creator]) simp_all
  then show "only concerns_attestation (if needed then run_getAttestation E else ioA (returnIO ()))"
    by (simp add: only_ioA)
qed

lemma bindA_assoc: "bindA (bindA m f) g = bindA m (\<lambda>x. bindA (f x) g)"
  by (rule ext) (simp add: bindA_def split: prod.splits sum.splits)

lemma only_with_attestation:
  assumes "\<And>wia. only concerns_attestation (f wia)"
  shows "only concerns_attestation (with_attestation E f)"
  unfolding with_attestation_def bindA_assoc [symmetric]
  by (intro only_bindA only_attestation_head only_getState)
    (auto split: option.splits intro: assms only_ioA)

definition attested :: "RootState \<Rightarrow> RootState \<Rightarrow> bool" where
  "attested st st' \<longleftrightarrow> (\<exists>as. list_all concerns_attestation as \<and> st' = foldl rootReducer st as)"

lemma only_attested: "only concerns_attestation m \<Longrightarrow> m s = (r, s') \<Longrightarrow> attested (a_store s) (a_store s')"
  unfolding only_def attested_def by (metis snd_conv)

lemma with_attestation_Inr:
  assumes "with_attestation E f s = (Inr y, s')"
  obtains wia s1 where "f wia s1 = (Inr y, s')" "attested (a_store s) (a_store s1)"
    "selectAttestation (a_store s1) = Some wia" "wia \<noteq> []"
proof -
  let ?h = "bindA (shouldRequestAttestationSelector (ae_X E) (ae_memo E))
    (\<lambda>needed. if needed then run_getAttestation E else ioA (returnIO ()))"
  from assms obtain u s1 wia where h: "?h s = (Inr u, s1)" and w: "present (selectAttestation (a_store s1)) = Some wia"
    and f: "f wia s1 = (Inr y, s')"
    by (auto simp: with_attestation_def bindA_Inr_iff ioA_Inr_iff split: option.splits)
  from only_attested [OF only_attestation_head h] w f show ?thesis
    by (intro that) (auto simp: present_def split: option.splits if_splits)
qed

lemma attested_keeps:
  assumes "attested st st'"
  shows "selectEnv st' = selectEnv st" "selectPid st' = selectPid st" "selectCredentials st' = selectCredentials st"
proof -
  have "selectEnv (foldl rootReducer st as) = selectEnv st \<and> selectPid (foldl rootReducer st as) = selectPid st
      \<and> selectCredentials (foldl rootReducer st as) = selectCredentials st"
    if "list_all concerns_attestation as" for as st
    using that
    by (induction as arbitrary: st)
      (auto simp: selectEnv_def selectPid_def selectCredentials_def environmentReducer_def pidReducer_def
        credentialReducer_def elim!: concerns_attestation.elims)
  with assms show "selectEnv st' = selectEnv st" "selectPid st' = selectPid st"
    "selectCredentials st' = selectCredentials st"
    by (auto simp: attested_def)
qed

lemma only_getCredential_creator: "only concerns_attestation (getCredential_creator E t)"
  unfolding getCredential_creator_def
  by (rule only_with_attestation)
    (auto intro!: only_bindA only_getState only_ioA simp: Let_def split: option.splits)

lemma getCredential_creator_Inr:
  fixes E :: "'c app_env"
  assumes "getCredential_creator E t s0 = (Inr p, s1)"
  obtains r and pid :: PidResult and wia and s2 :: "'c app_state" and w where "p = CredentialObtained r"
    "getCredential (ae_X E) (app_ext E (a_store s2))
        (WALLET_EAA_PROVIDER_BASE_URL (getEnv (ae_V E) (selectEnv (a_store s2))))
        (REDIRECT_URI (getEnv (ae_V E) (selectEnv (a_store s2)))) t wia
        (createCryptoContextFor (ae_X E) WIA_KEYTAG) (r_credential pid)
        (createCryptoContextFor (ae_X E) (r_keyTag pid)) (a_world s2) = (Inr r, w)"
    "attested (a_store s0) (a_store s2)"
proof -
  from assms show thesis
    unfolding getCredential_creator_def
    by (rule with_attestation_Inr)
      (auto simp: Let_def bindA_Inr_iff ioA_Inr_iff split: option.splits intro: that)
qed

text \<open>C5. The credential thunk from end to end: it always settles.  Either the store then shows it done
  and holds, under the requested type, a credential issued by the configured provider, accepted for
  the keys that provider publishes and bound to the key stored under the result's tag; or it shows
  it failed, and the stored credentials are what they were.\<close>

theorem getCredential_thunk_outcome:
  fixes E :: "'c app_env"
  assumes zod: "zod_library (x_zod (ae_X E))"
  shows "(let s' = snd (run_getCredential E t s) in
    (selectCredentialAsyncStatus t (a_store s') = async_done
      \<and> (\<exists>r. selectCredential t (a_store s') = Some r \<and> issued_by (ae_X E)
            (WALLET_EAA_PROVIDER_BASE_URL (getEnv (ae_V E) (selectEnv (a_store s)))) r))
    \<or> (\<exists>e. selectCredentialAsyncStatus t (a_store s') = async_failed e
      \<and> selectCredentials (a_store s') = selectCredentials (a_store s)))"
proof -
  let ?s0 = "s\<lparr>a_store := rootReducer (a_store s) (pending (getCredentialThunk t))\<rparr>"
  note defs = selectCredentialAsyncStatus_def selectCredential_def selectCredentials_def credentialReducer_def
  have env0: "selectEnv (a_store ?s0) = selectEnv (a_store s)"
    by (simp add: selectEnv_def environmentReducer_def)
  show ?thesis
  proof (cases rule: run_thunk_outcome [of "getCredential_creator E t" s "getCredentialThunk t" "ae_ser E"])
    case (ok p s1)
    from getCredential_creator_Inr [OF ok(1)] obtain r and pid :: PidResult and wia and s2 :: "'c app_state" and w where p: "p = CredentialObtained r"
      and g: "getCredential (ae_X E) (app_ext E (a_store s2))
        (WALLET_EAA_PROVIDER_BASE_URL (getEnv (ae_V E) (selectEnv (a_store s2))))
        (REDIRECT_URI (getEnv (ae_V E) (selectEnv (a_store s2)))) t wia
        (createCryptoContextFor (ae_X E) WIA_KEYTAG) (r_credential pid)
        (createCryptoContextFor (ae_X E) (r_keyTag pid)) (a_world s2) = (Inr r, w)"
      and att: "attested (a_store ?s0) (a_store s2)" .
    have "selectEnv (a_store s2) = selectEnv (a_store s)"
      using attested_keeps(1) [OF att] env0 by simp
    with getCredential_issued [OF zod g] ok(2) p show ?thesis
      by (simp add: run_getCredential_def defs)
  next
    case (err e s1)
    have "selectCredentials (a_store s1) = selectCredentials (a_store s)"
      using attested_keeps(3) [OF only_attested [OF only_getCredential_creator err(1)]] by (simp add: defs)
    with err(2) show ?thesis by (simp add: run_getCredential_def defs) blast
  qed
qed

lemma getCredential_thunk_outcome_witness:
  "(let s' = snd (run_getCredential sample_app MDL (sample_app_state 0 None)) in
    (selectCredentialAsyncStatus MDL (a_store s') = async_done
      \<and> (\<exists>r. selectCredential MDL (a_store s') = Some r \<and> issued_by (ae_X sample_app)
            (WALLET_EAA_PROVIDER_BASE_URL (getEnv (ae_V sample_app) (selectEnv (a_store (sample_app_state 0 None))))) r))
    \<or> (\<exists>e. selectCredentialAsyncStatus MDL (a_store s') = async_failed e
      \<and> selectCredentials (a_store s') = selectCredentials (a_store (sample_app_state 0 None))))"
  by (rule getCredential_thunk_outcome)
    (simp add: sample_app_def issuer_ext_def sample_ext_def reference_zod.zod_library_axioms)

section \<open>Revoking the wallet instance\<close>

text \<open>C37. Revoking the wallet instance is all or nothing for the store: the revocation is shown as done
  exactly when there is a key tag and the wallet provider carried the revocation of that instance out,
  and then the key tag, the attestation, the credentials and the PID are gone; otherwise it is shown
  as failed and all of them are kept.  The session stays either way.\<close>

theorem revoke_thunk_outcome:
  "(let st = a_store s; st' = a_store (snd (run_revokeWalletInstance E s));
        st1 = rootReducer st (pending revokeWalletInstanceThunk);
        revoked = (\<exists>tag. present (selectInstanceKeyTag st) = Some tag \<and> isOk (fst (revokeWalletInstance (app_ext E st1)
          (ae_G E) tag (WALLET_PROVIDER_BASE_URL (getEnv (ae_V E) (selectEnv st))) (a_world s)))) in
    selectIoAuthToken st' = selectIoAuthToken st
    \<and> (if revoked then selectInstanceRevocationAsyncStatus st' = async_done
        \<and> selectInstanceKeyTag st' = None \<and> selectAttestation st' = None
        \<and> selectObtainedCredentials st' = [] \<and> selectPid st' = None
      else (\<exists>e. selectInstanceRevocationAsyncStatus st' = async_failed e)
        \<and> selectInstanceKeyTag st' = selectInstanceKeyTag st \<and> selectAttestation st' = selectAttestation st
        \<and> selectCredentials st' = selectCredentials st \<and> selectPid st' = selectPid st))"
proof -
  note defs = user_selectors reducer_defs selectInstanceRevocationAsyncStatus_def List.map_filter_simps
    selectEnv_def environmentReducer_def
  show ?thesis
  proof (cases rule: run_thunk_outcome [of "revokeWalletInstance_creator E" s revokeWalletInstanceThunk "ae_ser E"])
    case (ok p s1)
    then show ?thesis
      by (auto simp: revokeWalletInstance_creator_def run_revokeWalletInstance_def Let_def defs dispatch_def
          bindA_Inr_iff ioA_Inr_iff split: option.splits)
  next
    case (err e s1)
    then show ?thesis
      by (auto simp: revokeWalletInstance_creator_def run_revokeWalletInstance_def Let_def defs dispatch_def
          bindA_def ioA_def isOk_iff split: option.splits prod.splits sum.splits)
  qed
qed

end
