(* ===== verification/Cie.thy ===== *)
theory Cie
  imports App_Flows
begin

text \<open>
  Reading the identity card in the example application, \<open>example/src/components/cie\<close> and
  \<open>example/src/components/TestCieL3Scenario.tsx\<close>: the errors of the card reader, the two start
  procedures, the translation of the reader's events, the component that holds the web view and the
  scenario around it.

  The package \<open>@pagopa/react-native-cie\<close> is a parameter: what each of its calls answers and how it
  prints a thrown value.  The functions passed as callbacks (\<open>onEvent\<close>, \<open>onError\<close>, \<open>onSuccess\<close>)
  are recorded as effects, in the order in which they are called.
\<close>

section \<open>Errors, \<open>cie/error.ts\<close>\<close>

datatype CieErrorType = GENERIC | TAG_NOT_VALID | WEB_VIEW_ERROR | NFC_ERROR
  | AUTHENTICATION_ERROR | PIN_ERROR | PIN_LOCKED | CERTIFICATE_ERROR

fun cie_error_number :: "CieErrorType \<Rightarrow> nat" where
  "cie_error_number GENERIC = 0"
| "cie_error_number TAG_NOT_VALID = 1"
| "cie_error_number WEB_VIEW_ERROR = 2"
| "cie_error_number NFC_ERROR = 3"
| "cie_error_number AUTHENTICATION_ERROR = 4"
| "cie_error_number PIN_ERROR = 5"
| "cie_error_number PIN_LOCKED = 6"
| "cie_error_number CERTIFICATE_ERROR = 7"

fun cie_error_name :: "CieErrorType \<Rightarrow> string" where
  "cie_error_name GENERIC = ''GENERIC''"
| "cie_error_name TAG_NOT_VALID = ''TAG_NOT_VALID''"
| "cie_error_name WEB_VIEW_ERROR = ''WEB_VIEW_ERROR''"
| "cie_error_name NFC_ERROR = ''NFC_ERROR''"
| "cie_error_name AUTHENTICATION_ERROR = ''AUTHENTICATION_ERROR''"
| "cie_error_name PIN_ERROR = ''PIN_ERROR''"
| "cie_error_name PIN_LOCKED = ''PIN_LOCKED''"
| "cie_error_name CERTIFICATE_ERROR = ''CERTIFICATE_ERROR''"

record CieError =
  ce_message :: string
  ce_type :: CieErrorType
  ce_attemptsLeft :: js

text \<open>The constructor: \<open>options.type\<close> may be missing, and the member \<open>GENERIC\<close> is the falsy 0.\<close>

definition new_CieError :: "string \<Rightarrow> CieErrorType option \<Rightarrow> js \<Rightarrow> CieError" where
  "new_CieError message type_option attemptsLeft =
     (let t = (case type_option of Some t \<Rightarrow> if cie_error_number t \<noteq> 0 then t else GENERIC
               | None \<Rightarrow> GENERIC) in
      \<lparr>ce_message = message, ce_type = t,
       ce_attemptsLeft = (if t = PIN_ERROR then attemptsLeft
         else if t = PIN_LOCKED then Num 0 else Undef)\<rparr>)"

definition CieError_toString :: "CieError \<Rightarrow> string" where
  "CieError_toString e = stringify (Obj [(''name'', Str ''CieError''),
     (''type'', Str (cie_error_name (ce_type e))), (''message'', Str (ce_message e)),
     (''attemptsLeft'', ce_attemptsLeft e)])"

section \<open>The reader, \<open>cie/manager.ts\<close>\<close>

datatype CieEvent = reading | completed | waiting_card

text \<open>The calls on \<open>cieManager\<close>; the three handlers that are registered are those below.\<close>

datatype cie_call =
    RemoveAllListeners | Start | ListenEvents | ListenErrors | ListenSuccess
  | SetPin string | SetAuthenticationUrl string | EnableLog bool
  | SetCustomIdpUrl "string option" | StartListeningNFC

datatype sdk_answer = Answers | Throws js_error | Rejects js_error

record cie_sdk =
  sdk_answer_to :: "cie_call \<Rightarrow> sdk_answer"
  sdk_text :: "js_error \<Rightarrow> string"

text \<open>What the callbacks and the package are called with.  \<open>Raw\<close> is a rejection passed on unwrapped
  by \<open>.catch(onError)\<close>, \<open>Uncaught\<close> an exception that leaves an event handler, \<open>StartLoading\<close> the
  answer to the web view whether a page may load.\<close>

datatype report = CieErr CieError | Raw js_error

datatype cie_effect =
    Sdk cie_call | OnEvent CieEvent | OnError report | OnSuccess string
  | Uncaught js_error | StartLoading bool

text \<open>A failing call: the result of a call that is not awaited is dropped.\<close>

definition awaited :: "cie_call \<Rightarrow> bool" where
  "awaited c = (case c of SetPin _ \<Rightarrow> True | StartListeningNFC \<Rightarrow> True | _ \<Rightarrow> False)"

definition call_failure :: "cie_sdk \<Rightarrow> cie_call \<Rightarrow> js_error option" where
  "call_failure S c = (case sdk_answer_to S c of Answers \<Rightarrow> None | Throws e \<Rightarrow> Some e
     | Rejects e \<Rightarrow> if awaited c then Some e else None)"

text \<open>Calls in sequence: those made, and the exception that stopped them.\<close>

fun run_calls :: "cie_sdk \<Rightarrow> cie_call list \<Rightarrow> cie_call list \<times> js_error option" where
  "run_calls S [] = ([], None)"
| "run_calls S (c # cs) = (case call_failure S c of
     Some e \<Rightarrow> ([c], Some e)
   | None \<Rightarrow> map_prod (\<lambda>made. c # made) id (run_calls S cs))"

definition BASE_UAT_URL :: string where
  "BASE_UAT_URL = ''https://collaudo.idserver.servizicie.interno.gov.it/idp/''"

definition getCieUatEndpoint :: "platform \<Rightarrow> string option" where
  "getCieUatEndpoint os = (case os of
     ios \<Rightarrow> Some (BASE_UAT_URL @ ''Authn/SSL/Login2'')
   | android \<Rightarrow> Some BASE_UAT_URL
   | other_platform \<Rightarrow> None)"

text \<open>\<open>cieManager.start().then(...).catch(onError)\<close>: an exception of \<open>start\<close> itself goes to the
  enclosing \<open>catch\<close>, given here as \<open>caught\<close>; a rejection, and every failure of the continuation,
  to \<open>onError\<close>.\<close>

definition start_then ::
  "cie_sdk \<Rightarrow> (js_error \<Rightarrow> cie_effect) \<Rightarrow> cie_call list \<Rightarrow> cie_effect list" where
  "start_then S caught continuation = Sdk Start # (case sdk_answer_to S Start of
     Throws e \<Rightarrow> [caught e]
   | Rejects e \<Rightarrow> [OnError (Raw e)]
   | Answers \<Rightarrow> (case run_calls S continuation of (made, failure) \<Rightarrow>
       map Sdk made @ [case failure of Some e \<Rightarrow> OnError (Raw e) | None \<Rightarrow> OnEvent waiting_card]))"

definition unable_to_start :: "cie_sdk \<Rightarrow> string \<Rightarrow> js_error \<Rightarrow> cie_effect" where
  "unable_to_start S os_name e = OnError (CieErr (new_CieError
     (''Unable to start CIE NFC manager on '' @ os_name @ '': '' @ sdk_text S e)
     (Some NFC_ERROR) Undef))"

definition startCieAndroid :: "cie_sdk \<Rightarrow> platform \<Rightarrow> bool \<Rightarrow> string \<Rightarrow> string \<Rightarrow> cie_effect list" where
  "startCieAndroid S os useCieUat ciePin cieAuthorizationUri =
     (case run_calls S [RemoveAllListeners] of
        (made, Some e) \<Rightarrow> map Sdk made @ [unable_to_start S ''Android'' e]
      | (made, None) \<Rightarrow> map Sdk made @ start_then S (unable_to_start S ''Android'')
          [ListenEvents, ListenErrors, ListenSuccess, SetPin ciePin,
           SetAuthenticationUrl cieAuthorizationUri, EnableLog useCieUat,
           SetCustomIdpUrl (if useCieUat then getCieUatEndpoint os else None), StartListeningNFC])"

definition startCieiOS :: "cie_sdk \<Rightarrow> platform \<Rightarrow> bool \<Rightarrow> string \<Rightarrow> string \<Rightarrow> cie_effect list" where
  "startCieiOS S os useCieUat ciePin cieAuthorizationUri =
     (case run_calls S
        [RemoveAllListeners, ListenEvents, ListenErrors, ListenSuccess, EnableLog useCieUat,
         SetCustomIdpUrl (if useCieUat then getCieUatEndpoint os else None), SetPin ciePin,
         SetAuthenticationUrl cieAuthorizationUri] of
        (made, Some e) \<Rightarrow> map Sdk made @ [unable_to_start S ''iOS'' e]
      | (made, None) \<Rightarrow> map Sdk made @ start_then S (unable_to_start S ''iOS'') [StartListeningNFC])"

text \<open>The reader's events.\<close>

record cie_sdk_event =
  ev_event :: string
  ev_attemptsLeft :: js

definition handleCieEvent :: "cie_sdk_event \<Rightarrow> cie_effect list" where
  "handleCieEvent ev = (let e = ev_event ev;
       fail = (\<lambda>message t. [OnError (CieErr (new_CieError message (Some t) Undef))]) in
     if e = ''ON_TAG_DISCOVERED'' then [OnEvent reading]
     else if e = ''Function not supported'' \<or> e = ''TAG_ERROR_NFC_NOT_SUPPORTED''
       \<or> e = ''ON_TAG_DISCOVERED_NOT_CIE''
     then fail (''Invalid CIE card:  '' @ e) TAG_NOT_VALID
     else if e = ''AUTHENTICATION_ERROR'' \<or> e = ''ON_NO_INTERNET_CONNECTION''
     then fail ''Authentication error or no internet connection'' AUTHENTICATION_ERROR
     else if e = ''EXTENDED_APDU_NOT_SUPPORTED'' then fail ''APDU not supported'' NFC_ERROR
     else if e = ''Transmission Error'' \<or> e = ''ON_TAG_LOST'' then fail ''Trasmission error'' NFC_ERROR
     else if e = ''PIN Locked'' \<or> e = ''ON_CARD_PIN_LOCKED'' then fail ''PIN locked'' PIN_LOCKED
     else if e = ''ON_PIN_ERROR''
     then [OnError (CieErr (new_CieError ''PIN locked'' (Some PIN_ERROR) (ev_attemptsLeft ev)))]
     else if e = ''CERTIFICATE_EXPIRED'' then fail ''Certificate expired'' CERTIFICATE_ERROR
     else if e = ''CERTIFICATE_REVOKED'' then fail ''Certificate revoked'' CERTIFICATE_ERROR
     else [])"

subsection \<open>\<open>decodeURIComponent\<close>\<close>

text \<open>An escape stands for a byte; the bytes of a run of escapes must be the UTF-8 encoding of a
  character.  \<open>utf8_trail\<close> gives the number of bytes that follow a leading byte.\<close>

fun pct_byte :: "string \<Rightarrow> (nat \<times> string) option" where
  "pct_byte (p # h # l # r) = (if p = CHR ''%'' then (case (hex_val h, hex_val l) of
       (Some a, Some b) \<Rightarrow> Some (16 * a + b, r) | _ \<Rightarrow> None) else None)"
| "pct_byte _ = None"

definition utf8_trail :: "nat \<Rightarrow> nat option" where
  "utf8_trail b = (if b < 128 then Some 0 else if 194 \<le> b \<and> b \<le> 223 then Some 1
     else if 224 \<le> b \<and> b \<le> 239 then Some 2 else if 240 \<le> b \<and> b \<le> 244 then Some 3 else None)"

text \<open>Overlong forms, surrogates and values beyond the last code point are excluded by the byte
  after the leading one.\<close>

definition second_ok :: "nat \<Rightarrow> nat list \<Rightarrow> bool" where
  "second_ok b bs = (case bs of [] \<Rightarrow> True | c # _ \<Rightarrow>
     (b = 224 \<longrightarrow> 160 \<le> c) \<and> (b = 237 \<longrightarrow> c \<le> 159) \<and> (b = 240 \<longrightarrow> 144 \<le> c) \<and> (b = 244 \<longrightarrow> c \<le> 143))"

fun trail_bytes :: "nat \<Rightarrow> string \<Rightarrow> (nat list \<times> string) option" where
  "trail_bytes 0 s = Some ([], s)"
| "trail_bytes (Suc n) s = (case pct_byte s of
     Some (b, r) \<Rightarrow> if 128 \<le> b \<and> b \<le> 191 then map_option (map_prod (\<lambda>bs. b # bs) id) (trail_bytes n r)
       else None
   | None \<Rightarrow> None)"

definition pct_char :: "string \<Rightarrow> (string \<times> string) option" where
  "pct_char s = (case pct_byte s of
     Some (b, r) \<Rightarrow> (case utf8_trail b of
         Some n \<Rightarrow> (case trail_bytes n r of
             Some (bs, r') \<Rightarrow> if second_ok b bs then Some (map char_of (b # bs), r') else None
           | None \<Rightarrow> None)
       | None \<Rightarrow> None)
   | None \<Rightarrow> None)"

lemma pct_byte_length: "pct_byte s = Some (b, r) \<Longrightarrow> length r < length s"
  by (induction s rule: pct_byte.induct) (auto split: if_splits option.splits)

lemma trail_bytes_length: "trail_bytes n s = Some (bs, r) \<Longrightarrow> length r \<le> length s"
  by (induction n s arbitrary: bs rule: trail_bytes.induct)
    (fastforce split: option.splits prod.splits if_splits dest: pct_byte_length)+

lemma pct_char_length: "pct_char s = Some (c, r) \<Longrightarrow> length r < length s"
  by (auto simp: pct_char_def split: option.splits prod.splits if_splits
      dest!: pct_byte_length trail_bytes_length)

function decodeURIComponent :: "string \<Rightarrow> string res" where
  "decodeURIComponent [] = Inr []"
| "decodeURIComponent (c # cs) =
     (if c \<noteq> CHR ''%'' then bindR (decodeURIComponent cs) (\<lambda>t. Inr (c # t))
      else (case pct_char (c # cs) of
          Some (bytes, rest) \<Rightarrow> bindR (decodeURIComponent rest) (\<lambda>t. Inr (bytes @ t))
        | None \<Rightarrow> Inl URIError))"
  by pat_completeness auto

termination
  by (relation "measure length") (auto dest: pct_char_length)

declare decodeURIComponent.simps(2) [simp del]

section \<open>The web view, \<open>cie/component.tsx\<close>\<close>

record CIEParams =
  cp_authUrl :: string
  cp_pin :: string
  cp_useUat :: bool
  cp_redirectUrl :: string

record webview =
  wv_params :: CIEParams
  webViewUrl :: string
  isCardReadingFinished :: bool
  cieCompletedEventEmitted :: bool

definition webview_mounted :: "CIEParams \<Rightarrow> webview" where
  "webview_mounted params = \<lparr>wv_params = params, webViewUrl = cp_authUrl params,
     isCardReadingFinished = False, cieCompletedEventEmitted = False\<rparr>"

text \<open>The script injected in the page: the links are pairs of text and address, in document order.
  The address of the first link that offers the card reading is posted to the application.\<close>

definition AUTH_LINK_PATTERN :: string where
  "AUTH_LINK_PATTERN = ''lettura carta''"

definition sendDocumentContent :: "(string \<times> string) list \<Rightarrow> string option" where
  "sendDocumentContent links =
     (case map snd (filter (\<lambda>(txt, _). str_includes AUTH_LINK_PATTERN (map lower txt)) links) of
        [] \<Rightarrow> None
      | idpAuthUrl # _ \<Rightarrow> if idpAuthUrl = [] then None else Some idpAuthUrl)"

definition continueWithUrl :: "string \<Rightarrow> webview \<Rightarrow> webview" where
  "continueWithUrl callbackUrl v = v\<lparr>isCardReadingFinished := True, webViewUrl := callbackUrl\<rparr>"

definition handleCieSuccess :: "string \<Rightarrow> webview \<Rightarrow> webview \<times> cie_effect list" where
  "handleCieSuccess url v = (case decodeURIComponent url of
     Inr callbackUrl \<Rightarrow> (continueWithUrl callbackUrl v, [])
   | Inl e \<Rightarrow> (v, [Uncaught e]))"

definition handleMessage :: "cie_sdk \<Rightarrow> platform \<Rightarrow> string \<Rightarrow> webview \<Rightarrow> cie_effect list" where
  "handleMessage S os cieAuthorizationUri v =
     (if os = ios then startCieiOS else startCieAndroid) S os (cp_useUat (wv_params v))
       (cp_pin (wv_params v)) cieAuthorizationUri"

definition handleShouldStartLoading :: "string \<Rightarrow> webview \<Rightarrow> cie_effect list" where
  "handleShouldStartLoading url v =
     (if isCardReadingFinished v \<and> str_includes (cp_redirectUrl (wv_params v)) url
      then [OnSuccess url, StartLoading False] else [StartLoading True])"

text \<open>\<open>handleOnError\<close> reads the event without testing it; its argument is a web view event or an
  \<open>Error\<close>.  The result is the error passed to \<open>onError\<close>, or the exception that reading throws.\<close>

definition handleOnError :: "js \<Rightarrow> CieError res" where
  "handleOnError e =
     bindR (js_get e ''nativeEvent'') (\<lambda>nativeEvent.
     bindR (js_get nativeEvent ''statusCode'') (\<lambda>statusCode.
     if truthy statusCode then bindR (js_get nativeEvent ''description'') (\<lambda>description.
       Inr (new_CieError (''WebView http error: '' @ to_str description @ '' with status code: ''
         @ to_str statusCode) (Some WEB_VIEW_ERROR) Undef))
     else if truthy nativeEvent then
       bindR (js_get nativeEvent ''code'') (\<lambda>code.
       bindR (js_get nativeEvent ''description'') (\<lambda>description.
       Inr (new_CieError (''WebView error: '' @ to_str description @ '' with code: '' @ to_str code)
         (Some WEB_VIEW_ERROR) Undef)))
     else bindR (js_get e ''message'') (\<lambda>message.
       if message \<noteq> Undef then Inr (new_CieError (to_str message) (Some WEB_VIEW_ERROR) Undef)
       else Inr (new_CieError ''An error occurred in the WebView'' (Some WEB_VIEW_ERROR) Undef))))"

definition report_error :: "js \<Rightarrow> cie_effect list" where
  "report_error e = (case handleOnError e of
     Inr err \<Rightarrow> [OnError (CieErr err)] | Inl thrown \<Rightarrow> [Uncaught thrown])"

text \<open>\<open>new Error(m)\<close> as the object whose properties the handler reads.\<close>

definition error_object :: "string \<Rightarrow> js" where
  "error_object m = Obj [(''message'', Str m)]"

definition is_error_page :: "string \<Rightarrow> bool" where
  "is_error_page eventTitle =
     (eventTitle = ''pagina web non disponibile'' \<or> eventTitle = ''errore'')"

definition handleOnLoadEnd :: "string \<Rightarrow> webview \<Rightarrow> webview \<times> cie_effect list" where
  "handleOnLoadEnd pageTitle v = (let eventTitle = map lower pageTitle in
     case (if is_error_page eventTitle then map_sum id (\<lambda>err. [OnError (CieErr err)])
             (handleOnError (error_object eventTitle)) else Inr []) of
       Inl thrown \<Rightarrow> (v, [Uncaught thrown])
     | Inr reported \<Rightarrow>
         if isCardReadingFinished v \<and> \<not> cieCompletedEventEmitted v
         then (v\<lparr>cieCompletedEventEmitted := True\<rparr>, reported @ [OnEvent completed])
         else (v, reported))"

text \<open>What can happen to the mounted component: a message of the injected script, the callbacks of
  the reader, and the events of the web view.\<close>

datatype webview_event =
    PageMessage string
  | CardEvent cie_sdk_event
  | CardError string
  | CardSuccess string
  | LoadEnd string
  | LoadError js
  | Navigation string

fun webview_step :: "cie_sdk \<Rightarrow> platform \<Rightarrow> webview \<Rightarrow> webview_event \<Rightarrow> webview \<times> cie_effect list" where
  "webview_step S os v (PageMessage uri) = (v, handleMessage S os uri v)"
| "webview_step S os v (CardEvent ev) = (v, handleCieEvent ev)"
| "webview_step S os v (CardError message) = (v, [OnError (CieErr (new_CieError message None Undef))])"
| "webview_step S os v (CardSuccess url) = handleCieSuccess url v"
| "webview_step S os v (LoadEnd title) = handleOnLoadEnd title v"
| "webview_step S os v (LoadError e) = (v, report_error e)"
| "webview_step S os v (Navigation url) = (v, handleShouldStartLoading url v)"

text \<open>Once the component is unmounted the reader may still call back: the setters have no effect
  then, the callbacks of the parameters do.\<close>

fun unmounted_step :: "webview_event \<Rightarrow> cie_effect list" where
  "unmounted_step (CardEvent ev) = handleCieEvent ev"
| "unmounted_step (CardError message) = [OnError (CieErr (new_CieError message None Undef))]"
| "unmounted_step (CardSuccess url) =
     (case decodeURIComponent url of Inr _ \<Rightarrow> [] | Inl e \<Rightarrow> [Uncaught e])"
| "unmounted_step _ = []"

fun webview_run :: "cie_sdk \<Rightarrow> platform \<Rightarrow> webview \<Rightarrow> webview_event list \<Rightarrow>
    webview \<times> cie_effect list" where
  "webview_run S os v [] = (v, [])"
| "webview_run S os v (ev # evs) = (case webview_step S os v ev of
     (v', effects) \<Rightarrow> map_prod id (\<lambda>later. effects @ later) (webview_run S os v' evs))"

section \<open>The scenario, \<open>TestCieL3Scenario.tsx\<close>\<close>

record cie_scenario =
  modalText :: "string option"
  isModalVisible :: bool
  isHidden :: bool
  sc_webview :: "webview option"

definition scenario_initial :: cie_scenario where
  "scenario_initial = \<lparr>modalText = None, isModalVisible = False, isHidden = True, sc_webview = None\<rparr>"

datatype app_effect =
    Dispatch action
  | DispatchThunk thunk_call
  | Alert string
  | Reader cie_call
  | UncaughtError js_error
  | PageAllowed bool

text \<open>\<open>JSON.stringify(error)\<close> sees the own enumerable properties: not \<open>message\<close>.  The alert starts
  with the three bytes of a cross mark.\<close>

definition cross_mark :: string where
  "cross_mark = [CHR 0xE2, CHR 0x9D, CHR 0x8C, CHR '' '']"

fun report_json :: "report \<Rightarrow> string" where
  "report_json (CieErr e) = stringify (Obj [(''type'', Num (of_nat (cie_error_number (ce_type e)))),
     (''attemptsLeft'', ce_attemptsLeft e), (''name'', Str ''CieError'')])"
| "report_json (Raw e) = stringify (Obj (err_props e))"

definition handleOnEvent :: "CieEvent \<Rightarrow> cie_scenario \<Rightarrow> cie_scenario" where
  "handleOnEvent e s = (case e of
     waiting_card \<Rightarrow> s\<lparr>modalText := Some ''Waiting for CIE card. Bring it closer to the NFC reader.''\<rparr>
   | completed \<Rightarrow> s\<lparr>modalText := Some ''Continue to the webview'', isHidden := False\<rparr>
   | reading \<Rightarrow> s\<lparr>modalText := Some (''I'' @ [CHR 0x27] @ ''m reading the CIE. Do not remove it from the device'')\<rparr>)"

fun scenario_effect :: "cie_scenario \<Rightarrow> cie_effect \<Rightarrow> cie_scenario \<times> app_effect list" where
  "scenario_effect s (OnSuccess url) = (s, [DispatchThunk (continuePidFlowThunk url)])"
| "scenario_effect s (OnError r) =
     (s\<lparr>isModalVisible := False\<rparr>, [Dispatch pidCiel3FlowReset, Alert (cross_mark @ report_json r)])"
| "scenario_effect s (OnEvent e) = (handleOnEvent e s, [])"
| "scenario_effect s (Sdk c) = (s, [Reader c])"
| "scenario_effect s (Uncaught e) = (s, [UncaughtError e])"
| "scenario_effect s (StartLoading b) = (s, [PageAllowed b])"

fun scenario_effects :: "cie_scenario \<Rightarrow> cie_effect list \<Rightarrow> cie_scenario \<times> app_effect list" where
  "scenario_effects s [] = (s, [])"
| "scenario_effects s (e # es) = (case scenario_effect s e of
     (s', out) \<Rightarrow> map_prod id (\<lambda>outs. out @ outs) (scenario_effects s' es))"

definition valid_pin :: "string \<Rightarrow> bool" where
  "valid_pin ciePin = (ciePin \<noteq> [] \<and> length ciePin = 8 \<and> list_all is_digit ciePin)"

text \<open>The answer to the prompt that \<open>run\<close> opens.\<close>

definition pin_entered :: "string \<Rightarrow> string \<Rightarrow> cie_scenario \<Rightarrow> cie_scenario \<times> app_effect list" where
  "pin_entered idpHint ciePin s =
     (if valid_pin ciePin
      then (s\<lparr>isHidden := True, isModalVisible := True\<rparr>,
        [DispatchThunk (preparePidFlowParamsThunk idpHint cieL3 (Some ciePin))])
      else (s, [Alert (cross_mark @ ''Invalid CIE PIN'')]))"

definition toggleModal :: "cie_scenario \<Rightarrow> cie_scenario \<times> app_effect list" where
  "toggleModal s = (s\<lparr>modalText := Some [], isModalVisible := \<not> isModalVisible s\<rparr>,
     (if isModalVisible s then [Alert (cross_mark @ ''Modal closed'')] else [])
       @ [Dispatch pidCiel3FlowReset])"

text \<open>Rendering: the web view is mounted while the flow parameters carry a pin and the modal is
  visible, and keeps its state between renderings.\<close>

definition render_webview :: "bool \<Rightarrow> RootState \<Rightarrow> cie_scenario \<Rightarrow> cie_scenario" where
  "render_webview isCieUat st s = s\<lparr>sc_webview := (case selectPidFlowParams st of
     Some p \<Rightarrow> (case fp_ciePin p of
         Some ciePin \<Rightarrow> if ciePin \<noteq> [] \<and> isModalVisible s
           then (let params = \<lparr>cp_authUrl = fp_authUrl p, cp_pin = ciePin, cp_useUat = isCieUat,
                   cp_redirectUrl = CIE_L3_REDIRECT_URI\<rparr> in
                 Some (case sc_webview s of Some v \<Rightarrow> v\<lparr>wv_params := params\<rparr>
                   | None \<Rightarrow> webview_mounted params))
           else None
       | None \<Rightarrow> None)
   | None \<Rightarrow> None)\<rparr>"

datatype scenario_event =
    PinEntered string
  | ToggleModal
  | Render RootState
  | InWebview webview_event

record scenario_props =
  sp_idpHint :: string
  sp_isCieUat :: bool
  sp_os :: platform

fun scenario_step :: "cie_sdk \<Rightarrow> scenario_props \<Rightarrow> cie_scenario \<Rightarrow> scenario_event \<Rightarrow>
    cie_scenario \<times> app_effect list" where
  "scenario_step S p s (PinEntered pin) = pin_entered (sp_idpHint p) pin s"
| "scenario_step S p s ToggleModal = toggleModal s"
| "scenario_step S p s (Render st) = (render_webview (sp_isCieUat p) st s, [])"
| "scenario_step S p s (InWebview ev) = (case sc_webview s of
     None \<Rightarrow> scenario_effects s (unmounted_step ev)
   | Some v \<Rightarrow> (case webview_step S (sp_os p) v ev of
       (v', effects) \<Rightarrow> scenario_effects (s\<lparr>sc_webview := Some v'\<rparr>) effects))"

text \<open>The states a scenario can be in, with what happened so far: every event and the effects it
  had.  The store may change in any way between two renderings, and a rendering may come late.\<close>

type_synonym scenario_trace = "(scenario_event \<times> app_effect list) list"

inductive scenario_reaches :: "cie_sdk \<Rightarrow> scenario_props \<Rightarrow> cie_scenario \<Rightarrow> scenario_trace \<Rightarrow> bool"
  for S :: cie_sdk and p :: scenario_props where
  start: "scenario_reaches S p scenario_initial []"
| step: "scenario_reaches S p s tr \<Longrightarrow> scenario_step S p s ev = (s', es) \<Longrightarrow>
    scenario_reaches S p s' (tr @ [(ev, es)])"

end
