(* ===== verification/Cie_Correct.thy ===== *)
theory Cie_Correct
  imports Cie
begin

text \<open>
  The card reading is safe and reported: starting the reader ends in exactly one of \<open>waiting\<close> and an
  error, the reader listens only once it is set up, the component reports the end of the reading
  once, and the issuance continues only with a redirect that follows a card that was read.
\<close>

section \<open>Starting the reader\<close>

text \<open>The calls of a successful start, in order, and whether the package carries one out.\<close>

definition reader_calls :: "platform \<Rightarrow> bool \<Rightarrow> string \<Rightarrow> string \<Rightarrow> cie_call list" where
  "reader_calls os useUat pin uri =
     (let idp = SetCustomIdpUrl (if useUat then getCieUatEndpoint os else None) in
      if os = ios
      then [RemoveAllListeners, ListenEvents, ListenErrors, ListenSuccess, EnableLog useUat, idp,
        SetPin pin, SetAuthenticationUrl uri, Start, StartListeningNFC]
      else [RemoveAllListeners, Start, ListenEvents, ListenErrors, ListenSuccess, SetPin pin,
        SetAuthenticationUrl uri, EnableLog useUat, idp, StartListeningNFC])"

definition carries_out :: "cie_sdk \<Rightarrow> cie_call \<Rightarrow> bool" where
  "carries_out S c = (case sdk_answer_to S c of Answers \<Rightarrow> True | Throws _ \<Rightarrow> False
     | Rejects _ \<Rightarrow> \<not> awaited c \<and> c \<noteq> Start)"

text \<open>A sequence of calls that ends in one report: waiting for the card when all are carried out,
  an error right after the first that is not.\<close>

definition settled :: "cie_sdk \<Rightarrow> cie_call list \<Rightarrow> cie_effect list \<Rightarrow> bool" where
  "settled S cs es = (case dropWhile (carries_out S) cs of
     [] \<Rightarrow> es = map Sdk cs @ [OnEvent waiting_card]
   | c # _ \<Rightarrow> \<exists>x. es = map Sdk (takeWhile (carries_out S) cs @ [c]) @ [OnError x])"

lemma carries_out_failure: "c \<noteq> Start \<Longrightarrow> carries_out S c \<longleftrightarrow> call_failure S c = None"
  by (auto simp: carries_out_def call_failure_def split: sdk_answer.splits)

lemma settled_carried: "carries_out S c \<Longrightarrow> settled S (c # cs) (Sdk c # es) \<longleftrightarrow> settled S cs es"
  by (cases "dropWhile (carries_out S) cs") (simp_all add: settled_def del: dropWhile_eq_Nil_conv)

lemma settled_stopped: "\<not> carries_out S c \<Longrightarrow> settled S (c # cs) [Sdk c, OnError x]"
  by (simp add: settled_def)

lemma settled_calls:
  assumes "Start \<notin> set cs" and "\<And>e. \<exists>x. caught e = OnError x"
    and "settled S later es"
  shows "settled S (cs @ later) (case run_calls S cs of
     (made, Some e) \<Rightarrow> map Sdk made @ [caught e] | (made, None) \<Rightarrow> map Sdk made @ es)"
  using assms
proof (induction cs)
  case Nil
  then show ?case by simp
next
  case (Cons c cs)
  show ?case
  proof (cases "call_failure S c")
    case None
    have "settled S (cs @ later) (case run_calls S cs of
       (made, Some e) \<Rightarrow> map Sdk made @ [caught e] | (made, None) \<Rightarrow> map Sdk made @ es)"
      using Cons by (intro Cons.IH) auto
    with None Cons.prems(1) show ?thesis
      by (auto simp: carries_out_failure settled_carried split: prod.splits option.splits)
  next
    case (Some e)
    obtain x where "caught e = OnError x" using Cons.prems(2) by blast
    with Some Cons.prems(1) show ?thesis by (auto simp: settled_stopped carries_out_failure)
  qed
qed

lemma settled_start:
  assumes "Start \<notin> set cs" and "\<And>e. \<exists>x. caught e = OnError x"
  shows "settled S (Start # cs) (start_then S caught cs)"
proof (cases "sdk_answer_to S Start")
  case Answers
  have "settled S (cs @ []) (case run_calls S cs of (made, Some e) \<Rightarrow> map Sdk made @ [OnError (Raw e)]
      | (made, None) \<Rightarrow> map Sdk made @ [OnEvent waiting_card])"
    using assms(1) by (intro settled_calls) (auto simp: settled_def)
  moreover have "carries_out S Start" using Answers by (simp add: carries_out_def)
  ultimately show ?thesis using Answers
    by (auto simp: start_then_def settled_carried split: prod.splits option.splits)
next
  case (Throws e)
  obtain x where "caught e = OnError x" using assms(2) by blast
  then show ?thesis using Throws by (simp add: start_then_def settled_stopped carries_out_def)
next
  case (Rejects e)
  then show ?thesis by (simp add: start_then_def settled_stopped carries_out_def)
qed

lemma handleMessage_settled:
  "settled S (reader_calls os (cp_useUat (wv_params v)) (cp_pin (wv_params v)) uri)
     (handleMessage S os uri v)"
proof -
  have u: "\<exists>x. unable_to_start S n e = OnError x" for n e by (simp add: unable_to_start_def)
  let ?params = "wv_params v"
  let ?idp = "SetCustomIdpUrl (if cp_useUat ?params then getCieUatEndpoint os else None)"
  show ?thesis
  proof (cases "os = ios")
    case True
    have "settled S ([RemoveAllListeners, ListenEvents, ListenErrors, ListenSuccess,
        EnableLog (cp_useUat ?params), ?idp, SetPin (cp_pin ?params), SetAuthenticationUrl uri]
        @ [Start, StartListeningNFC])
      (startCieiOS S os (cp_useUat ?params) (cp_pin ?params) uri)"
      unfolding startCieiOS_def by (intro settled_calls settled_start u) auto
    then show ?thesis using True
      by (cases "cp_useUat ?params") (simp_all add: handleMessage_def reader_calls_def)
  next
    case False
    have "settled S ([RemoveAllListeners] @ [Start, ListenEvents, ListenErrors, ListenSuccess,
        SetPin (cp_pin ?params), SetAuthenticationUrl uri, EnableLog (cp_useUat ?params), ?idp,
        StartListeningNFC])
      (startCieAndroid S os (cp_useUat ?params) (cp_pin ?params) uri)"
      unfolding startCieAndroid_def by (intro settled_calls settled_start u) auto
    then show ?thesis using False
      by (cases "cp_useUat ?params") (simp_all add: handleMessage_def reader_calls_def)
  qed
qed

text \<open>C18. Starting the reader always ends in exactly one report.  The calls are made in the order of
  the platform; when the package carries them all out the application is told to wait for the
  card, otherwise the calls stop at the first that fails and the application gets an error.  The
  reader listens for a card last, once its three handlers, the pin and the authentication address
  are set.\<close>

theorem reader_start_settles:
  "let cs = reader_calls os (cp_useUat (wv_params v)) (cp_pin (wv_params v)) uri in
    settled S cs (handleMessage S os uri v) \<and> last cs = StartListeningNFC \<and> distinct cs
    \<and> {ListenEvents, ListenErrors, ListenSuccess, SetPin (cp_pin (wv_params v)),
        SetAuthenticationUrl uri} \<subseteq> set (butlast cs)"
  using handleMessage_settled [of S os v uri] by (simp add: reader_calls_def Let_def)

section \<open>The component\<close>

lemma decodeURIComponent_plain: "CHR ''%'' \<notin> set s \<Longrightarrow> decodeURIComponent s = Inr s"
  by (induction s) (auto simp: decodeURIComponent.simps)

lemma handleMessage_effects:
  "e \<in> set (handleMessage S os uri v) \<Longrightarrow>
    (\<exists>c. e = Sdk c) \<or> e = OnEvent waiting_card \<or> (\<exists>x. e = OnError x)"
  using handleMessage_settled [of S os v uri] by (auto simp: settled_def split: list.splits)

lemma handleCieEvent_effects:
  "e \<in> set (handleCieEvent ev) \<Longrightarrow> e = OnEvent reading \<or> (\<exists>x. e = OnError (CieErr x))"
  by (auto simp: handleCieEvent_def Let_def split: if_splits)

lemma reader_effects_absent [simp]:
  "OnEvent completed \<notin> set (handleMessage S os uri v)" "OnEvent completed \<notin> set (handleCieEvent ev)"
  "OnSuccess url \<notin> set (handleMessage S os uri v)" "OnSuccess url \<notin> set (handleCieEvent ev)"
  by (auto dest: handleMessage_effects handleCieEvent_effects)

lemma error_page_throws: "handleOnError (error_object m) = Inl TypeError"
  by (simp add: handleOnError_def error_object_def js_get_def)

text \<open>A page that failed to load is recognised by its title, but the error never reaches the
  application: the handler of web view errors reads \<open>nativeEvent.statusCode\<close> of the plain \<open>Error\<close>
  it is given and throws a \<open>TypeError\<close> out of the event handler.\<close>

theorem error_page_never_reported:
  assumes "is_error_page (map lower title)"
  shows "webview_step S os v (LoadEnd title) = (v, [Uncaught TypeError])"
  using assms by (simp add: handleOnLoadEnd_def error_page_throws)


lemma error_page_never_reported_witness:
  "webview_step \<lparr>sdk_answer_to = (\<lambda>_. Answers), sdk_text = (\<lambda>_. [])\<rparr> ios
     (webview_mounted \<lparr>cp_authUrl = ''https://idp'', cp_pin = ''12345678'', cp_useUat = False,
        cp_redirectUrl = ''https://cie.callback''\<rparr>) (LoadEnd ''Errore'')
   = (webview_mounted \<lparr>cp_authUrl = ''https://idp'', cp_pin = ''12345678'', cp_useUat = False,
        cp_redirectUrl = ''https://cie.callback''\<rparr>, [Uncaught TypeError])"
proof (rule error_page_never_reported)
  show "is_error_page (map lower ''Errore'')" by code_simp
qed

text \<open>A card that was read, and a page that loaded.\<close>

definition reads_card :: "webview_event \<Rightarrow> bool" where
  "reads_card ev = (case ev of CardSuccess url \<Rightarrow> isOk (decodeURIComponent url) | _ \<Rightarrow> False)"

definition loads_page :: "webview_event \<Rightarrow> bool" where
  "loads_page ev = (case ev of LoadEnd title \<Rightarrow> \<not> is_error_page (map lower title) | _ \<Rightarrow> False)"

lemma webview_step_spec:
  assumes "webview_step S os v ev = (v', es)"
  shows "isCardReadingFinished v' \<longleftrightarrow> isCardReadingFinished v \<or> reads_card ev"
    and "cieCompletedEventEmitted v' \<longleftrightarrow>
      cieCompletedEventEmitted v \<or> isCardReadingFinished v \<and> loads_page ev"
    and "count_list es (OnEvent completed) =
      (if isCardReadingFinished v \<and> \<not> cieCompletedEventEmitted v \<and> loads_page ev then 1 else 0)"
    and "wv_params v' = wv_params v"
    and "OnSuccess url \<in> set es \<longleftrightarrow> ev = Navigation url \<and> isCardReadingFinished v
      \<and> str_includes (cp_redirectUrl (wv_params v)) url"
proof -
  have absent: "count_list xs x = 0" if "x \<notin> set xs" for xs and x :: cie_effect
    using that by simp
  note defs = reads_card_def loads_page_def handleCieSuccess_def continueWithUrl_def
    handleOnLoadEnd_def error_page_throws report_error_def handleShouldStartLoading_def
  show "isCardReadingFinished v' \<longleftrightarrow> isCardReadingFinished v \<or> reads_card ev"
    and "wv_params v' = wv_params v"
    and "cieCompletedEventEmitted v' \<longleftrightarrow>
      cieCompletedEventEmitted v \<or> isCardReadingFinished v \<and> loads_page ev"
    using assms by (cases ev; auto simp: defs Let_def split: sum.splits if_splits)+
  show "count_list es (OnEvent completed) =
      (if isCardReadingFinished v \<and> \<not> cieCompletedEventEmitted v \<and> loads_page ev then 1 else 0)"
    using assms by (cases ev; auto simp: defs Let_def absent split: sum.splits if_splits)
  show "OnSuccess url \<in> set es \<longleftrightarrow> ev = Navigation url \<and> isCardReadingFinished v
      \<and> str_includes (cp_redirectUrl (wv_params v)) url"
    using assms by (cases ev; auto simp: defs Let_def split: sum.splits if_splits)
qed

fun page_after_card :: "bool \<Rightarrow> webview_event list \<Rightarrow> bool" where
  "page_after_card finished [] = False"
| "page_after_card finished (ev # evs) =
     (finished \<and> loads_page ev \<or> page_after_card (finished \<or> reads_card ev) evs)"

lemma webview_run_completed:
  "count_list (snd (webview_run S os v evs)) (OnEvent completed) =
    (if \<not> cieCompletedEventEmitted v \<and> page_after_card (isCardReadingFinished v) evs then 1 else 0)"
proof (induction evs arbitrary: v)
  case Nil
  then show ?case by simp
next
  case (Cons ev evs)
  obtain v' es where "webview_step S os v ev = (v', es)" by fastforce
  with Cons show ?case using webview_step_spec [of S os v ev v' es] by auto
qed

lemma page_after_card_True: "page_after_card True evs \<longleftrightarrow> (\<exists>ev \<in> set evs. loads_page ev)"
  by (induction evs) auto

lemma page_after_card_False: "page_after_card False evs \<longleftrightarrow>
  (\<exists>pre ev post. evs = pre @ ev # post \<and> reads_card ev \<and> (\<exists>ev' \<in> set post. loads_page ev'))"
proof (induction evs)
  case Nil
  then show ?case by simp
next
  case (Cons ev evs)
  show ?case
  proof (cases "reads_card ev \<and> (\<exists>ev' \<in> set evs. loads_page ev')")
    case True
    then show ?thesis by (force simp: page_after_card_True intro!: exI [of _ "[]"])
  next
    case False
    have "page_after_card False (ev # evs) \<longleftrightarrow> page_after_card False evs"
      using False by (cases "reads_card ev") (auto simp: page_after_card_True Cons.IH)
    also have "\<dots> \<longleftrightarrow> (\<exists>pre ev' post. ev # evs = pre @ ev' # post \<and> reads_card ev'
        \<and> (\<exists>ev'' \<in> set post. loads_page ev''))"
      using False unfolding Cons.IH by (auto simp: Cons_eq_append_conv)
    finally show ?thesis .
  qed
qed

text \<open>The end of the card reading is reported exactly once in the life of the component, whatever
  the order of its events: when a page loads after the reader has handed over an address it can
  decode; and never otherwise.\<close>

theorem completed_exactly_once:
  "count_list (snd (webview_run S os (webview_mounted params) evs)) (OnEvent completed) =
    (if \<exists>pre ev post. evs = pre @ ev # post \<and> reads_card ev \<and> (\<exists>ev' \<in> set post. loads_page ev')
     then 1 else 0)"
  by (simp add: webview_run_completed webview_mounted_def page_after_card_False)

section \<open>The scenario\<close>

lemma scenario_effects_spec:
  assumes "scenario_effects s es = (s', out)"
  shows "sc_webview s' = sc_webview s"
    and "isHidden s \<Longrightarrow> OnEvent completed \<notin> set es \<Longrightarrow> isHidden s'"
    and "DispatchThunk c \<in> set out \<longleftrightarrow> (\<exists>url. c = continuePidFlowThunk url \<and> OnSuccess url \<in> set es)"
proof -
  have "sc_webview s' = sc_webview s
    \<and> (isHidden s \<longrightarrow> OnEvent completed \<notin> set es \<longrightarrow> isHidden s')
    \<and> (DispatchThunk c \<in> set out \<longleftrightarrow> (\<exists>url. c = continuePidFlowThunk url \<and> OnSuccess url \<in> set es))"
    using assms
  proof (induction es arbitrary: s out)
    case Nil
    then show ?case by simp
  next
    case (Cons e es)
    obtain s1 out1 where e: "scenario_effect s e = (s1, out1)" by fastforce
    obtain out2 where "scenario_effects s1 es = (s', out2)" "out = out1 @ out2"
      using Cons.prems e by (cases "scenario_effects s1 es") auto
    with Cons.IH [of s1 out2] e show ?case
      by (cases e) (auto simp: handleOnEvent_def split: CieEvent.splits)
  qed
  then show "sc_webview s' = sc_webview s"
    and "isHidden s \<Longrightarrow> OnEvent completed \<notin> set es \<Longrightarrow> isHidden s'"
    and "DispatchThunk c \<in> set out \<longleftrightarrow> (\<exists>url. c = continuePidFlowThunk url \<and> OnSuccess url \<in> set es)"
    by blast+
qed

lemma unmounted_effects_absent [simp]:
  "OnEvent completed \<notin> set (unmounted_step ev)" "OnSuccess url \<notin> set (unmounted_step ev)"
  by (cases ev; auto split: sum.splits)+

lemma scenario_prefix:
  "scenario_reaches S p s tr \<Longrightarrow> tr = pre @ (ev, es) # post \<Longrightarrow>
    \<exists>s1 s2. scenario_reaches S p s1 pre \<and> scenario_step S p s1 ev = (s2, es)"
proof (induction arbitrary: post rule: scenario_reaches.induct)
  case start
  then show ?case by simp
next
  case (step s tr ev' s' es')
  show ?case
  proof (cases post rule: rev_cases)
    case Nil
    with step show ?thesis by auto
  next
    case (snoc post' x)
    with step.prems have "tr = pre @ (ev, es) # post'" by auto
    then show ?thesis by (rule step.IH)
  qed
qed

definition card_was_read :: "scenario_trace \<Rightarrow> bool" where
  "card_was_read tr = (\<exists>e. reads_card e \<and> InWebview e \<in> fst ` set tr)"

definition scenario_inv :: "cie_scenario \<Rightarrow> scenario_trace \<Rightarrow> bool" where
  "scenario_inv s tr = ((isHidden s \<or> card_was_read tr) \<and> (case sc_webview s of
     Some v \<Rightarrow> cp_redirectUrl (wv_params v) = CIE_L3_REDIRECT_URI
       \<and> (isCardReadingFinished v \<longrightarrow> card_was_read tr)
   | None \<Rightarrow> True))"

lemma card_was_read_snoc: "card_was_read (tr @ [(ev, es)]) \<longleftrightarrow>
    card_was_read tr \<or> (\<exists>e. ev = InWebview e \<and> reads_card e)"
  by (auto simp: card_was_read_def)

lemma scenario_inv_step:
  assumes inv: "scenario_inv s tr" and step: "scenario_step S p s ev = (s', es)"
  shows "scenario_inv s' (tr @ [(ev, es)])"
proof (cases ev)
  case (InWebview e)
  show ?thesis
  proof (cases "sc_webview s")
    case None
    with InWebview step have "scenario_effects s (unmounted_step e) = (s', es)" by simp
    then show ?thesis using inv None scenario_effects_spec(1,2) [of s "unmounted_step e" s' es]
      by (auto simp: scenario_inv_def card_was_read_snoc)
  next
    case (Some v)
    obtain v' fx where w: "webview_step S (sp_os p) v e = (v', fx)" by fastforce
    with InWebview Some step have f: "scenario_effects (s\<lparr>sc_webview := Some v'\<rparr>) fx = (s', es)" by simp
    have "OnEvent completed \<in> set fx \<Longrightarrow> isCardReadingFinished v"
      using webview_step_spec(3) [OF w] count_notin [of "OnEvent completed" fx]
      by (metis count_list_0_iff)
    then show ?thesis
      using inv Some InWebview scenario_effects_spec(1,2) [OF f] webview_step_spec(1,4) [OF w]
      by (auto simp: scenario_inv_def card_was_read_snoc)
  qed
qed (use assms in \<open>auto simp: scenario_inv_def card_was_read_snoc pin_entered_def toggleModal_def
    render_webview_def webview_mounted_def Let_def split: if_splits option.splits\<close>)

lemma scenario_invariant: "scenario_reaches S p s tr \<Longrightarrow> scenario_inv s tr"
proof (induction rule: scenario_reaches.induct)
  case start
  then show ?case by (simp add: scenario_inv_def scenario_initial_def)
next
  case (step s tr ev s' es)
  then show ?case by (auto intro: scenario_inv_step)
qed

lemma scenario_step_dispatch:
  assumes "scenario_step S p s ev = (s', es)" and "DispatchThunk c \<in> set es"
  shows "(\<exists>pin. ev = PinEntered pin \<and> valid_pin pin
            \<and> c = preparePidFlowParamsThunk (sp_idpHint p) cieL3 (Some pin))
    \<or> (\<exists>v url. ev = InWebview (Navigation url) \<and> sc_webview s = Some v \<and> isCardReadingFinished v
            \<and> str_includes (cp_redirectUrl (wv_params v)) url \<and> c = continuePidFlowThunk url)"
proof (cases ev)
  case (InWebview e)
  show ?thesis
  proof (cases "sc_webview s")
    case None
    with InWebview assms show ?thesis by (auto simp: scenario_effects_spec(3))
  next
    case (Some v)
    obtain v' fx where w: "webview_step S (sp_os p) v e = (v', fx)" by fastforce
    with InWebview Some assms(1) have f: "scenario_effects (s\<lparr>sc_webview := Some v'\<rparr>) fx = (s', es)" by simp
    obtain url where "c = continuePidFlowThunk url" "OnSuccess url \<in> set fx"
      using assms(2) scenario_effects_spec(3) [OF f] by blast
    then show ?thesis using webview_step_spec(5) [OF w] InWebview Some by auto
  qed
qed (use assms in \<open>auto simp: pin_entered_def toggleModal_def split: if_splits\<close>)

text \<open>C10. The scenario dispatches two thunks.  The preparation of the issuance carries the eight
  digits the user entered.  The continuation carries the address the web view was about to open,
  which contains the redirect address, and comes only after the reader has handed over an address
  for a card it read; the web view is hidden from the user until then.\<close>

theorem card_read_before_continuation:
  assumes "scenario_reaches S p s tr"
  shows "(isHidden s \<or> card_was_read tr)
    \<and> (\<forall>pre ev es post c. tr = pre @ (ev, es) # post \<longrightarrow> DispatchThunk c \<in> set es \<longrightarrow>
      (\<exists>pin. ev = PinEntered pin \<and> length pin = 8 \<and> list_all is_digit pin
          \<and> c = preparePidFlowParamsThunk (sp_idpHint p) cieL3 (Some pin))
      \<or> (\<exists>url. ev = InWebview (Navigation url) \<and> card_was_read pre
          \<and> str_includes CIE_L3_REDIRECT_URI url \<and> c = continuePidFlowThunk url))"
proof (intro conjI allI impI)
  show "isHidden s \<or> card_was_read tr"
    using scenario_invariant [OF assms] by (simp add: scenario_inv_def)
next
  fix pre ev es post c
  assume "tr = pre @ (ev, es) # post" and c: "DispatchThunk c \<in> set es"
  then obtain s1 s2 where r: "scenario_reaches S p s1 pre" and s: "scenario_step S p s1 ev = (s2, es)"
    using scenario_prefix [OF assms] by blast
  show "(\<exists>pin. ev = PinEntered pin \<and> length pin = 8 \<and> list_all is_digit pin
          \<and> c = preparePidFlowParamsThunk (sp_idpHint p) cieL3 (Some pin))
      \<or> (\<exists>url. ev = InWebview (Navigation url) \<and> card_was_read pre
          \<and> str_includes CIE_L3_REDIRECT_URI url \<and> c = continuePidFlowThunk url)"
    using scenario_step_dispatch [OF s c] scenario_invariant [OF r]
    by (auto simp: scenario_inv_def valid_pin_def)
qed

text \<open>A whole reading: the pin, the flow parameters in the store, the card, the consent page, the
  redirect.\<close>

fun scenario_run :: "cie_sdk \<Rightarrow> scenario_props \<Rightarrow> cie_scenario \<Rightarrow> scenario_event list \<Rightarrow>
    cie_scenario \<times> scenario_trace" where
  "scenario_run S p s [] = (s, [])"
| "scenario_run S p s (ev # evs) = (case scenario_step S p s ev of
     (s', es) \<Rightarrow> map_prod id (\<lambda>tr. (ev, es) # tr) (scenario_run S p s' evs))"

lemma scenario_run_reaches:
  "scenario_reaches S p s tr \<Longrightarrow> scenario_reaches S p (fst (scenario_run S p s evs))
    (tr @ snd (scenario_run S p s evs))"
proof (induction evs arbitrary: s tr)
  case Nil
  then show ?case by simp
next
  case (Cons ev evs)
  obtain s' es where st: "scenario_step S p s ev = (s', es)" by fastforce
  show ?case using Cons.IH [OF scenario_reaches.step [OF Cons.prems st]] st by simp
qed

definition card_store :: RootState where
  "card_store = rootReducer initialState (fulfilled (preparePidFlowParamsThunk ''servizicie'' cieL3 (Some ''12345678''))
     (FlowParams \<lparr>fp_authUrl = ''https://idp'', fp_issuerConf = Null, fp_clientId = Null,
        fp_codeVerifier = ''v'', fp_walletInstanceAttestation = ''wia'', fp_credentialDefinition = Null,
        fp_redirectUri = ''https://cie.callback'', fp_ciePin = Some ''12345678''\<rparr>))"

definition card_sdk :: cie_sdk where
  "card_sdk = \<lparr>sdk_answer_to = (\<lambda>_. Answers), sdk_text = (\<lambda>_. [])\<rparr>"

definition card_props :: scenario_props where
  "card_props = \<lparr>sp_idpHint = ''servizicie'', sp_isCieUat = False, sp_os = android\<rparr>"

definition card_reading :: "cie_scenario \<times> scenario_trace" where
  "card_reading = scenario_run card_sdk card_props scenario_initial
     [PinEntered ''12345678'', Render card_store, InWebview (CardSuccess ''https://idp%2Fok''),
      InWebview (LoadEnd ''Consenso''), InWebview (Navigation ''https://cie.callback?code=c'')]"

lemma card_read_before_continuation_witness:
  "DispatchThunk (continuePidFlowThunk ''https://cie.callback?code=c'') \<in> set (snd (snd card_reading ! 4))
   \<and> card_was_read (take 4 (snd card_reading)) \<and> \<not> isHidden (fst card_reading)"
proof -
  have r: "scenario_reaches card_sdk card_props (fst card_reading) (snd card_reading)"
    unfolding card_reading_def
    by (rule scenario_run_reaches [OF scenario_reaches.start, unfolded append_Nil])
  have d: "DispatchThunk (continuePidFlowThunk ''https://cie.callback?code=c'') \<in> set (snd (snd card_reading ! 4))"
    and h: "\<not> isHidden (fst card_reading)" and l: "length (snd card_reading) = 5"
    by code_simp+
  have "snd card_reading = take 4 (snd card_reading)
      @ (fst (snd card_reading ! 4), snd (snd card_reading ! 4)) # drop 5 (snd card_reading)"
    using l id_take_nth_drop [of 4 "snd card_reading"] by simp
  with d have "card_was_read (take 4 (snd card_reading))"
    using card_read_before_continuation [OF r] by blast
  with d h show ?thesis by simp
qed

end
