(* ===== verification/App_Screens.thy ===== *)
theory App_Screens
  imports Cie
begin

text \<open>
  The screens of the example application, \<open>example/src/screens\<close>, \<open>example/src/navigator\<close> and the
  components they share: what each screen offers as a function of the store, what pressing an entry
  does, the guards of the navigation, the login pages, the notification of failures, the trustmark
  page with its countdown and the debug data.  Layout, styles, icons and wording that only decorates
  are left out; an entry is its title, the status it shows and the effects of pressing it.

  Parameters: \<open>extractProtocol\<close> of the package \<open>url-parse\<close>, and \<open>URL\<close> as in the library.
\<close>

section \<open>Routes, \<open>navigator/MainStackNavigator.tsx\<close>\<close>

datatype route =
    Home
  | WalletInstance
  | Pid
  | Credentials
  | StatusAttestation
  | Trustmark
  | TrustmarkQrCode SupportedCredentialsWithoutPid
  | IdpSelection
  | IdpLogin string
  | PidSpidIdpSelection
  | Settings
  | PidSpidLogin string string

text \<open>The name a route is registered under.\<close>

fun route_name :: "route \<Rightarrow> string" where
  "route_name Home = ''Home''"
| "route_name WalletInstance = ''WalletInstance''"
| "route_name Pid = ''Pid''"
| "route_name Credentials = ''Credentials''"
| "route_name StatusAttestation = ''StatusAttestation''"
| "route_name Trustmark = ''Trustmark''"
| "route_name (TrustmarkQrCode t) = ''TrustmarkQrCode''"
| "route_name IdpSelection = ''IdpSelection''"
| "route_name (IdpLogin idp) = ''IdpLogin''"
| "route_name PidSpidIdpSelection = ''PidSpidIdpSelection''"
| "route_name Settings = ''Settings''"
| "route_name (PidSpidLogin authUrl redirectUri) = ''PidSpidLogin''"

text \<open>The screens that are mounted: those behind the session, or those of the login.\<close>

definition mounted_screens :: "RootState \<Rightarrow> string list" where
  "mounted_screens st =
     (if (case selectIoAuthToken st of Some token \<Rightarrow> token \<noteq> [] | None \<Rightarrow> False)
      then [''Home'', ''WalletInstance'', ''Pid'', ''PidSpidIdpSelection'', ''PidSpidLogin'',
        ''Credentials'', ''StatusAttestation'', ''Trustmark'', ''TrustmarkQrCode'', ''Settings'']
      else [''IdpSelection'', ''IdpLogin''])"

text \<open>What pressing an entry does.  \<open>Confirm\<close> is an alert whose button \<open>Ok\<close> has the effects listed.\<close>

datatype screen_effect =
    Navigate route
  | GoBack
  | Act action
  | Run thunk_call
  | Message string
  | Confirm string "screen_effect list"
  | ToastError string
  | OpenURL string

section \<open>Home, \<open>screens/HomeScreen.tsx\<close>\<close>

definition hasSomeCredential :: "RootState \<Rightarrow> bool" where
  "hasSomeCredential st = (0 < length (filter (\<lambda>t. selectCredentials st t \<noteq> None)
     [MDL, EuropeanDisabilityCard, EuropeanHealthInsuranceCard]))"

definition home_sections :: "RootState \<Rightarrow> (string \<times> screen_effect) list" where
  "home_sections st = [
     (''Wallet Instance & Attestation'', Navigate WalletInstance),
     (''PID'', if selectHasInstanceKeyTag st then Navigate Pid
        else Message ''Create a wallet instance first''),
     (''Credentials'', if selectPid st \<noteq> None \<and> selectHasInstanceKeyTag st then Navigate Credentials
        else Message ''Register a wallet instance and obtain a PID first''),
     (''Status Attestation'', if selectCredentials st MDL \<noteq> None then Navigate StatusAttestation
        else Message ''Obtain a MDL first''),
     (''Trustmark'', if hasSomeCredential st then Navigate Trustmark
        else Message ''Obtain a credential first''),
     (''Settings'', Navigate Settings)]"

section \<open>Scenarios, \<open>components/TestScenario.tsx\<close>\<close>

record test_scenario =
  ts_title :: string
  ts_onPress :: "screen_effect list"
  ts_isLoading :: bool
  ts_hasError :: has_error
  ts_isDone :: bool
  ts_isPresent :: bool

definition scenario_of :: "string \<Rightarrow> screen_effect list \<Rightarrow> AsyncStatus \<Rightarrow> bool \<Rightarrow> test_scenario" where
  "scenario_of t press s p = \<lparr>ts_title = t, ts_onPress = press, ts_isLoading = isLoading s,
     ts_hasError = hasError s, ts_isDone = isDone s, ts_isPresent = p\<rparr>"

datatype badge = OBTAINED | ERROR

definition getBadge :: "test_scenario \<Rightarrow> badge option" where
  "getBadge t = (if ts_isPresent t then Some OBTAINED
     else if ts_hasError t \<noteq> NoError then Some ERROR else None)"

text \<open>The two effects of a rendering, on the local state \<open>hasLoaded\<close>: the first shows the error,
  the second notes that the operation has started.  The second runs when \<open>isLoading\<close> changed; the
  first runs again after every change of \<open>hasLoaded\<close>, and running it once more is harmless because
  it leaves nothing to do.  The number counts the toasts.\<close>

definition error_effect :: "AsyncStatus \<Rightarrow> bool \<Rightarrow> bool \<times> nat" where
  "error_effect s hasLoaded =
     (if hasError s \<noteq> NoError \<and> hasLoaded then (False, 1) else (hasLoaded, 0))"

definition loading_effect :: "AsyncStatus \<Rightarrow> bool \<Rightarrow> bool" where
  "loading_effect s hasLoaded = (isLoading s \<or> hasLoaded)"

definition status_rendered :: "bool \<Rightarrow> AsyncStatus \<Rightarrow> bool \<Rightarrow> bool \<times> nat" where
  "status_rendered wasLoading s hasLoaded = (case error_effect s hasLoaded of
     (h, n) \<Rightarrow> (let h' = (if isLoading s \<noteq> wasLoading then loading_effect s h else h) in
       (case error_effect s h' of (h'', m) \<Rightarrow> (h'', n + m))))"

text \<open>The toasts while the status goes through a sequence of values.\<close>

fun toasts :: "bool \<Rightarrow> bool \<Rightarrow> AsyncStatus list \<Rightarrow> nat" where
  "toasts wasLoading hasLoaded [] = 0"
| "toasts wasLoading hasLoaded (s # ss) = (case status_rendered wasLoading s hasLoaded of
     (h, n) \<Rightarrow> n + toasts (isLoading s) h ss)"

text \<open>In \<open>TestCieL3Scenario\<close> pressing the entry sets \<open>hasLoaded\<close> at once, before anything loads.\<close>

definition cie_pressed :: "AsyncStatus \<Rightarrow> bool \<times> nat" where
  "cie_pressed s = error_effect s True"

section \<open>The screens with scenarios\<close>

definition wallet_instance_scenarios :: "RootState \<Rightarrow> test_scenario list" where
  "wallet_instance_scenarios st = [
     scenario_of ''Create Wallet Instance''
       [if selectHasInstanceKeyTag st
        then Confirm ''Wallet instance already exits'' [Act instanceReset, Run createWalletInstanceThunk]
        else Run createWalletInstanceThunk]
       (selectInstanceAsyncStatus st) (selectHasInstanceKeyTag st),
     scenario_of ''Get Attestation'' [Run getAttestationThunk] (selectAttestationAsyncStatus st)
       (case selectAttestation st of Some a \<Rightarrow> a \<noteq> [] | None \<Rightarrow> False),
     scenario_of ''Revoke current Wallet Instance'' [Run revokeWalletInstanceThunk]
       (selectInstanceRevocationAsyncStatus st) False]"

definition credential_scenarios :: "RootState \<Rightarrow> test_scenario list" where
  "credential_scenarios st = map (\<lambda>(t, c). scenario_of t [Run (getCredentialThunk c)]
       (selectCredentialAsyncStatus c st) (selectCredential c st \<noteq> None))
     [(''Get credential (MDL)'', MDL), (''Get credential (DC)'', EuropeanDisabilityCard),
      (''Get credential (TS)'', EuropeanHealthInsuranceCard)]"

definition status_attestation_scenarios :: "RootState \<Rightarrow> test_scenario option list" where
  "status_attestation_scenarios st = [case selectCredential MDL st of
     Some mDl \<Rightarrow> Some (scenario_of ''Get Status Attestation (MDL)''
       [Run (getCredentialStatusAttestationThunk MDL (r_credential mDl) (r_keyTag mDl))]
       (selectStatusAttestationAsyncStatus MDL st) (selectStatusAttestation MDL st \<noteq> None))
   | None \<Rightarrow> None]"

text \<open>The PID screen: two plain scenarios and the properties of the one that reads the card.\<close>

definition pid_scenarios :: "RootState \<Rightarrow> test_scenario list" where
  "pid_scenarios st = [
     scenario_of ''Get PID (SPID)'' [Navigate PidSpidIdpSelection] (selectPidAsyncStatus spid st)
       (selectPid st \<noteq> None),
     scenario_of ''Get PID (CIE L2)'' [Run (getPidCieIDThunk (getCieIdpHint (selectEnv st)) cieL2)]
       (selectPidAsyncStatus cieL2 st) (selectPid st \<noteq> None)]"

definition cie_scenario_props :: "platform \<Rightarrow> RootState \<Rightarrow> scenario_props" where
  "cie_scenario_props os st = \<lparr>sp_idpHint = getCieIdpHint (selectEnv st),
     sp_isCieUat = (selectEnv st = Pre), sp_os = os\<rparr>"

definition labelByCredentialType :: "SupportedCredentialsWithoutPid \<Rightarrow> string" where
  "labelByCredentialType t = (case t of MDL \<Rightarrow> ''MDL'' | EuropeanDisabilityCard \<Rightarrow> ''DC''
     | EuropeanHealthInsuranceCard \<Rightarrow> ''TS'')"

definition trustmark_scenarios :: "RootState \<Rightarrow> test_scenario list" where
  "trustmark_scenarios st = map (\<lambda>c. scenario_of
       (''Get Trustmark ('' @ labelByCredentialType (r_credentialType c) @ '')'')
       [Navigate (TrustmarkQrCode (r_credentialType c))] asyncStatusInitial False)
     (selectObtainedCredentials st)"

section \<open>Settings, \<open>screens/SettingsScreen.tsx\<close>\<close>

definition toggleEnvironment :: "EnvType \<Rightarrow> action list" where
  "toggleEnvironment selected = [instanceReset, envSet selected]"

definition logout :: "action list" where
  "logout = [sessionReset]"

section \<open>Login\<close>

text \<open>\<open>getIntentFallbackUrl\<close>, the same in three files.\<close>

definition fallback_hook :: string where
  "fallback_hook = ''S.browser_fallback_url=''"

definition getIntentFallbackUrl :: "(string \<Rightarrow> string \<times> bool) \<Rightarrow> string \<Rightarrow> string option" where
  "getIntentFallbackUrl extractProtocol intentUrl = (case extractProtocol intentUrl of
     (protocol, slashes) \<Rightarrow>
       if protocol \<noteq> ''intent:'' \<or> \<not> slashes then None
       else (case find_split fallback_hook intentUrl of
           None \<Rightarrow> None
         | Some (_, after) \<Rightarrow> map_option fst (find_split '';end'' after)))"

text \<open>Whether the page may load, and what is opened instead.\<close>

definition login_shouldStartLoading ::
  "(string \<Rightarrow> string \<times> bool) \<Rightarrow> string \<Rightarrow> bool \<times> screen_effect list" where
  "login_shouldStartLoading extractProtocol url =
     (case getIntentFallbackUrl extractProtocol url of
        Some idpIntent \<Rightarrow> if idpIntent = [] then (True, []) else (False, [OpenURL idpIntent])
      | None \<Rightarrow> (True, []))"

definition idp_navigation :: "ext \<Rightarrow> string \<Rightarrow> screen_effect list res" where
  "idp_navigation X url =
     (if str_includes ''profile.html'' url
      then bindR (x_URL X url) (\<lambda>urlParams.
        Inr (case map_of (u_search urlParams) ''token'' of
            Some token \<Rightarrow> if token = [] then [] else [Act (sessionSet token)]
          | None \<Rightarrow> []))
      else Inr [])"

definition pid_navigation :: "string \<Rightarrow> string \<Rightarrow> screen_effect list" where
  "pid_navigation redirectUri url =
     (if prefix redirectUri url then [Run (continuePidFlowThunk url), GoBack] else [])"

text \<open>The identity providers, \<open>utils/idps.ts\<close>; the bundled image of a logo is left out.\<close>

record Idp =
  idp_id :: string
  idp_name :: string
  idp_logo :: string
  idp_profileUrl :: string

definition idps :: "Idp list" where
  "idps = [
     \<lparr>idp_id = ''arubaid'', idp_name = ''Aruba ID'', idp_logo = [],
       idp_profileUrl = ''https://selfcarespid.aruba.it''\<rparr>,
     \<lparr>idp_id = ''ehtid'', idp_name = ''Etna ID'', idp_logo = [],
       idp_profileUrl = ''https://etnaid.eht.eu/''\<rparr>,
     \<lparr>idp_id = ''infocamereid'', idp_name = ''ID InfoCamere'', idp_logo = [],
       idp_profileUrl = ''https://selfcarespid.infocamere.it/spid-selfCare/#/login''\<rparr>,
     \<lparr>idp_id = ''infocertid'', idp_name = ''InfoCert ID'', idp_logo = [],
       idp_profileUrl = ''https://my.infocert.it/selfcare''\<rparr>,
     \<lparr>idp_id = ''intesiid'', idp_name = ''Intesi Group SPID'', idp_logo = [],
       idp_profileUrl = ''https://spid.intesigroup.com''\<rparr>,
     \<lparr>idp_id = ''lepidaid'', idp_name = ''Lepida ID'', idp_logo = [],
       idp_profileUrl = ''https://id.lepida.it/''\<rparr>,
     \<lparr>idp_id = ''namirialid'', idp_name = ''Namirial ID'', idp_logo = [],
       idp_profileUrl = ''https://idp.namirialtsp.com/idp''\<rparr>,
     \<lparr>idp_id = ''posteid'', idp_name = ''Poste ID'', idp_logo = [],
       idp_profileUrl = ''https://posteid.poste.it/private/cruscotto.shtml''\<rparr>,
     \<lparr>idp_id = ''sielteid'', idp_name = ''Sielte ID'', idp_logo = [],
       idp_profileUrl = ''https://myid.sieltecloud.it/profile/''\<rparr>,
     \<lparr>idp_id = ''spiditalia'', idp_name = ''SpidItalia'', idp_logo = [],
       idp_profileUrl = ''https://spid.register.it''\<rparr>,
     \<lparr>idp_id = ''timid'', idp_name = ''TIM id'', idp_logo = [],
       idp_profileUrl = ''https://id.tim.it/identity/private/''\<rparr>,
     \<lparr>idp_id = ''teamsystemid'', idp_name = ''TeamSystem ID'', idp_logo = [],
       idp_profileUrl = ''https://identity.teamsystem.com/''\<rparr>]"

definition testIdps :: "Idp list" where
  "testIdps = [\<lparr>idp_id = ''spiddemo'', idp_name = ''SPID Demo'', idp_logo = [],
     idp_profileUrl = SPID_DEMO_IDPHINT\<rparr>]"

definition spid_idps :: "EnvType \<Rightarrow> Idp list" where
  "spid_idps e = (if e = Pre then testIdps else idps)"

text \<open>Selecting one, for the login and for the PID.  The preparation that is awaited is given by its
  outcome: the flow parameters, or nothing when it is rejected.\<close>

definition idp_selected :: "Idp \<Rightarrow> screen_effect list" where
  "idp_selected idp = [Navigate (IdpLogin (idp_id idp))]"

definition spid_idp_selected ::
  "(thunk_call \<Rightarrow> PreparePidFlowParamsThunkOutput option) \<Rightarrow> Idp \<Rightarrow> screen_effect list" where
  "spid_idp_selected prepared idp = GoBack # (case getSpidIdpHint (idp_id idp) of
     None \<Rightarrow> [ToastError ''IDP hint not found'']
   | Some idpHint \<Rightarrow> if idpHint = [] then [ToastError ''IDP hint not found'']
     else (let call = preparePidFlowParamsThunk idpHint spid None in
       Run call # (case prepared call of
           Some p \<Rightarrow> [Navigate (PidSpidLogin (fp_authUrl p) (fp_redirectUri p))]
         | None \<Rightarrow> [ToastError ''Error during authentication''])))"

section \<open>Trustmark, \<open>screens/TrustmarkScreen.tsx\<close>\<close>

text \<open>\<open>credential?.parsedCredential.document_number?.value\<close>; a value that is not a string is passed
  on as it is by the code and left out here.\<close>

definition getCredentialDocumentNumber :: "CredentialResult option \<Rightarrow> string option" where
  "getCredentialDocumentNumber credential = (case credential of
     None \<Rightarrow> None
   | Some c \<Rightarrow> (case pget (r_parsedCredential c) ''document_number'' of
       Obj kvs \<Rightarrow> (case pget kvs ''value'' of Str s \<Rightarrow> Some s | _ \<Rightarrow> None)
     | _ \<Rightarrow> None))"

text \<open>The effect of mounting the page, and its cleanup.\<close>

definition trustmark_mounted :: "SupportedCredentialsWithoutPid \<Rightarrow> RootState \<Rightarrow> screen_effect list" where
  "trustmark_mounted t st = (case selectCredential t st of
     Some credential \<Rightarrow> [Run (getTrustmarkThunk t (getCredentialDocumentNumber (Some credential)))]
   | None \<Rightarrow> [])"

definition trustmark_unmounted :: "SupportedCredentialsWithoutPid \<Rightarrow> RootState \<Rightarrow> action list" where
  "trustmark_unmounted t st = (if selectCredential t st \<noteq> None then [trustmarkReset t] else [])"

definition trustmark_url :: "env_vars \<Rightarrow> SupportedCredentialsWithoutPid \<Rightarrow> RootState \<Rightarrow> string option" where
  "trustmark_url V t st = map_option (\<lambda>trustmark.
     VERIFIER_BASE_URL (getEnv V (selectEnv st)) @ ''?tm='' @ tk_trustmarkJwt trustmark)
     (selectTrustmark t st)"

text \<open>The countdown.  The time left is a number of seconds; a tick of the interval either subtracts
  one or stops the interval.\<close>

record timer =
  timeLeft :: rat
  ticking :: bool

definition timer_started :: "rat \<Rightarrow> rat \<Rightarrow> timer" where
  "timer_started time now = \<lparr>timeLeft = time - now / 1000, ticking = True\<rparr>"

definition tick :: "timer \<Rightarrow> timer" where
  "tick t = (if \<not> ticking t then t
     else if timeLeft t \<le> 1 then \<lparr>timeLeft = 0, ticking = False\<rparr>
     else t\<lparr>timeLeft := timeLeft t - 1\<rparr>)"

text \<open>\<open>a % b\<close> truncates towards zero.\<close>

definition js_mod :: "rat \<Rightarrow> rat \<Rightarrow> rat" where
  "js_mod a b = (let q = a / b in a - b * of_int (if q < 0 then \<lceil>q\<rceil> else \<lfloor>q\<rfloor>))"

definition padStart :: "nat \<Rightarrow> char \<Rightarrow> string \<Rightarrow> string" where
  "padStart n c s = replicate (n - length s) c @ s"

text \<open>The element for an expired code is built and dropped: the branch does not return it.\<close>

definition timer_text :: "timer \<Rightarrow> string" where
  "timer_text t = ''Expires in: '' @ num_str (of_int \<lfloor>timeLeft t / 60\<rfloor>) @ '':''
     @ padStart 2 (CHR ''0'') (num_str (of_int \<lfloor>js_mod (timeLeft t) 60\<rfloor>))"

section \<open>Debug data, \<open>hooks/useDebugInfo.ts\<close> and \<open>components/debug\<close>\<close>

definition debug_focus :: "props \<Rightarrow> action list" where
  "debug_focus data = [setDebugData data]"

definition debug_blur :: "props \<Rightarrow> action list" where
  "debug_blur data = [resetDebugData (Js_Value.keys data)]"

text \<open>The entries of the overlay.\<close>

definition debug_overlay :: "RootState \<Rightarrow> props" where
  "debug_overlay st = (if debugVisibilitySelector st
     then filter (\<lambda>(k, v). truthy v) (entries (debugDataSelector st)) else [])"

end
