(* ===== verification/Screens_Correct.thy ===== *)
theory Screens_Correct
  imports App_Screens App_Store_Correct
begin

text \<open>
  What the screens guarantee together with the store: a change of environment leaves nothing of the
  old one within reach, every identity provider on offer can be used, failures are notified once,
  the countdown ends, and the address an intent falls back to is the one it carries.
\<close>

section \<open>Environment\<close>

definition reachable_from_home :: "RootState \<Rightarrow> route set" where
  "reachable_from_home st = {r. Navigate r \<in> snd ` set (home_sections st)}"

text \<open>C23. Changing the environment keeps the session and nothing else: the token and the mounted screens
  are those of before, while no key tag, attestation, credential, PID or flow parameter of the old
  environment is left and the home screen opens the wallet instance and the settings only.\<close>

theorem environment_switch_isolates:
  "let s' = foldl rootReducer s (toggleEnvironment e) in
    selectEnv s' = e \<and> selectIoAuthToken s' = selectIoAuthToken s
    \<and> mounted_screens s' = mounted_screens s
    \<and> selectInstanceKeyTag s' = None \<and> selectAttestation s' = None \<and> selectObtainedCredentials s' = []
    \<and> selectPid s' = None \<and> selectPidFlowParams s' = None
    \<and> reachable_from_home s' = {WalletInstance, Settings}"
  by (auto simp: Let_def toggleEnvironment_def mounted_screens_def reachable_from_home_def
      home_sections_def hasSomeCredential_def selectHasInstanceKeyTag_def user_selectors reducer_defs
      selectEnv_def environmentReducer_def List.map_filter_simps)

section \<open>Identity providers\<close>

text \<open>Every identity provider the application lists has a hint, so selecting one starts the
  preparation of the issuance and never reports a missing hint; and the hint decides the redirect
  as intended: those of SPID are not taken for the card's, those of the card are.\<close>

theorem listed_providers_usable:
  assumes "idp \<in> set (spid_idps e)"
  shows "\<exists>h. getSpidIdpHint (idp_id idp) = Some h \<and> \<not> str_includes ''servizicie'' h
    \<and> spid_idp_selected prepared idp = GoBack # Run (preparePidFlowParamsThunk h spid None) #
        (case prepared (preparePidFlowParamsThunk h spid None) of
           Some p \<Rightarrow> [Navigate (PidSpidLogin (fp_authUrl p) (fp_redirectUri p))]
         | None \<Rightarrow> [ToastError ''Error during authentication''])
    \<and> str_includes ''servizicie'' (getCieIdpHint e)"
proof -
  have "\<forall>i \<in> set (idps @ testIdps). case getSpidIdpHint (idp_id i) of
      Some h \<Rightarrow> h \<noteq> [] \<and> \<not> str_includes ''servizicie'' h | None \<Rightarrow> False"
    by code_simp
  moreover have "idp \<in> set (idps @ testIdps)" using assms by (auto simp: spid_idps_def split: if_splits)
  ultimately obtain h where "getSpidIdpHint (idp_id idp) = Some h" "h \<noteq> []" "\<not> str_includes ''servizicie'' h"
    by (auto split: option.splits)
  moreover have "str_includes ''servizicie'' (getCieIdpHint Pre)"
      "str_includes ''servizicie'' (getCieIdpHint Prod)" by code_simp+
  then have "str_includes ''servizicie'' (getCieIdpHint e)" by (cases e) simp_all
  ultimately show ?thesis by (simp add: spid_idp_selected_def Let_def)
qed

lemma listed_providers_usable_witness:
  "\<exists>h. getSpidIdpHint ''posteid'' = Some h \<and> spid_idp_selected (\<lambda>_. None) (idps ! 7) =
     [GoBack, Run (preparePidFlowParamsThunk h spid None), ToastError ''Error during authentication'']"
proof -
  have "idps ! 7 \<in> set (spid_idps Prod)" and "idp_id (idps ! 7) = ''posteid''" by code_simp+
  with listed_providers_usable [of "idps ! 7" Prod "\<lambda>_. None"] show ?thesis by auto
qed

section \<open>Notifications\<close>

definition operation :: "AsyncStatus list \<Rightarrow> AsyncStatus list" where
  "operation outcomes = concat (map (\<lambda>s. [async_loading, s]) outcomes)"

lemma toasts_of_operation:
  assumes "\<forall>s \<in> set outcomes. \<not> isLoading s"
  shows "toasts False h (operation outcomes) = length (filter (\<lambda>s. hasError s \<noteq> NoError) outcomes)"
  using assms
  by (induction outcomes arbitrary: h)
    (auto simp: operation_def status_rendered_def error_effect_def loading_effect_def asyncStatusInitial_def)

text \<open>Every failed attempt of an operation is notified once, and nothing else is: while the status
  goes from initial through any number of attempts, each loading and then done or failed, the
  number of error toasts is the number of failures.\<close>

theorem one_toast_per_failure:
  assumes "\<forall>s \<in> set outcomes. s = async_done \<or> (\<exists>e. s = async_failed e)"
  shows "toasts False False (asyncStatusInitial # operation outcomes)
    = length (filter (\<lambda>s. hasError s \<noteq> NoError) outcomes)"
proof -
  have "\<not> isLoading async_done" and "\<not> isLoading (async_failed e)" for e
    by (simp_all add: asyncStatusInitial_def)
  with assms have "\<forall>s \<in> set outcomes. \<not> isLoading s" by metis
  then have "toasts False False (operation outcomes)
      = length (filter (\<lambda>s. hasError s \<noteq> NoError) outcomes)"
    by (rule toasts_of_operation)
  moreover have "status_rendered False asyncStatusInitial False = (False, 0)" by code_simp
  moreover have "isLoading asyncStatusInitial = False" by code_simp
  ultimately show ?thesis by simp
qed

lemma one_toast_per_failure_witness:
  "toasts False False (asyncStatusInitial #
     operation [async_failed (Str ''a''), async_done, async_failed (Str ''a'')]) = 2"
  using one_toast_per_failure [of "[async_failed (Str ''a''), async_done, async_failed (Str ''a'')]"]
  by (simp add: asyncStatusInitial_def)

text \<open>The scenario of the card notes the start when it is pressed: the error of the attempt before is
  notified again, before anything has been asked of the user.\<close>

lemma cie_press_repeats_error: "cie_pressed (async_failed e) = (False, 1)"
  by (simp add: cie_pressed_def error_effect_def)

section \<open>Countdown\<close>

lemma ticks_from:
  "(tick ^^ n) \<lparr>timeLeft = r, ticking = True\<rparr> =
    (if int n < max 1 \<lceil>r\<rceil> then \<lparr>timeLeft = r - of_nat n, ticking = True\<rparr>
     else \<lparr>timeLeft = 0, ticking = False\<rparr>)"
proof (induction n)
  case 0
  then show ?case by simp
next
  case (Suc n)
  consider (last) "int n < max 1 \<lceil>r\<rceil>" "r - of_nat n \<le> 1" | (more) "int n < max 1 \<lceil>r\<rceil>" "1 < r - of_nat n"
    | (over) "\<not> int n < max 1 \<lceil>r\<rceil>" by linarith
  then show ?case
  proof cases
    case last
    then have "\<lceil>r\<rceil> \<le> int n + 1" by (simp add: ceiling_le_iff)
    with last Suc show ?thesis by (simp add: tick_def)
  next
    case more
    then have "int n + 1 < \<lceil>r\<rceil>" by (simp add: less_ceiling_iff)
    with more Suc show ?thesis by (simp add: tick_def)
  next
    case over
    with Suc show ?thesis by (simp add: tick_def)
  qed
qed

text \<open>The countdown of the trustmark ends: it runs for as many ticks as there are started seconds
  left, at least one, showing one second less at each; then the interval is stopped and the text
  stays at zero, the notice that the code has expired being never shown.\<close>

theorem countdown_ends:
  "let r = time - now / 1000; k = nat (max 1 \<lceil>r\<rceil>) in
    (\<forall>n. if n < k then (tick ^^ n) (timer_started time now) = \<lparr>timeLeft = r - of_nat n, ticking = True\<rparr>
      else \<not> ticking ((tick ^^ n) (timer_started time now))
        \<and> timer_text ((tick ^^ n) (timer_started time now)) = ''Expires in: 0:00'')"
proof -
  have shown: "timer_text \<lparr>timeLeft = 0, ticking = False\<rparr> = ''Expires in: 0:00''" by code_simp
  show ?thesis
    unfolding Let_def timer_started_def ticks_from using shown by (auto simp: zless_nat_eq_int_zless)
qed

section \<open>Intents\<close>

lemma str_includes_length: "str_includes pat s \<Longrightarrow> length pat \<le> length s"
  by (auto simp: str_includes_iff)

lemma find_split_earliest:
  assumes "pat \<noteq> []"
  shows "find_split pat s = Some (a, b) \<Longrightarrow> \<not> str_includes pat (a @ butlast pat)"
proof (induction s arbitrary: a)
  case Nil
  then show ?case using assms by simp
next
  case (Cons x s)
  show ?case
  proof (cases "prefix pat (x # s)")
    case True
    with Cons.prems have "a = []" by auto
    then show ?thesis using str_includes_length [of pat "butlast pat"] assms by (cases pat) auto
  next
    case False
    with Cons.prems obtain a' where a: "a = x # a'" "find_split pat s = Some (a', b)" by auto
    have "s = a' @ pat @ b" using a(2) by (rule find_split_Some)
    also have "\<dots> = (a' @ butlast pat) @ last pat # b" using assms by simp
    finally have "\<not> prefix pat (x # a' @ butlast pat)"
      using False by (metis append_Cons append.assoc prefix_prefix)
    then show ?thesis using Cons.IH [OF a(2)] a(1) by simp
  qed
qed

lemma find_split_iff:
  assumes "pat \<noteq> []"
  shows "find_split pat s = Some (a, b) \<longleftrightarrow> s = a @ pat @ b \<and> \<not> str_includes pat (a @ butlast pat)"
  using find_split_earliest [OF assms] find_split_Some [of pat s a b] find_split_first [OF _ assms, of a b]
  by blast

text \<open>C40. The fallback of an intent is found exactly when it is there: the result is the text between
  the first marker of the fallback and the first end mark after it, for an address with the
  protocol of an intent, and nothing otherwise.\<close>

theorem intent_fallback_exact:
  "getIntentFallbackUrl pr url = Some fb \<longleftrightarrow> pr url = (''intent:'', True) \<and>
    (\<exists>pre post. url = pre @ fallback_hook @ fb @ '';end'' @ post
      \<and> \<not> str_includes fallback_hook (pre @ butlast fallback_hook) \<and> \<not> str_includes '';end'' (fb @ '';en''))"
proof -
  have hook: "find_split fallback_hook url = Some (pre, after) \<longleftrightarrow>
      url = pre @ fallback_hook @ after \<and> \<not> str_includes fallback_hook (pre @ butlast fallback_hook)"
    for pre after by (rule find_split_iff) (simp add: fallback_hook_def)
  have mark: "find_split '';end'' after = Some (fb, post) \<longleftrightarrow>
      after = fb @ '';end'' @ post \<and> \<not> str_includes '';end'' (fb @ '';en'')" for after post
    using find_split_iff [of "'';end''" after fb post] by simp
  have "getIntentFallbackUrl pr url = Some fb \<longleftrightarrow> pr url = (''intent:'', True)
      \<and> (\<exists>pre after post. find_split fallback_hook url = Some (pre, after)
          \<and> find_split '';end'' after = Some (fb, post))"
    by (cases "pr url"; cases "find_split fallback_hook url")
      (auto simp: getIntentFallbackUrl_def split: prod.splits)
  also have "\<dots> \<longleftrightarrow> pr url = (''intent:'', True) \<and> (\<exists>pre post. url = pre @ fallback_hook @ fb @ '';end'' @ post
      \<and> \<not> str_includes fallback_hook (pre @ butlast fallback_hook) \<and> \<not> str_includes '';end'' (fb @ '';en''))"
    unfolding hook mark by blast
  finally show ?thesis .
qed

end
