(* ===== verification/Attributes_Correct.thy ===== *)
theory Attributes_Correct
  imports Credential_Correct
begin

text \<open>
  What \<open>parseCredentialSdJwt\<close> makes of a verified credential: one attribute per claim the issuer
  defines, with the disclosed value and the localized names, and on request the disclosed claims the
  issuer does not define.
\<close>

text \<open>The name of an attribute in a locale: that of the last entry of \<open>display\<close> for the locale.\<close>

definition localized_name :: "js list \<Rightarrow> string \<Rightarrow> js res" where
  "localized_name display l = (case find (\<lambda>e. case js_get e ''locale'' of Inr loc \<Rightarrow> to_str loc = l | Inl _ \<Rightarrow> False)
       (rev display) of
     Some e \<Rightarrow> js_get e ''name'' | None \<Rightarrow> Inr Undef)"

lemma add_locale_Inr: "add_locale acc e = Inr names \<longleftrightarrow>
    (\<exists>ns loc name. acc = Inr ns \<and> js_get e ''locale'' = Inr loc \<and> js_get e ''name'' = Inr name
      \<and> names = pset ns (to_str loc) name)"
  by (auto simp: add_locale_def bindR_Inr_iff)

lemma localized_names: "foldl add_locale (Inr []) display = Inr names \<Longrightarrow> Inr (pget names l) = localized_name display l"
proof (induction display arbitrary: names rule: rev_induct)
  case Nil
  then show ?case by (auto simp: localized_name_def)
next
  case (snoc e display)
  then obtain ns loc name where ns: "foldl add_locale (Inr []) display = Inr ns"
    and e: "js_get e ''locale'' = Inr loc" "js_get e ''name'' = Inr name" "names = pset ns (to_str loc) name"
    by (auto simp: add_locale_Inr)
  from snoc.IH [OF ns] e show ?case by (auto simp: localized_name_def pget_pset)
qed

text \<open>The value of a claim: that of its first disclosure, undefined if it was not disclosed.\<close>

definition first_disclosed :: "js list \<Rightarrow> string \<Rightarrow> js" where
  "first_disclosed ds k = (case filter (\<lambda>d. claim_name d = Str k) ds of [] \<Rightarrow> Undef | d # _ \<Rightarrow> component d 2)"

lemma disclosed_value_first: "disclosed_value ds k = first_disclosed ds k"
  by (induction ds) (auto simp: disclosed_value_def first_disclosed_def)

text \<open>An attribute: the fields of its definition, the disclosed value, the names in place of \<open>display\<close>.\<close>

definition attribute_of :: "js list \<Rightarrow> string \<Rightarrow> props \<Rightarrow> js \<Rightarrow> bool" where
  "attribute_of ds k definition v \<longleftrightarrow> (\<exists>a names display. v = Obj a \<and> pget definition ''display'' = Arr display
     \<and> pget a ''value'' = first_disclosed ds k \<and> pget a ''display'' = Undef \<and> pget a ''name'' = Obj names
     \<and> (\<forall>l. Inr (pget names l) = localized_name display l)
     \<and> (\<forall>f. f \<notin> {''value'', ''display'', ''name''} \<longrightarrow> pget a f = pget definition f))"

lemma parse_attribute_ok:
  assumes "parse_attribute ds (k, d) = Inr kv"
  shows "fst kv = k \<and> (\<exists>defn. d = Obj defn \<and> attribute_of ds k defn (snd kv))"
proof -
  from assms obtain defn display names where d: "d = Obj defn"
    and disp: "js_elems (pget (pset defn ''value'' (disclosed_value ds k)) ''display'') = Inr display"
    and n: "foldl add_locale (Inr []) display = Inr names"
    and kv: "kv = (k, Obj (pset (pdel [''display''] (pset defn ''value'' (disclosed_value ds k))) ''name'' (Obj names)))"
    by (auto simp: parse_attribute_def Let_def bindR_Inr_iff split: js.splits)
  have "pget defn ''display'' = Arr display"
    using disp by (auto simp: pget_pset js_elems_def split: js.splits)
  then have "attribute_of ds k defn (snd kv)"
    by (auto simp: attribute_of_def kv pget_pset disclosed_value_first localized_names [OF n])
  with d kv show ?thesis by simp
qed

text \<open>What the attributes are, for the claims \<open>defs\<close> the issuer defines and the disclosures \<open>ds\<close>.\<close>

definition attributes_of :: "bool \<Rightarrow> bool \<Rightarrow> props \<Rightarrow> js list \<Rightarrow> props \<Rightarrow> bool" where
  "attributes_of ignoreMissing includeUndefined defs ds parsed \<longleftrightarrow>
     (\<forall>k d. (k, d) \<in> set defs \<longrightarrow> (\<exists>defn. d = Obj defn \<and> attribute_of ds k defn (pget parsed k)))
     \<and> (\<not> ignoreMissing \<longrightarrow> (\<forall>k \<in> fst ` set defs. \<exists>d \<in> set ds. claim_name d = Str k))
     \<and> (if includeUndefined
        then fst ` set parsed = fst ` set defs \<union> {k. \<exists>d \<in> set ds. claim_name d = Str k}
          \<and> (\<forall>k. k \<in> fst ` set parsed - fst ` set defs \<longrightarrow>
               (\<exists>d \<in> set ds. claim_name d = Str k \<and> pget parsed k = Obj [(''value'', component d 2), (''name'', Str k)]))
        else map fst parsed = Js_Value.keys defs)"

lemma parsed_definitions:
  assumes "mapR (parse_attribute ds) (entries defs) = Inr attrs"
  shows "map fst attrs = Js_Value.keys defs"
    and "(k, d) \<in> set defs \<Longrightarrow> \<exists>defn v. d = Obj defn \<and> (k, v) \<in> set attrs \<and> attribute_of ds k defn v"
proof -
  from assms have all: "list_all2 (\<lambda>kd kv. parse_attribute ds kd = Inr kv) (entries defs) attrs"
    by (simp add: mapR_Inr_iff)
  then have "list_all2 (\<lambda>kd kv. fst kv = fst kd) (entries defs) attrs"
    by (rule list_all2_mono) (use parse_attribute_ok in \<open>metis prod.collapse\<close>)
  then show "map fst attrs = Js_Value.keys defs"
    by (auto simp: list_all2_conv_all_nth Js_Value.keys_def intro: nth_equalityI)
  assume "(k, d) \<in> set defs"
  then have "(k, d) \<in> set (entries defs)" by simp
  then obtain i where i: "i < length (entries defs)" "entries defs ! i = (k, d)"
    unfolding in_set_conv_nth by blast
  with all have p: "parse_attribute ds (k, d) = Inr (attrs ! i)" and l: "i < length attrs"
    by (auto simp: list_all2_conv_all_nth)
  from parse_attribute_ok [OF p] obtain defn where "d = Obj defn" "attribute_of ds k defn (snd (attrs ! i))" "fst (attrs ! i) = k"
    by blast
  moreover from l have "attrs ! i \<in> set attrs" by simp
  ultimately show "\<exists>defn v. d = Obj defn \<and> (k, v) \<in> set attrs \<and> attribute_of ds k defn v"
    by (metis prod.collapse)
qed

lemma pget_in: "k \<in> fst ` set kvs \<Longrightarrow> (k, pget kvs k) \<in> set kvs"
  by (auto simp: pget_def map_of_eq_None_iff intro: map_of_SomeD split: option.split)

lemma case_Obj_Inr: "(case c of Obj x \<Rightarrow> F x | _ \<Rightarrow> Inl e) = Inr p \<longleftrightarrow> (\<exists>x. c = Obj x \<and> F x = Inr p)"
  by (cases c) auto

text \<open>The disclosed claims without a definition, for the defined names \<open>K\<close>.\<close>

lemma undefined_attributes_iff:
  assumes names: "\<And>d. d \<in> set ds \<Longrightarrow> \<exists>s. claim_name d = Str s"
  shows "(k, v) \<in> set (map undefined_attribute (filter (\<lambda>d. \<not> list_ex (\<lambda>k. is_named k d) K) ds)) \<longleftrightarrow>
    k \<notin> set K \<and> (\<exists>d \<in> set ds. claim_name d = Str k \<and> v = Obj [(''value'', component d 2), (''name'', Str k)])"
proof -
  have "(k, v) \<in> set (map undefined_attribute (filter (\<lambda>d. \<not> list_ex (\<lambda>k. is_named k d) K) ds)) \<longleftrightarrow>
      (\<exists>d \<in> set ds. (\<forall>j \<in> set K. claim_name d \<noteq> Str j)
        \<and> k = to_str (claim_name d) \<and> v = Obj [(''value'', component d 2), (''name'', claim_name d)])"
    unfolding undefined_attribute_def set_map set_filter list_ex_iff is_named_def by blast
  also have "\<dots> \<longleftrightarrow> (\<exists>d \<in> set ds. k \<notin> set K \<and> claim_name d = Str k
      \<and> v = Obj [(''value'', component d 2), (''name'', Str k)])"
  proof (rule bex_cong [OF refl])
    fix d assume "d \<in> set ds"
    from names [OF this] obtain s where "claim_name d = Str s" by blast
    then show "((\<forall>j \<in> set K. claim_name d \<noteq> Str j) \<and> k = to_str (claim_name d)
        \<and> v = Obj [(''value'', component d 2), (''name'', claim_name d)])
      = (k \<notin> set K \<and> claim_name d = Str k \<and> v = Obj [(''value'', component d 2), (''name'', Str k)])"
      by auto
  qed
  finally show ?thesis by blast
qed

lemma keys_spread_entries: "fst ` set (pspread a (from_entries U)) = fst ` set a \<union> fst ` set U"
  by (simp add: from_entries_def keys_from_entries)

lemma pget_spread_entries:
  "pget (pspread a (from_entries U)) k = (if k \<in> fst ` set U then pget (rev U) k else pget a k)"
proof (cases "k \<in> fst ` set U")
  case True
  have "distinct (map fst (from_entries U))"
    using pspread_distinct [of "[]" U] by (simp add: from_entries_def)
  moreover have "fst ` set (from_entries U) = fst ` set U" by (simp add: from_entries_def keys_from_entries)
  ultimately have "pget (rev (from_entries U)) k = pget (from_entries U) k"
    using pget_in [of k "from_entries U"] pget_distinct [of "rev (from_entries U)"] True
    by (simp add: rev_map [symmetric])
  with True show ?thesis by (simp add: pget_pspread from_entries_def keys_from_entries)
qed (simp add: pget_pspread from_entries_def keys_from_entries)

lemma attributes_with_undefined:
  defines "U \<equiv> \<lambda>ds K. map undefined_attribute (filter (\<lambda>d. \<not> list_ex (\<lambda>k. is_named k d) K) ds)"
  assumes names: "\<And>d. d \<in> set ds \<Longrightarrow> \<exists>s. claim_name d = Str s"
    and K: "set K = fst ` set defs" "fst ` set attrs = fst ` set defs"
    and attr: "\<And>k d. (k, d) \<in> set defs \<Longrightarrow> \<exists>defn. d = Obj defn \<and> attribute_of ds k defn (pget attrs k)"
    and present: "\<And>k. \<not> ignoreMissing \<Longrightarrow> k \<in> fst ` set defs \<Longrightarrow> \<exists>d \<in> set ds. claim_name d = Str k"
  shows "attributes_of ignoreMissing True defs ds (pspread attrs (from_entries (U ds K)))"
proof -
  let ?U = "U ds K" and ?p = "pspread attrs (from_entries (U ds K))"
  have U: "(k, v) \<in> set ?U \<longleftrightarrow> k \<notin> fst ` set defs
      \<and> (\<exists>d \<in> set ds. claim_name d = Str k \<and> v = Obj [(''value'', component d 2), (''name'', Str k)])" for k v
    unfolding U_def K(1) [symmetric] by (rule undefined_attributes_iff [OF names])
  have kU: "k \<in> fst ` set ?U \<longleftrightarrow> k \<notin> fst ` set defs \<and> (\<exists>d \<in> set ds. claim_name d = Str k)" for k
  proof -
    have "k \<in> fst ` set ?U \<longleftrightarrow> (\<exists>v. (k, v) \<in> set ?U)" by force
    then show ?thesis unfolding U by blast
  qed
  have all: "fst ` set ?p = fst ` set defs \<union> {k. \<exists>d \<in> set ds. claim_name d = Str k}"
    by (rule set_eqI) (use kU in \<open>simp only: keys_spread_entries K(2) Un_iff mem_Collect_eq; blast\<close>)
  have defined: "\<exists>defn. d = Obj defn \<and> attribute_of ds k defn (pget ?p k)" if "(k, d) \<in> set defs" for k d
    using attr [OF that] kU [of k] that by (metis fst_conv image_eqI pget_spread_entries)
  have new: "\<exists>d \<in> set ds. claim_name d = Str k \<and> pget ?p k = Obj [(''value'', component d 2), (''name'', Str k)]"
    if "k \<in> fst ` set ?p - fst ` set defs" for k
  proof -
    from that have kin: "k \<in> fst ` set ?U" unfolding all kU by blast
    then have "(k, pget (rev ?U) k) \<in> set ?U" using pget_in [of k "rev ?U"] by simp
    then show ?thesis unfolding U pget_spread_entries using kin by metis
  qed
  show ?thesis
    unfolding attributes_of_def if_True by (intro conjI allI impI ballI) (rule all | erule defined present new | assumption)+
qed

lemma parseCredentialSdJwt_attributes:
  assumes parse: "parseCredentialSdJwt cs dec ignoreMissing includeUndefined = Inr parsed"
    and names: "\<And>d. d \<in> set (v_disclosures dec) \<Longrightarrow> \<exists>s. claim_name d = Str s"
  obtains vct subject defs where "js_path (v_sdJwt dec) [''payload'', ''vct''] = Inr vct"
    and "js_get cs (to_str vct) = Inr subject" and "js_get subject ''claims'' = Inr (Obj defs)"
    and "distinct (map fst defs) \<Longrightarrow> attributes_of ignoreMissing includeUndefined defs (v_disclosures dec) parsed"
proof -
  let ?ds = "v_disclosures dec"
  from parse obtain vct subject defs attrs where s: "js_path (v_sdJwt dec) [''payload'', ''vct''] = Inr vct"
      "js_get cs (to_str vct) = Inr subject" "js_get subject ''claims'' = Inr (Obj defs)"
    and m: "ignoreMissing \<or> missing_attributes defs ?ds = []"
    and attrs: "mapR (parse_attribute ?ds) (entries defs) = Inr attrs"
    and r: "parsed = (if includeUndefined then pspread (from_entries attrs) (from_entries (map undefined_attribute
          (filter (\<lambda>d. \<not> list_ex (\<lambda>k. is_named k d) (Js_Value.keys (from_entries attrs))) ?ds))) else from_entries attrs)"
    by (auto simp: parseCredentialSdJwt_def bindR_Inr_iff Let_def case_Obj_Inr simp del: js_path.simps split: if_splits)
  have "attributes_of ignoreMissing includeUndefined defs ?ds parsed" if dist: "distinct (map fst defs)"
  proof -
    note keys = parsed_definitions(1) [OF attrs]
    have dk: "distinct (map fst attrs)"
      unfolding keys Js_Value.keys_def using dist mset_eq_imp_distinct_iff [of "map fst (entries defs)" "map fst defs"]
      by (metis mset_entries mset_map)
    then have fe: "from_entries attrs = attrs" by (rule from_entries_distinct)
    have fs: "fst ` set attrs = fst ` set defs" using keys by (metis set_keys set_map)
    have attr: "\<exists>defn. d = Obj defn \<and> attribute_of ?ds k defn (pget attrs k)" if "(k, d) \<in> set defs" for k d
      using parsed_definitions(2) [OF attrs that] pget_distinct [OF dk] by metis
    have present: "\<exists>d \<in> set ?ds. claim_name d = Str k" if "\<not> ignoreMissing" "k \<in> fst ` set defs" for k
      using m that by (fastforce simp: missing_attributes_def filter_empty_conv list_ex_iff is_named_def)
    show ?thesis
    proof (cases includeUndefined)
      case False
      with attr present keys r fe show ?thesis by (auto simp: attributes_of_def)
    next
      case True
      have "set (Js_Value.keys attrs) = fst ` set defs" by (simp add: set_keys fs)
      from attributes_with_undefined [OF names this fs attr present] True show ?thesis by (simp add: r fe)
    qed
  qed
  with s that show thesis by blast
qed

lemma decoded_names:
  assumes zod: "zod_library (x_zod X)" and dec: "decode X token sch = Inr d" and e: "e \<in> set (disclosures d)"
  shows "\<exists>s. claim_name (decoded e) = Str s"
proof -
  from dec obtain ds where "mapR (decodeDisclosure X) ds = Inr (disclosures d)" by (auto simp: decode_Inr_iff)
  with e obtain enc where "decodeDisclosure X enc = Inr e"
    by (auto simp: mapR_Inr_iff list_all2_conv_all_nth in_set_conv_nth)
  then obtain v where "zparse X Disclosure v = Inr (decoded e)" by (auto simp: decodeDisclosure_def bindR_Inr_iff)
  then have "conforms Disclosure (decoded e)"
    using zod_library.result_conforms [OF zod] by (simp add: zparse_def)
  then obtain a b c where "decoded e = Arr [a, b, c]" "conforms ZString b"
    by (auto simp: Disclosure_def numeral_eq_Suc length_Suc_conv split: js.splits)
  then show ?thesis by (cases b) (auto simp: component_def)
qed

text \<open>C3. The attributes \<open>verifyAndParseCredential\<close> returns are those of the accepted credential.  For every
  claim the issuer defines for the credential's type there is one attribute, with the fields of the
  definition, the value that was disclosed for the claim and, in each locale, the name the issuer
  gives last; unless missing attributes are ignored, every defined claim was disclosed.  When they are
  ignored, a defined claim that was not disclosed keeps its attribute, with the value \<open>undefined\<close>,
  although the source's comment announces the disclosed ones only.  On request
  the other disclosed claims are there too, under their own names, and nothing else.\<close>

theorem parsed_attributes:
  assumes zod: "zod_library (x_zod X)"
    and ok: "verifyAndParseCredential X conf credential format ctx ignoreMissing includeUndefined w = (Inr p, w')"
  shows "\<exists>issuerKeys d supported vct subject defs. credential_accepted X issuerKeys credential ctx w d
    \<and> js_path conf [''openid_credential_issuer'', ''credential_configurations_supported''] = Inr supported
    \<and> js_path (sdJwt d) [''payload'', ''vct''] = Inr vct \<and> js_get supported (to_str vct) = Inr subject
    \<and> js_get subject ''claims'' = Inr (Obj defs)
    \<and> (distinct (map fst defs) \<longrightarrow>
         attributes_of ignoreMissing includeUndefined defs (map decoded (disclosures d)) (parsedCredential p))"
proof -
  from ok obtain issuerKeys dec w1 supported where
      v: "verifyCredentialSdJwt X credential issuerKeys ctx w = (Inr dec, w1)"
    and s: "js_path conf [''openid_credential_issuer'', ''credential_configurations_supported''] = Inr supported"
    and parse: "parseCredentialSdJwt supported dec ignoreMissing includeUndefined = Inr (parsedCredential p)"
    by (auto simp: verifyAndParseCredential_def verifyAndParseCredentialSdJwt_def bindIO_Inr_iff Let_def
        simp del: js_path.simps split: if_splits)
  from verifyCredentialSdJwt_ok [OF zod v] obtain d where d: "credential_accepted X issuerKeys credential ctx w d"
    "dec = \<lparr>v_sdJwt = sdJwt d, v_disclosures = map decoded (disclosures d)\<rparr>" by blast
  from d(1) have "decode X credential (Some SdJwt4VC) = Inr d" by (simp add: credential_accepted_def)
  note names = decoded_names [OF zod this]
  obtain vct subject defs where "js_path (sdJwt d) [''payload'', ''vct''] = Inr vct" "js_get supported (to_str vct) = Inr subject"
    "js_get subject ''claims'' = Inr (Obj defs)"
    "distinct (map fst defs) \<Longrightarrow> attributes_of ignoreMissing includeUndefined defs (map decoded (disclosures d)) (parsedCredential p)"
    by (rule parseCredentialSdJwt_attributes [OF parse]) (use names d(2) in \<open>auto simp del: js_path.simps\<close>)
  with d(1) s show ?thesis by blast
qed

lemma parsed_attributes_witness:
  "\<exists>p w' issuerKeys d. verifyAndParseCredential sd_ext sample_issuer_keys sd_token ''vc+sd-jwt'' sample_ctx False True
      sample_world = (Inr p, w')
    \<and> map fst (parsedCredential p) = [''a'', ''b''] \<and> credential_accepted sd_ext issuerKeys sd_token sample_ctx sample_world d
    \<and> attributes_of False True [(''a'', Obj [(''display'', Arr [Obj [(''locale'', Str ''it''), (''name'', Str ''A'')]])])]
        (map decoded (disclosures d)) (parsedCredential p)"
proof -
  let ?r = "verifyAndParseCredential sd_ext sample_issuer_keys sd_token ''vc+sd-jwt'' sample_ctx False True sample_world"
  have "(case fst ?r of Inr p \<Rightarrow> map fst (parsedCredential p) = [''a'', ''b''] | Inl e \<Rightarrow> False)" by code_simp
  then obtain p w' where r: "?r = (Inr p, w')" and k: "map fst (parsedCredential p) = [''a'', ''b'']"
    by (cases ?r) (auto split: sum.splits)
  from parsed_attributes [OF sample_zod(2) r] obtain issuerKeys d supported vct subject defs where
      d: "credential_accepted sd_ext issuerKeys sd_token sample_ctx sample_world d"
    and s: "js_path sample_issuer_keys [''openid_credential_issuer'', ''credential_configurations_supported''] = Inr supported"
    and v: "js_path (sdJwt d) [''payload'', ''vct''] = Inr vct" and t: "js_get supported (to_str vct) = Inr subject"
      "js_get subject ''claims'' = Inr (Obj defs)"
    and a: "distinct (map fst defs) \<longrightarrow> attributes_of False True defs (map decoded (disclosures d)) (parsedCredential p)"
    by (elim exE conjE) blast
  have "(case decode sd_ext sd_token (Some SdJwt4VC) of
      Inr e \<Rightarrow> js_path (sdJwt e) [''payload'', ''vct''] = Inr (Str ''V'') | Inl e \<Rightarrow> False)" by code_simp
  with d v have "vct = Str ''V''" by (simp add: credential_accepted_def)
  with s t have "defs = [(''a'', Obj [(''display'', Arr [Obj [(''locale'', Str ''it''), (''name'', Str ''A'')]])])]"
    by (auto simp: sample_issuer_keys_def)
  with a d r k show ?thesis by (intro exI conjI) (assumption | simp)+
qed

end
