(* ===== verification/App_Threads.thy ===== *)
theory App_Threads
  imports App_Flows
begin

text \<open>
  The thunks of the example application as they interleave.  JavaScript runs a block of code from one
  \<open>await\<close> to the next without interruption; between two blocks of a thunk, blocks of other thunks and
  the user's actions may run.  A thunk is a thread: the sequence of its blocks, each a function of the
  state it finds.  A system is the state the thunks share and the thunks in flight; a list of events
  is an order in which their blocks run.

  A call of the library that the application awaits is one block: its effects on the world happen
  where the call is made, and \<open>appFetch\<close> reads the store there.
\<close>

section \<open>Threads\<close>

text \<open>A block returns the actions it dispatches in their order, the memo and the world it leaves, and
  what remains to be done.\<close>

datatype ('a, 'c) thread =
    Settled "'a res"
  | Block "'c app_state \<Rightarrow> action list \<times> 'c \<times> world \<times> ('a, 'c) thread"

type_synonym ('a, 'c) block = "action list \<times> 'c \<times> world \<times> ('a, 'c) thread"

definition after :: "'c app_state \<Rightarrow> ('a, 'c) block \<Rightarrow> 'c app_state" where
  "after s b = (case b of (as, c, w, t) \<Rightarrow>
     \<lparr>a_store = foldl rootReducer (a_store s) as, a_memo = c, a_world = w\<rparr>)"

definition rest :: "('a, 'c) block \<Rightarrow> ('a, 'c) thread" where
  "rest b = (case b of (as, c, w, t) \<Rightarrow> t)"

definition actions :: "('a, 'c) block \<Rightarrow> action list" where
  "actions b = fst b"

text \<open>The first block of a thread, run now.\<close>

definition now :: "('a, 'c) thread \<Rightarrow> 'c app_state \<Rightarrow> ('a, 'c) block" where
  "now t s = (case t of Settled r \<Rightarrow> ([], a_memo s, a_world s, Settled r) | Block f \<Rightarrow> f s)"

text \<open>What follows a settled promise, whatever its outcome, and \<open>await\<close>.\<close>

primrec thenT :: "('a res \<Rightarrow> ('b, 'c) thread) \<Rightarrow> ('a, 'c) thread \<Rightarrow> ('b, 'c) thread" where
  "thenT k (Settled r) = k r"
| "thenT k (Block f) = Block (\<lambda>s. map_prod id (map_prod id (map_prod id (thenT k))) (f s))"

definition bindT :: "('a, 'c) thread \<Rightarrow> ('a \<Rightarrow> ('b, 'c) thread) \<Rightarrow> ('b, 'c) thread" where
  "bindT m k = thenT (\<lambda>r. case r of Inl e \<Rightarrow> Settled (Inl e) | Inr x \<Rightarrow> k x) m"

text \<open>A call that is awaited; code that reads the state or dispatches an action and goes on in the same
  block.\<close>

definition callT :: "(RootState \<Rightarrow> 'a io) \<Rightarrow> ('a, 'c) thread" where
  "callT m = Block (\<lambda>s. case m (a_store s) (a_world s) of (r, w) \<Rightarrow> ([], a_memo s, w, Settled r))"

definition readT :: "(RootState \<Rightarrow> ('a, 'c) thread) \<Rightarrow> ('a, 'c) thread" where
  "readT f = Block (\<lambda>s. now (f (a_store s)) s)"

definition dispatchT :: "action \<Rightarrow> ('a, 'c) thread \<Rightarrow> ('a, 'c) thread" where
  "dispatchT a t = Block (\<lambda>s.
     apfst (\<lambda>as. a # as) (now t (s\<lparr>a_store := rootReducer (a_store s) a\<rparr>)))"

abbreviation throwT :: "string \<Rightarrow> ('a, 'c) thread" where
  "throwT m \<equiv> Settled (Inl (new_Error m))"

text \<open>\<open>createAsyncThunk\<close>: the \<open>pending\<close> action and the beginning of the payload creator are one block;
  the outcome is dispatched in a block of its own.\<close>

definition settleT :: "(js_error \<Rightarrow> js) \<Rightarrow> thunk_call \<Rightarrow> thunk_payload res \<Rightarrow> (unit, 'c) thread" where
  "settleT ser call r = dispatchT (case r of Inr p \<Rightarrow> fulfilled call p | Inl e \<Rightarrow> rejected call (ser e))
     (Settled (Inr ()))"

definition thunkT :: "(js_error \<Rightarrow> js) \<Rightarrow> thunk_call \<Rightarrow> (thunk_payload, 'c) thread \<Rightarrow> (unit, 'c) thread" where
  "thunkT ser call creator = dispatchT (pending call) (thenT (settleT ser call) creator)"

section \<open>The flows of \<open>utils/credential.ts\<close>, block by block\<close>

definition new_credential_key :: "ext \<Rightarrow> string io" where
  "new_credential_key X = bindIO (uuidv4 X) (\<lambda>tag. bindIO (generate X tag) (\<lambda>_. returnIO tag))"

definition finish_issuanceT :: "'c app_env \<Rightarrow> js \<Rightarrow> js \<Rightarrow> js \<Rightarrow> string \<Rightarrow> string \<Rightarrow> js \<Rightarrow> string \<Rightarrow>
    crypto_context \<Rightarrow> string \<Rightarrow> bool \<Rightarrow> 't \<Rightarrow> ('t credential_result, 'c) thread" where
  "finish_issuanceT E issuerConf code client redirectUri verifier definition
       walletInstanceAttestation wiaCryptoContext credentialKeyTag ignoreMissingAttributes t =
     bindT (callT (\<lambda>_. regenerateCryptoKey (ae_X E) DPOP_KEYTAG)) (\<lambda>_.
     let dPopCryptoContext = createCryptoContextFor (ae_X E) DPOP_KEYTAG;
         credentialCryptoContext = createCryptoContextFor (ae_X E) credentialKeyTag in
     bindT (callT (\<lambda>st. authorizeAccess (app_ext E st) issuerConf code client redirectUri verifier
       walletInstanceAttestation wiaCryptoContext dPopCryptoContext)) (\<lambda>accessToken.
     bindT (callT (\<lambda>st. bindIO (obtainCredential (app_ext E st) issuerConf accessToken client definition
         dPopCryptoContext credentialCryptoContext) (\<lambda>res.
       bindIO (liftR (conf_str res [''credential''])) (\<lambda>credential.
       bindIO (liftR (conf_str res [''format''])) (\<lambda>format. returnIO (credential, format))))))
       (\<lambda>(credential, format).
     bindT (callT (\<lambda>_. verifyAndParseCredential (ae_X E) issuerConf credential format
       credentialCryptoContext ignoreMissingAttributes False)) (\<lambda>parsed.
     Settled (Inr \<lparr>r_credential = credential, r_parsedCredential = parsedCredential parsed,
       r_keyTag = credentialKeyTag, r_credentialType = t\<rparr>)))))"

definition getPidCieIDT :: "'c app_env \<Rightarrow> string \<Rightarrow> string \<Rightarrow> string \<Rightarrow> string \<Rightarrow> crypto_context \<Rightarrow>
    (PidResult, 'c) thread" where
  "getPidCieIDT E pidIssuerUrl redirectUri idpHint walletInstanceAttestation wiaCryptoContext =
     bindT (callT (\<lambda>_. new_credential_key (ae_X E))) (\<lambda>credentialKeyTag.
     bindT (callT (\<lambda>st. evaluateIssuerTrust (app_ext E st) pidIssuerUrl)) (\<lambda>issuerConf.
     bindT (callT (\<lambda>st. startUserAuthorization (app_ext E st) issuerConf ''PersonIdentificationData''
       wiaCryptoContext walletInstanceAttestation redirectUri)) (\<lambda>ua.
     bindT (callT (\<lambda>_. liftR (buildAuthorizationUrl (issuerRequestUri ua) (clientId ua) issuerConf idpHint)))
       (\<lambda>authUrl.
     bindT (callT (\<lambda>_. askIO (openUrlAndListenForAuthRedirect (ae_D E) redirectUri authUrl)))
       (\<lambda>authRedirectUrl.
     bindT (callT (\<lambda>_. bindIO (liftR (completeUserAuthorizationWithQueryMode (ae_X E) authRedirectUrl))
       (\<lambda>authRes. liftR (js_get authRes ''code'')))) (\<lambda>code.
     finish_issuanceT E issuerConf code (clientId ua) redirectUri (codeVerifier ua)
       (credentialDefinition ua) walletInstanceAttestation wiaCryptoContext credentialKeyTag False
       PersonIdentificationData))))))"

definition getCredentialT :: "'c app_env \<Rightarrow> string \<Rightarrow> string \<Rightarrow> SupportedCredentialsWithoutPid \<Rightarrow> string \<Rightarrow>
    crypto_context \<Rightarrow> string \<Rightarrow> crypto_context \<Rightarrow> (CredentialResult, 'c) thread" where
  "getCredentialT E credentialIssuerUrl redirectUri credentialType walletInstanceAttestation
       wiaCryptoContext pid pidCryptoContext =
     bindT (callT (\<lambda>_. new_credential_key (ae_X E))) (\<lambda>credentialKeyTag.
     bindT (callT (\<lambda>_. evaluateIssuerTrust (ae_X E) credentialIssuerUrl)) (\<lambda>issuerConf.
     bindT (callT (\<lambda>st. startUserAuthorization (app_ext E st) issuerConf (credential_name credentialType)
       wiaCryptoContext walletInstanceAttestation redirectUri)) (\<lambda>ua.
     bindT (callT (\<lambda>st. getRequestedCredentialToBePresented (app_ext E st) (issuerRequestUri ua)
       (clientId ua) issuerConf)) (\<lambda>requestObject.
     bindT (callT (\<lambda>_. bindIO (completeUserAuthorizationWithFormPostJwtMode (ae_X E) requestObject
         wiaCryptoContext pidCryptoContext pid walletInstanceAttestation)
       (\<lambda>authRes. liftR (js_get authRes ''code'')))) (\<lambda>code.
     finish_issuanceT E issuerConf code (clientId ua) redirectUri (codeVerifier ua)
       (credentialDefinition ua) walletInstanceAttestation wiaCryptoContext credentialKeyTag True
       credentialType)))))"

definition getCredentialStatusAttestationT :: "'c app_env \<Rightarrow> string \<Rightarrow> string \<Rightarrow> crypto_context \<Rightarrow>
    SupportedCredentialsWithoutPid \<Rightarrow> (GetCredentialStatusAttestationThunkOutput, 'c) thread" where
  "getCredentialStatusAttestationT E credentialIssuerUrl credential credentialCryptoContext
       credentialType =
     bindT (callT (\<lambda>_. evaluateIssuerTrust (ae_X E) credentialIssuerUrl)) (\<lambda>issuerConf.
     bindT (callT (\<lambda>_. bindIO (statusAttestation (ae_X E) issuerConf credential credentialCryptoContext)
       (\<lambda>att. liftR (js_str att)))) (\<lambda>jwt.
     bindT (callT (\<lambda>_. verifyAndParseStatusAttestation (ae_X E) issuerConf jwt credentialCryptoContext))
       (\<lambda>parsed.
     Settled (Inr \<lparr>sa_statusAttestation = jwt, sa_parsedStatusAttestation = parsed,
       sa_credentialType = credentialType\<rparr>))))"

section \<open>The thunks, block by block\<close>

definition getAttestation_thread :: "'c app_env \<Rightarrow> (thunk_payload, 'c) thread" where
  "getAttestation_thread E = readT (\<lambda>st.
     case present (selectInstanceKeyTag st) of
       None \<Rightarrow> throwT ''Integrity key not found''
     | Some integrityKeyTag \<Rightarrow>
       bindT (callT (\<lambda>_. regenerateCryptoKey (ae_X E) WIA_KEYTAG)) (\<lambda>_.
       bindT (callT (\<lambda>st. bindIO (wia_getAttestation (app_ext E st) (ae_G E)
           (createCryptoContextFor (ae_X E) WIA_KEYTAG)
           (getIntegrityContext (ae_X E) (ae_D E) integrityKeyTag)
           (WALLET_PROVIDER_BASE_URL (getEnv (ae_V E) (selectEnv st))))
         (\<lambda>v. liftR (js_str v)))) (\<lambda>wia.
       Settled (Inr (Attestation wia)))))"

definition createWalletInstance_thread :: "'c app_env \<Rightarrow> (thunk_payload, 'c) thread" where
  "createWalletInstance_thread E = readT (\<lambda>st.
     let envs = getEnv (ae_V E) (selectEnv st);
         googleCloudProjectNumber =
           (if d_OS (ae_D E) = android then Some (GOOGLE_CLOUD_PROJECT_NUMBER envs) else None) in
     bindT (callT (\<lambda>_. askIO (ensureIntegrityServiceIsReady (ae_D E) googleCloudProjectNumber))) (\<lambda>_.
     bindT (callT (\<lambda>_. generateIntegrityHardwareKeyTag (ae_X E) (ae_D E))) (\<lambda>integrityKeyTag.
     bindT (callT (\<lambda>st. createWalletInstance (app_ext E st) (ae_G E)
       (getIntegrityContext (ae_X E) (ae_D E) integrityKeyTag) (WALLET_PROVIDER_BASE_URL envs))) (\<lambda>_.
     Settled (Inr (KeyTag integrityKeyTag))))))"

definition revokeWalletInstance_thread :: "'c app_env \<Rightarrow> (thunk_payload, 'c) thread" where
  "revokeWalletInstance_thread E = readT (\<lambda>st.
     case present (selectInstanceKeyTag st) of
       None \<Rightarrow> throwT ''Integrity key not found''
     | Some integrityKeyTag \<Rightarrow>
       bindT (callT (\<lambda>st. revokeWalletInstance (app_ext E st) (ae_G E) integrityKeyTag
         (WALLET_PROVIDER_BASE_URL (getEnv (ae_V E) (selectEnv st))))) (\<lambda>_.
       dispatchT instanceReset (Settled (Inr Nothing))))"

text \<open>The attestation is requested by a thunk that is dispatched and awaited; without the need for it
  the code goes on in the same block.\<close>

definition with_attestationT :: "'c app_env \<Rightarrow> (string \<Rightarrow> ('a, 'c) thread) \<Rightarrow> ('a, 'c) thread" where
  "with_attestationT E f = (let continue = readT (\<lambda>st.
       case present (selectAttestation st) of
         None \<Rightarrow> throwT ''Wallet Instance Attestation not found''
       | Some wia \<Rightarrow> f wia) in
     Block (\<lambda>s. case shouldRequestAttestationSelector (ae_X E) (ae_memo E) s of
         (Inl e, s') \<Rightarrow> now (Settled (Inl e)) s'
       | (Inr needed, s') \<Rightarrow> now (if needed
           then bindT (thunkT (ae_ser E) getAttestationThunk (getAttestation_thread E)) (\<lambda>_. continue)
           else continue) s'))"

definition getCredential_thread ::
  "'c app_env \<Rightarrow> SupportedCredentialsWithoutPid \<Rightarrow> (thunk_payload, 'c) thread" where
  "getCredential_thread E credentialType = with_attestationT E (\<lambda>walletInstanceAttestation.
     readT (\<lambda>st.
     let envs = getEnv (ae_V E) (selectEnv st) in
     case selectPid st of
       None \<Rightarrow> throwT ''PID not found''
     | Some pid \<Rightarrow>
       bindT (getCredentialT E (WALLET_EAA_PROVIDER_BASE_URL envs) (REDIRECT_URI envs) credentialType
         walletInstanceAttestation (createCryptoContextFor (ae_X E) WIA_KEYTAG) (r_credential pid)
         (createCryptoContextFor (ae_X E) (r_keyTag pid))) (\<lambda>r.
       Settled (Inr (CredentialObtained r)))))"

definition statusAttestation_thread :: "'c app_env \<Rightarrow> SupportedCredentialsWithoutPid \<Rightarrow> string \<Rightarrow> string \<Rightarrow>
    (thunk_payload, 'c) thread" where
  "statusAttestation_thread E credentialType credential keyTag = readT (\<lambda>st.
     bindT (getCredentialStatusAttestationT E
       (WALLET_EAA_PROVIDER_BASE_URL (getEnv (ae_V E) (selectEnv st))) credential
       (createCryptoContextFor (ae_X E) keyTag) credentialType) (\<lambda>r.
     Settled (Inr (StatusAttestationObtained r))))"

definition trustmark_thread :: "'c app_env \<Rightarrow> SupportedCredentialsWithoutPid \<Rightarrow> string option \<Rightarrow>
    (thunk_payload, 'c) thread" where
  "trustmark_thread E credentialType documentNumber = readT (\<lambda>st.
     case present (selectAttestation st) of
       None \<Rightarrow> throwT ''Wallet Instance Attestation not found''
     | Some walletInstanceAttestation \<Rightarrow>
       bindT (callT (\<lambda>_. getCredentialTrustmark (ae_X E) walletInstanceAttestation
         (createCryptoContextFor (ae_X E) WIA_KEYTAG) (credential_name credentialType) documentNumber
         Undef)) (\<lambda>tm.
       Settled (Inr (TrustmarkObtained \<lparr>tk_trustmarkJwt = tm_jwt tm,
         tk_credentialType = credentialType, tk_expirationTime = tm_expirationTime tm\<rparr>))))"

definition getPidCieID_thread :: "'c app_env \<Rightarrow> string \<Rightarrow> (thunk_payload, 'c) thread" where
  "getPidCieID_thread E idpHint = with_attestationT E (\<lambda>walletInstanceAttestation.
     readT (\<lambda>st.
     let envs = getEnv (ae_V E) (selectEnv st) in
     dispatchT credentialReset (bindT (getPidCieIDT E (WALLET_PID_PROVIDER_BASE_URL envs)
       (REDIRECT_URI envs) idpHint walletInstanceAttestation
       (createCryptoContextFor (ae_X E) WIA_KEYTAG)) (\<lambda>r.
     Settled (Inr (PidObtained r))))))"

definition preparePidFlowParams_thread ::
  "'c app_env \<Rightarrow> string \<Rightarrow> string option \<Rightarrow> (thunk_payload, 'c) thread" where
  "preparePidFlowParams_thread E idpHint ciePin = with_attestationT E (\<lambda>walletInstanceAttestation.
     dispatchT credentialReset (readT (\<lambda>st.
     let isCie = str_includes ''servizicie'' idpHint;
         wiaCryptoContext = createCryptoContextFor (ae_X E) WIA_KEYTAG;
         envs = getEnv (ae_V E) (selectEnv st);
         redirectUri = (if isCie then CIE_L3_REDIRECT_URI else REDIRECT_URI envs) in
     bindT (callT (\<lambda>st. evaluateIssuerTrust (app_ext E st) (WALLET_PID_PROVIDER_BASE_URL envs)))
       (\<lambda>issuerConf.
     bindT (callT (\<lambda>st. startUserAuthorization (app_ext E st) issuerConf ''PersonIdentificationData''
       wiaCryptoContext walletInstanceAttestation redirectUri)) (\<lambda>ua.
     bindT (callT (\<lambda>_. liftR (buildAuthorizationUrl (issuerRequestUri ua) (clientId ua) issuerConf idpHint)))
       (\<lambda>authUrl.
     Settled (Inr (FlowParams \<lparr>fp_authUrl = authUrl, fp_issuerConf = issuerConf,
       fp_clientId = clientId ua, fp_codeVerifier = codeVerifier ua,
       fp_walletInstanceAttestation = walletInstanceAttestation,
       fp_credentialDefinition = credentialDefinition ua, fp_redirectUri = redirectUri,
       fp_ciePin = ciePin\<rparr>))))))))"

definition continuePidFlow_thread :: "'c app_env \<Rightarrow> string \<Rightarrow> (thunk_payload, 'c) thread" where
  "continuePidFlow_thread E authRedirectUrl = readT (\<lambda>st.
     case selectPidFlowParams st of
       None \<Rightarrow> throwT ''Flow params not found''
     | Some p \<Rightarrow>
       bindT (callT (\<lambda>_. bindIO (liftR (completeUserAuthorizationWithQueryMode (ae_X E) authRedirectUrl))
         (\<lambda>authRes. liftR (js_get authRes ''code'')))) (\<lambda>code.
       bindT (callT (\<lambda>_. new_credential_key (ae_X E))) (\<lambda>credentialKeyTag.
       bindT (finish_issuanceT E (fp_issuerConf p) code (fp_clientId p)
         (fp_redirectUri p) (fp_codeVerifier p) (fp_credentialDefinition p)
         (fp_walletInstanceAttestation p) (createCryptoContextFor (ae_X E) WIA_KEYTAG)
         credentialKeyTag False PersonIdentificationData) (\<lambda>r.
       Settled (Inr (PidObtained r))))))"

text \<open>The payload creator of each thunk, and the thunk that \<open>dispatch\<close> runs.\<close>

fun creator_thread :: "'c app_env \<Rightarrow> thunk_call \<Rightarrow> (thunk_payload, 'c) thread" where
  "creator_thread E createWalletInstanceThunk = createWalletInstance_thread E"
| "creator_thread E revokeWalletInstanceThunk = revokeWalletInstance_thread E"
| "creator_thread E getAttestationThunk = getAttestation_thread E"
| "creator_thread E (getCredentialThunk t) = getCredential_thread E t"
| "creator_thread E (getCredentialStatusAttestationThunk t credential keyTag) =
     statusAttestation_thread E t credential keyTag"
| "creator_thread E (getTrustmarkThunk t documentNumber) = trustmark_thread E t documentNumber"
| "creator_thread E (getPidCieIDThunk idpHint m) = getPidCieID_thread E idpHint"
| "creator_thread E (preparePidFlowParamsThunk idpHint m ciePin) = preparePidFlowParams_thread E idpHint ciePin"
| "creator_thread E (continuePidFlowThunk url) = continuePidFlow_thread E url"

definition thunk_thread :: "'c app_env \<Rightarrow> thunk_call \<Rightarrow> (unit, 'c) thread" where
  "thunk_thread E call = thunkT (ae_ser E) call (creator_thread E call)"

section \<open>Systems\<close>

record 'c system =
  sys_state :: "'c app_state"
  sys_threads :: "(unit, 'c) thread list"

text \<open>The user dispatches a thunk or a plain action, or a thunk in flight goes on.\<close>

datatype sys_event =
    Dispatched thunk_call
  | Acted action
  | Resumed nat

fun plain :: "action \<Rightarrow> bool" where
  "plain (pending _) = False"
| "plain (fulfilled _ _) = False"
| "plain (rejected _ _) = False"
| "plain _ = True"

text \<open>Dispatching a thunk runs its first block.  A settled thread has no block left.\<close>

fun sys_step :: "'c app_env \<Rightarrow> 'c system \<Rightarrow> sys_event \<Rightarrow> 'c system" where
  "sys_step E \<sigma> (Dispatched call) = (let b = now (thunk_thread E call) (sys_state \<sigma>) in
     \<lparr>sys_state = after (sys_state \<sigma>) b, sys_threads = sys_threads \<sigma> @ [rest b]\<rparr>)"
| "sys_step E \<sigma> (Acted a) = (if plain a
     then \<sigma>\<lparr>sys_state := (sys_state \<sigma>)\<lparr>a_store := rootReducer (a_store (sys_state \<sigma>)) a\<rparr>\<rparr> else \<sigma>)"
| "sys_step E \<sigma> (Resumed i) = (if i < length (sys_threads \<sigma>)
     then let b = now (sys_threads \<sigma> ! i) (sys_state \<sigma>) in
       \<lparr>sys_state = after (sys_state \<sigma>) b, sys_threads = (sys_threads \<sigma>)[i := rest b]\<rparr>
     else \<sigma>)"

definition sys_run :: "'c app_env \<Rightarrow> 'c system \<Rightarrow> sys_event list \<Rightarrow> 'c system" where
  "sys_run E \<sigma> evs = foldl (sys_step E) \<sigma> evs"

abbreviation settled :: "('a, 'c) thread \<Rightarrow> bool" where
  "settled t \<equiv> \<exists>r. t = Settled r"

definition quiescent :: "'c system \<Rightarrow> bool" where
  "quiescent \<sigma> = list_all (\<lambda>t. case t of Settled r \<Rightarrow> True | Block f \<Rightarrow> False) (sys_threads \<sigma>)"

end
