(* ===== verification/Threads_Correct.thy ===== *)
theory Threads_Correct
  imports App_Threads App_Correct Screens_Correct
begin

text \<open>
  What holds for every interleaving of the application's thunks: a thunk that runs alone does what
  the sequential model of \<^theory_text>\<open>App_Flows\<close> says, and no operation is left loading once all thunks have settled (the interface
  \<open>settling_operation\<close>, interpreted for the six statuses a thunk sets).
\<close>

section \<open>A thunk that runs alone\<close>

text \<open>All blocks of a thread, one after the other.\<close>

primrec alone :: "('a, 'c) thread \<Rightarrow> ('a, 'c) app" where
  "alone (Settled r) = (\<lambda>s. (r, s))"
| "alone (Block f) = (\<lambda>s. case map_prod id (map_prod id (map_prod id alone)) (f s) of
     (as, c, w, m) \<Rightarrow> m \<lparr>a_store = foldl rootReducer (a_store s) as, a_memo = c, a_world = w\<rparr>)"

named_theorems alone_simps \<open>threads that run alone\<close>

lemma alone_Block: "alone (Block f) s = alone (rest (f s)) (after s (f s))"
  by (cases "f s") (simp add: rest_def after_def)

lemma alone_now: "alone t s = alone (rest (now t s)) (after s (now t s))"
  by (cases t) (simp_all add: now_def alone_Block del: alone.simps(2), simp add: rest_def after_def)

lemma map_rest [simp]: "rest (map_prod id (map_prod id (map_prod id g)) b) = g (rest b)"
  by (cases b) (simp add: rest_def)

lemma map_after [simp]: "after s (map_prod id (map_prod id (map_prod id g)) b) = after s b"
  by (cases b) (simp add: after_def)

lemma map_actions [simp]: "actions (map_prod id (map_prod id (map_prod id g)) b) = actions b"
  by (cases b) (simp add: actions_def)

lemma thread_induct [case_names Settled Block]:
  assumes "\<And>r. P (Settled r)" and "\<And>f. (\<And>s. P (rest (f s))) \<Longrightarrow> P (Block f)"
  shows "P t"
proof (induction t)
  case (Block f)
  have "P (rest (f s))" for s
  proof -
    obtain as c w t where f: "f s = (as, c, w, t)" by (cases "f s")
    have "P t" by (rule Block [of "(as, c, w, t)" "(c, w, t)" "(w, t)"]) (use f in \<open>auto simp: snds.simps intro: range_eqI [of _ _ s]\<close>)
    then show ?thesis by (simp add: f rest_def)
  qed
  then show ?case by (rule assms(2))
qed (rule assms(1))

lemma alone_thenT [alone_simps]: "alone (thenT k m) s = (case alone m s of (r, s') \<Rightarrow> alone (k r) s')"
  by (induction m arbitrary: s rule: thread_induct) (simp_all add: alone_Block del: alone.simps(2))

lemma alone_bindT [alone_simps]: "alone (bindT m k) = bindA (alone m) (\<lambda>x. alone (k x))"
  by (rule HOL.ext) (auto simp: bindT_def bindA_def alone_thenT split: prod.splits sum.splits)

lemma alone_callT [alone_simps]: "alone (callT m) = bindA getState (\<lambda>st. ioA (m st))"
  by (rule HOL.ext) (simp add: callT_def bindA_def getState_def ioA_def split: prod.splits)

lemma alone_readT [alone_simps]: "alone (readT f) = bindA getState (\<lambda>st. alone (f st))"
  by (rule HOL.ext) (simp add: readT_def bindA_def getState_def alone_Block alone_now [symmetric] del: alone.simps(2))

lemma rest_apfst [simp]: "rest (apfst g b) = rest b"
  by (cases b) (simp add: rest_def)

lemma after_dispatch:
  "after s (apfst ((#) a) b) = after (s\<lparr>a_store := rootReducer (a_store s) a\<rparr>) b"
  by (cases b) (simp add: after_def)

lemma alone_dispatchT [alone_simps]: "alone (dispatchT a t) = bindA (dispatch a) (\<lambda>_. alone t)"
  by (rule HOL.ext) (simp add: dispatchT_def bindA_def dispatch_def alone_Block after_dispatch
      alone_now [symmetric] del: alone.simps(2))

lemma alone_Settled [alone_simps]: "alone (Settled r) = ioA (liftR r)"
  by (rule HOL.ext) (simp add: ioA_def)

lemma alone_thunkT [alone_simps]: "alone (thunkT ser call creator) = run_thunk ser call (alone creator)"
  by (rule HOL.ext) (auto simp: thunkT_def settleT_def alone_simps bindA_def dispatch_def run_thunk_def ioA_def
      split: prod.splits sum.splits)

text \<open>The sequential thunks, evaluated: reading the store after calls gives the store before them.\<close>

lemma seq_getState: "bindA getState f s = f (a_store s) s"
  by (simp add: bindA_def getState_def)

lemma seq_ioA: "bindA (ioA m) k s = (case m (a_world s) of (Inl e, w) \<Rightarrow> (Inl e, s\<lparr>a_world := w\<rparr>)
    | (Inr x, w) \<Rightarrow> k x (s\<lparr>a_world := w\<rparr>))"
  by (simp add: bindA_def ioA_def split: prod.splits sum.splits)

lemma seq_dispatch: "bindA (dispatch a) k s = k () (s\<lparr>a_store := rootReducer (a_store s) a\<rparr>)"
  by (simp add: bindA_def dispatch_def)

lemma ioA_bindIO: "ioA (bindIO m f) = bindA (ioA m) (\<lambda>x. ioA (f x))"
  by (rule HOL.ext) (simp add: bindA_def ioA_def bindIO_def split: prod.splits sum.splits)

lemma seq_pure: "bindA (Pair (Inr x)) k = k x"
  by (rule HOL.ext) (simp add: bindA_def)

lemmas seq_simps = seq_pure alone_simps bindA_assoc ioA_bindIO seq_getState seq_ioA seq_dispatch ioA_def js_str_def

lemma alone_getAttestation: "alone (getAttestation_thread E) = getAttestation_creator E"
  by (rule HOL.ext) (simp add: getAttestation_thread_def getAttestation_creator_def seq_simps
      split: option.splits prod.splits sum.splits)

lemma alone_createWalletInstance: "alone (createWalletInstance_thread E) = createWalletInstance_creator E"
  by (rule HOL.ext) (simp add: createWalletInstance_thread_def createWalletInstance_creator_def Let_def seq_simps
      split: prod.splits sum.splits)

lemma alone_revokeWalletInstance: "alone (revokeWalletInstance_thread E) = revokeWalletInstance_creator E"
  by (rule HOL.ext) (simp add: revokeWalletInstance_thread_def revokeWalletInstance_creator_def seq_simps
      split: option.splits prod.splits sum.splits)

lemma alone_finish_issuance:
  "alone (finish_issuanceT E conf code client redirectUri verifier def wia ctx tag ignore t) =
     bindA getState (\<lambda>st. ioA (finish_issuance (ae_X E) (app_ext E st) conf code client redirectUri verifier
       def wia ctx tag ignore t))"
  by (rule HOL.ext) (simp add: finish_issuanceT_def finish_issuance_def Let_def seq_simps
      split: prod.splits sum.splits)

lemma alone_getCredentialT:
  "alone (getCredentialT E url redirectUri t wia ctx pid pidCtx) =
     bindA getState (\<lambda>st. ioA (getCredential (ae_X E) (app_ext E st) url redirectUri t wia ctx pid pidCtx))"
  by (rule HOL.ext) (simp add: getCredentialT_def getCredential_def new_credential_key_def alone_finish_issuance
      seq_simps split: prod.splits sum.splits)

lemma alone_getPidCieIDT:
  "alone (getPidCieIDT E url redirectUri hint wia ctx) =
     bindA getState (\<lambda>st. ioA (getPidCieID (ae_X E) (app_ext E st) (ae_D E) url redirectUri hint wia ctx))"
  by (rule HOL.ext) (simp add: getPidCieIDT_def getPidCieID_def new_credential_key_def alone_finish_issuance
      seq_simps split: prod.splits sum.splits)

lemma alone_statusAttestation:
  "alone (statusAttestation_thread E t c k) = statusAttestation_creator E t c k"
  by (rule HOL.ext) (simp add: statusAttestation_thread_def statusAttestation_creator_def
      getCredentialStatusAttestationT_def getCredentialStatusAttestation_def seq_simps
      split: prod.splits sum.splits)

lemma alone_trustmark: "alone (trustmark_thread E t n) = trustmark_creator E t n"
  by (rule HOL.ext) (simp add: trustmark_thread_def trustmark_creator_def seq_simps
      split: option.splits prod.splits sum.splits)

lemma alone_now_from: "a_store s' = a_store s \<Longrightarrow> alone (rest (now t s')) (after s (now t s')) = alone t s'"
  by (subst (2) alone_now) (simp add: after_def split: prod.splits)

lemma alone_with_attestation: "alone (with_attestationT E f) = with_attestation E (\<lambda>wia. alone (f wia))"
proof (rule HOL.ext)
  fix s
  define cont where "cont = readT (\<lambda>st. case present (selectAttestation st) of
      None \<Rightarrow> throwT ''Wallet Instance Attestation not found'' | Some wia \<Rightarrow> f wia)"
  have c: "alone cont = bindA getState (\<lambda>st. case present (selectAttestation st) of
      None \<Rightarrow> throwA ''Wallet Instance Attestation not found'' | Some wia \<Rightarrow> alone (f wia))"
    by (auto simp: cont_def seq_simps fun_eq_iff split: option.splits)
  obtain r s' where sel: "shouldRequestAttestationSelector (ae_X E) (ae_memo E) s = (r, s')" by fastforce
  then have st: "a_store s' = a_store s"
    by (auto simp: shouldRequestAttestationSelector_def split: prod.splits)
  show "alone (with_attestationT E f) s = with_attestation E (\<lambda>wia. alone (f wia)) s"
    unfolding with_attestationT_def with_attestation_def cont_def [symmetric] c [symmetric] Let_def alone_Block
    by (cases r) (auto simp: sel bindA_def [of "shouldRequestAttestationSelector _ _"] alone_now_from [OF st] alone_bindT
      alone_thunkT run_getAttestation_def alone_getAttestation bindA_def [of "ioA _"] ioA_def)
qed

lemma alone_getCredential: "alone (getCredential_thread E t) = getCredential_creator E t"
  unfolding getCredential_thread_def getCredential_creator_def alone_with_attestation
  by (rule arg_cong [of _ _ "with_attestation E"])
    (auto simp: fun_eq_iff Let_def alone_getCredentialT seq_simps split: option.splits prod.splits sum.splits)

lemma app_ext_cong: "selectEnv st' = selectEnv st \<Longrightarrow> selectIoAuthToken st' = selectIoAuthToken st \<Longrightarrow>
    app_ext E st' = app_ext E st"
proof -
  assume "selectEnv st' = selectEnv st" "selectIoAuthToken st' = selectIoAuthToken st"
  then have "auth_request (ae_X E) (ae_V E) st' = auth_request (ae_X E) (ae_V E) st"
    by (simp add: fun_eq_iff auth_request_def addAuthHeaders_def cong: if_cong)
  then show ?thesis by (simp add: app_ext_def with_appFetch_def appFetch_def fun_eq_iff)
qed

lemma app_ext_credentialReset: "app_ext E (rootReducer st credentialReset) = app_ext E st"
  by (rule app_ext_cong) (simp_all add: selectEnv_def selectIoAuthToken_def environmentReducer_def sessionReducer_def)

lemma alone_getPidCieID: "alone (getPidCieID_thread E h) = getPidCieID_creator E h"
  unfolding getPidCieID_thread_def getPidCieID_creator_def alone_with_attestation
  by (rule arg_cong [of _ _ "with_attestation E"])
    (auto simp: fun_eq_iff Let_def alone_getPidCieIDT app_ext_credentialReset seq_simps split: prod.splits sum.splits)

lemma alone_preparePidFlowParams:
  "alone (preparePidFlowParams_thread E h pin) = preparePidFlowParams_creator E h pin"
  unfolding preparePidFlowParams_thread_def preparePidFlowParams_creator_def alone_with_attestation
  by (rule arg_cong [of _ _ "with_attestation E"])
    (auto simp: fun_eq_iff Let_def seq_simps split: prod.splits sum.splits)

lemma alone_continuePidFlow: "alone (continuePidFlow_thread E url) = continuePidFlow_creator E url"
  by (rule HOL.ext) (simp add: continuePidFlow_thread_def continuePidFlow_creator_def new_credential_key_def
      alone_finish_issuance seq_simps split: option.splits prod.splits sum.splits)

lemmas alone_creators = alone_createWalletInstance alone_revokeWalletInstance alone_getAttestation
  alone_getCredential alone_statusAttestation alone_trustmark alone_getPidCieID
  alone_preparePidFlowParams alone_continuePidFlow

lemma alone_thunk: "alone (thunk_thread E call) = run_call E call"
  by (cases call) (simp_all add: thunk_thread_def alone_thunkT alone_creators run_defs)

section \<open>How long a thunk takes\<close>

text \<open>\<open>fits t n\<close>: whatever states its blocks find, the thread settles within \<open>n\<close> blocks.\<close>

primrec fits :: "('a, 'c) thread \<Rightarrow> nat \<Rightarrow> bool" where
  "fits (Settled r) = (\<lambda>n. True)"
| "fits (Block f) = (\<lambda>n. 0 < n \<and>
     (\<forall>s. snd (snd (snd (map_prod id (map_prod id (map_prod id fits)) (f s)))) (n - 1)))"

lemma rest_snd: "rest b = snd (snd (snd b))"
  by (cases b) (simp add: rest_def)

lemma fits_Block: "fits (Block f) n \<longleftrightarrow> 0 < n \<and> (\<forall>s. fits (rest (f s)) (n - 1))"
  by (simp add: rest_snd prod.case_eq_if map_prod_def)

lemma fits_now: "fits t (Suc n) \<Longrightarrow> fits (rest (now t s)) n"
  by (cases t) (auto simp: now_def fits_Block rest_def simp del: fits.simps(2))

lemma fits_mono: "fits t n \<Longrightarrow> n \<le> j \<Longrightarrow> fits t j"
proof (induction t arbitrary: n j rule: thread_induct)
  case (Block f)
  then have "fits (rest (f s)) (j - 1)" for s
    using Block.IH [of s "n - 1" "j - 1"] by (simp add: fits_Block del: fits.simps(2))
  with Block.prems show ?case by (auto simp: fits_Block simp del: fits.simps(2))
qed simp

named_theorems thread_intros \<open>properties of composed threads\<close>

lemma fits_thenT: "fits m n \<Longrightarrow> (\<And>r. fits (k r) j) \<Longrightarrow> fits (thenT k m) (n + j)"
proof (induction m arbitrary: n rule: thread_induct)
  case (Settled r)
  from Settled(2) [of r] show ?case by (auto intro: fits_mono)
next
  case (Block f)
  from Block.prems(1) have n: "0 < n" and r: "fits (rest (f s)) (n - 1)" for s
    by (simp_all add: fits_Block del: fits.simps(2))
  have "fits (thenT k (rest (f s))) (n + j - 1)" for s
    using Block.IH [OF r Block.prems(2)] n by (simp add: add.commute)
  with n show ?case by (simp add: fits_Block del: fits.simps(2))
qed

lemma fits_bindT [thread_intros]: "fits m n \<Longrightarrow> (\<And>x. fits (k x) j) \<Longrightarrow> fits (bindT m k) (n + j)"
  unfolding bindT_def by (rule fits_thenT) (auto split: sum.splits)

lemma fits_callT: "fits (callT m) 1"
  by (simp add: callT_def fits_Block rest_def del: fits.simps(2) split: prod.splits)

lemma fits_await [thread_intros]: "(\<And>x. fits (k x) n) \<Longrightarrow> fits (bindT (callT m) k) (Suc n)"
  using fits_bindT [OF fits_callT, of k n m] by simp

lemma fits_readT [thread_intros]: "(\<And>st. fits (f st) (Suc n)) \<Longrightarrow> fits (readT f) (Suc n)"
  by (simp add: readT_def fits_Block fits_now del: fits.simps(2))

lemma fits_dispatchT [thread_intros]: "fits t (Suc n) \<Longrightarrow> fits (dispatchT a t) (Suc n)"
  by (simp add: dispatchT_def fits_Block fits_now del: fits.simps(2))

lemma fits_Settled [thread_intros]: "fits (Settled r) n"
  by simp

lemma fits_option [thread_intros]:
  "fits a n \<Longrightarrow> (\<And>y. fits (b y) n) \<Longrightarrow> fits (case x of None \<Rightarrow> a | Some y \<Rightarrow> b y) n"
  by (simp split: option.splits)

lemma fits_prod [thread_intros]: "(\<And>a b. fits (f a b) n) \<Longrightarrow> fits (case x of (a, b) \<Rightarrow> f a b) n"
  by (simp split: prod.splits)

lemma fits_thunkT: "fits creator n \<Longrightarrow> fits (thunkT ser call creator) (Suc n)"
  unfolding thunkT_def
  by (rule fits_dispatchT, rule fits_mono [OF fits_thenT [where j = 1]])
    (auto simp: settleT_def numeral_eq_Suc intro!: thread_intros)

lemma fits_getAttestation: "fits (getAttestation_thread E) 2"
  unfolding getAttestation_thread_def numeral_eq_Suc pred_numeral_simps by (intro thread_intros)

lemma fits_with_attestation:
  assumes "\<And>wia. fits (f wia) (Suc n)"
  shows "fits (with_attestationT E f) (4 + n)"
proof -
  define cont where "cont = readT (\<lambda>st. case present (selectAttestation st) of
      None \<Rightarrow> throwT ''Wallet Instance Attestation not found'' | Some wia \<Rightarrow> f wia)"
  have c: "fits cont (Suc n)" unfolding cont_def by (intro thread_intros assms)
  then have "fits cont (Suc (3 + n))" by (rule fits_mono) simp
  moreover have "fits (bindT (thunkT (ae_ser E) getAttestationThunk (getAttestation_thread E)) (\<lambda>_. cont)) (Suc (3 + n))"
    by (rule fits_mono [OF fits_bindT [OF fits_thunkT [OF fits_getAttestation] c]]) simp
  ultimately have "fits (rest (case r of (Inl e, s') \<Rightarrow> now (Settled (Inl e)) s'
      | (Inr needed, s') \<Rightarrow> now (if needed then bindT (thunkT (ae_ser E) getAttestationThunk (getAttestation_thread E)) (\<lambda>_. cont)
          else cont) s')) (3 + n)" for r
    by (auto simp: now_def [of "Settled _"] rest_def [of "(_, _)"] intro: fits_now split: prod.splits sum.splits)
  then show ?thesis
    unfolding with_attestationT_def cont_def [symmetric] Let_def fits_Block by simp
qed

text \<open>The number of blocks of each thunk, the one that dispatches the outcome included.\<close>

fun blocks :: "thunk_call \<Rightarrow> nat" where
  "blocks createWalletInstanceThunk = 4"
| "blocks revokeWalletInstanceThunk = 3"
| "blocks getAttestationThunk = 3"
| "blocks (getCredentialThunk t) = 13"
| "blocks (getCredentialStatusAttestationThunk t c k) = 4"
| "blocks (getTrustmarkThunk t n) = 2"
| "blocks (getPidCieIDThunk h m) = 14"
| "blocks (preparePidFlowParamsThunk h m pin) = 7"
| "blocks (continuePidFlowThunk url) = 7"

lemma fits_finish_issuance [thread_intros]:
  "fits (finish_issuanceT E conf code client redirectUri verifier def wia ctx tag ignore t) (Suc (Suc (Suc (Suc n))))"
  unfolding finish_issuanceT_def Let_def by (intro thread_intros)

lemma fits_map [thread_intros]: "fits m n \<Longrightarrow> fits (bindT m (\<lambda>x. Settled (g x))) n"
  using fits_bindT [of m n "\<lambda>x. Settled (g x)" 0] by simp

lemma fits_getCredential: "fits (getCredential_thread E t) 12"
proof -
  have "fits (getCredential_thread E t) (4 + 8)"
    unfolding getCredential_thread_def getCredentialT_def Let_def
    by (rule fits_with_attestation, unfold eval_nat_numeral BitM.simps, intro thread_intros)
  then show ?thesis by simp
qed

lemma fits_getPidCieID: "fits (getPidCieID_thread E h) 13"
proof -
  have "fits (getPidCieID_thread E h) (4 + 9)"
    unfolding getPidCieID_thread_def getPidCieIDT_def Let_def
    by (rule fits_with_attestation, unfold eval_nat_numeral BitM.simps, intro thread_intros)
  then show ?thesis by simp
qed

lemma fits_preparePidFlowParams: "fits (preparePidFlowParams_thread E h pin) 6"
proof -
  have "fits (preparePidFlowParams_thread E h pin) (4 + 2)"
    unfolding preparePidFlowParams_thread_def Let_def
    by (rule fits_with_attestation, unfold eval_nat_numeral BitM.simps, intro thread_intros)
  then show ?thesis by simp
qed

lemma fits_continuePidFlow: "fits (continuePidFlow_thread E url) 6"
  unfolding continuePidFlow_thread_def eval_nat_numeral BitM.simps by (intro thread_intros)

lemma fits_createWalletInstance: "fits (createWalletInstance_thread E) 3"
  unfolding createWalletInstance_thread_def Let_def eval_nat_numeral BitM.simps by (intro thread_intros)

lemma fits_revokeWalletInstance: "fits (revokeWalletInstance_thread E) 2"
  unfolding revokeWalletInstance_thread_def eval_nat_numeral BitM.simps by (intro thread_intros)

lemma fits_statusAttestation: "fits (statusAttestation_thread E t c k) 3"
  unfolding statusAttestation_thread_def getCredentialStatusAttestationT_def eval_nat_numeral BitM.simps by (intro thread_intros)

lemma fits_trustmark: "fits (trustmark_thread E t n) (Suc 0)"
  unfolding trustmark_thread_def by (intro thread_intros)

lemmas fits_creators = fits_getAttestation fits_getCredential fits_getPidCieID fits_preparePidFlowParams
  fits_continuePidFlow fits_createWalletInstance fits_revokeWalletInstance fits_statusAttestation fits_trustmark

lemma fits_thunk: "fits (thunk_thread E call) (blocks call)"
proof -
  have "fits (creator_thread E call) (blocks call - 1)" by (cases call) (simp_all add: fits_creators)
  then have "fits (thunk_thread E call) (Suc (blocks call - 1))" unfolding thunk_thread_def by (rule fits_thunkT)
  moreover have "Suc (blocks call - 1) = blocks call" by (cases call) simp_all
  ultimately show ?thesis by (simp only:)
qed

text \<open>The thread of a system that no event but its own moves.\<close>

lemma sys_run_simps [simp]:
  "sys_run E \<sigma> [] = \<sigma>" "sys_run E \<sigma> (e # es) = sys_run E (sys_step E \<sigma> e) es"
  "sys_run E \<sigma> (es @ es') = sys_run E (sys_run E \<sigma> es) es'"
  by (simp_all add: sys_run_def)

lemma step_thread:
  assumes "i < length (sys_threads \<sigma>)"
  shows "i < length (sys_threads (sys_step E \<sigma> e))
    \<and> sys_threads (sys_step E \<sigma> e) ! i =
        (if e = Resumed i then rest (now (sys_threads \<sigma> ! i) (sys_state \<sigma>)) else sys_threads \<sigma> ! i)"
  using assms by (cases e) (auto simp: Let_def nth_append)

lemma settled_iff_fits: "fits t 0 \<longleftrightarrow> settled t"
  by (cases t) (simp_all add: fits_Block del: fits.simps(2))

lemma fits_next: "fits t n \<Longrightarrow> fits (rest (now t s)) (n - Suc 0)"
  by (cases n; cases t) (auto simp: fits_Block now_def rest_def simp del: fits.simps(2))

text \<open>A thread that gets all the turns runs as if alone.\<close>

lemma run_alone:
  assumes "i < length (sys_threads \<sigma>)" and "fits (sys_threads \<sigma> ! i) n"
  shows "sys_run E \<sigma> (replicate n (Resumed i)) = (case alone (sys_threads \<sigma> ! i) (sys_state \<sigma>) of
    (r, s) \<Rightarrow> \<sigma>\<lparr>sys_state := s, sys_threads := (sys_threads \<sigma>)[i := Settled r]\<rparr>)"
  using assms
proof (induction n arbitrary: \<sigma>)
  case 0
  then obtain r where "sys_threads \<sigma> ! i = Settled r" by (auto simp: settled_iff_fits)
  moreover from this have "(sys_threads \<sigma>)[i := Settled r] = sys_threads \<sigma>" using list_update_id by metis
  ultimately show ?case by (cases \<sigma>) simp
next
  case (Suc n)
  define b where "b = now (sys_threads \<sigma> ! i) (sys_state \<sigma>)"
  have step: "sys_step E \<sigma> (Resumed i) = \<sigma>\<lparr>sys_state := after (sys_state \<sigma>) b, sys_threads := (sys_threads \<sigma>)[i := rest b]\<rparr>"
    using Suc.prems by (simp add: b_def Let_def)
  have "fits (rest b) n" unfolding b_def using Suc.prems by (simp add: fits_now)
  moreover have "alone (sys_threads \<sigma> ! i) (sys_state \<sigma>) = alone (rest b) (after (sys_state \<sigma>) b)"
    unfolding b_def by (rule alone_now)
  ultimately show ?case
    using Suc.prems Suc.IH [of "sys_step E \<sigma> (Resumed i)"] by (simp add: step del: sys_step.simps split: prod.splits)
qed

text \<open>The two models of a thunk agree: one that no other thunk interrupts does what the sequential model says: dispatching it and
  giving its thread all the turns it needs leaves the store, the memo and the world that the
  sequential run leaves, and its promise settled.\<close>

lemma uninterrupted_thunk_is_sequential:
  "sys_run E \<sigma> (Dispatched call # replicate (blocks call - 1) (Resumed (length (sys_threads \<sigma>)))) =
    \<lparr>sys_state = snd (run_call E call (sys_state \<sigma>)),
     sys_threads = sys_threads \<sigma> @ [Settled (fst (run_call E call (sys_state \<sigma>)))]\<rparr>"
proof -
  define b where "b = now (thunk_thread E call) (sys_state \<sigma>)"
  define \<tau> where "\<tau> = sys_step E \<sigma> (Dispatched call)"
  have \<tau>: "\<tau> = \<lparr>sys_state = after (sys_state \<sigma>) b, sys_threads = sys_threads \<sigma> @ [rest b]\<rparr>"
    by (simp add: \<tau>_def b_def Let_def)
  have "fits (rest b) (blocks call - 1)" unfolding b_def using fits_next [OF fits_thunk] by simp
  then have "sys_run E \<tau> (replicate (blocks call - 1) (Resumed (length (sys_threads \<sigma>)))) =
      (case alone (rest b) (after (sys_state \<sigma>) b) of
        (r, s) \<Rightarrow> \<tau>\<lparr>sys_state := s, sys_threads := (sys_threads \<tau>)[length (sys_threads \<sigma>) := Settled r]\<rparr>)"
    using run_alone [of "length (sys_threads \<sigma>)" \<tau> "blocks call - 1" E] by (simp add: \<tau>)
  moreover have "alone (rest b) (after (sys_state \<sigma>) b) = run_call E call (sys_state \<sigma>)"
    unfolding b_def by (simp add: alone_now [symmetric] alone_thunk)
  ultimately show ?thesis by (simp add: b_def [symmetric] Let_def \<tau> split: prod.splits)
qed

definition idle_system :: "RootState \<Rightarrow> (string option \<times> bool) option system" where
  "idle_system st = \<lparr>sys_state = \<lparr>a_store = st, a_memo = None, a_world = sample_world\<rparr>, sys_threads = []\<rparr>"

section \<open>No operation is left loading\<close>

text \<open>What a thunk's \<open>fulfilled\<close> action carries.\<close>

fun payload_ok :: "thunk_call \<Rightarrow> thunk_payload \<Rightarrow> bool" where
  "payload_ok createWalletInstanceThunk p = (\<exists>tag. p = KeyTag tag)"
| "payload_ok revokeWalletInstanceThunk p = (p = Nothing)"
| "payload_ok getAttestationThunk p = (\<exists>wia. p = Attestation wia)"
| "payload_ok (getCredentialThunk t) p = (\<exists>r. p = CredentialObtained r \<and> r_credentialType r = t)"
| "payload_ok (getCredentialStatusAttestationThunk t c k) p =
     (\<exists>r. p = StatusAttestationObtained r \<and> sa_credentialType r = t)"
| "payload_ok (getTrustmarkThunk t n) p = (\<exists>r. p = TrustmarkObtained r \<and> tk_credentialType r = t)"
| "payload_ok (getPidCieIDThunk h m) p = (\<exists>r. p = PidObtained r)"
| "payload_ok (preparePidFlowParamsThunk h m pin) p = (\<exists>r. p = FlowParams r)"
| "payload_ok (continuePidFlowThunk url) p = (\<exists>r. p = PidObtained r)"

text \<open>\<open>returns P t\<close>: whatever states its blocks find, a thread that is fulfilled is so with a value in \<open>P\<close>.\<close>

primrec returns :: "('a \<Rightarrow> bool) \<Rightarrow> ('a, 'c) thread \<Rightarrow> bool" where
  "returns P (Settled r) = (case r of Inl e \<Rightarrow> True | Inr x \<Rightarrow> P x)"
| "returns P (Block f) = (\<forall>s. snd (snd (snd (map_prod id (map_prod id (map_prod id (returns P))) (f s)))))"

lemma returns_Block: "returns P (Block f) \<longleftrightarrow> (\<forall>s. returns P (rest (f s)))"
  by (simp add: rest_snd prod.case_eq_if map_prod_def)

lemma returns_now: "returns P t \<Longrightarrow> returns P (rest (now t s))"
  by (cases t) (auto simp: now_def returns_Block rest_def simp del: returns.simps(2))

lemma returns_thenT: "(\<And>r. returns P (k r)) \<Longrightarrow> returns P (thenT k m)"
  by (induction m rule: thread_induct) (simp_all add: returns_Block del: returns.simps(2))

lemma returns_bindT: "returns Q m \<Longrightarrow> (\<And>x. Q x \<Longrightarrow> returns P (k x)) \<Longrightarrow> returns P (bindT m k)"
  unfolding bindT_def
  by (induction m rule: thread_induct)
    (simp_all add: returns_Block del: returns.simps(2) split: sum.splits)

lemma returns_await [thread_intros]: "(\<And>x. returns P (k x)) \<Longrightarrow> returns P (bindT (callT m) k)"
  unfolding bindT_def by (rule returns_thenT) (simp split: sum.splits)

lemma returns_readT [thread_intros]: "(\<And>st. returns P (f st)) \<Longrightarrow> returns P (readT f)"
  by (simp add: readT_def returns_Block returns_now del: returns.simps(2))

lemma returns_dispatchT [thread_intros]: "returns P t \<Longrightarrow> returns P (dispatchT a t)"
  by (simp add: dispatchT_def returns_Block returns_now del: returns.simps(2))

lemma returns_splits [thread_intros]:
  "returns P a \<Longrightarrow> (\<And>y. returns P (b y)) \<Longrightarrow> returns P (case x of None \<Rightarrow> a | Some y \<Rightarrow> b y)"
  "(\<And>a b. returns P (f a b)) \<Longrightarrow> returns P (case z of (a, b) \<Rightarrow> f a b)"
  by (simp_all split: option.splits prod.splits)

lemma returns_Settled [thread_intros]: "returns P (Settled (Inl e))" "P x \<Longrightarrow> returns P (Settled (Inr x))"
  by simp_all

lemma returns_with_attestation: "(\<And>wia. returns P (f wia)) \<Longrightarrow> returns P (with_attestationT E f)"
proof -
  assume f: "\<And>wia. returns P (f wia)"
  define cont where "cont = readT (\<lambda>st. case present (selectAttestation st) of
      None \<Rightarrow> throwT ''Wallet Instance Attestation not found'' | Some wia \<Rightarrow> f wia)"
  have c: "returns P cont" unfolding cont_def by (intro thread_intros f)
  then have "returns P (bindT m (\<lambda>_. cont))" for m :: "(unit, 'b) thread"
    unfolding bindT_def by (intro returns_thenT) (simp split: sum.splits)
  with c have "returns P (rest (case r of (Inl e, s') \<Rightarrow> now (Settled (Inl e)) s'
      | (Inr needed, s') \<Rightarrow> now (if needed then bindT (thunkT (ae_ser E) getAttestationThunk (getAttestation_thread E)) (\<lambda>_. cont)
          else cont) s'))" for r
    by (auto simp: returns_now split: prod.splits sum.splits)
  then show ?thesis
    unfolding with_attestationT_def cont_def [symmetric] Let_def returns_Block by simp
qed

lemma returns_finish_issuance:
  "returns (\<lambda>r. r_credentialType r = t)
     (finish_issuanceT E conf code client redirectUri verifier def wia ctx tag ignore t)"
  unfolding finish_issuanceT_def Let_def by (intro thread_intros) simp

lemma returns_getCredentialT: "returns (\<lambda>r. r_credentialType r = t) (getCredentialT E url ru t wia ctx pid pidCtx)"
  unfolding getCredentialT_def by (intro thread_intros returns_finish_issuance)

lemma returns_any: "returns (\<lambda>_. True) t"
  by (induction t rule: thread_induct) (simp_all add: returns_Block del: returns.simps(2) split: sum.splits)

lemma creator_payload: "returns (payload_ok call) (creator_thread E call)"
proof (cases call)
  case (getCredentialThunk t)
  show ?thesis
    unfolding getCredentialThunk creator_thread.simps getCredential_thread_def Let_def
    by (intro returns_with_attestation thread_intros returns_bindT [OF returns_getCredentialT]) simp
next
  case (getCredentialStatusAttestationThunk t c k)
  have "returns (\<lambda>r. sa_credentialType r = t) (getCredentialStatusAttestationT E url c ctx t)" for url ctx
    unfolding getCredentialStatusAttestationT_def by (intro thread_intros) simp
  then show ?thesis
    unfolding getCredentialStatusAttestationThunk creator_thread.simps statusAttestation_thread_def
    by (intro thread_intros returns_bindT) auto
next
  case (getPidCieIDThunk h m)
  show ?thesis
    unfolding getPidCieIDThunk creator_thread.simps getPidCieID_thread_def Let_def
    by (intro returns_with_attestation thread_intros returns_bindT [OF returns_any]) simp
next
  case (preparePidFlowParamsThunk h m pin)
  show ?thesis
    unfolding preparePidFlowParamsThunk creator_thread.simps preparePidFlowParams_thread_def Let_def
    by (intro returns_with_attestation thread_intros) simp
next
  case (continuePidFlowThunk url)
  show ?thesis
    unfolding continuePidFlowThunk creator_thread.simps continuePidFlow_thread_def
    by (intro thread_intros returns_bindT [OF returns_any]) simp
qed (auto simp: createWalletInstance_thread_def revokeWalletInstance_thread_def getAttestation_thread_def
    trustmark_thread_def Let_def intro!: thread_intros)

subsection \<open>Threads that answer for what they start\<close>

text \<open>The status a list of actions sets.  \<open>clears\<close>: the thread will dispatch an action with an effect on
  the status.  \<open>tidy\<close>: whenever one of its blocks leaves the status loading, what remains of the
  thread clears it.\<close>

fun set_by :: "(action \<Rightarrow> AsyncStatus option) \<Rightarrow> action list \<Rightarrow> AsyncStatus option" where
  "set_by eff [] = None"
| "set_by eff (a # as) = (case set_by eff as of Some x \<Rightarrow> Some x | None \<Rightarrow> eff a)"

definition set_loading :: "(action \<Rightarrow> AsyncStatus option) \<Rightarrow> action list \<Rightarrow> bool" where
  "set_loading eff as = (case set_by eff as of Some x \<Rightarrow> isLoading x | None \<Rightarrow> False)"

primrec clears :: "(action \<Rightarrow> AsyncStatus option) \<Rightarrow> ('a, 'c) thread \<Rightarrow> bool" where
  "clears eff (Settled r) = False"
| "clears eff (Block f) = (\<forall>s. set_by eff (actions (f s)) = None \<longrightarrow>
     snd (snd (snd (map_prod id (map_prod id (map_prod id (clears eff))) (f s)))))"

primrec tidy :: "(action \<Rightarrow> AsyncStatus option) \<Rightarrow> ('a, 'c) thread \<Rightarrow> bool" where
  "tidy eff (Settled r) = True"
| "tidy eff (Block f) = (\<forall>s. (set_loading eff (actions (f s)) \<longrightarrow> clears eff (rest (f s)))
     \<and> snd (snd (snd (map_prod id (map_prod id (map_prod id (tidy eff))) (f s)))))"

lemma clears_Block: "clears eff (Block f) \<longleftrightarrow> (\<forall>s. set_by eff (actions (f s)) = None \<longrightarrow> clears eff (rest (f s)))"
  by (simp add: rest_snd prod.case_eq_if map_prod_def)

lemma tidy_Block: "tidy eff (Block f) \<longleftrightarrow>
    (\<forall>s. (set_loading eff (actions (f s)) \<longrightarrow> clears eff (rest (f s))) \<and> tidy eff (rest (f s)))"
  by (simp add: rest_snd prod.case_eq_if map_prod_def)

declare clears.simps(2) [simp del] tidy.simps(2) [simp del]

lemma now_Settled [simp]: "actions (now (Settled r) s) = []" "rest (now (Settled r) s) = Settled r"
  by (simp_all add: now_def actions_def rest_def)

lemma now_Block [simp]: "now (Block f) s = f s"
  by (simp add: now_def)

lemma set_loading_Nil [simp]: "\<not> set_loading eff []"
  by (simp add: set_loading_def)

lemma clears_now: "clears eff t \<Longrightarrow> set_by eff (actions (now t s)) = None \<Longrightarrow> clears eff (rest (now t s))"
  by (cases t) (simp_all add: clears_Block)

lemma tidy_now: "tidy eff t \<Longrightarrow> tidy eff (rest (now t s))"
  by (cases t) (simp_all add: tidy_Block)

lemma tidy_now_clears: "tidy eff t \<Longrightarrow> set_loading eff (actions (now t s)) \<Longrightarrow> clears eff (rest (now t s))"
  by (cases t) (simp_all add: tidy_Block)

lemma clears_then: "clears eff m \<Longrightarrow> clears eff (thenT k m)"
  by (induction m rule: thread_induct) (simp_all add: clears_Block)

lemma clears_finally:
  "returns P m \<Longrightarrow> (\<And>r. (\<forall>x. r = Inr x \<longrightarrow> P x) \<Longrightarrow> clears eff (k r)) \<Longrightarrow> clears eff (thenT k m)"
  by (induction m rule: thread_induct)
    (auto simp: clears_Block returns_Block simp del: returns.simps(2) split: sum.splits)

lemma tidy_thenT: "tidy eff m \<Longrightarrow> (\<And>r. tidy eff (k r)) \<Longrightarrow> tidy eff (thenT k m)"
  by (induction m rule: thread_induct) (simp_all add: tidy_Block clears_then)

lemma tidy_bindT [thread_intros]: "tidy eff m \<Longrightarrow> (\<And>x. tidy eff (k x)) \<Longrightarrow> tidy eff (bindT m k)"
  unfolding bindT_def by (rule tidy_thenT) (simp_all split: sum.splits)

lemma tidy_callT [thread_intros]: "tidy eff (callT m)"
  by (simp add: callT_def tidy_Block actions_def rest_def split: prod.splits)

lemma tidy_readT [thread_intros]: "(\<And>st. tidy eff (f st)) \<Longrightarrow> tidy eff (readT f)"
  by (simp add: readT_def tidy_Block tidy_now tidy_now_clears)

lemma tidy_leaves [thread_intros]:
  "tidy eff (Settled r)"
  "tidy eff a \<Longrightarrow> (\<And>y. tidy eff (b y)) \<Longrightarrow> tidy eff (case x of None \<Rightarrow> a | Some y \<Rightarrow> b y)"
  "(\<And>a b. tidy eff (f a b)) \<Longrightarrow> tidy eff (case z of (a, b) \<Rightarrow> f a b)"
  by (simp_all split: option.splits prod.splits)

lemma actions_apfst [simp]: "actions (apfst g b) = g (actions b)"
  by (cases b) (simp add: actions_def)

lemma dispatchT_block: "dispatchT a t = Block (\<lambda>s. apfst ((#) a) (now t (s\<lparr>a_store := rootReducer (a_store s) a\<rparr>)))"
  by (simp add: dispatchT_def)

lemma set_loading_Cons:
  "set_loading eff (a # as) \<longleftrightarrow> set_loading eff as
     \<or> set_by eff as = None \<and> (case eff a of Some x \<Rightarrow> isLoading x | None \<Rightarrow> False)"
  by (auto simp: set_loading_def split: option.splits)

lemma tidy_dispatchT:
  assumes "tidy eff t" and "\<And>x. eff a = Some x \<Longrightarrow> isLoading x \<Longrightarrow> clears eff t"
  shows "tidy eff (dispatchT a t)"
  using assms
  by (auto simp: dispatchT_block tidy_Block set_loading_Cons tidy_now tidy_now_clears clears_now split: option.splits)

text \<open>The contract of an operation: only the \<open>pending\<close> action of a thunk makes it load, and the outcome
  of that thunk, whichever it is, concerns it too.\<close>

locale settling_operation = async_operation +
  assumes loading_pending: "effect a = Some x \<Longrightarrow> isLoading x \<Longrightarrow> \<exists>call. a = pending call"
    and answered: "effect (pending call) = Some x \<Longrightarrow>
      effect (rejected call e) \<noteq> None \<and> (payload_ok call p \<longrightarrow> effect (fulfilled call p) \<noteq> None)"
begin

lemma tidy_other: "(\<And>call. a \<noteq> pending call) \<Longrightarrow> tidy effect t \<Longrightarrow> tidy effect (dispatchT a t)"
  by (rule tidy_dispatchT) (auto dest: loading_pending)

lemma tidy_settleT: "tidy effect (settleT ser call r)"
  unfolding settleT_def by (rule tidy_other) (simp_all split: sum.splits)

lemma clears_settleT:
  assumes "effect (pending call) = Some x" and "\<forall>p. r = Inr p \<longrightarrow> payload_ok call p"
  shows "clears effect (settleT ser call r)"
  using assms answered [OF assms(1)]
  by (cases r) (auto simp: settleT_def dispatchT_block clears_Block)

lemma tidy_thunkT:
  assumes "tidy effect creator" and "returns (payload_ok call) creator"
  shows "tidy effect (thunkT ser call creator)"
  unfolding thunkT_def
  by (rule tidy_dispatchT)
    (auto intro: tidy_thenT tidy_settleT assms(1) clears_finally [OF assms(2)] clears_settleT)

lemma tidy_getAttestation: "tidy effect (getAttestation_thread E)"
  unfolding getAttestation_thread_def by (intro thread_intros)

lemma tidy_with_attestation: "(\<And>wia. tidy effect (f wia)) \<Longrightarrow> tidy effect (with_attestationT E f)"
proof -
  assume f: "\<And>wia. tidy effect (f wia)"
  define cont where "cont = readT (\<lambda>st. case present (selectAttestation st) of
      None \<Rightarrow> throwT ''Wallet Instance Attestation not found'' | Some wia \<Rightarrow> f wia)"
  have c: "tidy effect cont" unfolding cont_def by (intro thread_intros f)
  have "tidy effect (thunkT (ae_ser E) getAttestationThunk (getAttestation_thread E))"
    using creator_payload [of getAttestationThunk E] by (simp add: tidy_thunkT tidy_getAttestation)
  with c have "tidy effect (bindT (thunkT (ae_ser E) getAttestationThunk (getAttestation_thread E)) (\<lambda>_. cont))"
    by (intro thread_intros)
  with c have "(set_loading effect (actions b) \<longrightarrow> clears effect (rest b)) \<and> tidy effect (rest b)"
    if "b = (case r of (Inl e, s') \<Rightarrow> now (Settled (Inl e)) s'
      | (Inr needed, s') \<Rightarrow> now (if needed then bindT (thunkT (ae_ser E) getAttestationThunk (getAttestation_thread E)) (\<lambda>_. cont)
          else cont) s')" for b r
    using that by (auto simp: tidy_now tidy_now_clears split: prod.splits sum.splits)
  then show ?thesis
    unfolding with_attestationT_def cont_def [symmetric] Let_def tidy_Block by blast
qed

lemma tidy_creator: "tidy effect (creator_thread E call)"
proof (cases call)
  case createWalletInstanceThunk
  then show ?thesis by (simp add: createWalletInstance_thread_def Let_def thread_intros)
next
  case revokeWalletInstanceThunk
  then show ?thesis by (simp add: revokeWalletInstance_thread_def thread_intros tidy_other)
next
  case getAttestationThunk
  then show ?thesis by (simp add: tidy_getAttestation)
next
  case (getCredentialThunk t)
  show ?thesis
    unfolding getCredentialThunk creator_thread.simps getCredential_thread_def getCredentialT_def finish_issuanceT_def Let_def
    by (intro tidy_with_attestation thread_intros)
next
  case (getCredentialStatusAttestationThunk t c k)
  then show ?thesis by (simp add: statusAttestation_thread_def getCredentialStatusAttestationT_def thread_intros)
next
  case (getTrustmarkThunk t n)
  then show ?thesis by (simp add: trustmark_thread_def thread_intros)
next
  case (getPidCieIDThunk h m)
  show ?thesis
    unfolding getPidCieIDThunk creator_thread.simps getPidCieID_thread_def getPidCieIDT_def finish_issuanceT_def Let_def
    by (intro tidy_with_attestation thread_intros tidy_other) simp
next
  case (preparePidFlowParamsThunk h m pin)
  show ?thesis
    unfolding preparePidFlowParamsThunk creator_thread.simps preparePidFlowParams_thread_def Let_def
    by (intro tidy_with_attestation thread_intros tidy_other) simp
next
  case (continuePidFlowThunk url)
  show ?thesis
    unfolding continuePidFlowThunk creator_thread.simps continuePidFlow_thread_def finish_issuanceT_def Let_def
    by (intro thread_intros)
qed

lemma tidy_thunk: "tidy effect (thunk_thread E call)"
  unfolding thunk_thread_def by (rule tidy_thunkT [OF tidy_creator creator_payload])

lemma set_by_actions: "sel (foldl rootReducer s as) = (case set_by effect as of Some x \<Rightarrow> x | None \<Rightarrow> sel s)"
  by (induction as arbitrary: s) (auto simp: step split: option.splits)

lemma status_after: "sel (a_store (after s b)) = (case set_by effect (actions b) of Some x \<Rightarrow> x | None \<Rightarrow> sel (a_store s))"
  by (cases b) (simp add: after_def actions_def set_by_actions)

text \<open>The invariant of a system: while the operation loads, some thread will clear it.\<close>

definition attended :: "'c system \<Rightarrow> bool" where
  "attended \<sigma> \<longleftrightarrow> list_all (tidy effect) (sys_threads \<sigma>)
     \<and> (isLoading (sel (a_store (sys_state \<sigma>))) \<longrightarrow> (\<exists>t \<in> set (sys_threads \<sigma>). clears effect t))"

text \<open>A block of a tidy thread, and what is left of the others.\<close>

lemma attended_block:
  assumes "tidy effect t" and "list_all (tidy effect) ts"
    and "isLoading (sel (a_store s)) \<Longrightarrow> clears effect t \<or> (\<exists>u \<in> set ts. clears effect u)"
    and "set ts' = insert (rest (now t s)) (set ts)"
  shows "attended \<lparr>sys_state = after s (now t s), sys_threads = ts'\<rparr>"
proof -
  have "list_all (tidy effect) ts'" using assms by (auto simp: list_all_iff tidy_now)
  moreover have "\<exists>u \<in> set ts'. clears effect u" if "isLoading (sel (a_store (after s (now t s))))"
  proof (cases "set_by effect (actions (now t s))")
    case None
    with that assms(3) have "clears effect t \<or> (\<exists>u \<in> set ts. clears effect u)" by (simp add: status_after)
    with None assms(4) show ?thesis by (auto simp: clears_now)
  next
    case (Some x)
    with that have "set_loading effect (actions (now t s))" by (simp add: status_after set_loading_def)
    with assms(1,4) show ?thesis by (auto simp: tidy_now_clears)
  qed
  ultimately show ?thesis by (simp add: attended_def)
qed

lemma attended_step: "attended \<sigma> \<Longrightarrow> attended (sys_step E \<sigma> e)"
proof (cases e)
  case (Dispatched call)
  assume "attended \<sigma>"
  then show ?thesis
    unfolding Dispatched sys_step.simps Let_def
    by (intro attended_block [where ts = "sys_threads \<sigma>"]) (auto simp: attended_def tidy_thunk)
next
  case (Acted a)
  assume "attended \<sigma>"
  moreover have "\<not> isLoading x" if "plain a" "effect a = Some x" for x
    using that loading_pending by (metis plain.simps(1))
  ultimately show ?thesis by (auto simp: Acted attended_def step split: option.splits)
next
  case (Resumed i)
  assume a: "attended \<sigma>"
  show ?thesis
  proof (cases "i < length (sys_threads \<sigma>)")
    case True
    define us where "us = take i (sys_threads \<sigma>) @ drop (Suc i) (sys_threads \<sigma>)"
    have s: "set (sys_threads \<sigma>) = insert (sys_threads \<sigma> ! i) (set us)"
      by (subst id_take_nth_drop [OF True]) (auto simp: us_def)
    have u: "set ((sys_threads \<sigma>)[i := x]) = insert x (set us)" for x
      by (simp add: upd_conv_take_nth_drop [OF True] us_def)
    show ?thesis
      using a attended_block [of "sys_threads \<sigma> ! i" us "sys_state \<sigma>"] u True
      by (auto simp: Resumed Let_def attended_def list_all_iff s)
  qed (simp add: Resumed a)
qed

lemma attended_run: "attended \<sigma> \<Longrightarrow> attended (sys_run E \<sigma> es)"
  by (induction es arbitrary: \<sigma>) (simp_all add: attended_step del: sys_step.simps)

lemma idle_when_quiescent:
  assumes "sys_threads \<sigma> = []" and "\<not> isLoading (sel (a_store (sys_state \<sigma>)))" and "quiescent (sys_run E \<sigma> es)"
  shows "\<not> isLoading (sel (a_store (sys_state (sys_run E \<sigma> es))))"
proof -
  have "attended (sys_run E \<sigma> es)" using assms(1,2) by (intro attended_run) (simp add: attended_def)
  moreover have "\<not> clears effect t" if "t \<in> set (sys_threads (sys_run E \<sigma> es))" for t
    using assms(3) that by (cases t) (auto simp: quiescent_def list_all_iff)
  ultimately show ?thesis by (auto simp: attended_def)
qed

end

subsection \<open>The operations of the application\<close>

interpretation instance_st: settling_operation selectInstanceAsyncStatus instance_effect
  by unfold_locales (auto simp: instance_effect_def asyncStatusInitial_def split: action_splits)

interpretation revocation_st: settling_operation selectInstanceRevocationAsyncStatus revocation_effect
  by unfold_locales (auto simp: revocation_effect_def asyncStatusInitial_def split: action_splits)

interpretation attestation_st: settling_operation selectAttestationAsyncStatus attestation_effect
  by unfold_locales (auto simp: attestation_effect_def asyncStatusInitial_def split: action_splits)

interpretation credential_st: settling_operation "selectCredentialAsyncStatus t" "credential_effect t" for t
  by unfold_locales (auto simp: credential_effect_def asyncStatusInitial_def split: action_splits if_splits)

interpretation status_st: settling_operation "selectStatusAttestationAsyncStatus t" "status_effect t" for t
  by unfold_locales (auto simp: status_effect_def asyncStatusInitial_def split: action_splits if_splits)

interpretation trustmark_st: settling_operation "selectTrustmarkAsyncStatus t" "trustmark_effect t" for t
  by unfold_locales (auto simp: trustmark_effect_def asyncStatusInitial_def split: action_splits if_splits)

text \<open>An application that was launched: nothing runs and nothing loads.\<close>

definition launched :: "RootState \<Rightarrow> bool" where
  "launched st \<longleftrightarrow> \<not> isLoading (selectInstanceAsyncStatus st) \<and> \<not> isLoading (selectInstanceRevocationAsyncStatus st)
     \<and> \<not> isLoading (selectAttestationAsyncStatus st)
     \<and> (\<forall>t \<in> {MDL, EuropeanDisabilityCard, EuropeanHealthInsuranceCard}.
          \<not> isLoading (selectCredentialAsyncStatus t st) \<and> \<not> isLoading (selectStatusAttestationAsyncStatus t st)
          \<and> \<not> isLoading (selectTrustmarkAsyncStatus t st))"

text \<open>C7. No operation is left loading: start from a state in which nothing loads, dispatch thunks and
  actions, and let the thunks' blocks run in any order.  Once every thunk has settled, no status of
  the wallet instance, its revocation, the attestation, a credential, a status attestation or a
  trustmark is loading, however the thunks were mixed and whatever each of them met.  The statuses of
  the PID are not among them: the start and the end of a continued flow may be booked on different
  methods.\<close>

theorem nothing_left_loading:
  assumes "launched (a_store s)" and "quiescent (sys_run E \<lparr>sys_state = s, sys_threads = []\<rparr> es)"
  shows "launched (a_store (sys_state (sys_run E \<lparr>sys_state = s, sys_threads = []\<rparr> es)))"
  using assms
  by (auto simp: launched_def instance_st.idle_when_quiescent revocation_st.idle_when_quiescent
      attestation_st.idle_when_quiescent credential_st.idle_when_quiescent
      status_st.idle_when_quiescent trustmark_st.idle_when_quiescent)

definition sample_events :: "sys_event list" where
  "sample_events = [Dispatched (getCredentialThunk MDL), Dispatched getAttestationThunk, Acted (envSet Pre),
     Dispatched (getTrustmarkThunk MDL None), Resumed 2, Resumed 1, Resumed 0]"

lemma nothing_left_loading_witness:
  "launched (a_store (sys_state (sys_run sample_app (idle_system
     (dispatch_all [fulfilled getAttestationThunk (Attestation ''wia'')])) sample_events)))"
proof -
  have "launched (dispatch_all [fulfilled getAttestationThunk (Attestation ''wia'')])" by code_simp
  moreover have "quiescent (sys_run sample_app (idle_system
      (dispatch_all [fulfilled getAttestationThunk (Attestation ''wia'')])) sample_events)" by code_simp
  ultimately show ?thesis
    using nothing_left_loading [of "sys_state (idle_system
        (dispatch_all [fulfilled getAttestationThunk (Attestation ''wia'')]))" sample_app sample_events]
    by (simp add: idle_system_def)
qed

end
