(* ===== verification/Threads_Confined.thy ===== *)
theory Threads_Confined
  imports Threads_Correct
begin

text \<open>
  What the threads of \<open>App_Threads\<close> may write while they interleave: each thunk dispatches its own
  actions, those of the attestation it may request and few others, so that what the store holds for
  one operation is not touched by the others (the interface \<open>stored_value\<close>); and the one value a
  thunk reads again after an \<open>await\<close>, the environment, with what its change does to a thunk in flight.
\<close>

section \<open>What a thunk may write\<close>

text \<open>\<open>only Q t\<close>: whatever states its blocks find, the thread dispatches actions in \<open>Q\<close> only.\<close>

primrec only :: "(action \<Rightarrow> bool) \<Rightarrow> ('a, 'c) thread \<Rightarrow> bool" where
  "only Q (Settled r) = True"
| "only Q (Block f) = (\<forall>s. list_all Q (actions (f s))
     \<and> snd (snd (snd (map_prod id (map_prod id (map_prod id (only Q))) (f s)))))"

lemma only_Block: "only Q (Block f) \<longleftrightarrow> (\<forall>s. list_all Q (actions (f s)) \<and> only Q (rest (f s)))"
  by (simp add: rest_snd prod.case_eq_if map_prod_def)

declare only.simps(2) [simp del]

lemma only_now: "only Q t \<Longrightarrow> only Q (rest (now t s)) \<and> list_all Q (actions (now t s))"
  by (cases t) (simp_all add: only_Block)

lemma only_mono: "only Q t \<Longrightarrow> (\<And>a. Q a \<Longrightarrow> Q' a) \<Longrightarrow> only Q' t"
  by (induction t rule: thread_induct) (auto simp: only_Block list_all_iff)

lemma only_thenT:
  "only Q m \<Longrightarrow> returns P m \<Longrightarrow> (\<And>r. (\<forall>x. r = Inr x \<longrightarrow> P x) \<Longrightarrow> only Q (k r)) \<Longrightarrow> only Q (thenT k m)"
  by (induction m rule: thread_induct)
    (auto simp: only_Block returns_Block simp del: returns.simps(2) split: sum.splits)

lemma only_bindT [thread_intros]: "only Q m \<Longrightarrow> (\<And>x. only Q (k x)) \<Longrightarrow> only Q (bindT m k)"
  unfolding bindT_def by (rule only_thenT [OF _ returns_any]) (simp_all split: sum.splits)

lemma only_callT [thread_intros]: "only Q (callT m)"
  by (simp add: callT_def only_Block actions_def rest_def split: prod.splits)

lemma only_readT [thread_intros]: "(\<And>st. only Q (f st)) \<Longrightarrow> only Q (readT f)"
  by (simp add: readT_def only_Block only_now)

lemma only_dispatchT [thread_intros]: "Q a \<Longrightarrow> only Q t \<Longrightarrow> only Q (dispatchT a t)"
  by (simp add: dispatchT_block only_Block only_now)

lemma only_leaves [thread_intros]:
  "only Q (Settled r)"
  "only Q a \<Longrightarrow> (\<And>y. only Q (b y)) \<Longrightarrow> only Q (case x of None \<Rightarrow> a | Some y \<Rightarrow> b y)"
  "(\<And>a b. only Q (f a b)) \<Longrightarrow> only Q (case z of (a, b) \<Rightarrow> f a b)"
  by (simp_all split: option.splits prod.splits)

text \<open>The actions of a call: its own, with a payload of its own type.\<close>

definition own_action :: "thunk_call \<Rightarrow> action \<Rightarrow> bool" where
  "own_action call a \<longleftrightarrow> (a = pending call) \<or> (\<exists>e. a = rejected call e) \<or> (\<exists>p. a = fulfilled call p \<and> payload_ok call p)"

lemma only_thunkT:
  assumes "only Q creator" and "returns (payload_ok call) creator" and "\<And>a. own_action call a \<Longrightarrow> Q a"
  shows "only Q (thunkT ser call creator)"
proof -
  have "only Q (settleT ser call r)" if "\<forall>x. r = Inr x \<longrightarrow> payload_ok call x" for r
    using that unfolding settleT_def
    by (intro thread_intros assms(3)) (auto simp: own_action_def split: sum.splits)
  then have "only Q (thenT (settleT ser call) creator)" by (rule only_thenT [OF assms(1,2)])
  moreover have "Q (pending call)" by (rule assms(3)) (simp add: own_action_def)
  ultimately show ?thesis unfolding thunkT_def by (intro thread_intros)
qed

fun uses_attestation :: "thunk_call \<Rightarrow> bool" where
  "uses_attestation (getCredentialThunk t) = True"
| "uses_attestation (getPidCieIDThunk h m) = True"
| "uses_attestation (preparePidFlowParamsThunk h m pin) = True"
| "uses_attestation _ = False"

fun starts_pid_flow :: "thunk_call \<Rightarrow> bool" where
  "starts_pid_flow (getPidCieIDThunk h m) = True"
| "starts_pid_flow (preparePidFlowParamsThunk h m pin) = True"
| "starts_pid_flow _ = False"

definition may_dispatch :: "thunk_call \<Rightarrow> action \<Rightarrow> bool" where
  "may_dispatch call a \<longleftrightarrow> own_action call a
     \<or> uses_attestation call \<and> own_action getAttestationThunk a
     \<or> starts_pid_flow call \<and> a = credentialReset
     \<or> call = revokeWalletInstanceThunk \<and> a = instanceReset"

lemma only_getAttestation: "only Q (getAttestation_thread E)"
  unfolding getAttestation_thread_def by (intro thread_intros)

lemma thread_with_attestation:
  assumes "\<And>a. own_action getAttestationThunk a \<Longrightarrow> Q a" and "\<And>wia. only Q (f wia)"
  shows "only Q (with_attestationT E f)"
proof -
  define cont where "cont = readT (\<lambda>st. case present (selectAttestation st) of
      None \<Rightarrow> throwT ''Wallet Instance Attestation not found'' | Some wia \<Rightarrow> f wia)"
  have c: "only Q cont" unfolding cont_def by (intro thread_intros assms)
  have "only Q (thunkT (ae_ser E) getAttestationThunk (getAttestation_thread E))"
    using creator_payload [of getAttestationThunk E] assms(1) by (simp add: only_thunkT only_getAttestation)
  with c have "only Q (bindT (thunkT (ae_ser E) getAttestationThunk (getAttestation_thread E)) (\<lambda>_. cont))"
    by (intro thread_intros)
  with c have "list_all Q (actions b) \<and> only Q (rest b)"
    if "b = (case r of (Inl e, s') \<Rightarrow> now (Settled (Inl e)) s'
      | (Inr needed, s') \<Rightarrow> now (if needed then bindT (thunkT (ae_ser E) getAttestationThunk (getAttestation_thread E)) (\<lambda>_. cont)
          else cont) s')" for b r
    using that by (auto simp: only_now split: prod.splits sum.splits)
  then show ?thesis
    unfolding with_attestationT_def cont_def [symmetric] Let_def only_Block by blast
qed

lemmas flow_defs = getCredentialT_def getPidCieIDT_def getCredentialStatusAttestationT_def finish_issuanceT_def Let_def

lemmas creator_defs = creator_thread.simps createWalletInstance_thread_def revokeWalletInstance_thread_def
  getAttestation_thread_def getCredential_thread_def statusAttestation_thread_def trustmark_thread_def
  getPidCieID_thread_def preparePidFlowParams_thread_def continuePidFlow_thread_def flow_defs

lemma only_creator: "only (may_dispatch call) (creator_thread E call)"
  by (cases call) (auto simp: creator_defs may_dispatch_def intro!: thread_with_attestation thread_intros)

lemma only_thunk: "only (may_dispatch call) (thunk_thread E call)"
  unfolding thunk_thread_def
  by (rule only_thunkT [OF only_creator creator_payload]) (simp add: may_dispatch_def)

text \<open>The contract of a stored value: the actions that write it.\<close>

locale stored_value =
  fixes get :: "RootState \<Rightarrow> 'v" and writes :: "action \<Rightarrow> bool"
  assumes kept: "\<not> writes a \<Longrightarrow> get (rootReducer s a) = get s"
begin

lemma kept_all: "list_all (\<lambda>a. \<not> writes a) as \<Longrightarrow> get (foldl rootReducer s as) = get s"
  by (induction as arbitrary: s) (simp_all add: kept)

lemma kept_block: "list_all (\<lambda>a. \<not> writes a) (actions b) \<Longrightarrow> get (a_store (after s b)) = get (a_store s)"
  by (cases b) (simp add: after_def actions_def kept_all)

definition spares :: "sys_event \<Rightarrow> bool" where
  "spares e \<longleftrightarrow> (case e of Dispatched call \<Rightarrow> \<forall>a. may_dispatch call a \<longrightarrow> \<not> writes a
     | Acted a \<Rightarrow> plain a \<longrightarrow> \<not> writes a | Resumed i \<Rightarrow> True)"

lemma kept_step:
  assumes "list_all (only (\<lambda>a. \<not> writes a)) (sys_threads \<sigma>)" and "spares e"
  shows "list_all (only (\<lambda>a. \<not> writes a)) (sys_threads (sys_step E \<sigma> e))
    \<and> get (a_store (sys_state (sys_step E \<sigma> e))) = get (a_store (sys_state \<sigma>))"
proof (cases e)
  case (Dispatched call)
  with assms(2) have "only (\<lambda>a. \<not> writes a) (thunk_thread E call)"
    by (intro only_mono [OF only_thunk]) (simp add: spares_def)
  with assms(1) show ?thesis by (simp add: Dispatched Let_def only_now kept_block)
next
  case (Acted a)
  with assms show ?thesis by (simp add: spares_def kept)
next
  case (Resumed i)
  show ?thesis
  proof (cases "i < length (sys_threads \<sigma>)")
    case True
    with assms(1) have "only (\<lambda>a. \<not> writes a) (sys_threads \<sigma> ! i)" by (simp add: list_all_length)
    note b = only_now [OF this, of "sys_state \<sigma>"]
    with assms(1) True have "list_all (only (\<lambda>a. \<not> writes a)) (sys_threads (sys_step E \<sigma> e))"
      by (auto simp: Resumed Let_def list_all_iff dest!: set_update_subset_insert [THEN subsetD])
    with b True show ?thesis by (simp add: Resumed Let_def kept_block)
  qed (simp add: Resumed assms(1))
qed

lemma kept_run:
  assumes "list_all (only (\<lambda>a. \<not> writes a)) (sys_threads \<sigma>)" and "list_all spares es"
  shows "get (a_store (sys_state (sys_run E \<sigma> es))) = get (a_store (sys_state \<sigma>))"
  using assms by (induction es arbitrary: \<sigma>) (simp_all add: kept_step del: sys_step.simps)

end

fun writes_credential :: "SupportedCredentialsWithoutPid \<Rightarrow> action \<Rightarrow> bool" where
  "writes_credential t (fulfilled (getCredentialThunk _) (CredentialObtained r)) = (r_credentialType r = t)"
| "writes_credential t a = (a \<in> {credentialReset, instanceReset, sessionReset})"

fun writes_pid :: "action \<Rightarrow> bool" where
  "writes_pid (fulfilled (getPidCieIDThunk _ _) _) = True"
| "writes_pid (fulfilled (continuePidFlowThunk _) _) = True"
| "writes_pid a = (a \<in> {pidReset, instanceReset, sessionReset})"

fun writes_keyTag :: "action \<Rightarrow> bool" where
  "writes_keyTag (fulfilled createWalletInstanceThunk _) = True"
| "writes_keyTag a = (a \<in> {instanceReset, sessionReset})"

interpretation credential_value: stored_value "selectCredential t" "writes_credential t" for t
  by unfold_locales
    (auto simp: selectCredential_def credentialReducer_def split: action_splits)

interpretation pid_value: stored_value selectPid writes_pid
  by unfold_locales (auto simp: selectPid_def pidReducer_def split: action_splits)

interpretation keyTag_value: stored_value selectInstanceKeyTag writes_keyTag
  by unfold_locales (auto simp: selectInstanceKeyTag_def instanceReducer_def split: action_splits)

text \<open>The events that may change a stored credential, the PID, the key tag of the wallet instance.\<close>

fun touches_credential :: "SupportedCredentialsWithoutPid \<Rightarrow> sys_event \<Rightarrow> bool" where
  "touches_credential t (Dispatched call) =
     (call = getCredentialThunk t \<or> starts_pid_flow call \<or> call = revokeWalletInstanceThunk)"
| "touches_credential t (Acted a) = (a \<in> {credentialReset, instanceReset, sessionReset})"
| "touches_credential t (Resumed i) = False"

fun touches_pid :: "sys_event \<Rightarrow> bool" where
  "touches_pid (Dispatched (getPidCieIDThunk _ _)) = True"
| "touches_pid (Dispatched (continuePidFlowThunk _)) = True"
| "touches_pid (Dispatched call) = (call = revokeWalletInstanceThunk)"
| "touches_pid (Acted a) = (a \<in> {pidReset, instanceReset, sessionReset})"
| "touches_pid (Resumed i) = False"

fun touches_keyTag :: "sys_event \<Rightarrow> bool" where
  "touches_keyTag (Dispatched call) = (call \<in> {createWalletInstanceThunk, revokeWalletInstanceThunk})"
| "touches_keyTag (Acted a) = (a \<in> {instanceReset, sessionReset})"
| "touches_keyTag (Resumed i) = False"

lemma spares_credential: "\<not> touches_credential t e \<Longrightarrow> credential_value.spares t e"
proof (cases e)
  case (Dispatched call)
  then show "\<not> touches_credential t e \<Longrightarrow> credential_value.spares t e"
    by (cases call) (auto simp: credential_value.spares_def may_dispatch_def own_action_def)
next
  case (Acted a)
  then show "\<not> touches_credential t e \<Longrightarrow> credential_value.spares t e"
    by (cases a) (auto simp: credential_value.spares_def)
qed (simp add: credential_value.spares_def)

lemma spares_pid: "\<not> touches_pid e \<Longrightarrow> pid_value.spares e"
proof (cases e)
  case (Dispatched call)
  then show "\<not> touches_pid e \<Longrightarrow> pid_value.spares e"
    by (cases call) (auto simp: pid_value.spares_def may_dispatch_def own_action_def)
next
  case (Acted a)
  then show "\<not> touches_pid e \<Longrightarrow> pid_value.spares e"
    by (cases a) (auto simp: pid_value.spares_def)
qed (simp add: pid_value.spares_def)

lemma spares_keyTag: "\<not> touches_keyTag e \<Longrightarrow> keyTag_value.spares e"
proof (cases e)
  case (Dispatched call)
  then show "\<not> touches_keyTag e \<Longrightarrow> keyTag_value.spares e"
    by (cases call) (auto simp: keyTag_value.spares_def may_dispatch_def own_action_def)
next
  case (Acted a)
  then show "\<not> touches_keyTag e \<Longrightarrow> keyTag_value.spares e"
    by (cases a) (auto simp: keyTag_value.spares_def)
qed (simp add: keyTag_value.spares_def)

text \<open>C22. Thunks that run at the same time do not disturb what is not theirs.  However their blocks are
  mixed, a stored credential stays as it is unless its own thunk, a flow for a new PID, a revocation
  or a reset was started; the PID unless a flow that obtains one, a revocation or a reset was; the
  key tag unless the creation or revocation of an instance or a reset was.\<close>

theorem interleaved_thunks_confined:
  "let st = a_store s; st' = a_store (sys_state (sys_run E \<lparr>sys_state = s, sys_threads = []\<rparr> es)) in
    ((\<forall>e \<in> set es. \<not> touches_credential t e) \<longrightarrow> selectCredential t st' = selectCredential t st)
    \<and> ((\<forall>e \<in> set es. \<not> touches_pid e) \<longrightarrow> selectPid st' = selectPid st)
    \<and> ((\<forall>e \<in> set es. \<not> touches_keyTag e) \<longrightarrow> selectInstanceKeyTag st' = selectInstanceKeyTag st)"
  using credential_value.kept_run [of t "\<lparr>sys_state = s, sys_threads = []\<rparr>" es E]
    pid_value.kept_run [of "\<lparr>sys_state = s, sys_threads = []\<rparr>" es E]
    keyTag_value.kept_run [of "\<lparr>sys_state = s, sys_threads = []\<rparr>" es E]
  by (simp add: Let_def list_all_iff spares_credential spares_pid spares_keyTag)

lemma interleaved_thunks_confined_witness:
  "selectCredential MDL (a_store (sys_state (sys_run sample_app (idle_system (dispatch_all sample_history))
     [Dispatched (getCredentialThunk EuropeanDisabilityCard), Dispatched (getTrustmarkThunk MDL None),
      Resumed 1, Resumed 0]))) = Some sample_result"
proof -
  have "selectCredential MDL (dispatch_all sample_history) = Some sample_result"
    by (simp add: sample_history_def sample_result_def selectCredential_def credentialReducer_def)
  then show ?thesis
    using interleaved_thunks_confined [of "sys_state (idle_system (dispatch_all sample_history))" sample_app
        "[Dispatched (getCredentialThunk EuropeanDisabilityCard), Dispatched (getTrustmarkThunk MDL None),
          Resumed 1, Resumed 0]" MDL]
    by (simp add: Let_def idle_system_def del: sys_run_simps foldl.simps)
qed

section \<open>A change of environment while the attestation is requested\<close>

definition attestation_call :: "'c app_env \<Rightarrow> string \<Rightarrow> RootState \<Rightarrow> string io" where
  "attestation_call E tag st = bindIO (wia_getAttestation (app_ext E st) (ae_G E)
       (createCryptoContextFor (ae_X E) WIA_KEYTAG) (getIntegrityContext (ae_X E) (ae_D E) tag)
       (WALLET_PROVIDER_BASE_URL (getEnv (ae_V E) (selectEnv st))))
     (\<lambda>v. liftR (js_str v))"

lemma settled_after_switch:
  fixes st e
  defines "st' \<equiv> rootReducer (rootReducer (rootReducer st (pending getAttestationThunk)) instanceReset) (envSet e)"
  shows "selectEnv (rootReducer st' (fulfilled getAttestationThunk (Attestation wia))) = e"
    "selectInstanceKeyTag (rootReducer st' (fulfilled getAttestationThunk (Attestation wia))) = None"
    "selectAttestation (rootReducer st' (fulfilled getAttestationThunk (Attestation wia))) = Some wia"
    "selectEnv (rootReducer st' (rejected getAttestationThunk err)) = e"
    "selectInstanceKeyTag (rootReducer st' (rejected getAttestationThunk err)) = None"
    "selectAttestation (rootReducer st' (rejected getAttestationThunk err)) = None"
  by (simp_all add: st'_def selectEnv_def environmentReducer_def selectInstanceKeyTag_def instanceReducer_def
      selectAttestation_def attestationReducer_def instance_initial_def attestation_initial_def)

text \<open>C24. The user changes the environment while a request for an attestation is on its way, after the
  key was made and before the provider is called.  The request goes on: it is sent to the provider
  of the new environment, for the key tag of the instance that was erased, and the attestation that
  comes back is kept, although the store has no instance any more.\<close>

theorem environment_switch_race:
  assumes tag: "present (selectInstanceKeyTag (a_store s)) = Some tag"
    and key: "regenerateCryptoKey (ae_X E) WIA_KEYTAG (a_world s) = (Inr (), w)"
  shows "let \<sigma> = sys_run E \<lparr>sys_state = s, sys_threads = []\<rparr>
        (Dispatched getAttestationThunk # map Acted (toggleEnvironment e) @ [Resumed 0, Resumed 0]);
      (r, w') = attestation_call E tag
        (foldl rootReducer (rootReducer (a_store s) (pending getAttestationThunk)) (toggleEnvironment e)) w;
      st = a_store (sys_state \<sigma>) in
    quiescent \<sigma> \<and> a_world (sys_state \<sigma>) = w' \<and> selectEnv st = e \<and> selectInstanceKeyTag st = None
    \<and> selectAttestation st = (case r of Inr wia \<Rightarrow> Some wia | Inl _ \<Rightarrow> None)"
proof -
  have t: "present (selectInstanceKeyTag (rootReducer (a_store s) (pending getAttestationThunk))) = Some tag"
    using tag by (simp add: selectInstanceKeyTag_def instanceReducer_def)
  show ?thesis
    by (simp add: Let_def toggleEnvironment_def thunk_thread_def thunkT_def dispatchT_block getAttestation_thread_def
        readT_def bindT_def callT_def t key after_def rest_def settleT_def attestation_call_def [symmetric] quiescent_def
        now_def settled_after_switch split: prod.splits sum.splits)
qed

lemma environment_switch_race_witness:
  "let st = a_store (sys_state (sys_run sample_app
       (idle_system (dispatch_all [fulfilled createWalletInstanceThunk (KeyTag ''tag'')]))
       (Dispatched getAttestationThunk # map Acted (toggleEnvironment Pre) @ [Resumed 0, Resumed 0]))) in
   selectEnv st = Pre \<and> selectInstanceKeyTag st = None"
proof -
  let ?s = "sys_state (idle_system (dispatch_all [fulfilled createWalletInstanceThunk (KeyTag ''tag'')]))"
  have t: "present (selectInstanceKeyTag (a_store ?s)) = Some ''tag''" by code_simp
  have "fst (regenerateCryptoKey (ae_X sample_app) WIA_KEYTAG (a_world ?s)) = Inr ()" by code_simp
  then have k: "regenerateCryptoKey (ae_X sample_app) WIA_KEYTAG (a_world ?s) =
      (Inr (), snd (regenerateCryptoKey (ae_X sample_app) WIA_KEYTAG (a_world ?s)))" by (simp add: prod_eq_iff)
  have "idle_system (dispatch_all [fulfilled createWalletInstanceThunk (KeyTag ''tag'')]) = \<lparr>sys_state = ?s, sys_threads = []\<rparr>"
    by (simp add: idle_system_def)
  with environment_switch_race [OF t k, of Pre] show ?thesis
    by (simp add: Let_def del: sys_run_simps split: prod.splits)
qed

end
