(* ===== verification/App_Views.thy ===== *)
theory App_Views
  imports App_Screens
begin

text \<open>
  What the screens and the visual components of the example application render, as data: the rows of
  the lists with the keys they are given, the modules of scenarios, the grid of identity providers,
  the QR code, the page of a trustmark, the titles of the navigator, the settings, the debug data of
  each screen and the component that prints it.  Styles, icons and spacers are left out.

  Parameters: \<open>truncate\<close> and \<open>cloneDeepWith\<close> of the package \<open>lodash\<close>, in the locale \<open>lodash\<close>.
\<close>

section \<open>Lists\<close>

text \<open>\<open>keyExtractor={(item, index) => `${item?.title}-${index}`}\<close>; an absent item prints
  \<open>undefined\<close>.\<close>

definition title_key :: "string option \<Rightarrow> nat \<Rightarrow> string" where
  "title_key title index = (case title of Some t \<Rightarrow> t | None \<Rightarrow> ''undefined'') @ ''-'' @ nat_str index"

definition flat_list :: "('a \<Rightarrow> string option) \<Rightarrow> ('a \<Rightarrow> 'b) \<Rightarrow> 'a list \<Rightarrow> (string \<times> 'b) list" where
  "flat_list title render xs = map (\<lambda>(i, x). (title_key (title x) i, render x)) (enumerate 0 xs)"

text \<open>The module a scenario renders.\<close>

record module_credential =
  mc_label :: string
  mc_isFetching :: bool
  mc_badge :: "badge option"
  mc_onPress :: "screen_effect list"

definition TestScenario :: "test_scenario \<Rightarrow> module_credential" where
  "TestScenario t = \<lparr>mc_label = ts_title t, mc_isFetching = ts_isLoading t, mc_badge = getBadge t,
     mc_onPress = ts_onPress t\<rparr>"

definition wallet_instance_rows :: "RootState \<Rightarrow> (string \<times> module_credential) list" where
  "wallet_instance_rows st = flat_list (\<lambda>t. Some (ts_title t)) TestScenario (wallet_instance_scenarios st)"

definition credential_rows :: "RootState \<Rightarrow> (string \<times> module_credential) list" where
  "credential_rows st = flat_list (\<lambda>t. Some (ts_title t)) TestScenario (credential_scenarios st)"

definition status_attestation_rows :: "RootState \<Rightarrow> (string \<times> module_credential option) list" where
  "status_attestation_rows st =
     flat_list (map_option ts_title) (map_option TestScenario) (status_attestation_scenarios st)"

definition trustmark_rows :: "RootState \<Rightarrow> (string \<times> module_credential) list" where
  "trustmark_rows st = flat_list (\<lambda>t. Some (ts_title t)) TestScenario (trustmark_scenarios st)"

text \<open>The PID screen: the third row is the card's scenario, under a title of its own.  The module of
  that scenario, and whether the web view is below it.\<close>

definition cie_l3_scenario :: "RootState \<Rightarrow> test_scenario" where
  "cie_l3_scenario st = scenario_of ''Get PID (CIE L3)'' [] (selectPidAsyncStatus cieL3 st) (selectPid st \<noteq> None)"

datatype pid_row = PlainRow module_credential | CieRow module_credential bool

definition TestCieL3Scenario :: "RootState \<Rightarrow> test_scenario \<Rightarrow> pid_row" where
  "TestCieL3Scenario st t = CieRow (TestScenario t)
     (case selectPidFlowParams st of
        Some p \<Rightarrow> (case fp_ciePin p of Some pin \<Rightarrow> pin \<noteq> [] | None \<Rightarrow> False)
      | None \<Rightarrow> False)"

definition pid_rows :: "RootState \<Rightarrow> (string \<times> pid_row) list" where
  "pid_rows st = flat_list (\<lambda>(isCieL3, t). Some (ts_title t))
     (\<lambda>(isCieL3, t). if isCieL3 then TestCieL3Scenario st (t\<lparr>ts_title := ''Get PID (CIE+PIN)''\<rparr>)
        else PlainRow (TestScenario t))
     (map (Pair False) (pid_scenarios st) @ [(True, cie_l3_scenario st)])"

text \<open>The home screen: label, description and effect of each section.\<close>

definition home_descriptions :: "string list" where
  "home_descriptions = [''Register a wallet instance and obtain an attestation'',
     ''Obtain a PID with SPID or CIE'', ''Obtain a credential with PID authentication'',
     ''Obtain the status attestation of a credential'', ''Obtain the trustmark of a credential'',
     ''Change the environment and logout'']"

definition home_rows :: "RootState \<Rightarrow> (string \<times> string \<times> string \<times> screen_effect) list" where
  "home_rows st = flat_list (\<lambda>(label, description, onPress). Some label) id
     (map2 (\<lambda>(label, onPress) description. (label, description, onPress)) (home_sections st) home_descriptions)"

section \<open>Identity providers, \<open>components/IdpsGrid.tsx\<close>\<close>

record module_idp =
  mi_key :: string
  mi_name :: string
  mi_testID :: string
  mi_onPress :: "screen_effect list"

definition renderItem :: "(Idp \<Rightarrow> screen_effect list) \<Rightarrow> Idp \<Rightarrow> module_idp" where
  "renderItem onIdpSelected item = \<lparr>mi_key = idp_id item, mi_name = idp_name item,
     mi_testID = ''idp-'' @ idp_id item @ ''-button'', mi_onPress = onIdpSelected item\<rparr>"

definition IdpsGrid :: "Idp list \<Rightarrow> (Idp \<Rightarrow> screen_effect list) \<Rightarrow> (string \<times> module_idp) list" where
  "IdpsGrid is onIdpSelected = map (\<lambda>item. (idp_id item, renderItem onIdpSelected item)) is"

definition idp_selection_screen :: "(string \<times> module_idp) list" where
  "idp_selection_screen = IdpsGrid idps idp_selected"

definition spid_idp_selection_screen ::
  "(thunk_call \<Rightarrow> PreparePidFlowParamsThunkOutput option) \<Rightarrow> RootState \<Rightarrow> (string \<times> module_idp) list" where
  "spid_idp_selection_screen prepared st = IdpsGrid (spid_idps (selectEnv st)) (spid_idp_selected prepared)"

text \<open>\<open>getLoginUri\<close>: the path and the parameters are set on a \<open>URL\<close>.  The base urls of the environments
  have neither credentials nor a fragment, so the text of the url is its origin, path and query.\<close>

definition getLoginUri :: "ext \<Rightarrow> env_vars \<Rightarrow> EnvType \<Rightarrow> string \<Rightarrow> string res" where
  "getLoginUri X V e idp = bindR (x_URL X (WALLET_PROVIDER_BASE_URL (getEnv V e))) (\<lambda>url.
     Inr (u_origin url @ ''/login?'' @ URLSearchParams (map (apsnd Str) (u_search url)
       @ [(''entityID'', Str idp), (''authLevel'', Str ''SpidL2'')])))"

section \<open>QR code, \<open>components/QrCodeImage.tsx\<close>, and the page of a trustmark\<close>

text \<open>\<open>size\<close> is a number or a text \<open>n%\<close>; \<open>parseFloat\<close> reads the number at the head of a text.\<close>

definition parse_float :: "string \<Rightarrow> rat option" where
  "parse_float s = (case pnumber (skip_ws s) of Some (Num q, _) \<Rightarrow> Some q | _ \<Rightarrow> None)"

definition real_size :: "js \<Rightarrow> rat \<Rightarrow> rat option" where
  "real_size imageSize width = (case imageSize of
     Num n \<Rightarrow> Some n
   | Str s \<Rightarrow> map_option (\<lambda>q. q / 100 * width) (parse_float s)
   | _ \<Rightarrow> None)"

datatype qr_view =
    QRCode string "rat option" string
  | Placeholder "rat option"

definition QrCodeImage :: "rat \<Rightarrow> string option \<Rightarrow> js option \<Rightarrow> string option \<Rightarrow> qr_view" where
  "QrCodeImage width content imageSize correctionLevel =
     (let realSize = real_size (case imageSize of Some s \<Rightarrow> s | None \<Rightarrow> Num 200) width in
      case present content of
        Some v \<Rightarrow> QRCode v realSize (case correctionLevel of Some l \<Rightarrow> l | None \<Rightarrow> ''H'')
      | None \<Rightarrow> Placeholder realSize)"

text \<open>The page shows nothing until the trustmark is there.  The countdown is that of the timer the page
  has started.\<close>

definition trustmark_page ::
  "env_vars \<Rightarrow> rat \<Rightarrow> SupportedCredentialsWithoutPid \<Rightarrow> RootState \<Rightarrow> timer \<Rightarrow> (qr_view \<times> string) option" where
  "trustmark_page V width t st timer = map_option (\<lambda>trustmarkUrl.
     (QrCodeImage width (Some trustmarkUrl) (Some (Str ''90%'')) (Some ''L''), timer_text timer))
     (trustmark_url V t st)"

section \<open>Navigator and settings\<close>

definition screen_title :: "route \<Rightarrow> string" where
  "screen_title r = (case r of
     Home \<Rightarrow> ''ITW Test'' | WalletInstance \<Rightarrow> ''Test Wallet Instance'' | Pid \<Rightarrow> ''Test PID issuance''
   | PidSpidIdpSelection \<Rightarrow> ''Test PID issuance'' | PidSpidLogin authUrl redirectUri \<Rightarrow> ''PID SPID Login''
   | Credentials \<Rightarrow> ''Test credentials issuance'' | StatusAttestation \<Rightarrow> ''Test credentials attestations''
   | Trustmark \<Rightarrow> ''Test credentials trustmark'' | TrustmarkQrCode t \<Rightarrow> labelByCredentialType t @ '' trustmark''
   | Settings \<Rightarrow> ''Settings'' | IdpSelection \<Rightarrow> ''IO Login'' | IdpLogin idp \<Rightarrow> ''IO Login'')"

definition headerRight :: "screen_effect list" where
  "headerRight = [Act (setDebugVisibility True)]"

record radio_item =
  ri_value :: string
  ri_description :: string
  ri_id :: EnvType

definition envRadioItems :: "radio_item list" where
  "envRadioItems = [
     \<lparr>ri_value = ''Set PRE environment'',
      ri_description = ''Use the PRE environment for testing. A Proxy might be needed to access the services. '' @
        ''This action will reset the app state beside the session.'', ri_id = Pre\<rparr>,
     \<lparr>ri_value = ''Set PROD environment'',
      ri_description = ''Use the PROD environment for testing. '' @
        ''This action will reset the app state beside the session.'', ri_id = Prod\<rparr>]"

text \<open>The settings: the radio group with the selected item, which is local state set from the store when
  the screen is mounted, and what a press on an item does; the entry that logs out.\<close>

definition settings_page :: "EnvType \<Rightarrow> (radio_item \<times> bool \<times> action list) list \<times> string \<times> action list" where
  "settings_page selectedEnv =
     (map (\<lambda>item. (item, ri_id item = selectedEnv, toggleEnvironment (ri_id item))) envRadioItems,
      ''Logout from IO Backend'', logout)"

section \<open>Debug data\<close>

text \<open>The values of the store as the screens pass them on.\<close>

definition opt_js :: "('a \<Rightarrow> js) \<Rightarrow> 'a option \<Rightarrow> js" where
  "opt_js f v = (case v of Some x \<Rightarrow> f x | None \<Rightarrow> Undef)"

definition status_js :: "AsyncStatus \<Rightarrow> js" where
  "status_js s = Obj [(''isDone'', Bool (isDone s)), (''isLoading'', Bool (isLoading s)),
     (''hasError'', Obj (case hasError s of
        NoError \<Rightarrow> [(''status'', Bool False), (''error'', Undef)]
      | HasError e \<Rightarrow> [(''status'', Bool True), (''error'', e)]))]"

definition result_js :: "('t \<Rightarrow> string) \<Rightarrow> 't credential_result \<Rightarrow> js" where
  "result_js type_name r = Obj [(''parsedCredential'', Obj (r_parsedCredential r)),
     (''credential'', Str (r_credential r)), (''keyTag'', Str (r_keyTag r)),
     (''credentialType'', Str (type_name (r_credentialType r)))]"

definition env_name :: "EnvType \<Rightarrow> string" where
  "env_name e = (case e of Pre \<Rightarrow> ''pre'' | Prod \<Rightarrow> ''prod'')"

definition home_debug :: "RootState \<Rightarrow> props" where
  "home_debug st = [(''session'', opt_js Str (selectIoAuthToken st))]"

definition settings_debug :: "RootState \<Rightarrow> props" where
  "settings_debug st = [(''session'', opt_js Str (selectIoAuthToken st)), (''env'', Str (env_name (selectEnv st)))]"

definition wallet_instance_debug :: "RootState \<Rightarrow> props" where
  "wallet_instance_debug st = [
     (''instanceState'', status_js (selectInstanceAsyncStatus st)),
     (''instanceKeyTag'', opt_js Str (selectInstanceKeyTag st)),
     (''attestationState'', status_js (selectAttestationAsyncStatus st)),
     (''attestation'', opt_js Str (selectAttestation st)),
     (''instanceRevocationState'', status_js (selectInstanceRevocationAsyncStatus st))]"

definition pid_debug :: "RootState \<Rightarrow> props" where
  "pid_debug st = [
     (''pidSpidState'', status_js (selectPidAsyncStatus spid st)),
     (''pidCieL2State'', status_js (selectPidAsyncStatus cieL2 st)),
     (''pidCieL3State'', status_js (selectPidAsyncStatus cieL3 st)),
     (''pid'', opt_js (result_js (\<lambda>_. ''PersonIdentificationData'')) (selectPid st))]"

definition credential_debug :: "RootState \<Rightarrow> props" where
  "credential_debug st = (let result = opt_js (result_js credential_name) in [
     (''mdlState'', status_js (selectCredentialAsyncStatus MDL st)),
     (''mdl'', result (selectCredential MDL st)),
     (''dcState'', status_js (selectCredentialAsyncStatus EuropeanDisabilityCard st)),
     (''dc'', result (selectCredential EuropeanDisabilityCard st)),
     (''tsState'', status_js (selectCredentialAsyncStatus EuropeanHealthInsuranceCard st)),
     (''ts'', result (selectCredential EuropeanHealthInsuranceCard st))])"

definition status_attestation_debug :: "RootState \<Rightarrow> props" where
  "status_attestation_debug st = [
     (''mdlStatusAttestationState'', status_js (selectStatusAttestationAsyncStatus MDL st)),
     (''mdlStatusAttestation'', opt_js (\<lambda>r. Obj [(''statusAttestation'', Str (sa_statusAttestation r)),
        (''parsedStatusAttestation'', sa_parsedStatusAttestation r),
        (''credentialType'', Str (credential_name (sa_credentialType r)))]) (selectStatusAttestation MDL st))]"

definition trustmark_debug :: "SupportedCredentialsWithoutPid \<Rightarrow> RootState \<Rightarrow> props" where
  "trustmark_debug t st = [
     (''trustmarkJwt'', opt_js (\<lambda>r. Str (tk_trustmarkJwt r)) (selectTrustmark t st)),
     (''expirationTime'', opt_js tk_expirationTime (selectTrustmark t st)),
     (''trustmarkAsyncStatus'', status_js (selectTrustmarkAsyncStatus t st))]"

section \<open>Printing debug data, \<open>components/debug/DebugPrettyPrint.tsx\<close>\<close>

text \<open>\<open>JSON.stringify(v, null, 2)\<close>: every element and property on a line of its own, indented by two
  spaces per level; empty arrays and objects stay on one line.\<close>

definition line_break :: "nat \<Rightarrow> string" where
  "line_break depth = CHR 0x0A # replicate (2 * depth) (CHR '' '')"

definition bracketed :: "string \<Rightarrow> string \<Rightarrow> nat \<Rightarrow> string list \<Rightarrow> string" where
  "bracketed l r depth items = (if items = [] then l @ r
     else l @ line_break (Suc depth) @ join_with ('','' @ line_break (Suc depth)) items @ line_break depth @ r)"

function indented :: "nat \<Rightarrow> js \<Rightarrow> string" where
  "indented d Undef = ''null''"
| "indented d Null = ''null''"
| "indented d (Bool b) = (if b then ''true'' else ''false'')"
| "indented d (Num q) = num_str q"
| "indented d (Str s) = quote_str s"
| "indented d (DateV x) = ''null''"
| "indented d (Arr vs) = bracketed ''['' '']'' d (map (indented (Suc d)) vs)"
| "indented d (Obj kvs) = bracketed ''{'' ''}'' d
     (map (\<lambda>(k, v). quote_str k @ '': '' @ indented (Suc d) v)
       (filter (\<lambda>(k, v). v \<noteq> Undef) (entries kvs)))"
  by pat_completeness auto

termination
  by (relation "measure (\<lambda>(d, v). size v)") (auto dest: size_obj_member size_arr_member simp del: js.size)

definition MAX_CHARACTERS :: nat where
  "MAX_CHARACTERS = 256"

text \<open>The customizer passed to \<open>cloneDeepWith\<close>; the value \<open>undefined\<close> leaves the cloning to lodash.\<close>

definition truncate_strings :: "(nat \<Rightarrow> string \<Rightarrow> string) \<Rightarrow> js \<Rightarrow> js option" where
  "truncate_strings truncateText v = (case v of Str s \<Rightarrow> Some (Str (truncateText MAX_CHARACTERS s)) | _ \<Rightarrow> None)"

text \<open>\<open>prettyData\<close>.  A text that does not parse back, that of \<open>undefined\<close> too, is truncated as a whole;
  lodash reads \<open>undefined\<close> as the empty text.\<close>

definition prettyData ::
  "(nat \<Rightarrow> string \<Rightarrow> string) \<Rightarrow> ((js \<Rightarrow> js option) \<Rightarrow> js \<Rightarrow> js) \<Rightarrow> js \<Rightarrow> string" where
  "prettyData truncateText cloneDeepWith data =
     (case (if data = Undef then None else JSON_parse (stringify data)) of
        Some json \<Rightarrow> indented 0 (cloneDeepWith (truncate_strings truncateText) json)
      | None \<Rightarrow> truncateText MAX_CHARACTERS (if data = Undef then [] else indented 0 data))"

text \<open>The component: its state is whether it is expanded.\<close>

record debug_print =
  dp_title :: string
  dp_clipboard :: js
  dp_chevron :: "string option"
  dp_content :: "string option"

definition DebugPrettyPrint ::
  "(nat \<Rightarrow> string \<Rightarrow> string) \<Rightarrow> ((js \<Rightarrow> js option) \<Rightarrow> js \<Rightarrow> js) \<Rightarrow> bool \<Rightarrow> bool \<Rightarrow> string \<Rightarrow> js \<Rightarrow> debug_print" where
  "DebugPrettyPrint truncateText cloneDeepWith expandable expanded title data = \<lparr>
     dp_title = title, dp_clipboard = JSON_stringify data,
     dp_chevron = (if expandable then Some (if expanded then ''chevronTop'' else ''chevronBottom'') else None),
     dp_content = (if (expandable \<and> \<not> expanded) \<or> \<not> expandable then None
       else Some (prettyData truncateText cloneDeepWith data))\<rparr>"

definition chevron_pressed :: "bool \<Rightarrow> bool" where
  "chevron_pressed expanded = (\<not> expanded)"

text \<open>The overlay: one printed entry per debug value, all closed at first; pressing beside them hides it.\<close>

definition DebugDataOverlay ::
  "(nat \<Rightarrow> string \<Rightarrow> string) \<Rightarrow> ((js \<Rightarrow> js option) \<Rightarrow> js \<Rightarrow> js) \<Rightarrow> RootState \<Rightarrow> (string \<times> debug_print) list" where
  "DebugDataOverlay truncateText cloneDeepWith st = map (\<lambda>(k, v).
     (''debug_data_'' @ k, DebugPrettyPrint truncateText cloneDeepWith True False k v)) (debug_overlay st)"

definition overlay_pressed :: "screen_effect list" where
  "overlay_pressed = [Act (setDebugVisibility False)]"

text \<open>What the component relies on in lodash: a text within the limit, counted in UTF-16 units, is left as it
  is, a longer one is replaced by a beginning of it that ends in the omission, within the limit; a
  clone takes the customizer's value where there is one, and is made of the clones of the parts
  elsewhere.\<close>

locale lodash =
  fixes units :: "string \<Rightarrow> nat"
    and truncateText :: "nat \<Rightarrow> string \<Rightarrow> string"
    and cloneDeepWith :: "(js \<Rightarrow> js option) \<Rightarrow> js \<Rightarrow> js"
  assumes truncate_short: "units s \<le> n \<Longrightarrow> truncateText n s = s"
    and truncate_long: "n < units s \<Longrightarrow> \<exists>p. prefix p s \<and> truncateText n s = p @ ''...''"
    and truncate_bound: "3 \<le> n \<Longrightarrow> units (truncateText n s) \<le> n"
    and clone_custom: "c v = Some w \<Longrightarrow> cloneDeepWith c v = w"
    and clone_array: "c (Arr vs) = None \<Longrightarrow> cloneDeepWith c (Arr vs) = Arr (map (cloneDeepWith c) vs)"
    and clone_object: "c (Obj kvs) = None \<Longrightarrow>
      cloneDeepWith c (Obj kvs) = Obj (map (\<lambda>(k, v). (k, cloneDeepWith c v)) kvs)"
    and clone_atom: "c v = None \<Longrightarrow> (\<And>vs. v \<noteq> Arr vs) \<Longrightarrow> (\<And>kvs. v \<noteq> Obj kvs) \<Longrightarrow> cloneDeepWith c v = v"

end
