(* ===== verification/Views_Correct.thy ===== *)
theory Views_Correct
  imports App_Views Screens_Correct
begin

text \<open>
  What the views guarantee: the keys of every list are distinct, the debug data of a screen goes with
  it, logging out leaves nothing of the user in the store, the printed debug data can be read back, the login address and the QR code carry what they
  should.
\<close>

section \<open>Keys of lists\<close>

text \<open>The index is what follows the last dash of a key.\<close>

lemma title_key_index: "title_key a i = title_key b j \<Longrightarrow> i = j"
proof -
  have d: "takeWhile is_digit (rev (title_key x n)) = rev (nat_str n)" for x n
  proof -
    have "rev (title_key x n) = rev (nat_str n) @ CHR ''-'' # rev (case x of Some t \<Rightarrow> t | None \<Rightarrow> ''undefined'')"
      by (simp add: title_key_def)
    moreover have "list_all is_digit (rev (nat_str n))" using nat_str_digits [of n] by (simp add: list_all_iff)
    moreover have "\<not> is_digit (CHR ''-'')" by (simp add: is_digit_def)
    ultimately show ?thesis by (simp add: list_all_iff takeWhile_append)
  qed
  assume "title_key a i = title_key b j"
  then have "rev (nat_str i) = rev (nat_str j)" using d by metis
  then show "i = j" by (simp add: nat_str_inj)
qed

lemma flat_list_keys: "distinct (map fst (flat_list title render xs))"
  by (auto simp: flat_list_def distinct_conv_nth nth_enumerate_eq dest: title_key_index)

lemma grid_keys: "map fst (IdpsGrid is f) = map idp_id is"
  by (simp add: IdpsGrid_def)

lemma entries_keys: "mset (map fst (entries kvs)) = mset (map fst kvs)"
  by (metis mset_entries mset_map)

lemma distinct_entries: "distinct (map fst (entries kvs)) \<longleftrightarrow> distinct (map fst kvs)"
  by (rule mset_eq_imp_distinct_iff [OF entries_keys])

text \<open>The rows of every list a screen renders have distinct keys, in every state of the store: the home
  screen, the wallet instance, the PID, the credentials, the status attestation, the trustmarks, both
  lists of identity providers in both environments, and the debug overlay.\<close>

theorem list_keys_distinct:
  "distinct (map fst (home_rows st)) \<and> distinct (map fst (wallet_instance_rows st))
   \<and> distinct (map fst (pid_rows st)) \<and> distinct (map fst (credential_rows st))
   \<and> distinct (map fst (status_attestation_rows st)) \<and> distinct (map fst (trustmark_rows st))
   \<and> distinct (map fst idp_selection_screen) \<and> distinct (map fst (spid_idp_selection_screen prepared st))
   \<and> (distinct (map fst (debugDataSelector st)) \<longrightarrow> distinct (map fst (DebugDataOverlay tr cl st)))"
proof -
  have ids: "distinct (map idp_id idps)" "distinct (map idp_id testIdps)" by code_simp+
  have "distinct (map fst (DebugDataOverlay tr cl st))" if "distinct (map fst (debugDataSelector st))"
  proof -
    have "distinct (map fst (filter p (entries (debugDataSelector st))))" for p
      using that distinct_entries by (metis distinct_map_filter)
    then have "distinct (map fst (debug_overlay st))" by (simp add: debug_overlay_def)
    then have "distinct (map (\<lambda>k. ''debug_data_'' @ k) (map fst (debug_overlay st)))"
      by (subst distinct_map) (simp add: inj_on_def)
    moreover have "map fst (DebugDataOverlay tr cl st) = map (\<lambda>k. ''debug_data_'' @ k) (map fst (debug_overlay st))"
      by (simp add: DebugDataOverlay_def case_prod_unfold)
    ultimately show ?thesis by simp
  qed
  with ids show ?thesis
    by (simp add: home_rows_def wallet_instance_rows_def pid_rows_def credential_rows_def status_attestation_rows_def
        trustmark_rows_def idp_selection_screen_def spid_idp_selection_screen_def spid_idps_def flat_list_keys grid_keys)
qed

section \<open>Debug data goes with its screen\<close>

definition sets_debug_data :: "action \<Rightarrow> bool" where
  "sets_debug_data a = (case a of setDebugData _ \<Rightarrow> True | _ \<Rightarrow> False)"

lemma debug_keys_shrink:
  "\<not> sets_debug_data a \<Longrightarrow> fst ` set (debugDataSelector (rootReducer s a)) \<subseteq> fst ` set (debugDataSelector s)"
  by (cases a) (auto simp: sets_debug_data_def debugDataSelector_def debugReducer_def from_entries_def keys_from_entries)

lemma debug_blur_empties:
  assumes "fst ` set (debugDataSelector s) \<subseteq> fst ` set data"
  shows "debugDataSelector (foldl rootReducer s (debug_blur data)) = []"
proof -
  have "filter (\<lambda>(x, _). x \<notin> set (Js_Value.keys data)) (entries (debugDataSelector s)) = []"
    using assms by (force simp: filter_empty_conv Js_Value.keys_def)
  then show ?thesis
    by (simp add: debug_blur_def debugDataSelector_def debugReducer_def from_entries_def)
qed

lemma debug_keys_shrink_all:
  "\<forall>a \<in> set as. \<not> sets_debug_data a \<Longrightarrow>
    fst ` set (debugDataSelector (foldl rootReducer s as)) \<subseteq> fst ` set (debugDataSelector s)"
proof (induction as rule: rev_induct)
  case (snoc a as)
  then have "\<not> sets_debug_data a" by simp
  from subset_trans [OF debug_keys_shrink [OF this]] snoc show ?case by simp
qed simp

text \<open>The debug data of a screen is removed with the screen: after it set its data on focus, whatever
  actions follow (as long as no other screen sets its own), the overlay shows only data of that
  screen, and nothing once it lost the focus.\<close>

theorem debug_data_leaves_with_screen:
  assumes "\<forall>a \<in> set as. \<not> sets_debug_data a"
  shows "let shown = foldl rootReducer st (debug_focus data @ as) in
    fst ` set (debug_overlay shown) \<subseteq> set (Js_Value.keys data)
    \<and> debug_overlay (foldl rootReducer shown (debug_blur data)) = []"
proof -
  define shown where "shown = foldl rootReducer st (debug_focus data @ as)"
  have k: "set (Js_Value.keys data) = fst ` set data" by (simp add: Js_Value.keys_def)
  have sub: "fst ` set (debugDataSelector shown) \<subseteq> fst ` set data"
    using debug_keys_shrink_all [OF assms, of "foldl rootReducer st (debug_focus data)"]
    by (simp add: shown_def debug_focus_def debugDataSelector_def debugReducer_def)
  moreover from sub have "debugDataSelector (foldl rootReducer shown (debug_blur data)) = []"
    by (rule debug_blur_empties)
  moreover from sub have "fst ` set (debug_overlay shown) \<subseteq> fst ` set data"
    by (force simp: debug_overlay_def)
  ultimately show ?thesis
    unfolding Let_def shown_def [symmetric] k by (simp add: debug_overlay_def entries_def)
qed

lemma debug_data_leaves_with_screen_witness:
  "debug_overlay (foldl rootReducer (foldl rootReducer initialState
      (debug_focus (home_debug (dispatch_all sample_history)) @ [setDebugVisibility True, sessionReset]))
     (debug_blur (home_debug (dispatch_all sample_history)))) = []"
  using debug_data_leaves_with_screen [of "[setDebugVisibility True, sessionReset]" initialState
      "home_debug (dispatch_all sample_history)"]
  by (simp add: Let_def sets_debug_data_def del: foldl.simps foldl_append)

section \<open>Logging out\<close>

text \<open>C21. Logging out from the settings empties the store of everything that belongs to the user.
  \<open>sessionReset\<close> clears, from any state, the token, the key tag, the attestation, the credentials, the
  status attestations, the trustmarks, the PID and the flow parameters, but not the debug data, where
  the settings put the token: that goes with the screen, which the navigator unmounts.  From then on
  nothing of the user is in any slice, until a token is set, a thunk fulfilled or debug data shown.\<close>

theorem logout_clears_user_data:
  assumes shown: "debugDataSelector s = settings_debug s0"
    and as: "\<forall>a \<in> set as. \<not> adds_data a" and bs: "\<forall>a \<in> set bs. \<not> adds_data a"
  shows "no_stored_data (foldl rootReducer s logout)
    \<and> debugDataSelector (foldl rootReducer s logout) = settings_debug s0
    \<and> no_user_data (foldl rootReducer s (logout @ as @ debug_blur (settings_debug s0) @ bs))"
proof -
  let ?s1 = "foldl rootReducer s logout"
  have cleared: "no_stored_data ?s1" by (simp add: logout_def session_reset_clears)
  have kept: "debugDataSelector ?s1 = settings_debug s0"
    using shown by (simp add: logout_def debugDataSelector_def debugReducer_def)
  have quiet: "\<forall>a \<in> set as. \<not> sets_debug_data a"
    using as by (auto simp: sets_debug_data_def split: action.splits)
  let ?s2 = "foldl rootReducer ?s1 (as @ debug_blur (settings_debug s0))"
  have "debugDataSelector ?s2 = []"
    using debug_keys_shrink_all [OF quiet, of ?s1] kept by (simp add: debug_blur_empties del: foldl.simps)
  moreover have "no_stored_data ?s2"
    using as by (intro no_stored_data_steps cleared) (auto simp: debug_blur_def)
  ultimately have "no_user_data ?s2" by (simp add: no_user_data_def)
  from no_user_data_steps [OF this bs] show ?thesis using cleared kept by simp
qed

lemma logout_clears_user_data_witness:
  "let s = rootReducer (dispatch_all (sessionSet ''tok'' # sample_history))
        (setDebugData (settings_debug (dispatch_all (sessionSet ''tok'' # sample_history)))) in
    pget (debugDataSelector (foldl rootReducer s logout)) ''session'' = Str ''tok''
    \<and> no_user_data (foldl rootReducer s (logout @ [pending getAttestationThunk]
        @ debug_blur (settings_debug (dispatch_all (sessionSet ''tok'' # sample_history)))
        @ [rejected getAttestationThunk (Str ''e'')]))"
proof -
  let ?s0 = "dispatch_all (sessionSet ''tok'' # sample_history)"
  have "selectIoAuthToken ?s0 = Some ''tok''" by code_simp
  moreover have "debugDataSelector (rootReducer ?s0 (setDebugData d)) = d" for d
    by (simp add: debugDataSelector_def debugReducer_def)
  ultimately show ?thesis
    using logout_clears_user_data [of "rootReducer ?s0 (setDebugData (settings_debug ?s0))" ?s0
        "[pending getAttestationThunk]" "[rejected getAttestationThunk (Str ''e'')]"]
    by (simp add: Let_def settings_debug_def opt_js_def del: foldl.simps foldl_append)
qed

section \<open>Printed debug data\<close>

lemma line_break_ws: "list_all is_ws (line_break d)"
  by (simp add: line_break_def is_ws_def list_all_iff)

lemma skip_line_break [simp]: "skip_ws (line_break d @ s) = skip_ws s"
  using line_break_ws [of d] by (simp add: list_all_iff dropWhile_append2)

lemma delim_line_break [simp]: "delim (line_break d @ s)"
  by (simp add: line_break_def delim_def is_ws_def)

lemma bracketed_start: "bracketed [c] r d items = c # tl (bracketed [c] r d items)"
  by (simp add: bracketed_def)

lemma indented_start:
  assumes "json_wf v"
  obtains c cs where "indented d v = c # cs" and "value_start c"
proof (cases v)
  case (Num q)
  with assms obtain i where "num_str q = int_str i" by (auto elim: stringify_Num_wf)
  with int_str_start [of i] Num that show ?thesis by auto
next
  case (Bool b)
  with that show ?thesis by (cases b) (auto simp: value_start_def is_ws_def)
next
  case (Arr vs)
  show ?thesis
    by (rule that [of "CHR ''[''"]) (simp only: Arr indented.simps, rule bracketed_start, simp add: value_start_def is_ws_def)
next
  case (Obj kvs)
  show ?thesis
    by (rule that [of "CHR ''{''"]) (simp only: Obj indented.simps, rule bracketed_start, simp add: value_start_def is_ws_def)
qed (use assms that in \<open>auto simp: quote_str_def value_start_def is_ws_def\<close>)

definition reads_back :: "nat \<Rightarrow> js \<Rightarrow> bool" where
  "reads_back d v \<longleftrightarrow> (\<forall>n r. length (indented d v) \<le> n \<longrightarrow> delim r \<longrightarrow> pvalue n (indented d v @ r) = Some (v, r))"

abbreviation lines :: "nat \<Rightarrow> string list \<Rightarrow> string" where
  "lines d items \<equiv> join_with ('','' @ line_break d) items"

lemma pelems_lines:
  assumes "vs \<noteq> []" and "\<And>v. v \<in> set vs \<Longrightarrow> json_wf v \<and> reads_back d v"
    and "length (lines d (map (indented d) vs)) < n"
  shows "pelems n (lines d (map (indented d) vs) @ line_break e @ CHR '']'' # r) = Some (vs, r)
    \<and> pelems n (line_break d @ lines d (map (indented d) vs) @ line_break e @ CHR '']'' # r) = Some (vs, r)"
  using assms
proof (induction vs arbitrary: n rule: list_nonempty_induct)
  case (single v)
  then obtain c cs where c: "indented d v = c # cs" "value_start c"
    using indented_start by (metis list.set_intros(1))
  obtain m where n: "n = Suc m" using single.prems by (cases n) auto
  have "pvalue m (c # cs @ line_break e @ CHR '']'' # r) = Some (v, line_break e @ CHR '']'' # r)"
    using single.prems c n by (auto simp: reads_back_def)
  with c n show ?case by (simp add: value_start_ws del: pvalue.simps)
next
  case (cons v vs)
  then obtain c cs where c: "indented d v = c # cs" "value_start c"
    using indented_start by (metis list.set_intros(1))
  obtain w ws where vs: "vs = w # ws" using cons.hyps by (cases vs) auto
  obtain m where n: "n = Suc m" using cons.prems by (cases n) auto
  let ?rest = "line_break d @ lines d (map (indented d) vs) @ line_break e @ CHR '']'' # r"
  have "reads_back d v" using cons.prems by simp
  then have "pvalue m (c # cs @ CHR '','' # ?rest) = Some (v, CHR '','' # ?rest)"
    using cons.prems(2) c n vs unfolding reads_back_def by simp
  moreover have "pelems m ?rest = Some (vs, r)"
    using cons.prems n vs c cons.IH [of m] by simp
  ultimately show ?case
    using c n vs by (simp add: value_start_ws del: pvalue.simps)
qed

abbreviation member_line :: "nat \<Rightarrow> string \<times> js \<Rightarrow> string" where
  "member_line d \<equiv> \<lambda>(k, v). quote_str k @ '': '' @ indented d v"

lemma pmembers_line:
  assumes "json_wf v" and "reads_back d v" and "length (indented d v) \<le> n"
    and "delim r" and "skip_ws r = g # r'" and "list_all is_ws w"
  shows "pmembers (Suc n) (w @ member_line d (k, v) @ r) =
    (if g = CHR '','' then map_option (\<lambda>(kvs, q). ((k, v) # kvs, q)) (pmembers n r')
     else if g = CHR ''}'' then Some ([(k, v)], r') else None)"
proof -
  obtain c cs where c: "indented d v = c # cs" "value_start c"
    using assms indented_start by metis
  have "skip_ws (w @ quote_str k @ '': '' @ c # cs @ r) = quote_str k @ '': '' @ c # cs @ r"
    using assms(6) by (simp add: quote_str_def list_all_iff dropWhile_append2)
  moreover have "pvalue n (c # cs @ r) = Some (v, r)"
    using assms c by (simp add: reads_back_def)
  moreover have "is_ws (CHR '' '')" by (simp add: is_ws_def)
  ultimately show ?thesis
    using c assms(5) by (simp add: quote_str_def pstring_escaped value_start_ws del: pvalue.simps)
qed

lemma pmembers_lines:
  assumes "kvs \<noteq> []" and "\<And>k v. (k, v) \<in> set kvs \<Longrightarrow> json_wf v \<and> reads_back d v"
    and "length (lines d (map (member_line d) kvs)) < n" and "list_all is_ws w"
  shows "pmembers n (w @ lines d (map (member_line d) kvs) @ line_break e @ CHR ''}'' # r) = Some (kvs, r)"
  using assms
proof (induction kvs arbitrary: n w rule: list_nonempty_induct)
  case (single kv)
  obtain k v where kv: "kv = (k, v)" by (cases kv)
  obtain m where n: "n = Suc m" using single.prems by (cases n) auto
  from single.prems kv n show ?case
    using pmembers_line [of v d m "line_break e @ CHR ''}'' # r" "CHR ''}''" r w k] by (simp del: pmembers.simps)
next
  case (cons kv kvs)
  obtain k v where kv: "kv = (k, v)" by (cases kv)
  obtain x xs where xs: "kvs = x # xs" using cons.hyps by (cases kvs) auto
  obtain m where n: "n = Suc m" using cons.prems by (cases n) auto
  let ?rest = "line_break d @ lines d (map (member_line d) kvs) @ line_break e @ CHR ''}'' # r"
  have "pmembers m ?rest = Some (kvs, r)"
    using cons.prems n xs by (intro cons.IH) (auto simp: line_break_ws)
  moreover have "json_wf v" "reads_back d v" using cons.prems(1) [of k v] kv by simp_all
  ultimately show ?case
    using cons.prems(2,3) kv n xs pmembers_line [of v d m "CHR '','' # ?rest" "CHR '',''" ?rest w k]
    by (simp del: pmembers.simps)
qed

lemma reads_back_Arr:
  assumes "list_all json_wf vs" and "\<And>v. v \<in> set vs \<Longrightarrow> reads_back (Suc d) v"
  shows "reads_back d (Arr vs)"
  unfolding reads_back_def
proof (intro allI impI)
  fix n r
  assume n: "length (indented d (Arr vs)) \<le> n" and "delim r"
  then obtain m where m: "n = Suc m" by (cases n) (auto simp: bracketed_def split: if_splits)
  show "pvalue n (indented d (Arr vs) @ r) = Some (Arr vs, r)"
  proof (cases vs)
    case Nil
    with m show ?thesis by (simp add: bracketed_def is_ws_def)
  next
    case (Cons w ws)
    with assms obtain c cs where c: "indented (Suc d) w = c # cs" "value_start c"
      using indented_start by (metis list.pred_inject(2))
    have "pelems m (lines (Suc d) (map (indented (Suc d)) vs) @ line_break d @ CHR '']'' # r) = Some (vs, r)"
      using assms n m Cons by (intro pelems_lines [THEN conjunct1]) (auto simp: list_all_iff bracketed_def)
    moreover obtain t where "lines (Suc d) (map (indented (Suc d)) vs) = c # t"
      using Cons c by (cases ws) auto
    ultimately show ?thesis
      using m c Cons by (auto simp: value_start_def bracketed_def)
  qed
qed

lemma reads_back_Obj:
  assumes wf: "json_wf (Obj kvs)" and "\<And>k v. (k, v) \<in> set kvs \<Longrightarrow> reads_back (Suc d) v"
  shows "reads_back d (Obj kvs)"
  unfolding reads_back_def
proof (intro allI impI)
  fix n r
  have kept: "filter (\<lambda>(k, v). v \<noteq> Undef) (entries kvs) = kvs"
    using wf by (auto simp: list_all_iff intro!: filter_True)
  assume n: "length (indented d (Obj kvs)) \<le> n" and "delim r"
  then obtain m where m: "n = Suc m" by (cases n) (auto simp: bracketed_def split: if_splits)
  show "pvalue n (indented d (Obj kvs) @ r) = Some (Obj kvs, r)"
  proof (cases kvs)
    case Nil
    with m show ?thesis by (simp add: bracketed_def is_ws_def entries_def)
  next
    case (Cons w ws)
    have "pmembers m ([] @ lines (Suc d) (map (member_line (Suc d)) kvs) @ line_break d @ CHR ''}'' # r) = Some (kvs, r)"
      using assms n m Cons kept by (intro pmembers_lines) (auto simp: list_all_iff bracketed_def)
    moreover obtain t where "lines (Suc d) (map (member_line (Suc d)) kvs) = CHR 0x22 # t"
      using Cons by (cases ws; cases w) (auto simp: quote_str_def)
    ultimately show ?thesis
      using m from_entries_distinct [of kvs] wf kept Cons by (auto simp: bracketed_def)
  qed
qed

lemma indented_reads_back: "json_wf v \<Longrightarrow> reads_back d v"
proof (induction d v rule: indented.induct)
  case (4 d q)
  then obtain i where "q = of_int i" and "num_str q = int_str i"
    by (auto elim: stringify_Num_wf)
  moreover obtain c cs where c: "int_str i = c # cs" using int_str_start by blast
  moreover have "pvalue (Suc n) (c # cs @ r) = Some (Num (of_int i), r)" if "delim r" for n r
    using pvalue_number [OF that, of n i] by (simp only: c append_Cons)
  ultimately show ?case
    by (auto simp: reads_back_def Suc_le_eq simp del: pvalue.simps dest!: less_imp_Suc_add)
next
  case (7 d vs)
  then show ?case by (intro reads_back_Arr) (auto simp: list_all_iff)
next
  case (8 d kvs)
  have "reads_back (Suc d) v" if "(k, v) \<in> set kvs" for k v
  proof -
    have "json_wf v" using "8.prems" that by (auto simp: list_all_iff)
    moreover from this have "v \<noteq> Undef" by auto
    ultimately show ?thesis using "8.IH" [of "(k, v)" k v] that by simp
  qed
  with "8.prems" show ?case by (rule reads_back_Obj)
qed (auto simp: reads_back_def pliteral_def quote_str_def pstring_escaped Suc_le_eq
      dest!: less_imp_Suc_add split: if_splits)

lemma JSON_parse_indented: "json_wf v \<Longrightarrow> JSON_parse (indented d v) = Some v"
proof -
  assume wf: "json_wf v"
  then obtain c cs where c: "indented d v = c # cs" "value_start c"
    using indented_start by metis
  have "pvalue (2 * length (indented d v) + 2) (indented d v @ []) = Some (v, [])"
    using indented_reads_back [OF wf] unfolding reads_back_def by (metis delim_simps(1) le_add1 mult_2 trans_le_add1)
  with c show ?thesis by (simp add: JSON_parse_def value_start_ws del: pvalue.simps)
qed

text \<open>A reference for the two functions of lodash, on texts of one unit per character.\<close>

definition reference_truncate :: "nat \<Rightarrow> string \<Rightarrow> string" where
  "reference_truncate n s = (if length s \<le> n then s else take (n - 3) s @ ''...'')"

function reference_clone :: "(js \<Rightarrow> js option) \<Rightarrow> js \<Rightarrow> js" where
  "reference_clone c v = (case c v of Some w \<Rightarrow> w | None \<Rightarrow>
     (case v of Arr vs \<Rightarrow> Arr (map (reference_clone c) vs)
      | Obj kvs \<Rightarrow> Obj (map (\<lambda>(k, x). (k, reference_clone c x)) kvs)
      | _ \<Rightarrow> v))"
  by pat_completeness auto

termination
  by (relation "measure (\<lambda>(c, v). size v)") (auto dest: size_obj_member size_arr_member simp del: js.size)

declare reference_clone.simps [simp del]

interpretation reference_lodash: lodash length reference_truncate reference_clone
proof unfold_locales
  fix n :: nat and s :: string
  assume "n < length s"
  then show "\<exists>p. prefix p s \<and> reference_truncate n s = p @ ''...''"
    by (auto simp: reference_truncate_def take_is_prefix)
qed (auto simp: reference_truncate_def reference_clone.simps split: js.splits)

text \<open>The value that is printed: every string cut to the limit.\<close>

function clipped :: "(nat \<Rightarrow> string \<Rightarrow> string) \<Rightarrow> js \<Rightarrow> js" where
  "clipped tr v = (case v of
     Str s \<Rightarrow> Str (tr MAX_CHARACTERS s)
   | Arr vs \<Rightarrow> Arr (map (clipped tr) vs)
   | Obj kvs \<Rightarrow> Obj (map (\<lambda>(k, x). (k, clipped tr x)) kvs)
   | _ \<Rightarrow> v)"
  by pat_completeness auto

termination
  by (relation "measure (\<lambda>(c, v). size v)") (auto dest: size_obj_member size_arr_member simp del: js.size)

declare clipped.simps [simp del]

lemma entries_map:
  assumes "entries kvs = kvs"
  shows "entries (map (\<lambda>(k, v). (k, f v)) kvs) = map (\<lambda>(k, v). (k, f v)) kvs"
proof -
  let ?g = "\<lambda>(k, v). (k, f v)"
  have s: "sort_key (\<lambda>(k, _). digits_val k) (map ?g xs) = map ?g (sort_key (\<lambda>(k, _). digits_val k) xs)" for xs
  proof -
    have i: "insort_key (\<lambda>(k, _). digits_val k) (?g x) (map ?g ys) = map ?g (insort_key (\<lambda>(k, _). digits_val k) x ys)" for x ys
      by (induction ys) (auto split: prod.splits)
    show ?thesis by (induction xs) (simp_all add: i)
  qed
  have f: "filter (\<lambda>(k, _). p k) (map ?g kvs) = map ?g (filter (\<lambda>(k, _). p k) kvs)" for p
    by (simp add: filter_map o_def case_prod_unfold)
  have "entries (map ?g kvs) = map ?g (entries kvs)" by (simp add: entries_def f s)
  with assms show ?thesis by simp
qed

lemma clipped_simps [simp]:
  "clipped tr (Str s) = Str (tr MAX_CHARACTERS s)" "clipped tr (Arr vs) = Arr (map (clipped tr) vs)"
  "clipped tr (Obj kvs) = Obj (map (\<lambda>(k, x). (k, clipped tr x)) kvs)"
  "(\<And>s. v \<noteq> Str s) \<Longrightarrow> (\<And>vs. v \<noteq> Arr vs) \<Longrightarrow> (\<And>kvs. v \<noteq> Obj kvs) \<Longrightarrow> clipped tr v = v"
  by (subst clipped.simps, simp split: js.split)+

lemma js_induct [case_names atom str arr obj]:
  assumes "\<And>v. (\<And>s. v \<noteq> Str s) \<Longrightarrow> (\<And>vs. v \<noteq> Arr vs) \<Longrightarrow> (\<And>kvs. v \<noteq> Obj kvs) \<Longrightarrow> P v"
    and "\<And>s. P (Str s)" and "\<And>vs. (\<And>v. v \<in> set vs \<Longrightarrow> P v) \<Longrightarrow> P (Arr vs)"
    and "\<And>kvs. (\<And>k v. (k, v) \<in> set kvs \<Longrightarrow> P v) \<Longrightarrow> P (Obj kvs)"
  shows "P v"
proof (induction v rule: json_wf.induct)
  case (8 kvs)
  then show ?case by (intro assms(4)) blast
qed (auto intro: assms)

lemma clipped_wf: "json_wf v \<Longrightarrow> json_wf (clipped tr v)"
proof (induction v rule: js_induct)
  case (obj kvs)
  have "map fst (map (\<lambda>(k, x). (k, clipped tr x)) kvs) = map fst kvs" by (simp add: case_prod_unfold o_def)
  moreover have "list_all (\<lambda>(k, v). json_wf v) (map (\<lambda>(k, x). (k, clipped tr x)) kvs)"
    using obj by (auto simp: list_all_iff)
  ultimately show ?case
    using obj.prems entries_map [of kvs "clipped tr"] unfolding clipped_simps json_wf.simps by (simp only: simp_thms)
qed (auto simp: list_all_iff)

text \<open>All strings of a value are within a bound.\<close>

function strings_within :: "(string \<Rightarrow> nat) \<Rightarrow> nat \<Rightarrow> js \<Rightarrow> bool" where
  "strings_within u n v = (case v of
     Str s \<Rightarrow> u s \<le> n
   | Arr vs \<Rightarrow> list_all (strings_within u n) vs
   | Obj kvs \<Rightarrow> list_all (\<lambda>(k, x). strings_within u n x) kvs
   | _ \<Rightarrow> True)"
  by pat_completeness auto

termination
  by (relation "measure (\<lambda>(u, n, v). size v)") (auto dest: size_obj_member size_arr_member simp del: js.size)

declare strings_within.simps [simp del]

lemma strings_within_simps [simp]:
  "strings_within u n (Str s) \<longleftrightarrow> u s \<le> n" "strings_within u n (Arr vs) \<longleftrightarrow> list_all (strings_within u n) vs"
  "strings_within u n (Obj kvs) \<longleftrightarrow> list_all (\<lambda>(k, x). strings_within u n x) kvs"
  "(\<And>s. v \<noteq> Str s) \<Longrightarrow> (\<And>vs. v \<noteq> Arr vs) \<Longrightarrow> (\<And>kvs. v \<noteq> Obj kvs) \<Longrightarrow> strings_within u n v"
  by (subst strings_within.simps, simp split: js.split)+

context lodash
begin

lemma clone_clipped: "cloneDeepWith (truncate_strings truncateText) v = clipped truncateText v"
proof (induction v rule: js_induct)
  case (atom v)
  then show ?case by (simp add: clone_atom truncate_strings_def split: js.splits)
qed (auto simp: clone_custom clone_array clone_object truncate_strings_def)

lemma clipped_within: "strings_within units MAX_CHARACTERS (clipped truncateText v)"
proof (induction v rule: js_induct)
  case (str s)
  show ?case by (simp add: truncate_bound MAX_CHARACTERS_def)
qed (auto simp: list_all_iff)

lemma clipped_short: "strings_within units MAX_CHARACTERS v \<Longrightarrow> clipped truncateText v = v"
  by (induction v rule: js_induct) (auto simp: list_all_iff truncate_short intro!: map_idI)

end

text \<open>Printable data: no date, integral numbers, objects with distinct keys; \<open>undefined\<close> may stand anywhere,
  as it does in the status of every operation that has not failed.  What JSON keeps of it:
  \<open>undefined\<close> properties are dropped, \<open>undefined\<close> elements become \<open>null\<close>, and the properties come in
  the order of enumeration.\<close>

function printable_data :: "js \<Rightarrow> bool" where
  "printable_data v = (case v of
     Num q \<Rightarrow> snd (quotient_of q) = 1
   | DateV _ \<Rightarrow> False
   | Arr vs \<Rightarrow> list_all printable_data vs
   | Obj kvs \<Rightarrow> distinct (map fst kvs) \<and> list_all (\<lambda>(k, x). printable_data x) kvs
   | _ \<Rightarrow> True)"
  by pat_completeness auto

termination
  by (relation "measure size") (auto dest: size_obj_member size_arr_member simp del: js.size)

function json_data :: "js \<Rightarrow> js" where
  "json_data v = (case v of
     Undef \<Rightarrow> Null
   | DateV _ \<Rightarrow> Null
   | Arr vs \<Rightarrow> Arr (map json_data vs)
   | Obj kvs \<Rightarrow> Obj (map (\<lambda>(k, x). (k, json_data x)) (filter (\<lambda>(k, x). x \<noteq> Undef) (entries kvs)))
   | _ \<Rightarrow> v)"
  by pat_completeness auto

termination
  by (relation "measure size") (auto dest: size_obj_member size_arr_member simp del: js.size)

declare printable_data.simps [simp del] json_data.simps [simp del]

lemma printable_simps [simp]:
  "printable_data Undef" "printable_data Null" "printable_data (Bool b)" "printable_data (Str s)" "\<not> printable_data (DateV d)"
  "printable_data (Num q) \<longleftrightarrow> snd (quotient_of q) = 1" "printable_data (Arr vs) \<longleftrightarrow> list_all printable_data vs"
  "printable_data (Obj kvs) \<longleftrightarrow> distinct (map fst kvs) \<and> list_all (\<lambda>(k, x). printable_data x) kvs"
  by (subst printable_data.simps, simp)+

lemma json_data_simps [simp]:
  "json_data Undef = Null" "json_data Null = Null" "json_data (Bool b) = Bool b" "json_data (Str s) = Str s"
  "json_data (DateV d) = Null" "json_data (Num q) = Num q" "json_data (Arr vs) = Arr (map json_data vs)"
  "json_data (Obj kvs) = Obj (map (\<lambda>(k, x). (k, json_data x)) (filter (\<lambda>(k, x). x \<noteq> Undef) (entries kvs)))"
  by (subst json_data.simps, simp)+

lemma json_data_defined [simp]: "json_data v \<noteq> Undef"
  by (cases v) simp_all

lemma entries_filter_entries: "entries (filter p (entries kvs)) = filter p (entries kvs)"
proof -
  let ?key = "\<lambda>(k, _). digits_val k" and ?idx = "\<lambda>(k, _). is_array_index k"
  have i: "filter ?idx (filter p (entries kvs)) = filter p (sort_key ?key (filter ?idx kvs))"
    by (simp add: entries_def filter_sort case_prod_unfold) (metis (no_types, lifting))
  have n: "filter (\<lambda>x. \<not> ?idx x) (filter p (entries kvs)) = filter p (filter (\<lambda>x. \<not> ?idx x) kvs)"
    by (simp add: entries_def filter_sort case_prod_unfold) (metis (no_types, lifting))
  have "sort_key ?key (filter p (sort_key ?key xs)) = filter p (sort_key ?key xs)" for xs :: props
    by (simp add: filter_sort sort_key_id_if_sorted)
  with i n have "sort_key ?key (filter ?idx (filter p (entries kvs))) @ filter (\<lambda>x. \<not> ?idx x) (filter p (entries kvs))
      = filter p (entries kvs)" by (simp add: entries_def case_prod_unfold)
  then show ?thesis by (simp add: entries_def [of "filter p (entries kvs)"] case_prod_unfold)
qed

lemma entries_json_data:
  "entries (map (\<lambda>(k, x). (k, json_data x)) (filter p (entries kvs))) = map (\<lambda>(k, x). (k, json_data x)) (filter p (entries kvs))"
  by (rule entries_map) (rule entries_filter_entries)

lemma json_data_wf: "printable_data v \<Longrightarrow> json_wf (json_data v)"
proof (induction v rule: js_induct)
  case (atom v)
  then show ?case by (cases v) (simp_all, blast+)
next
  case (obj kvs)
  let ?kept = "filter (\<lambda>(k, x). x \<noteq> Undef) (entries kvs)"
  have "distinct (map fst (entries kvs))" using obj.prems by (simp add: distinct_entries)
  then have "distinct (map fst ?kept)" by (rule distinct_map_filter)
  then have "distinct (map fst (map (\<lambda>(k, x). (k, json_data x)) ?kept))"
    by (simp add: case_prod_unfold o_def)
  moreover have "list_all (\<lambda>(k, v). json_wf v) (map (\<lambda>(k, x). (k, json_data x)) ?kept)"
    using obj by (auto simp: list_all_iff)
  ultimately show ?case by (simp only: json_data_simps json_wf.simps entries_json_data simp_thms)
qed (auto simp: list_all_iff)

lemma stringify_json_data: "stringify (json_data v) = stringify v"
proof (induction v rule: js_induct)
  case (atom v)
  then show ?case by (cases v) (simp_all, blast+)
next
  case (obj kvs)
  let ?kept = "filter (\<lambda>(k, x). x \<noteq> Undef) (entries kvs)"
  have "filter (\<lambda>(k, x). x \<noteq> Undef) (map (\<lambda>(k, x). (k, json_data x)) ?kept) = map (\<lambda>(k, x). (k, json_data x)) ?kept"
    by (rule filter_True) auto
  moreover have "map member_text (map (\<lambda>(k, x). (k, json_data x)) ?kept) = map member_text ?kept"
    using obj by (auto simp: obj)
  ultimately show ?case by (simp only: json_data_simps stringify.simps entries_json_data)
qed (simp_all add: o_def cong: map_cong)

text \<open>The data of the screens is printable when the claims and errors in the store are.\<close>

lemma screens_printable:
  assumes "\<forall>m. printable_data (status_js (selectPidAsyncStatus m st))"
    and "\<forall>t. printable_data (status_js (selectCredentialAsyncStatus t st))"
    and "printable_data (status_js (selectInstanceAsyncStatus st))" and "printable_data (status_js (selectAttestationAsyncStatus st))"
    and "printable_data (status_js (selectInstanceRevocationAsyncStatus st))"
    and "\<forall>t r. selectCredential t st = Some r \<longrightarrow> printable_data (Obj (r_parsedCredential r))"
    and "\<forall>r. selectPid st = Some r \<longrightarrow> printable_data (Obj (r_parsedCredential r))"
    and "\<forall>t. printable_data (status_js (selectStatusAttestationAsyncStatus t st))"
    and "\<forall>t r. selectStatusAttestation t st = Some r \<longrightarrow> printable_data (sa_parsedStatusAttestation r)"
    and "\<forall>t. printable_data (status_js (selectTrustmarkAsyncStatus t st))"
    and "\<forall>t r. selectTrustmark t st = Some r \<longrightarrow> printable_data (tk_expirationTime r)"
  shows "printable_data (Obj (home_debug st))" "printable_data (Obj (settings_debug st))"
    "printable_data (Obj (wallet_instance_debug st))" "printable_data (Obj (pid_debug st))" "printable_data (Obj (credential_debug st))"
    "printable_data (Obj (status_attestation_debug st))" "printable_data (Obj (trustmark_debug t st))"
  using assms
  by (simp_all add: status_attestation_debug_def trustmark_debug_def home_debug_def settings_debug_def wallet_instance_debug_def pid_debug_def credential_debug_def
      opt_js_def result_js_def Let_def split: option.split)

lemma printable_status: "printable_data (status_js s) \<longleftrightarrow> (\<forall>e. hasError s = HasError e \<longrightarrow> printable_data e)"
  by (simp add: status_js_def split: has_error.split)

text \<open>C31. What the debug component prints can be read back.  For data without dates and with integral
  numbers (\<open>undefined\<close> may stand in it anywhere, as in the status of an operation that has not
  failed) the printed text parses to what JSON keeps of the data with every string cut to 256 units,
  nothing being cut when no string is longer; what is copied to the clipboard parses to all that JSON
  keeps of the data.\<close>

theorem printed_debug_data:
  assumes "lodash units tr cl" and "printable_data data" and u: "data \<noteq> Undef"
  shows "JSON_parse (prettyData tr cl data) = Some (clipped tr (json_data data))
    \<and> strings_within units MAX_CHARACTERS (clipped tr (json_data data))
    \<and> (strings_within units MAX_CHARACTERS (json_data data) \<longrightarrow> clipped tr (json_data data) = json_data data)
    \<and> (\<exists>copied. dp_clipboard (DebugPrettyPrint tr cl True expanded title data) = Str copied
        \<and> JSON_parse copied = Some (json_data data))"
proof -
  from assms(2) have wf: "json_wf (json_data data)" by (rule json_data_wf)
  from JSON_parse_stringify [OF wf] have p: "JSON_parse (stringify data) = Some (json_data data)"
    by (simp add: stringify_json_data)
  with u have "prettyData tr cl data = indented 0 (clipped tr (json_data data))"
    by (simp add: prettyData_def lodash.clone_clipped [OF assms(1)])
  with wf u p show ?thesis
    by (simp add: JSON_parse_indented clipped_wf lodash.clipped_within [OF assms(1)] lodash.clipped_short [OF assms(1)]
        DebugPrettyPrint_def JSON_stringify_def)
qed

definition sample_debug :: js where
  "sample_debug = Obj [(''state'', status_js asyncStatusInitial), (''session'', Str (replicate 300 (CHR ''x''))),
     (''list'', Arr [Num 1, Undef])]"

lemma printed_debug_data_witness:
  "JSON_parse (prettyData reference_truncate reference_clone sample_debug) =
    Some (Obj [(''state'', Obj [(''isDone'', Bool False), (''isLoading'', Bool False), (''hasError'', Obj [(''status'', Bool False)])]),
      (''session'', Str (replicate 253 (CHR ''x'') @ ''...'')), (''list'', Arr [Num 1, Null])])"
proof -
  have "printable_data sample_debug" by code_simp
  moreover have "sample_debug \<noteq> Undef" by (simp add: sample_debug_def)
  moreover have "json_data sample_debug = Obj [(''state'', Obj [(''isDone'', Bool False), (''isLoading'', Bool False),
      (''hasError'', Obj [(''status'', Bool False)])]), (''session'', Str (replicate 300 (CHR ''x''))),
      (''list'', Arr [Num 1, Null])]" by code_simp
  ultimately show ?thesis
    using printed_debug_data [OF reference_lodash.lodash_axioms, of sample_debug]
    by (simp add: reference_truncate_def MAX_CHARACTERS_def take_replicate)
qed

lemma list_keys_distinct_witness:
  "distinct (map fst (DebugDataOverlay reference_truncate reference_clone
     (foldl rootReducer initialState [setDebugData (pid_debug initialState), setDebugVisibility True])))"
proof -
  have "distinct (map fst (debugDataSelector
      (foldl rootReducer initialState [setDebugData (pid_debug initialState), setDebugVisibility True])))"
    by (simp add: debugDataSelector_def debugReducer_def pid_debug_def)
  then show ?thesis
    using list_keys_distinct [of "foldl rootReducer initialState [setDebugData (pid_debug initialState), setDebugVisibility True]"]
    by blast
qed

section \<open>Login address and QR code\<close>

lemma login_uri_carries_idp:
  assumes "x_URL X (WALLET_PROVIDER_BASE_URL (getEnv V e)) = Inr url" and "u_search url = []"
  shows "\<exists>query. getLoginUri X V e idp = Inr (u_origin url @ ''/login?'' @ query)
    \<and> parse_query query = [(''entityID'', idp), (''authLevel'', ''SpidL2'')]"
  using assms parse_query_URLSearchParams [of "[(''entityID'', Str idp), (''authLevel'', Str ''SpidL2'')]"]
  by (simp add: getLoginUri_def)

lemma parse_float_90: "parse_float ''90%'' = Some 90"
  by code_simp

text \<open>The QR code of a trustmark is nine tenths of the window's width and holds the verifier's address with
  the trustmark.\<close>

lemma trustmark_page_content:
  "selectTrustmark t st = Some tm \<Longrightarrow> VERIFIER_BASE_URL (getEnv V (selectEnv st)) = base \<Longrightarrow>
    trustmark_page V width t st timer =
      Some (QRCode (base @ ''?tm='' @ tk_trustmarkJwt tm) (Some (9 / 10 * width)) ''L'', timer_text timer)"
  by (auto simp: trustmark_page_def trustmark_url_def QrCodeImage_def Let_def present_def real_size_def parse_float_90)

end
