(* ===== verification/Wire_Correct.thy ===== *)
theory Wire_Correct
  imports App_Correct
begin

text \<open>
  What the application puts on the wire.  The library hands its requests to an http client, the built-in
  \<open>fetch\<close> or the application's \<open>appFetch\<close>; here every request on the wire is traced back to a request of
  the library, for each function of the library and for each thunk.
\<close>

section \<open>Computations whose requests are forwarded\<close>

text \<open>Whatever was put on the wire answers to a request of the library: \<open>forward q r\<close> says that \<open>r\<close> may go out
  for \<open>q\<close>.\<close>

definition forwards :: "(request \<Rightarrow> request \<Rightarrow> bool) \<Rightarrow> world \<Rightarrow> world \<Rightarrow> bool" where
  "forwards forward w w' \<longleftrightarrow> (\<exists>qs rs. w_sent w' = w_sent w @ qs \<and> w_wire w' = w_wire w @ rs
     \<and> (\<forall>r \<in> set rs. \<exists>q \<in> set qs. forward q r))"

definition forwarding :: "(request \<Rightarrow> request \<Rightarrow> bool) \<Rightarrow> 'a io \<Rightarrow> bool" where
  "forwarding forward m \<longleftrightarrow> (\<forall>w. forwards forward w (snd (m w)))"

named_theorems forward_intros \<open>computations that forward their requests\<close>

lemma forwards_same: "w_sent w' = w_sent w \<Longrightarrow> w_wire w' = w_wire w \<Longrightarrow> forwards P w w'"
  by (simp add: forwards_def)

lemma forwards_trans: "forwards P w w' \<Longrightarrow> forwards P w' w'' \<Longrightarrow> forwards P w w''"
proof -
  assume "forwards P w w'" and "forwards P w' w''"
  then obtain qs rs qs' rs' where "w_sent w' = w_sent w @ qs" "w_wire w' = w_wire w @ rs"
    "w_sent w'' = w_sent w' @ qs'" "w_wire w'' = w_wire w' @ rs'"
    "\<forall>r \<in> set rs. \<exists>q \<in> set qs. P q r" "\<forall>r \<in> set rs'. \<exists>q \<in> set qs'. P q r"
    unfolding forwards_def by blast
  then show ?thesis unfolding forwards_def by (intro exI [of _ "qs @ qs'"] exI [of _ "rs @ rs'"]) auto
qed

lemma forwarding_mono: "forwarding P m \<Longrightarrow> (\<And>q r. P q r \<Longrightarrow> Q q r) \<Longrightarrow> forwarding Q m"
  unfolding forwarding_def forwards_def by meson

lemma forwarding_prims [forward_intros]:
  "forwarding P (returnIO x)" "forwarding P (throwIO e)" "forwarding P (liftR r)" "forwarding P (askIO f)"
  "forwarding P (uuidv4 X)" "forwarding P (sign X ctx spec)" "forwarding P (generateRandomAlphaNumericString X n)"
  by (simp_all add: forwarding_def forwards_same uuidv4_def sign_def generateRandomAlphaNumericString_def)

lemma forwarding_bind [forward_intros]:
  assumes "forwarding P m" and "\<And>x. forwarding P (f x)"
  shows "forwarding P (bindIO m f)"
  unfolding forwarding_def
proof
  fix w
  from assms(1) have m: "forwards P w (snd (m w))" by (simp add: forwarding_def)
  show "forwards P w (snd (bindIO m f w))"
  proof (cases "m w")
    case (Pair r w')
    with m assms(2) show ?thesis
      by (cases r) (auto simp: bindIO_def forwarding_def intro: forwards_trans)
  qed
qed

lemma forwarding_catch [forward_intros]:
  assumes "forwarding P m" and "\<And>e. forwarding P (h e)"
  shows "forwarding P (catchIO m h)"
  unfolding forwarding_def
proof
  fix w
  from assms(1) have m: "forwards P w (snd (m w))" by (simp add: forwarding_def)
  show "forwards P w (snd (catchIO m h w))"
  proof (cases "m w")
    case (Pair r w')
    with m assms(2) show ?thesis
      by (cases r) (auto simp: catchIO_def forwarding_def intro: forwards_trans)
  qed
qed

lemma forwarding_cases [forward_intros]:
  "\<lbrakk>b \<Longrightarrow> forwarding P m; \<not> b \<Longrightarrow> forwarding P n\<rbrakk> \<Longrightarrow> forwarding P (if b then m else n)"
  "\<lbrakk>\<And>x. forwarding P (f x); \<And>y. forwarding P (g y)\<rbrakk> \<Longrightarrow> forwarding P (case s of Inl x \<Rightarrow> f x | Inr y \<Rightarrow> g y)"
  "\<lbrakk>forwarding P m; \<And>y. forwarding P (g y)\<rbrakk> \<Longrightarrow> forwarding P (case v of None \<Rightarrow> m | Some y \<Rightarrow> g y)"
  "(\<And>x y. forwarding P (h x y)) \<Longrightarrow> forwarding P (case p of (x, y) \<Rightarrow> h x y)"
  by (simp_all split: sum.split option.split prod.split)

lemma still_forwarding: "still m \<Longrightarrow> forwarding P m"
  by (simp add: still_def forwarding_def forwards_same)

section \<open>The library\<close>

text \<open>The interface of an http client: what it puts on the wire for a request.\<close>

locale http_client =
  fixes X :: ext and forward :: "request \<Rightarrow> request \<Rightarrow> bool"
  assumes wire: "r \<in> set (x_wire X q) \<Longrightarrow> forward q r"
begin

lemma weaken: "(\<And>q r. forward q r \<Longrightarrow> P q r) \<Longrightarrow> http_client X P"
  by unfold_locales (simp add: wire)

lemma fetch: "forwarding forward (fetch X r)"
  unfolding forwarding_def forwards_def fetch_def using wire by auto

lemma fetch_expecting: "forwarding forward (fetch_expecting X n E r)"
  unfolding fetch_expecting_def by (intro forward_intros fetch)

lemma proofs: "forwarding forward (createPopToken X payload ctx)" "forwarding forward (createDPopToken X payload ctx)"
  "forwarding forward (createNonceProof X n i a ctx)" "forwarding forward (sign_presentation X ctx vp obj)"
  unfolding createPopToken_def createDPopToken_def createNonceProof_def sign_presentation_def by (intro forward_intros)+

lemma evaluateIssuerTrust: "forwarding forward (evaluateIssuerTrust X url)"
  unfolding evaluateIssuerTrust_def getCredentialIssuerEntityConfiguration_def fetchAndParseEntityConfiguration_def
    getSignedEntityConfiguration_def
  by (intro forward_intros fetch_expecting)

lemma startUserAuthorization: "forwarding forward (startUserAuthorization X conf t ctx wia uri)"
  unfolding startUserAuthorization_def makeParRequest_def Let_def by (intro forward_intros fetch_expecting proofs)

lemma getRequestedCredentialToBePresented:
  "forwarding forward (getRequestedCredentialToBePresented X requestUri client conf)"
  unfolding getRequestedCredentialToBePresented_def by (intro forward_intros fetch_expecting)

lemma completeUserAuthorizationWithFormPostJwtMode:
  "forwarding forward (completeUserAuthorizationWithFormPostJwtMode X obj ctx ctx' pid wia)"
  unfolding completeUserAuthorizationWithFormPostJwtMode_def Let_def by (intro forward_intros fetch_expecting proofs)

lemma authorizeAccess: "forwarding forward (authorizeAccess X conf code client uri verifier wia ctx dpop)"
  unfolding authorizeAccess_def Let_def by (intro forward_intros fetch_expecting proofs)

lemma obtainCredential: "forwarding forward (obtainCredential X conf token client def dpop ctx)"
  unfolding obtainCredential_def Let_def by (intro forward_intros fetch_expecting proofs)

lemma statusAttestation: "forwarding forward (statusAttestation X conf credential ctx)"
  unfolding statusAttestation_def Let_def by (intro forward_intros fetch_expecting)

lemma client: "calls_fetcher G \<Longrightarrow> forwarding forward (getWalletProviderClient X G base m path params)"
  unfolding client_call client_fetcher_def by (intro forward_intros fetch)

lemma get_nonce: "calls_fetcher G \<Longrightarrow> forwarding forward (get_nonce X G base)"
  unfolding get_nonce_def by (intro forward_intros client)

lemma createWalletInstance: "calls_fetcher G \<Longrightarrow> forwarding forward (createWalletInstance X G ic base)"
  unfolding createWalletInstance_def Let_def by (intro forward_intros client get_nonce)

lemma revokeWalletInstance: "calls_fetcher G \<Longrightarrow> forwarding forward (revokeWalletInstance X G ident base)"
  unfolding revokeWalletInstance_def by (intro forward_intros client)

lemma wia_getAttestation: "calls_fetcher G \<Longrightarrow> forwarding forward (wia_getAttestation X G ctx ic base)"
  unfolding wia_getAttestation_def getAttestationRequest_def Let_def by (intro forward_intros client get_nonce)

end

text \<open>Functions that send nothing.\<close>

lemma forwarding_keys [forward_intros]: "forwarding P (generate X tag)" "forwarding P (deleteKey X tag)"
  by (simp_all add: forwarding_def forwards_same generate_def deleteKey_def split: sum.split)

lemma forwarding_local [forward_intros]:
  "forwarding P (regenerateCryptoKey X tag)"
  "forwarding P (verifyAndParseCredential X conf credential format ctx i u)"
  "forwarding P (verifyAndParseStatusAttestation X conf jwt ctx)"
  "forwarding P (getCredentialTrustmark X wia ctx t n expiry)"
  unfolding regenerateCryptoKey_def deleteKeyIfExists_def verifyAndParseCredential_def verifyAndParseCredentialSdJwt_def
    verifyCredentialSdJwt_def verify_def verifyAndParseStatusAttestation_def checkStatusAttestation_def
    getCredentialTrustmark_def Let_def
  by (intro forward_intros)+

lemma forwarding_hardware_key [forward_intros]: "forwarding P (generateIntegrityHardwareKeyTag X D)"
  unfolding generateIntegrityHardwareKeyTag_def by (cases "d_OS D") (auto intro!: forward_intros)

section \<open>The two http clients of the application\<close>

text \<open>The built-in client sends a request as it is.\<close>

abbreviation builtin :: "ext \<Rightarrow> ext" where
  "builtin X \<equiv> X\<lparr>x_wire := (\<lambda>r. [r])\<rparr>"

text \<open>What \<open>appFetch\<close> puts on the wire while the session token is \<open>token\<close>: the request itself, or, if it is for
  the origin of the wallet provider, the request with the token as its bearer.\<close>

definition authorized :: "ext \<Rightarrow> string \<Rightarrow> string option \<Rightarrow> request \<Rightarrow> request \<Rightarrow> bool" where
  "authorized X provider token q r \<longleftrightarrow> (\<exists>u p. x_URL X (req_url q) = Inr u \<and> x_URL X provider = Inr p
     \<and> r = (if u_origin u = u_origin p
         then q\<lparr>req_headers := pset (req_headers q) ''Authorization''
           (Str (''Bearer '' @ (case token of Some t \<Rightarrow> t | None \<Rightarrow> ''undefined'')))\<rparr>
         else q))"

interpretation builtin_client: http_client "builtin X" "(=)" for X
  by unfold_locales simp

lemma auth_request_authorized:
  assumes "auth_request X V st q = Inr r"
  shows "authorized X (WALLET_PROVIDER_BASE_URL (getEnv V (selectEnv st))) (selectIoAuthToken st) q r"
  using assms
  by (auto simp: auth_request_def addAuthHeaders_def authorized_def bindR_Inr_iff pspread_def split: if_splits)

interpretation app_client: http_client "with_appFetch (builtin X) V st"
  "authorized X (WALLET_PROVIDER_BASE_URL (getEnv V (selectEnv st))) (selectIoAuthToken st)" for X V st
proof unfold_locales
  fix q r assume "r \<in> set (x_wire (with_appFetch (builtin X) V st) q)"
  then have "auth_request (builtin X) V st q = Inr r" by (simp add: with_appFetch_def split: sum.splits)
  then have "auth_request X V st q = Inr r" by (simp add: auth_request_def)
  then show "authorized X (WALLET_PROVIDER_BASE_URL (getEnv V (selectEnv st))) (selectIoAuthToken st) q r"
    by (rule auth_request_authorized)
qed

section \<open>The thunks\<close>

text \<open>A step of the application, in a given environment and with a given token, that keeps them and forwards its
  requests for them.\<close>

definition session_of :: "RootState \<Rightarrow> EnvType \<times> string option" where
  "session_of st = (selectEnv st, selectIoAuthToken st)"

definition wired :: "(request \<Rightarrow> request \<Rightarrow> bool) \<Rightarrow> EnvType \<times> string option \<Rightarrow> ('a, 'c) app \<Rightarrow> bool" where
  "wired P se m \<longleftrightarrow> (\<forall>s. session_of (a_store s) = se \<longrightarrow> session_of (a_store (snd (m s))) = se
     \<and> forwards P (a_world s) (a_world (snd (m s))))"

named_theorems wired_intros \<open>thunks that keep the session and forward their requests\<close>

lemma wired_bind [wired_intros]:
  fixes m :: "('a, 'c) app"
  assumes "wired P se m" and "\<And>x. wired P se (f x)"
  shows "wired P se (bindA m f)"
  unfolding wired_def
proof (intro allI impI)
  fix s :: "'c app_state" assume s: "session_of (a_store s) = se"
  with assms(1) have m: "session_of (a_store (snd (m s))) = se" "forwards P (a_world s) (a_world (snd (m s)))"
    by (simp_all add: wired_def)
  show "session_of (a_store (snd (bindA m f s))) = se \<and> forwards P (a_world s) (a_world (snd (bindA m f s)))"
  proof (cases "m s")
    case (Pair r s')
    with m assms(2) show ?thesis
      by (cases r) (auto simp: bindA_def wired_def intro: forwards_trans)
  qed
qed

lemma wired_getState [wired_intros]:
  "(\<And>st. session_of st = se \<Longrightarrow> wired P se (f st)) \<Longrightarrow> wired P se (bindA getState f)"
  by (auto simp: wired_def bindA_def getState_def)

lemma wired_cases [wired_intros]:
  "\<lbrakk>wired P se m; wired P se n\<rbrakk> \<Longrightarrow> wired P se (if b then m else n)"
  "\<lbrakk>wired P se m; \<And>y. wired P se (g y)\<rbrakk> \<Longrightarrow> wired P se (case v of None \<Rightarrow> m | Some y \<Rightarrow> g y)"
  by (simp_all split: option.split)

lemma wired_io [wired_intros]: "forwarding P m \<Longrightarrow> wired P se (ioA m)"
  by (auto simp: wired_def ioA_def forwarding_def split: prod.splits) (metis snd_conv)

text \<open>Only the settings and the login write the environment and the token.\<close>

fun keeps_session :: "action \<Rightarrow> bool" where
  "keeps_session (envSet _) = False"
| "keeps_session envReset = False"
| "keeps_session (sessionSet _) = False"
| "keeps_session sessionReset = False"
| "keeps_session _ = True"

lemma session_kept: "keeps_session a \<Longrightarrow> session_of (rootReducer st a) = session_of st"
  by (cases a) (simp_all add: session_of_def selectEnv_def selectIoAuthToken_def environmentReducer_def sessionReducer_def)

lemma wired_dispatch [wired_intros]: "keeps_session a \<Longrightarrow> wired P se (dispatch a)"
  by (simp add: wired_def dispatch_def forwards_same session_kept)

lemma wired_selector [wired_intros]: "wired P se (shouldRequestAttestationSelector X memo)"
  by (simp add: wired_def shouldRequestAttestationSelector_def forwards_same split: prod.split)

lemma wired_thunk [wired_intros]:
  fixes creator :: "(thunk_payload, 'c) app"
  assumes "wired P se creator"
  shows "wired P se (run_thunk ser call creator)"
  unfolding wired_def
proof (intro allI impI)
  fix s :: "'c app_state" assume "session_of (a_store s) = se"
  then have "session_of (a_store (s\<lparr>a_store := rootReducer (a_store s) (pending call)\<rparr>)) = se"
    by (simp add: session_kept)
  with assms have p: "session_of (a_store (snd (creator (s\<lparr>a_store := rootReducer (a_store s) (pending call)\<rparr>)))) = se"
    "forwards P (a_world s) (a_world (snd (creator (s\<lparr>a_store := rootReducer (a_store s) (pending call)\<rparr>))))"
    unfolding wired_def by fastforce+
  show "session_of (a_store (snd (run_thunk ser call creator s))) = se
    \<and> forwards P (a_world s) (a_world (snd (run_thunk ser call creator s)))"
  proof (cases "creator (s\<lparr>a_store := rootReducer (a_store s) (pending call)\<rparr>)")
    case (Pair r s')
    with p show ?thesis by (cases r) (auto simp: run_thunk_def dispatch_def session_kept)
  qed
qed

text \<open>The clients of the application for a session: \<open>appFetch\<close>, and either of the two.\<close>

definition app_forward :: "'c app_env \<Rightarrow> EnvType \<times> string option \<Rightarrow> request \<Rightarrow> request \<Rightarrow> bool" where
  "app_forward E se = authorized (ae_X E) (WALLET_PROVIDER_BASE_URL (getEnv (ae_V E) (fst se))) (snd se)"

definition any_forward :: "'c app_env \<Rightarrow> EnvType \<times> string option \<Rightarrow> request \<Rightarrow> request \<Rightarrow> bool" where
  "any_forward E se q r \<longleftrightarrow> q = r \<or> app_forward E se q r"

lemma clients:
  assumes "x_wire (ae_X E) = (\<lambda>r. [r])"
  shows "http_client (ae_X E) (any_forward E se)"
    and "session_of st = se \<Longrightarrow> http_client (app_ext E st) (app_forward E se)"
    and "session_of st = se \<Longrightarrow> http_client (app_ext E st) (any_forward E se)"
proof -
  have X: "builtin (ae_X E) = ae_X E" using assms by simp
  show "http_client (ae_X E) (any_forward E se)"
    using http_client.weaken [OF builtin_client.http_client_axioms [of "ae_X E"], of "any_forward E se"]
    by (simp add: any_forward_def X)
  show app: "http_client (app_ext E st) (app_forward E se)" if "session_of st = se"
    using app_client.http_client_axioms [of "ae_X E" "ae_V E" st] that
    by (auto simp: app_ext_def app_forward_def session_of_def X)
  show "http_client (app_ext E st) (any_forward E se)" if "session_of st = se"
    using http_client.weaken [OF app [OF that]] by (simp add: any_forward_def)
qed

lemmas library_forwards = http_client.evaluateIssuerTrust http_client.startUserAuthorization
  http_client.getRequestedCredentialToBePresented http_client.completeUserAuthorizationWithFormPostJwtMode
  http_client.authorizeAccess http_client.obtainCredential http_client.statusAttestation http_client.createWalletInstance
  http_client.revokeWalletInstance http_client.wia_getAttestation

lemma flows_forward:
  assumes "http_client X P" and "http_client XA P"
  shows "forwarding P (finish_issuance X XA conf code client uri verifier def wia ctx tag ignore t)"
    and "forwarding P (getPidCieID X XA D url uri hint wia ctx)"
    and "forwarding P (getCredential X XA url uri t' wia ctx pid ctx')"
    and "forwarding P (getCredentialStatusAttestation X url credential ctx t')"
  unfolding getPidCieID_def getCredential_def getCredentialStatusAttestation_def finish_issuance_def Let_def
  by (intro forward_intros library_forwards assms)+

lemma wired_with_attestation:
  assumes "wired P se (run_getAttestation E)" and "\<And>wia. wired P se (f wia)"
  shows "wired P se (with_attestation E f)"
  unfolding with_attestation_def by (intro wired_intros forward_intros assms)

lemmas thunk_defs = run_createWalletInstance_def run_revokeWalletInstance_def run_getCredential_def
  run_statusAttestation_def run_trustmark_def run_getPidCieID_def run_preparePidFlowParams_def run_continuePidFlow_def
  createWalletInstance_creator_def revokeWalletInstance_creator_def getCredential_creator_def
  statusAttestation_creator_def trustmark_creator_def getPidCieID_creator_def preparePidFlowParams_creator_def
  continuePidFlow_creator_def

text \<open>The thunks that speak to the wallet provider only.\<close>

fun for_provider :: "thunk_call \<Rightarrow> bool" where
  "for_provider createWalletInstanceThunk = True"
| "for_provider revokeWalletInstanceThunk = True"
| "for_provider getAttestationThunk = True"
| "for_provider _ = False"

lemma wired_getAttestation:
  assumes "calls_fetcher (ae_G E)" and "\<And>st. session_of st = se \<Longrightarrow> http_client (app_ext E st) P"
  shows "wired P se (run_getAttestation E)"
  unfolding run_getAttestation_def getAttestation_creator_def
  by (rule wired_getState assms wired_intros forward_intros library_forwards | assumption)+

lemma wired_call:
  assumes G: "calls_fetcher (ae_G E)" and X: "x_wire (ae_X E) = (\<lambda>r. [r])"
  shows "wired (any_forward E se) se (run_call E call)"
proof -
  note attestation = wired_getAttestation [OF G clients(3) [OF X]]
  note rules = wired_with_attestation attestation wired_intros forward_intros library_forwards flows_forward
    clients(1,3) [OF X] G
  show ?thesis
    by (cases call; simp only: run_call.simps thunk_defs Let_def;
      (rule wired_getState | assumption | rule rules | simp)+)
qed

lemma wired_provider_call:
  assumes G: "calls_fetcher (ae_G E)" and X: "x_wire (ae_X E) = (\<lambda>r. [r])" and "for_provider call"
  shows "wired (app_forward E se) se (run_call E call)"
proof -
  note rules = wired_getAttestation [OF G clients(2) [OF X]] wired_intros forward_intros library_forwards
    clients(2) [OF X] G
  have "call \<in> {createWalletInstanceThunk, revokeWalletInstanceThunk, getAttestationThunk}"
    using assms(3) by (cases call) simp_all
  moreover have "wired (app_forward E se) se (run_call E createWalletInstanceThunk)"
      "wired (app_forward E se) se (run_call E revokeWalletInstanceThunk)"
      "wired (app_forward E se) se (run_call E getAttestationThunk)"
    by (simp only: run_call.simps thunk_defs Let_def; (rule wired_getState | assumption | rule rules | simp)+)+
  ultimately show ?thesis by blast
qed

text \<open>C27. The session token goes to the wallet provider only, and there it goes.  Whatever thunk runs and
  however it ends, each request on the wire is one of the library's requests, unchanged, unless it is
  for the origin of the wallet provider of the selected environment: then it may carry the session
  token as its bearer, and is otherwise unchanged.  In the thunks that create, revoke or attest the wallet
  instance every request for that origin carries it.\<close>

theorem bearer_only_to_provider:
  assumes G: "calls_fetcher (ae_G E)" and X: "x_wire (ae_X E) = (\<lambda>r. [r])"
    and provider: "x_URL (ae_X E) (WALLET_PROVIDER_BASE_URL (getEnv (ae_V E) (selectEnv (a_store s)))) = Inr p"
    and bearer: "bearer = Str (''Bearer '' @ (case selectIoAuthToken (a_store s) of Some token \<Rightarrow> token | None \<Rightarrow> ''undefined''))"
  shows "\<exists>qs rs. w_sent (a_world (snd (run_call E call s))) = w_sent (a_world s) @ qs
    \<and> w_wire (a_world (snd (run_call E call s))) = w_wire (a_world s) @ rs
    \<and> (\<forall>r \<in> set rs. \<exists>q \<in> set qs. r = q \<or> (\<exists>u. x_URL (ae_X E) (req_url q) = Inr u \<and> u_origin u = u_origin p
          \<and> r = q\<lparr>req_headers := pset (req_headers q) ''Authorization'' bearer\<rparr>))
    \<and> (for_provider call \<longrightarrow> (\<forall>r \<in> set rs. \<exists>u. x_URL (ae_X E) (req_url r) = Inr u
          \<and> (u_origin u = u_origin p \<longrightarrow> pget (req_headers r) ''Authorization'' = bearer)))"
proof -
  let ?se = "session_of (a_store s)" and ?w = "a_world (snd (run_call E call s))"
  have "forwards (any_forward E ?se) (a_world s) ?w" using wired_call [OF G X] by (simp add: wired_def)
  then obtain qs rs where sent: "w_sent ?w = w_sent (a_world s) @ qs" "w_wire ?w = w_wire (a_world s) @ rs"
    and any: "\<forall>r \<in> set rs. \<exists>q \<in> set qs. any_forward E ?se q r" by (auto simp: forwards_def)
  have "\<exists>u. x_URL (ae_X E) (req_url r) = Inr u
      \<and> (u_origin u = u_origin p \<longrightarrow> pget (req_headers r) ''Authorization'' = bearer)"
    if "for_provider call" "r \<in> set rs" for r
  proof -
    have "forwards (app_forward E ?se) (a_world s) ?w" using wired_provider_call [OF G X that(1)] by (simp add: wired_def)
    with sent that(2) obtain q where q: "app_forward E ?se q r" by (auto simp: forwards_def)
    then obtain u where u: "x_URL (ae_X E) (req_url q) = Inr u"
      by (auto simp: app_forward_def authorized_def session_of_def)
    show ?thesis
    proof (cases "u_origin u = u_origin p")
      case True
      with q u provider bearer have "r = q\<lparr>req_headers := pset (req_headers q) ''Authorization'' bearer\<rparr>"
        by (simp add: app_forward_def authorized_def session_of_def)
      with u show ?thesis by (simp add: pget_pset)
    next
      case False
      with q u provider have "r = q" by (simp add: app_forward_def authorized_def session_of_def)
      with u False show ?thesis by simp
    qed
  qed
  moreover have "\<exists>q \<in> set qs. r = q \<or> (\<exists>u. x_URL (ae_X E) (req_url q) = Inr u \<and> u_origin u = u_origin p
      \<and> r = q\<lparr>req_headers := pset (req_headers q) ''Authorization'' bearer\<rparr>)" if "r \<in> set rs" for r
  proof -
    from any that obtain q where "q \<in> set qs" "any_forward E ?se q r" by blast
    with provider bearer show ?thesis
      by (intro bexI [of _ q]) (auto simp: any_forward_def app_forward_def authorized_def session_of_def)
  qed
  ultimately show ?thesis using sent by blast
qed

definition logged_in :: "(string option \<times> bool) option app_state" where
  "logged_in = (sample_app_state 0 None)\<lparr>a_store := dispatch_all [sessionSet ''tok'']\<rparr>"

theorem bearer_only_to_provider_witness:
  "\<exists>qs rs. w_sent (a_world (snd (run_call sample_app getAttestationThunk logged_in))) = [] @ qs
    \<and> w_wire (a_world (snd (run_call sample_app getAttestationThunk logged_in))) = [] @ rs
    \<and> (\<forall>r \<in> set rs. \<exists>u. x_URL (ae_X sample_app) (req_url r) = Inr u
          \<and> (u_origin u = WALLET_PROVIDER_BASE_URL (getEnv (ae_V sample_app) (selectEnv (a_store logged_in)))
             \<longrightarrow> pget (req_headers r) ''Authorization'' = Str ''Bearer tok''))"
proof -
  have "calls_fetcher (ae_G sample_app)" by (simp add: sample_app_def sample_calls)
  moreover have "x_wire (ae_X sample_app) = (\<lambda>r. [r])"
    by (simp add: sample_app_def issuer_ext_def sample_ext_def)
  moreover have "w_sent (a_world logged_in) = []" "w_wire (a_world logged_in) = []"
      "selectIoAuthToken (a_store logged_in) = Some ''tok''" by code_simp+
  moreover obtain p where "x_URL (ae_X sample_app) (WALLET_PROVIDER_BASE_URL (getEnv (ae_V sample_app)
      (selectEnv (a_store logged_in)))) = Inr p" and "u_origin p = WALLET_PROVIDER_BASE_URL (getEnv (ae_V sample_app)
      (selectEnv (a_store logged_in)))" by (simp add: sample_app_def issuer_ext_def sample_ext_def)
  ultimately show ?thesis
    using bearer_only_to_provider [of sample_app logged_in p "Str ''Bearer tok''" getAttestationThunk] by fastforce
qed

end
