(* ===== verification/Spec2Isabelle.thy ===== *)
theory Spec2Isabelle
  imports Sd_Jwt_Correct Trust_Correct Utils_Correct Holder_Correct App_Correct Cie_Correct Screens_Correct Form_Post
    Attributes_Correct Threads_Confined Views_Correct Wire_Correct
begin

text \<open>
  \<^bold>\<open>io-react-native-wallet: a verification development.\<close>

  The repository is a TypeScript library for a digital identity wallet (the Italian IT-Wallet), under
  \<open>src/src\<close>, and an example application that uses it, under \<open>src/example\<close>.  The library registers a
  wallet instance with a wallet provider and obtains an attestation for it, obtains credentials from
  issuers (OpenID4VCI with pushed authorization requests, PKCE, DPoP), verifies and parses them
  (SD-JWT), checks their status, and presents them to relying parties.  The application keeps the
  results in a redux store and runs the flows as thunks.

  \<^bold>\<open>Foundations.\<close>  \<open>Wallet_Prelude\<close>: results with errors, strings, lists.  \<open>Js_Value\<close> and \<open>Json_Text\<close>:
  JavaScript values, property access, \<open>JSON.parse\<close> and \<open>JSON.stringify\<close> with their round trip.
  \<open>Errors\<close>: the exception classes, the error codes and the response error builder of
  \<open>utils/errors.ts\<close>; an exception is a value \<open>Inl e\<close>.  \<open>Zod_Schema\<close>: schemas as data and the contract
  \<open>zod_library\<close> of the parser, interpreted in \<open>Zod_Reference\<close> by an executable evaluation.
  \<open>Externals\<close>: everything that is not in the repository is a field of the record \<open>ext\<close> (JWT decoding
  and signatures, digests, the key store, the clock, \<open>fetch\<close>); a computation maps a world, with its
  logs of the requests handed to the http client, of those it put on the wire and of signed tokens, and
  its key tags, to an outcome and a new world.
  \<open>Web_Encoding\<close>: url-encoded forms, \<open>String.replace\<close>, the regular expressions of \<open>utils/decoder.ts\<close>.

  \<^bold>\<open>The library.\<close>  \<open>Misc_Utils\<close> (\<open>utils/misc.ts\<close>, \<open>utils/string.ts\<close>), \<open>Keys\<close> (\<open>utils/{jwk,crypto,pop,dpop}.ts\<close>),
  \<open>Sd_Jwt\<close> (\<open>sd-jwt\<close>), \<open>Trust_Types\<close> and \<open>Trust\<close> (\<open>trust\<close>), \<open>Wallet_Provider\<close> (\<open>client\<close>, \<open>wallet-instance\<close>,
  \<open>wallet-instance-attestation\<close>), \<open>Issuance_Authorization\<close> and \<open>Issuance_Credential\<close>
  (\<open>credential/issuance\<close>, \<open>utils/par.ts\<close>, \<open>utils/auth.ts\<close>), \<open>Status\<close> (\<open>credential/status\<close>,
  \<open>credential/trustmark\<close>, \<open>pid\<close>), \<open>Presentation\<close> (\<open>credential/presentation\<close>).  A function of the source
  is a definition of the same name; a prefix (\<open>wia_\<close>, \<open>pid_\<close>) tells homonyms apart.  The optional
  argument \<open>appFetch\<close> of a function is the field \<open>x_fetch\<close> of the environment it runs in, and what it
  puts on the wire the field \<open>x_wire\<close>.

  \<^bold>\<open>The application.\<close>  \<open>App_Store\<close>: the slices, actions, reducers and selectors of \<open>store\<close>.  \<open>App_Utils\<close>:
  \<open>utils\<close>, with the variables of \<open>@env\<close> and the native packages as parameters.  \<open>App_Flows\<close>: the flows
  of \<open>utils/credential.ts\<close> and every thunk.  \<open>Cie\<close>: \<open>components/cie\<close> and \<open>TestCieL3Scenario.tsx\<close>, the
  card reader's start and events, the web view component and the scenario around it, as step functions
  that return the new state and the effects in order, and the relation \<open>scenario_reaches\<close> over traces of
  events.  \<open>App_Screens\<close>: the entries, guards and effects of every screen as functions of the store, the
  mounted routes, the login pages, the notification of failures, the countdown of the trustmark.
  \<open>App_Threads\<close>: the same thunks as threads of blocks, from one \<open>await\<close> to the next, and a system of
  thunks in flight whose blocks and the user's actions run in any order.  \<open>App_Views\<close>: what the screens
  and \<open>components\<close> render, as data: lists with their keys, modules, the grid of identity providers, the
  QR code, titles, settings, and the debug data with \<open>DebugPrettyPrint.tsx\<close>, which prints it.

  \<^bold>\<open>What is proved.\<close>  \<open>Sd_Jwt_Correct\<close>: verification is characterized, disclosure keeps verification and
  discloses exactly what is asked.  \<open>Trust_Correct\<close>: chain validation is equivalent to the inductive
  specification \<open>anchored\<close>.  \<open>Utils_Correct\<close> (with \<open>Form_Post\<close>): status guard, obfuscation, crypto
  contexts, ephemeral keys, form_post decoding.  \<open>Wallet_Provider_Correct\<close>: the requests of the wallet
  instance protocol, their binding and their error codes.  \<open>Issuance_Correct\<close>, \<open>Credential_Correct\<close>: PKCE,
  the credential request, and the soundness of an accepted credential.  \<open>Attributes_Correct\<close>: the parsed
  attributes are those the issuer defines, with the disclosed values and the localized names.  \<open>Holder_Correct\<close>: status
  attestations, request objects, presentations.  \<open>App_Store_Correct\<close>: invariants of the store for any
  interleaving of actions, through the interface \<open>async_operation\<close>.  \<open>App_Correct\<close>: the
  polling loop, the exact outcome of the redirect listener, the memoized expiry check, the thunks from
  end to end.  \<open>Wire_Correct\<close>: every request on the wire is traced back to one of the library, and the
  session token goes to the wallet provider only.  \<open>Cie_Correct\<close>: starting the reader settles, the end of the reading is reported once, and
  the issuance continues only after a card was read (an invariant over traces, by rule induction).
  \<open>Screens_Correct\<close>: what a change of environment leaves, the identity providers on offer,
  one notification per failure, the countdown, the fallback of intents.  \<open>Threads_Correct\<close> and
  \<open>Threads_Confined\<close>: a thunk that is not interrupted does what the sequential model says; in any
  interleaving nothing is left loading once the thunks have settled, and thunks write only what is theirs; the
  race between a change of environment and a request of the attestation.  \<open>Views_Correct\<close>: the keys of
  every list are distinct, the debug data leaves with its screen, logging out leaves nothing of the user in
  the store, the printed text parses back to what JSON keeps of the data, with its long strings cut.  This theory: properties that
  join the SD-JWT and status components, and the card scenario with the store and its thunks.
  \<open>Sample_Environment\<close> and the \<open>_witness\<close> lemmas run the statements on concrete inputs.

  \<^bold>\<open>Interfaces.\<close>  \<open>zod_library\<close> (contract of the schema parser), \<open>status_error_handler\<close> (the handlers that
  turn a failed response into a coded error; interpreted for the registration, the attestation, the
  credential and the status request), \<open>async_operation\<close> (one per asynchronous operation of the store,
  which \<open>settling_operation\<close> extends by what a status needs for no thunk to leave it loading),
  \<open>stored_value\<close> (a value of the store and the actions that write it), \<open>http_client\<close> (a client that
  forwards the requests it is given; every function of the library is proved to forward its requests
  through it; interpreted by the built-in \<open>fetch\<close> and by \<open>appFetch\<close>), \<open>memoizing_selector\<close> (contract of
  \<open>createSelector\<close>, how it answers a new and a known argument; interpreted by a cache of one entry), \<open>lodash\<close> (contract of \<open>truncate\<close> and
  \<open>cloneDeepWith\<close>, interpreted by reference definitions).

  \<^bold>\<open>Bounds.\<close>  Numbers are rationals: every arithmetic operation of the source is exact on the values it
  meets, and dates are clipped as \<open>Date\<close> clips them.  Strings are lists of bytes of the UTF-8 text.
  The JSON parser takes the length of its input as fuel, which its round trip shows to be enough.
  \<open>until\<close> is a partial function whose value \<open>None\<close> is a promise never settled; with a timeout it is
  shown to be total, and its number of polls is bounded by the timeout over 400 milliseconds.

  \<^bold>\<open>Not modelled.\<close>  Styles, spacers and icons of the React components, and \<open>App.tsx\<close>, which nests
  providers; redux-persist, its configurations and the storage engines (the secure storage
  handed to it is modelled, what is restored from it is not); the generated API
  client and the packages the sources import, which are parameters.  In \<open>App_Threads\<close> a call of the
  library that a thunk awaits is one block: other thunks run before and after it, not between the
  requests it sends, and it is taken to come to an end.  The polling loop measures time by the delays
  of its timer, on a clock that does not go back, and its timeout is a whole number of seconds; the
  abort signal of the redirect listener is looked at when a poll settles the race.  The calls of the
  card reader's package answer, throw or reject; one that never settles is not represented.  In the
  web view component a state setter takes effect before the next event, and the state machine of the
  card scenario lets a reader's start happen in one step and renderings come at any time.  Type declarations that only name shapes for the compiler have no counterpart.
\<close>

section \<open>Properties that span components\<close>

lemma disclose_separator:
  assumes b64: "x_Base64_decode X [] = []" and dis: "disclose X token claims = Inr r"
  shows "CHR ''~'' \<in> set (d_token r) \<longleftrightarrow> claims \<noteq> []"
proof (cases "claims = []")
  case True
  from disclose_InrE [OF dis] obtain raw ds where p: "split_on (CHR ''~'') token = raw # ds"
    and t: "d_token r = join_with ''~'' (raw # filter (raw_requested X claims) ds)" by metis
  have "filter (raw_requested X claims) ds = []"
    by (rule filter_False) (auto simp: True raw_requested_def requested_def split: sum.splits)
  moreover have "CHR ''~'' \<notin> set raw" using p split_on_pieces [of raw "CHR ''~''" token] by simp
  ultimately show ?thesis using t True by simp
next
  case False
  then obtain c cs where c: "claims = c # cs" by (cases claims) auto
  from disclose_decodes [OF b64 dis] obtain d where d: "decode X token (Some SdJwt4VC) = Inr d"
    and d': "decode X (d_token r) (Some SdJwt4VC) =
      Inr \<lparr>sdJwt = sdJwt d, disclosures = filter (requested claims) (disclosures d)\<rparr>" by blast
  from disclose_InrE [OF dis] d obtain found where "mapR (lookup_claim (disclosures d)) claims = Inr found"
    by (metis sum.inject(2))
  then obtain cd where "lookup_claim (disclosures d) c = Inr cd" by (auto simp: c bindR_Inr_iff)
  then obtain e where "e \<in> set (disclosures d)" "claim_name (decoded e) = Str c"
    by (auto simp: lookup_claim_Inr find_disclosure_def find_Some_iff intro: nth_mem)
  then have "filter (requested claims) (disclosures d) \<noteq> []"
    by (auto simp: filter_empty_conv requested_def c)
  moreover from d' obtain raw ds where "split_on (CHR ''~'') (strip_tilde (d_token r)) = raw # ds"
    and "mapR (decodeDisclosure X) ds = Inr (filter (requested claims) (disclosures d))"
    by (auto simp: decode_Inr_iff)
  ultimately have "CHR ''~'' \<in> set (strip_tilde (d_token r))" by (cases ds) (auto intro: ccontr)
  then show ?thesis using False by (auto simp: strip_tilde_def dest: in_set_butlastD split: if_splits)
qed

text \<open>C32. The hash under which the status of a credential is requested does not depend on what is
  disclosed of it: a token from which some claims were disclosed has the hash of the original one.
  A token from which no claim was disclosed has no separator left, and the status request rejects it
  as an invalid credential.\<close>

theorem hash_stable_under_disclosure:
  assumes b64: "x_Base64_decode X [] = []" and dis: "disclose X token claims = Inr r"
  shows "getCredentialHashWithouDiscloures X (d_token r) =
    (if claims = [] then Inl (new_IoWalletError ''Invalid credential format'')
     else getCredentialHashWithouDiscloures X token)"
proof -
  have "hd (split_on (CHR ''~'') (d_token r)) = hd (split_on (CHR ''~'') token)"
    using disclose_decodes [OF b64 dis] by blast
  moreover have "CHR ''~'' \<in> set token" if "claims \<noteq> []"
  proof (rule ccontr)
    assume "CHR ''~'' \<notin> set token"
    then have "split_on (CHR ''~'') token = [token]" by simp
    with disclose_InrE [OF dis] have "d_token r = token" by (metis filter.simps(1) join_with.simps(2) list.inject)
    with disclose_separator [OF b64 dis] that \<open>CHR ''~'' \<notin> set token\<close> show False by simp
  qed
  ultimately show ?thesis
    using disclose_separator [OF b64 dis] by (simp add: credential_hash_of_signed_part)
qed

lemma hash_stable_under_disclosure_witness:
  "\<exists>r. disclose sd_ext sd_token [''a''] = Inr r
    \<and> getCredentialHashWithouDiscloures sd_ext (d_token r) = getCredentialHashWithouDiscloures sd_ext sd_token"
proof -
  have b: "x_Base64_decode sd_ext [] = []" by (simp add: sd_ext_def sample_ext_def)
  have "isOk (disclose sd_ext sd_token [''a''])" by code_simp
  then obtain r where r: "disclose sd_ext sd_token [''a''] = Inr r" by (auto simp: isOk_iff)
  from hash_stable_under_disclosure [OF b r] r show ?thesis by simp
qed

lemma includes_trans: "str_includes a b \<Longrightarrow> str_includes b c \<Longrightarrow> str_includes a c"
  unfolding str_includes_iff by (metis append.assoc)

text \<open>C19. Once the reader has reported an error the card flow cannot be continued.  The scenario's reset
  has dropped the flow parameters, so a continuation that still arrives with the card's redirect
  obtains nothing, sends nothing and leaves the PID as it is.  It is booked twice, however: the
  failure on the card's status, the start on that of SPID, which keeps loading.\<close>

theorem cancelled_card_flow:
  assumes url: "str_includes CIE_L3_REDIRECT_URI url"
    and error: "scenario_effect sc (OnError r) = (sc', [Dispatch a, Alert msg])"
    and store: "a_store s = rootReducer st a"
  shows "let s' = snd (run_continuePidFlow E url s) in
    selectPid (a_store s') = selectPid st \<and> a_world s' = a_world s
    \<and> selectPidAsyncStatus cieL3 (a_store s') =
        async_failed (ae_ser E (new_Error ''Flow params not found''))
    \<and> selectPidAsyncStatus spid (a_store s') = async_loading"
proof -
  have "str_includes ''cie'' CIE_L3_REDIRECT_URI" by code_simp
  then have m: "rejected_method url = cieL3" using includes_trans [OF _ url] by (simp add: rejected_method_def)
  have a: "a = pidCiel3FlowReset" using error by simp
  show ?thesis
    by (simp add: Let_def run_continuePidFlow_def run_thunk_def continuePidFlow_creator_def bindA_getState
        store a ioA_def throwIO_simp dispatch_def selectPid_def selectPidAsyncStatus_def selectPidFlowParams_def
        pidReducer_def pid_initial_def continued_method_def asyncStatusInitial_def m)
qed

lemma cancelled_card_flow_witness:
  "selectPidAsyncStatus spid (a_store (snd (run_continuePidFlow sample_app ''https://cie.callback?code=c''
     \<lparr>a_store = rootReducer card_store pidCiel3FlowReset, a_memo = None, a_world = sample_world\<rparr>)))
   = async_loading"
proof -
  have "str_includes CIE_L3_REDIRECT_URI ''https://cie.callback?code=c''" by code_simp
  from cancelled_card_flow [OF this, of scenario_initial "Raw (new_Error [])" _ pidCiel3FlowReset _ _ card_store
      sample_app, simplified]
  show ?thesis by (auto simp: Let_def)
qed

end
